(* ===== verification/Rust_Std.thy ===== *)
theory Rust_Std
  imports Main "HOL-Library.Word"
begin

section \<open>The Rust core that the crate uses\<close>

text \<open>
  What the components share: machine integers, byte strings, the outcome of a Rust
  computation that may panic or run into undefined behaviour, and the few operations of the
  Rust standard library that the code calls (slicing, \<open>copy_from_slice\<close>, \<open>unwrap\<close>, checked
  \<open>u8\<close> addition, \<open>u32::to_be_bytes\<close>). A \<open>str\<close> is its UTF-8 byte string.
  The collection \<open>rust_defs\<close> holds the defining equations of these operations.
\<close>

named_theorems rust_defs

type_synonym u8 = "8 word"
type_synonym u32 = "32 word"
type_synonym u64 = "64 word"
type_synonym bytes = "u8 list"

subsection \<open>Outcomes\<close>

text \<open>
  \<open>Panic\<close> is a Rust panic, with the operation that raised it; \<open>Undefined\<close> is undefined
  behaviour of an \<open>unsafe\<close> block. Nothing is executed after either of them.
\<close>

datatype panic_kind =
    UnwrapErr              \<comment> \<open>\<open>.unwrap()\<close> on an \<open>Err\<close>\<close>
  | ExplicitPanic string   \<comment> \<open>\<open>panic!(..)\<close> in this crate\<close>
  | SliceIndex             \<comment> \<open>slice bounds out of range\<close>
  | CopyLength             \<comment> \<open>\<open>copy_from_slice\<close> on slices of different lengths\<close>
  | ArithOverflow          \<comment> \<open>integer overflow, debug builds only\<close>
  | CrateAssert            \<comment> \<open>an assertion inside a third-party crate\<close>

datatype undefined_kind =
    NullPointer | DanglingPointer | NoTerminator | NotFromIntoRaw

datatype fault = Panic panic_kind | Undefined undefined_kind

type_synonym 'a res = "fault + 'a"

definition rbind :: "'a res \<Rightarrow> ('a \<Rightarrow> 'b res) \<Rightarrow> 'b res" where
  "rbind m f = (case m of Inl e \<Rightarrow> Inl e | Inr x \<Rightarrow> f x)"

lemma rbind_simps [simp]:
  "rbind (Inl e) f = Inl e"
  "rbind (Inr x) f = f x"
  by (simp_all add: rbind_def)

lemma rbind_assoc [simp]: "rbind (rbind m f) g = rbind m (\<lambda>x. rbind (f x) g)"
  by (cases m) simp_all

lemma rbind_Inr_right [simp]: "rbind m Inr = m"
  by (cases m) simp_all

lemma rbind_eq_Inr_iff: "rbind m f = Inr y \<longleftrightarrow> (\<exists>x. m = Inr x \<and> f x = Inr y)"
  by (cases m) simp_all

lemma rbind_eq_Inl_iff:
  "rbind m f = Inl e \<longleftrightarrow> m = Inl e \<or> (\<exists>x. m = Inr x \<and> f x = Inl e)"
  by (cases m) simp_all

lemma rbind_cong [fundef_cong]:
  "m = m' \<Longrightarrow> (\<And>x. m' = Inr x \<Longrightarrow> f x = g x) \<Longrightarrow> rbind m f = rbind m' g"
  by (cases m') simp_all

lemma rbind_if: "rbind (if b then m else m') f = (if b then rbind m f else rbind m' f)"
  by simp

text \<open>
  \<open>no_undefined m\<close>: the computation returns or panics, it never meets undefined behaviour.
\<close>

definition no_undefined :: "'a res \<Rightarrow> bool" where
  "no_undefined m \<longleftrightarrow> (case m of Inl (Undefined _) \<Rightarrow> False | _ \<Rightarrow> True)"

lemma no_undefined_simps [simp]:
  "no_undefined (Inr x)"
  "no_undefined (Inl (Panic k))"
  "\<not> no_undefined (Inl (Undefined u))"
  by (simp_all add: no_undefined_def)

lemma no_undefined_Inl: "no_undefined (Inl e) \<longleftrightarrow> (\<exists>k. e = Panic k)"
  by (cases e) simp_all

lemma no_undefined_rbind [intro]:
  assumes "no_undefined m" and "\<And>x. m = Inr x \<Longrightarrow> no_undefined (f x)"
  shows "no_undefined (rbind m f)"
  using assms by (cases m) (auto simp: no_undefined_def split: fault.splits)

subsection \<open>Standard library operations\<close>

text \<open>A \<open>Result\<close> whose error value the code never looks at is an \<open>option\<close>.\<close>

definition unwrap :: "'a option \<Rightarrow> 'a res" where
  "unwrap r = (case r of None \<Rightarrow> Inl (Panic UnwrapErr) | Some x \<Rightarrow> Inr x)"

lemma unwrap_simps [simp]:
  "unwrap (Some x) = Inr x"
  "unwrap None = Inl (Panic UnwrapErr)"
  by (simp_all add: unwrap_def)

lemma unwrap_eq_Inr_iff [simp]: "unwrap r = Inr x \<longleftrightarrow> r = Some x"
  by (cases r) simp_all

lemma no_undefined_unwrap [simp, intro]: "no_undefined (unwrap r)"
  by (cases r) simp_all

text \<open>A call of a crate function that asserts on its arguments: \<open>None\<close> is the failed assertion.\<close>

definition crate_call :: "'a option \<Rightarrow> 'a res" where
  "crate_call r = (case r of None \<Rightarrow> Inl (Panic CrateAssert) | Some x \<Rightarrow> Inr x)"

lemma crate_call_simps [simp]:
  "crate_call (Some x) = Inr x"
  "crate_call None = Inl (Panic CrateAssert)"
  by (simp_all add: crate_call_def)

lemma no_undefined_crate_call [simp, intro]: "no_undefined (crate_call r)"
  by (cases r) simp_all

text \<open>\<open>&v[..n]\<close>, \<open>&v[n..]\<close> and \<open>&v[a..b]\<close>.\<close>

definition slice_to :: "nat \<Rightarrow> 'a list \<Rightarrow> 'a list res" where
  "slice_to n v = (if n \<le> length v then Inr (take n v) else Inl (Panic SliceIndex))"

definition slice_from :: "nat \<Rightarrow> 'a list \<Rightarrow> 'a list res" where
  "slice_from n v = (if n \<le> length v then Inr (drop n v) else Inl (Panic SliceIndex))"

definition slice_range :: "nat \<Rightarrow> nat \<Rightarrow> 'a list \<Rightarrow> 'a list res" where
  "slice_range a b v =
     (if a \<le> b \<and> b \<le> length v then Inr (take (b - a) (drop a v)) else Inl (Panic SliceIndex))"

text \<open>\<open>dst.copy_from_slice(src)\<close> where \<open>dst\<close> is an array of \<open>n\<close> bytes.\<close>

definition copy_from_slice :: "nat \<Rightarrow> bytes \<Rightarrow> bytes res" where
  "copy_from_slice n src = (if length src = n then Inr src else Inl (Panic CopyLength))"

lemmas [rust_defs] = slice_to_def slice_from_def slice_range_def copy_from_slice_def

lemma no_undefined_slices [simp, intro]:
  "no_undefined (slice_to n v)" "no_undefined (slice_from n v)"
  "no_undefined (slice_range a b v)" "no_undefined (copy_from_slice n w)"
  by (simp_all add: rust_defs)

text \<open>
  Addition on \<open>u8\<close>: it panics on overflow in a debug build and wraps in a release build
  (the release profile of \<open>Cargo.toml\<close> leaves \<open>overflow-checks\<close> at its default, off).
\<close>

datatype profile = Debug | Release

definition add_u8 :: "profile \<Rightarrow> u8 \<Rightarrow> u8 \<Rightarrow> u8 res" where
  "add_u8 prof a b =
     (if prof = Debug \<and> 2 ^ 8 \<le> unat a + unat b then Inl (Panic ArithOverflow) else Inr (a + b))"

lemma no_undefined_add_u8 [simp, intro]: "no_undefined (add_u8 prof a b)"
  by (simp add: add_u8_def)

lemma add_u8_one_Release [simp]: "add_u8 Release a b = Inr (a + b)"
  by (simp add: add_u8_def)

text \<open>ASCII string literals as bytes.\<close>

definition lit :: "string \<Rightarrow> bytes" where
  "lit s = map of_char s"

lemma lit_simps [simp]:
  "lit [] = []"
  "lit (c # cs) = of_char c # lit cs"
  by (simp_all add: lit_def)

subsection \<open>Integers as bytes\<close>

fun bytes_le :: "nat \<Rightarrow> 'a::len word \<Rightarrow> bytes" where
  "bytes_le 0 x = []"
| "bytes_le (Suc n) x = ucast x # bytes_le n (drop_bit 8 x)"

definition to_be_bytes :: "u32 \<Rightarrow> bytes" where
  "to_be_bytes x = rev (bytes_le 4 x)"

fun le_value :: "bytes \<Rightarrow> nat" where
  "le_value [] = 0"
| "le_value (b # bs) = unat b + 256 * le_value bs"

lemma length_bytes_le [simp]: "length (bytes_le n x) = n"
  by (induction n x rule: bytes_le.induct) simp_all

lemma length_to_be_bytes [simp]: "length (to_be_bytes x) = 4"
  by (simp add: to_be_bytes_def)

lemma unat_ucast_u8: "unat (ucast x :: u8) = unat x mod 256"
  by (simp add: unsigned_ucast_eq take_bit_eq_mod)

lemma le_value_bytes_le: "le_value (bytes_le n x) = unat x mod 2 ^ (8 * n)"
proof (induction n x rule: bytes_le.induct)
  case (1 x)
  show ?case by simp
next
  case (2 n x)
  have "unat (drop_bit 8 x) = unat x div 256"
    unfolding unat_drop_bit_eq by (simp add: drop_bit_eq_div)
  with 2 have "le_value (bytes_le (Suc n) x) =
      unat x mod 256 + 256 * (unat x div 256 mod 2 ^ (8 * n))"
    by (simp only: bytes_le.simps le_value.simps unat_ucast_u8)
  also have "\<dots> = unat x mod (256 * 2 ^ (8 * n))"
    by (simp add: mod_mult2_eq)
  finally show ?case by (simp add: power_add)
qed

lemma le_value_bytes_le_u64 [simp]: "le_value (bytes_le 8 (x :: u64)) = unat x"
  using unsigned_less [of x, where ?'a = nat] by (simp add: le_value_bytes_le)

lemma le_value_bytes_le_u32 [simp]: "le_value (bytes_le 4 (x :: u32)) = unat x"
  using unsigned_less [of x, where ?'a = nat] by (simp add: le_value_bytes_le)

lemma bytes_le_u64_inject [simp]: "bytes_le 8 (x :: u64) = bytes_le 8 y \<longleftrightarrow> x = y"
  by (metis le_value_bytes_le_u64 word_unat_eq_iff)

lemma to_be_bytes_inject [simp]: "to_be_bytes x = to_be_bytes y \<longleftrightarrow> x = y"
  by (metis le_value_bytes_le_u32 rev_is_rev_conv to_be_bytes_def word_unat_eq_iff)

end
