(* ===== verification/Utf8.thy ===== *)
theory Utf8
  imports Rust_Std
begin

section \<open>UTF-8 validity\<close>

text \<open>
  \<open>CStr::to_str\<close> succeeds exactly on well-formed UTF-8. \<open>utf8_valid\<close> is the standard
  library's scan: it looks at the first byte of every sequence and at the range that byte
  allows for the second one. \<open>utf8_encode\<close> is the encoding of one Unicode scalar value; the
  main lemma says that the scan accepts exactly the concatenations of such encodings.
\<close>

definition is_cont :: "u8 \<Rightarrow> bool" where
  "is_cont b \<longleftrightarrow> 0x80 \<le> b \<and> b \<le> 0xBF"

definition second3 :: "u8 \<Rightarrow> u8 \<Rightarrow> bool" where
  "second3 a b \<longleftrightarrow>
     (a = 0xE0 \<and> 0xA0 \<le> b \<and> b \<le> 0xBF) \<or> (0xE1 \<le> a \<and> a \<le> 0xEC \<and> 0x80 \<le> b \<and> b \<le> 0xBF)
     \<or> (a = 0xED \<and> 0x80 \<le> b \<and> b \<le> 0x9F) \<or> (0xEE \<le> a \<and> a \<le> 0xEF \<and> 0x80 \<le> b \<and> b \<le> 0xBF)"

definition second4 :: "u8 \<Rightarrow> u8 \<Rightarrow> bool" where
  "second4 a b \<longleftrightarrow>
     (a = 0xF0 \<and> 0x90 \<le> b \<and> b \<le> 0xBF) \<or> (0xF1 \<le> a \<and> a \<le> 0xF3 \<and> 0x80 \<le> b \<and> b \<le> 0xBF)
     \<or> (a = 0xF4 \<and> 0x80 \<le> b \<and> b \<le> 0x8F)"

fun utf8_valid :: "bytes \<Rightarrow> bool" where
  "utf8_valid [] = True"
| "utf8_valid (a # bs) =
     (if a < 0x80 then utf8_valid bs
      else if 0xC2 \<le> a \<and> a \<le> 0xDF then
        (case bs of b # r \<Rightarrow> is_cont b \<and> utf8_valid r | [] \<Rightarrow> False)
      else if 0xE0 \<le> a \<and> a \<le> 0xEF then
        (case bs of b # c # r \<Rightarrow> second3 a b \<and> is_cont c \<and> utf8_valid r | _ \<Rightarrow> False)
      else if 0xF0 \<le> a \<and> a \<le> 0xF4 then
        (case bs of b # c # d # r \<Rightarrow> second4 a b \<and> is_cont c \<and> is_cont d \<and> utf8_valid r
         | _ \<Rightarrow> False)
      else False)"

text \<open>A Unicode scalar value: a code point that is not a surrogate.\<close>

definition is_scalar :: "nat \<Rightarrow> bool" where
  "is_scalar c \<longleftrightarrow> c < 0x110000 \<and> \<not> (0xD800 \<le> c \<and> c < 0xE000)"

definition byte :: "nat \<Rightarrow> u8" where
  "byte n = word_of_nat n"

definition utf8_encode :: "nat \<Rightarrow> bytes" where
  "utf8_encode c =
     (if c < 0x80 then [byte c]
      else if c < 0x800 then [byte (0xC0 + c div 64), byte (0x80 + c mod 64)]
      else if c < 0x10000 then
        [byte (0xE0 + c div 4096), byte (0x80 + c div 64 mod 64), byte (0x80 + c mod 64)]
      else
        [byte (0xF0 + c div 262144), byte (0x80 + c div 4096 mod 64),
         byte (0x80 + c div 64 mod 64), byte (0x80 + c mod 64)])"

subsection \<open>Bytes as numbers below 256\<close>

lemma unat_u8_less [simp]: "unat (a :: u8) < 256"
  using unsigned_less [of a, where ?'a = nat] by simp

lemma unat_byte [simp]: "n < 256 \<Longrightarrow> unat (byte n) = n"
  by (simp add: byte_def unat_of_nat)

lemma byte_unat [simp]: "byte (unat a) = a"
  by (simp add: byte_def)

lemma u8_nat:
  "(a :: u8) \<le> b \<longleftrightarrow> unat a \<le> unat b"
  "(a :: u8) < b \<longleftrightarrow> unat a < unat b"
  "(a :: u8) = b \<longleftrightarrow> unat a = unat b"
  by (simp_all add: word_le_nat_alt word_less_nat_alt word_unat_eq_iff)

lemma is_cont_nat: "is_cont b \<longleftrightarrow> 128 \<le> unat b \<and> unat b < 192"
  by (auto simp: is_cont_def u8_nat)

lemma second3_nat:
  "second3 a b \<longleftrightarrow>
     224 \<le> unat a \<and> unat a < 240 \<and> 128 \<le> unat b \<and> unat b < 192
     \<and> (unat a = 224 \<longrightarrow> 160 \<le> unat b) \<and> (unat a = 237 \<longrightarrow> unat b < 160)"
  by (simp add: second3_def u8_nat) arith

lemma second4_nat:
  "second4 a b \<longleftrightarrow>
     240 \<le> unat a \<and> unat a < 245 \<and> 128 \<le> unat b \<and> unat b < 192
     \<and> (unat a = 240 \<longrightarrow> 144 \<le> unat b) \<and> (unat a = 244 \<longrightarrow> unat b < 144)"
  by (simp add: second4_def u8_nat) arith

lemma digit64:
  assumes "y < 64"
  shows "(x * 64 + y) div 64 = (x :: nat)" and "(x * 64 + y) mod 64 = y"
  using assms by auto

lemma split64_3: "c = (c div 4096 * 64 + c div 64 mod 64) * 64 + c mod (64 :: nat)"
proof -
  have "c div 4096 = c div 64 div 64" by (simp add: div_mult2_eq [symmetric])
  then show ?thesis by (simp only: div_mult_mod_eq)
qed

lemma split64_4:
  "c = ((c div 262144 * 64 + c div 4096 mod 64) * 64 + c div 64 mod 64) * 64 + c mod (64 :: nat)"
proof -
  have "c div 4096 = c div 64 div 64" "c div 262144 = c div 64 div 64 div 64"
    by (simp_all add: div_mult2_eq [symmetric])
  then show ?thesis by (simp only: div_mult_mod_eq)
qed

text \<open>One equation of the scan per length of the sequence.\<close>

lemma utf8_valid_1: "unat a < 128 \<Longrightarrow> utf8_valid (a # r) = utf8_valid r"
  by (simp add: u8_nat)

lemma utf8_valid_2:
  "194 \<le> unat a \<Longrightarrow> unat a < 224 \<Longrightarrow> utf8_valid (a # b # r) = (is_cont b \<and> utf8_valid r)"
  by (simp add: u8_nat)

lemma utf8_valid_3:
  "224 \<le> unat a \<Longrightarrow> unat a < 240 \<Longrightarrow>
     utf8_valid (a # b # c # r) = (second3 a b \<and> is_cont c \<and> utf8_valid r)"
  by (simp add: u8_nat)

lemma utf8_valid_4:
  "240 \<le> unat a \<Longrightarrow> unat a < 245 \<Longrightarrow>
     utf8_valid (a # b # c # d # r) = (second4 a b \<and> is_cont c \<and> is_cont d \<and> utf8_valid r)"
  by (simp add: u8_nat)

lemmas utf8_valid_seq = utf8_valid_1 utf8_valid_2 utf8_valid_3 utf8_valid_4

subsection \<open>Every encoding is accepted\<close>

lemma utf8_valid_encode_append:
  assumes "is_scalar c"
  shows "utf8_valid (utf8_encode c @ bs) = utf8_valid bs"
proof -
  consider "c < 0x80" | "0x80 \<le> c" "c < 0x800" | "0x800 \<le> c" "c < 0x10000" | "0x10000 \<le> c"
    by linarith
  then show ?thesis
  proof cases
    case 1
    then show ?thesis by (simp add: utf8_encode_def utf8_valid_1 del: utf8_valid.simps)
  next
    case 2
    then have "c div 64 < 32" "2 \<le> c div 64" "c mod 64 < 64" by auto
    with 2 show ?thesis
      by (simp add: utf8_encode_def utf8_valid_2 is_cont_nat del: utf8_valid.simps)
  next
    case 3
    define x y z where "x = c div 4096" and "y = c div 64 mod 64" and "z = c mod 64"
    have "c = (x * 64 + y) * 64 + z" unfolding x_def y_def z_def by (rule split64_3)
    then have c: "c = x * 4096 + y * 64 + z" by simp
    have "y < 64" and z: "z < 64" by (simp_all add: y_def z_def)
    moreover have "x < 16" using 3 c by linarith
    moreover have "32 \<le> y" if "x = 0" using 3 c z that by simp
    moreover have "y < 32" if "x = 13"
      using assms c \<open>y < 64\<close> z that unfolding is_scalar_def by linarith
    moreover have "utf8_encode c = [byte (0xE0 + x), byte (0x80 + y), byte (0x80 + z)]"
      using 3 by (simp add: utf8_encode_def x_def y_def z_def)
    ultimately show ?thesis
      by (simp add: utf8_valid_3 is_cont_nat second3_nat del: utf8_valid.simps)
  next
    case 4
    define x w y z where "x = c div 262144" and "w = c div 4096 mod 64"
      and "y = c div 64 mod 64" and "z = c mod 64"
    have "c = ((x * 64 + w) * 64 + y) * 64 + z"
      unfolding x_def w_def y_def z_def by (rule split64_4)
    then have c: "c = x * 262144 + w * 4096 + y * 64 + z" by simp
    have lim: "c < 0x110000" using assms by (simp add: is_scalar_def)
    have "w < 64" and yz: "y < 64" "z < 64" by (simp_all add: w_def y_def z_def)
    moreover have "x < 5" using lim c by linarith
    moreover have "16 \<le> w" if "x = 0" using 4 c yz that by linarith
    moreover have "w < 16" if "x = 4" using lim c that by linarith
    moreover have "utf8_encode c =
        [byte (0xF0 + x), byte (0x80 + w), byte (0x80 + y), byte (0x80 + z)]"
      using 4 by (simp add: utf8_encode_def x_def w_def y_def z_def)
    ultimately show ?thesis
      by (simp add: utf8_valid_4 is_cont_nat second4_nat del: utf8_valid.simps)
  qed
qed

lemma utf8_valid_concat_encode:
  "(\<And>c. c \<in> set cs \<Longrightarrow> is_scalar c) \<Longrightarrow> utf8_valid (concat (map utf8_encode cs))"
  by (induction cs) (simp_all add: utf8_valid_encode_append)

subsection \<open>Everything accepted is an encoding\<close>

lemma is_cont_obtain:
  assumes "is_cont b"
  obtains y where "unat b = 128 + y" "y < 64"
proof
  show "unat b = 128 + (unat b - 128)" "unat b - 128 < 64"
    using assms by (auto simp add: is_cont_nat)
qed

lemma encode_2:
  assumes "194 \<le> unat a" "unat a < 224" "is_cont b"
  shows "\<exists>c. is_scalar c \<and> utf8_encode c = [a, b]"
proof -
  obtain y where y: "unat b = 128 + y" "y < 64" using assms(3) by (rule is_cont_obtain)
  define x where "x = unat a - 192"
  have x: "unat a = 192 + x" using assms(1) by (simp add: x_def)
  have bounds: "2 \<le> x" "x < 32" using assms(1,2) by (simp_all add: x)
  define c where "c = x * 64 + y"
  have "c div 64 = x" "c mod 64 = y" using y(2) by (simp_all only: c_def digit64)
  moreover have "128 \<le> c" "c < 2048" using bounds y(2) unfolding c_def by linarith+
  ultimately have "utf8_encode c = [byte (unat a), byte (unat b)]" "is_scalar c"
    by (simp_all add: utf8_encode_def is_scalar_def x y)
  then show ?thesis by auto
qed

lemma encode_3:
  assumes "second3 a b" "is_cont d"
  shows "\<exists>c. is_scalar c \<and> utf8_encode c = [a, b, d]"
proof -
  obtain z where z: "unat d = 128 + z" "z < 64" using assms(2) by (rule is_cont_obtain)
  define x y where "x = unat a - 224" and "y = unat b - 128"
  have eq: "unat a = 224 + x" "unat b = 128 + y"
    using assms(1) by (simp_all add: x_def y_def second3_nat)
  have bounds: "x < 16" "y < 64" "x = 0 \<longrightarrow> 32 \<le> y" "x = 13 \<longrightarrow> y < 32"
    using assms(1) by (simp_all add: second3_nat eq)
  define c where "c = (x * 64 + y) * 64 + z"
  have "c div 64 = x * 64 + y" "c mod 64 = z" using z(2) by (simp_all only: c_def digit64)
  moreover have "c div 4096 = c div 64 div 64" by (simp add: div_mult2_eq [symmetric])
  ultimately have div: "c div 4096 = x" "c div 64 mod 64 = y" "c mod 64 = z"
    using bounds(2) by (simp_all only: digit64)
  have c: "c = x * 4096 + y * 64 + z" by (simp add: c_def)
  have "c < 0x10000" using bounds(1,2) z(2) c by linarith
  moreover have "0x800 \<le> c" using bounds(3) c by linarith
  moreover have "is_scalar c"
  proof -
    consider "x < 13" | "x = 13" "y < 32" | "13 < x" using bounds(4) by linarith
    then show ?thesis
      using bounds(1,2) z(2) c unfolding is_scalar_def by cases linarith+
  qed
  ultimately have "utf8_encode c = [byte (unat a), byte (unat b), byte (unat d)]" "is_scalar c"
    by (simp_all add: utf8_encode_def div eq z(1))
  then show ?thesis by auto
qed

lemma encode_4:
  assumes "second4 a b" "is_cont d" "is_cont e"
  shows "\<exists>c. is_scalar c \<and> utf8_encode c = [a, b, d, e]"
proof -
  obtain y where y: "unat d = 128 + y" "y < 64" using assms(2) by (rule is_cont_obtain)
  obtain z where z: "unat e = 128 + z" "z < 64" using assms(3) by (rule is_cont_obtain)
  define x w where "x = unat a - 240" and "w = unat b - 128"
  have eq: "unat a = 240 + x" "unat b = 128 + w"
    using assms(1) by (simp_all add: x_def w_def second4_nat)
  have bounds: "x < 5" "w < 64" "x = 0 \<longrightarrow> 16 \<le> w" "x = 4 \<longrightarrow> w < 16"
    using assms(1) by (simp_all add: second4_nat eq)
  define c where "c = ((x * 64 + w) * 64 + y) * 64 + z"
  have "c div 64 = (x * 64 + w) * 64 + y" "c mod 64 = z"
    using z(2) by (simp_all only: c_def digit64)
  moreover have "c div 4096 = c div 64 div 64" "c div 262144 = c div 64 div 64 div 64"
    by (simp_all add: div_mult2_eq [symmetric])
  ultimately have div: "c div 262144 = x" "c div 4096 mod 64 = w" "c div 64 mod 64 = y"
      "c mod 64 = z"
    using y(2) bounds(2) by (simp_all only: digit64)
  have c: "c = x * 262144 + w * 4096 + y * 64 + z" by (simp add: c_def)
  have "0x10000 \<le> c" using bounds(3) c by linarith
  moreover have "c < 0x110000" using bounds(1,2,4) y(2) z(2) c by linarith
  ultimately have "is_scalar c"
    and "utf8_encode c = [byte (unat a), byte (unat b), byte (unat d), byte (unat e)]"
    by (simp_all add: is_scalar_def utf8_encode_def div eq y(1) z(1))
  then show ?thesis by auto
qed

lemma utf8_valid_decompose:
  assumes "utf8_valid bs" "bs \<noteq> []"
  shows "\<exists>c r. is_scalar c \<and> bs = utf8_encode c @ r \<and> utf8_valid r"
proof -
  obtain a t where bs: "bs = a # t" using assms(2) by (cases bs) auto
  consider "unat a < 128" | (two) b r where "t = b # r" "194 \<le> unat a" "unat a < 224" "is_cont b"
      "utf8_valid r"
    | (three) b d r where "t = b # d # r" "second3 a b" "is_cont d" "utf8_valid r"
    | (four) b d e r where "t = b # d # e # r" "second4 a b" "is_cont d" "is_cont e" "utf8_valid r"
  proof (cases "unat a < 128")
    case False
    then show thesis
      using assms(1) that(2-4) by (auto simp: bs u8_nat split: if_splits list.splits)
  qed (rule that(1))
  then show ?thesis
  proof cases
    case 1
    then have "is_scalar (unat a)" "utf8_encode (unat a) = [a]" "utf8_valid t"
      using assms(1)
      by (simp_all add: bs is_scalar_def utf8_encode_def utf8_valid_1 del: utf8_valid.simps)
    then show ?thesis unfolding bs by (metis append_Cons append_Nil)
  next
    case two
    then show ?thesis using encode_2 [of a b] unfolding bs by (metis append_Cons append_Nil)
  next
    case three
    then show ?thesis using encode_3 [of a b d] unfolding bs by (metis append_Cons append_Nil)
  next
    case four
    then show ?thesis using encode_4 [of a b d e] unfolding bs by (metis append_Cons append_Nil)
  qed
qed

lemma length_utf8_encode_pos: "utf8_encode c \<noteq> []"
  by (simp add: utf8_encode_def)

lemma utf8_valid_iff_encodings:
  "utf8_valid bs \<longleftrightarrow> (\<exists>cs. (\<forall>c\<in>set cs. is_scalar c) \<and> bs = concat (map utf8_encode cs))"
proof
  show "utf8_valid bs \<Longrightarrow> \<exists>cs. (\<forall>c\<in>set cs. is_scalar c) \<and> bs = concat (map utf8_encode cs)"
  proof (induction "length bs" arbitrary: bs rule: less_induct)
    case less
    show ?case
    proof (cases "bs = []")
      case True
      then have "bs = concat (map utf8_encode [])" by simp
      then show ?thesis by (metis empty_iff empty_set)
    next
      case False
      then obtain c r where r: "is_scalar c" "bs = utf8_encode c @ r" "utf8_valid r"
        using utf8_valid_decompose less.prems by blast
      then obtain cs where "\<forall>c\<in>set cs. is_scalar c" "r = concat (map utf8_encode cs)"
        using less.hyps [of r] length_utf8_encode_pos [of c] by auto
      with r have "\<forall>d\<in>set (c # cs). is_scalar d" "bs = concat (map utf8_encode (c # cs))"
        by simp_all
      then show ?thesis by blast
    qed
  qed
qed (auto simp: utf8_valid_concat_encode)

subsection \<open>ASCII\<close>

lemma utf8_valid_ascii: "(\<And>b. b \<in> set bs \<Longrightarrow> unat b < 128) \<Longrightarrow> utf8_valid bs"
  by (induction bs) (simp_all add: utf8_valid_1 del: utf8_valid.simps(2))

end
