(* ===== verification/Crates.thy ===== *)
theory Crates
  imports Utf8
begin

section \<open>The third-party crates, as parameters\<close>

text \<open>
  The cryptography is not in this repository: the Rust code calls crates. Each crate is a
  record of the functions the code calls, over opaque types for the crate's own structs; the
  model's definitions take these records as arguments and define nothing in their place.
  A fallible function is an \<open>option\<close> (\<open>None\<close> is the \<open>Err\<close>, or the failed assertion of a
  function that panics), a streaming hash or MAC is a state with its update function, and a
  function that draws randomness takes the drawn bytes as its first argument.
  The predicates \<open>.._laws\<close> collect the documented behaviour that a theorem relies on.
\<close>

subsection \<open>rustc-hex\<close>

record hex_api =
  to_hex :: "bytes \<Rightarrow> bytes"
  from_hex :: "bytes \<Rightarrow> bytes option"

definition is_hex_digit :: "u8 \<Rightarrow> bool" where
  "is_hex_digit b \<longleftrightarrow> (48 \<le> b \<and> b \<le> 57) \<or> (97 \<le> b \<and> b \<le> 102) \<or> (65 \<le> b \<and> b \<le> 70)"

definition is_hex_space :: "u8 \<Rightarrow> bool" where
  "is_hex_space b \<longleftrightarrow> b = 32 \<or> b = 9 \<or> b = 10 \<or> b = 13"

text \<open>The lower-case hexadecimal text of a byte string.\<close>

definition hex_char :: "nat \<Rightarrow> u8" where
  "hex_char n = (if n < 10 then byte (48 + n) else byte (87 + n))"

fun hex_text :: "bytes \<Rightarrow> bytes" where
  "hex_text [] = []"
| "hex_text (b # bs) = hex_char (unat b div 16) # hex_char (unat b mod 16) # hex_text bs"

lemma length_hex_text [simp]: "length (hex_text v) = 2 * length v"
  by (induction v) simp_all

lemma hex_char_digit: "n < 16 \<Longrightarrow> is_hex_digit (hex_char n)"
  by (auto simp: hex_char_def is_hex_digit_def u8_nat)

lemma byte_nibbles:
  fixes b :: u8
  shows "unat b div 16 < 16" "unat b mod 16 < 16"
proof -
  have "unat b < 256" by simp
  then have "unat b < 16 * 16" by simp
  then show "unat b div 16 < 16" "unat b mod 16 < 16"
    by (simp_all add: less_mult_imp_div_less)
qed

lemma hex_text_digits: "b \<in> set (hex_text v) \<Longrightarrow> is_hex_digit b"
  by (induction v) (auto intro: hex_char_digit byte_nibbles)

text \<open>
  \<open>to_hex\<close> writes two lower-case hexadecimal digits per byte and \<open>from_hex\<close> reads them back; a
  character that is neither a digit nor white space is an \<open>InvalidHexCharacter\<close>.
\<close>

definition hex_laws :: "hex_api \<Rightarrow> bool" where
  "hex_laws hx \<longleftrightarrow>
     (\<forall>v. to_hex hx v = hex_text v)
     \<and> (\<forall>v. from_hex hx (hex_text v) = Some v)
     \<and> (\<forall>s v. from_hex hx s = Some v \<longrightarrow> (\<forall>b \<in> set s. is_hex_digit b \<or> is_hex_space b))"

lemma to_hex_eq: "hex_laws hx \<Longrightarrow> to_hex hx v = hex_text v"
  unfolding hex_laws_def by blast

lemma from_hex_text [simp]: "hex_laws hx \<Longrightarrow> from_hex hx (hex_text v) = Some v"
  unfolding hex_laws_def by blast

lemma from_to_hex [simp]: "hex_laws hx \<Longrightarrow> from_hex hx (to_hex hx v) = Some v"
  by (simp add: to_hex_eq)

lemma length_to_hex [simp]: "hex_laws hx \<Longrightarrow> length (to_hex hx v) = 2 * length v"
  by (simp add: to_hex_eq)

lemma to_hex_digits: "hex_laws hx \<Longrightarrow> b \<in> set (to_hex hx v) \<Longrightarrow> is_hex_digit b"
  by (simp add: to_hex_eq hex_text_digits)

lemma to_hex_inject: "hex_laws hx \<Longrightarrow> to_hex hx v = to_hex hx w \<longleftrightarrow> v = w"
  by (metis from_to_hex option.inject)

lemma hex_digit_ascii: "is_hex_digit b \<Longrightarrow> unat b < 128"
  by (auto simp: is_hex_digit_def u8_nat)

lemma utf8_valid_to_hex [simp]: "hex_laws hx \<Longrightarrow> utf8_valid (to_hex hx v)"
  by (intro utf8_valid_ascii hex_digit_ascii to_hex_digits)

lemma nul_not_in_to_hex [simp]: "hex_laws hx \<Longrightarrow> 0 \<notin> set (to_hex hx v)"
  using to_hex_digits [of hx 0 v] by (auto simp: is_hex_digit_def)

lemma from_hex_reject:
  assumes "hex_laws hx" "b \<in> set s" "\<not> is_hex_digit b" "\<not> is_hex_space b"
  shows "from_hex hx s = None"
  using assms unfolding hex_laws_def by (cases "from_hex hx s") auto

subsection \<open>blake2-rfc, tiny-keccak, sha2, twox-hash, byteorder, pbkdf2, scrypt\<close>

record ('kec, 'sha, 'xx, 'xx64, 'sp) hash_api =
  blake2b_rfc :: "nat \<Rightarrow> bytes \<Rightarrow> bytes \<Rightarrow> bytes option"
  keccak_v256 :: 'kec
  keccak_update :: "'kec \<Rightarrow> bytes \<Rightarrow> 'kec"
  keccak_finalize :: "'kec \<Rightarrow> nat \<Rightarrow> bytes"
  sha512_new :: 'sha
  sha512_input :: "'sha \<Rightarrow> bytes \<Rightarrow> 'sha"
  sha512_result :: "'sha \<Rightarrow> bytes"
  xx_with_seed :: "u64 \<Rightarrow> 'xx"
  xx_write :: "'xx \<Rightarrow> bytes \<Rightarrow> 'xx"
  xx_finish :: "'xx \<Rightarrow> u64"
  xx64_with_seed :: "u64 \<Rightarrow> 'xx64"
  xx64_write :: "'xx64 \<Rightarrow> bytes \<Rightarrow> 'xx64"
  xx64_finish :: "'xx64 \<Rightarrow> u64"
  le_write_u64 :: "bytes \<Rightarrow> u64 \<Rightarrow> bytes option"
  be_write_u64 :: "bytes \<Rightarrow> u64 \<Rightarrow> bytes option"
  pbkdf2_hmac_sha512 :: "bytes \<Rightarrow> bytes \<Rightarrow> nat \<Rightarrow> nat \<Rightarrow> bytes"
  scrypt_params_new :: "u8 \<Rightarrow> u32 \<Rightarrow> u32 \<Rightarrow> 'sp option"
  scrypt_hash :: "bytes \<Rightarrow> bytes \<Rightarrow> 'sp \<Rightarrow> nat \<Rightarrow> bytes option"

text \<open>
  The digests have their documented lengths, the byte-order writers fill a buffer of eight
  bytes (they panic on a shorter one), \<open>blake2b\<close> asserts that the output has 1 to 64 bytes and
  the key at most 64, \<open>scrypt\<close> accepts every non-empty output buffer up to 64 bytes, and
  \<open>XxHash\<close> is the old name of \<open>XxHash64\<close>.
\<close>

definition hash_laws :: "('kec, 'sha, 'xx, 'xx64, 'sp) hash_api \<Rightarrow> bool" where
  "hash_laws ha \<longleftrightarrow>
     (\<forall>n k d. (blake2b_rfc ha n k d \<noteq> None) = (1 \<le> n \<and> n \<le> 64 \<and> length k \<le> 64))
     \<and> (\<forall>n k d v. blake2b_rfc ha n k d = Some v \<longrightarrow> length v = n)
     \<and> (\<forall>k n. length (keccak_finalize ha k n) = n)
     \<and> (\<forall>s. length (sha512_result ha s) = 64)
     \<and> (\<forall>b x. length b = 8 \<longrightarrow> le_write_u64 ha b x = Some (bytes_le 8 x))
     \<and> (\<forall>b x. length b = 8 \<longrightarrow> be_write_u64 ha b x = Some (rev (bytes_le 8 x)))
     \<and> (\<forall>d s c n. length (pbkdf2_hmac_sha512 ha d s c n) = n)
     \<and> (\<forall>pw s sp n. 1 \<le> n \<and> n \<le> 64 \<longrightarrow>
          (\<exists>v. scrypt_hash ha pw s sp n = Some v \<and> length v = n))
     \<and> (\<forall>seed d. xx_finish ha (xx_write ha (xx_with_seed ha seed) d)
                = xx64_finish ha (xx64_write ha (xx64_with_seed ha seed) d))"

lemma hash_lawsD:
  assumes "hash_laws ha"
  shows "(blake2b_rfc ha n k d \<noteq> None) = (1 \<le> n \<and> n \<le> 64 \<and> length k \<le> 64)"
    and "blake2b_rfc ha n k d = Some v \<Longrightarrow> length v = n"
    and "length (keccak_finalize ha kst n) = n"
    and "length (sha512_result ha sst) = 64"
    and "length b = 8 \<Longrightarrow> le_write_u64 ha b x = Some (bytes_le 8 x)"
    and "length b = 8 \<Longrightarrow> be_write_u64 ha b x = Some (rev (bytes_le 8 x))"
    and "length (pbkdf2_hmac_sha512 ha pw salt c n) = n"
    and "1 \<le> n \<Longrightarrow> n \<le> 64 \<Longrightarrow> \<exists>v. scrypt_hash ha pw salt sp n = Some v \<and> length v = n"
    and "xx_finish ha (xx_write ha (xx_with_seed ha seed) d)
           = xx64_finish ha (xx64_write ha (xx64_with_seed ha seed) d)"
proof -
  note laws = assms [unfolded hash_laws_def]
  show "(blake2b_rfc ha n k d \<noteq> None) = (1 \<le> n \<and> n \<le> 64 \<and> length k \<le> 64)"
    using conjunct1 [OF laws] by simp
qed (insert assms, simp_all add: hash_laws_def)

subsection \<open>hmac with sha2's Sha512\<close>

record 'mac hmac_api =
  hmac_new_varkey :: "bytes \<Rightarrow> 'mac option"
  hmac_input :: "'mac \<Rightarrow> bytes \<Rightarrow> 'mac"
  hmac_code :: "'mac \<Rightarrow> bytes"

text \<open>HMAC takes keys of every length, its input may be fed in pieces, its code has 64 bytes.\<close>

definition hmac_laws :: "'mac hmac_api \<Rightarrow> bool" where
  "hmac_laws hm \<longleftrightarrow>
     (\<forall>k. hmac_new_varkey hm k \<noteq> None)
     \<and> (\<forall>m a b. hmac_input hm (hmac_input hm m a) b = hmac_input hm m (a @ b))
     \<and> (\<forall>m. length (hmac_code hm m) = 64)"

lemma hmac_lawsD:
  assumes "hmac_laws hm"
  shows "\<exists>m. hmac_new_varkey hm k = Some m"
    and "hmac_input hm (hmac_input hm m a) b = hmac_input hm m (a @ b)"
    and "length (hmac_code hm m) = 64"
  using assms unfolding hmac_laws_def by blast+

subsection \<open>tiny-bip39\<close>

record ('mt, 'mn, 'sd) bip39_api =
  for_word_count :: "nat \<Rightarrow> 'mt option"
  mnemonic_new :: "bytes \<Rightarrow> 'mt \<Rightarrow> 'mn"
  into_phrase :: "'mn \<Rightarrow> bytes"
  from_phrase :: "bytes \<Rightarrow> 'mn option"
  validate_phrase :: "bytes \<Rightarrow> bool"
  mnemonic_entropy :: "'mn \<Rightarrow> bytes"
  seed_new :: "'mn \<Rightarrow> bytes \<Rightarrow> 'sd"
  seed_as_bytes :: "'sd \<Rightarrow> bytes"

text \<open>
  The word counts are 12, 15, 18, 21 and 24; \<open>validate\<close> accepts what \<open>from_phrase\<close> parses; a
  generated mnemonic has a phrase of words and spaces that parses again to the same entropy;
  a seed has 64 bytes.
\<close>

definition bip39_laws :: "('mt, 'mn, 'sd) bip39_api \<Rightarrow> bool" where
  "bip39_laws bp \<longleftrightarrow>
     (\<forall>n. (for_word_count bp n \<noteq> None) = (n \<in> {12, 15, 18, 21, 24}))
     \<and> (\<forall>p. validate_phrase bp p = (from_phrase bp p \<noteq> None))
     \<and> (\<forall>n t r. for_word_count bp n = Some t \<longrightarrow>
          (\<exists>m. from_phrase bp (into_phrase bp (mnemonic_new bp r t)) = Some m
             \<and> mnemonic_entropy bp m = mnemonic_entropy bp (mnemonic_new bp r t)))
     \<and> (\<forall>m. utf8_valid (into_phrase bp m) \<and> 0 \<notin> set (into_phrase bp m))
     \<and> (\<forall>s. length (seed_as_bytes bp s) = 64)"

lemma bip39_lawsD:
  assumes "bip39_laws bp"
  shows "(for_word_count bp n \<noteq> None) = (n \<in> {12, 15, 18, 21, 24})"
    and "validate_phrase bp p = (from_phrase bp p \<noteq> None)"
    and "for_word_count bp n = Some t \<Longrightarrow>
           \<exists>m. from_phrase bp (into_phrase bp (mnemonic_new bp r t)) = Some m
             \<and> mnemonic_entropy bp m = mnemonic_entropy bp (mnemonic_new bp r t)"
    and "utf8_valid (into_phrase bp m)" and "0 \<notin> set (into_phrase bp m)"
    and "length (seed_as_bytes bp s) = 64"
  using assms unfolding bip39_laws_def by blast+

subsection \<open>ed25519-dalek\<close>

record ('sk, 'pk, 'kp, 'sig) ed_api =
  ed_sk_from_bytes :: "bytes \<Rightarrow> 'sk option"
  ed_sk_to_bytes :: "'sk \<Rightarrow> bytes"
  ed_pk_of_sk :: "'sk \<Rightarrow> 'pk"
  ed_pk_from_bytes :: "bytes \<Rightarrow> 'pk option"
  ed_pk_to_bytes :: "'pk \<Rightarrow> bytes"
  ed_kp_from_bytes :: "bytes \<Rightarrow> 'kp option"
  ed_kp_to_bytes :: "'kp \<Rightarrow> bytes"
  ed_kp_sign :: "'kp \<Rightarrow> bytes \<Rightarrow> 'sig"
  ed_sig_try_from :: "bytes \<Rightarrow> 'sig option"
  ed_sig_to_bytes :: "'sig \<Rightarrow> bytes"
  ed_pk_verify :: "'pk \<Rightarrow> bytes \<Rightarrow> 'sig \<Rightarrow> bool"
  ED_SECRET_KEY_LENGTH :: nat
  ED_KEYPAIR_LENGTH :: nat
  ED_SIGNATURE_LENGTH :: nat

text \<open>
  A secret key is any 32 bytes; a key pair is 64 bytes, the secret key followed by the public
  key; key pairs and public keys are written back as they were read; a signature has 64 bytes
  and verifies under the public key of the secret key that made it.
\<close>

definition ed_laws :: "('sk, 'pk, 'kp, 'sig) ed_api \<Rightarrow> bool" where
  "ed_laws ed \<longleftrightarrow>
     (\<forall>b. (ed_sk_from_bytes ed b \<noteq> None) = (length b = 32))
     \<and> (\<forall>b s. ed_sk_from_bytes ed b = Some s \<longrightarrow> ed_sk_to_bytes ed s = b)
     \<and> (\<forall>s. length (ed_pk_to_bytes ed (ed_pk_of_sk ed s)) = 32)
     \<and> (\<forall>s. ed_pk_from_bytes ed (ed_pk_to_bytes ed (ed_pk_of_sk ed s)) = Some (ed_pk_of_sk ed s))
     \<and> (\<forall>b p. ed_pk_from_bytes ed b = Some p \<longrightarrow> length b = 32 \<and> ed_pk_to_bytes ed p = b)
     \<and> (\<forall>b k. ed_kp_from_bytes ed b = Some k \<longrightarrow> length b = 64 \<and> ed_kp_to_bytes ed k = b)
     \<and> (\<forall>b s. ed_sk_from_bytes ed b = Some s \<longrightarrow>
          (\<exists>k. ed_kp_from_bytes ed (b @ ed_pk_to_bytes ed (ed_pk_of_sk ed s)) = Some k
             \<and> (\<forall>m. ed_pk_verify ed (ed_pk_of_sk ed s) m (ed_kp_sign ed k m))))
     \<and> (\<forall>k m. length (ed_sig_to_bytes ed (ed_kp_sign ed k m)) = 64)
     \<and> (\<forall>k m. ed_sig_try_from ed (ed_sig_to_bytes ed (ed_kp_sign ed k m)) = Some (ed_kp_sign ed k m))
     \<and> (\<forall>b. ed_sig_try_from ed b \<noteq> None \<longrightarrow> length b = 64)
     \<and> ED_SECRET_KEY_LENGTH ed = 32 \<and> ED_KEYPAIR_LENGTH ed = 64 \<and> ED_SIGNATURE_LENGTH ed = 64"

lemma ed_lawsD:
  assumes "ed_laws ed"
  shows "(ed_sk_from_bytes ed b \<noteq> None) = (length b = 32)"
    and "ed_sk_from_bytes ed b = Some s \<Longrightarrow> ed_sk_to_bytes ed s = b"
    and "length (ed_pk_to_bytes ed (ed_pk_of_sk ed s)) = 32"
    and "ed_pk_from_bytes ed (ed_pk_to_bytes ed (ed_pk_of_sk ed s)) = Some (ed_pk_of_sk ed s)"
    and "ed_pk_from_bytes ed b = Some p \<Longrightarrow> length b = 32"
    and "ed_kp_from_bytes ed b = Some k \<Longrightarrow> length b = 64 \<and> ed_kp_to_bytes ed k = b"
    and "ed_sk_from_bytes ed b = Some s \<Longrightarrow>
           \<exists>k. ed_kp_from_bytes ed (b @ ed_pk_to_bytes ed (ed_pk_of_sk ed s)) = Some k
             \<and> (\<forall>m. ed_pk_verify ed (ed_pk_of_sk ed s) m (ed_kp_sign ed k m))"
    and "length (ed_sig_to_bytes ed (ed_kp_sign ed k m)) = 64"
    and "ed_sig_try_from ed (ed_sig_to_bytes ed (ed_kp_sign ed k m)) = Some (ed_kp_sign ed k m)"
    and "ed_sig_try_from ed b \<noteq> None \<Longrightarrow> length b = 64"
    and "ED_SECRET_KEY_LENGTH ed = 32" and "ED_KEYPAIR_LENGTH ed = 64" and "ED_SIGNATURE_LENGTH ed = 64"
    and "ed_pk_from_bytes ed b = Some p \<Longrightarrow> ed_pk_to_bytes ed p = b"
  using assms unfolding ed_laws_def by blast+

lemma ed_sk_from_bytes_ok:
  "ed_laws ed \<Longrightarrow> length b = 32 \<Longrightarrow> \<exists>s. ed_sk_from_bytes ed b = Some s"
  using ed_lawsD(1) by fastforce

lemma ed_sk_from_bytes_err:
  "ed_laws ed \<Longrightarrow> length b \<noteq> 32 \<Longrightarrow> ed_sk_from_bytes ed b = None"
  using ed_lawsD(1) by fastforce

subsection \<open>schnorrkel\<close>

text \<open>
  \<open>sign_simple\<close> and the soft derivation of a key pair draw randomness (the witness nonce).
\<close>

record ('msk, 'sk, 'pk, 'kp, 'sig) sr_api =
  msk_from_bytes :: "bytes \<Rightarrow> 'msk option"
  expand_to_keypair_ed25519 :: "'msk \<Rightarrow> 'kp"
  kp_from_half_ed25519 :: "bytes \<Rightarrow> 'kp option"
  kp_to_half_ed25519 :: "'kp \<Rightarrow> bytes"
  kp_secret :: "'kp \<Rightarrow> 'sk"
  kp_public :: "'kp \<Rightarrow> 'pk"
  hard_derive_mini_secret_key :: "'sk \<Rightarrow> bytes option \<Rightarrow> bytes \<Rightarrow> 'msk \<times> bytes"
  kp_derived_key_simple :: "bytes \<Rightarrow> 'kp \<Rightarrow> bytes \<Rightarrow> bytes \<Rightarrow> 'kp \<times> bytes"
  pk_derived_key_simple :: "'pk \<Rightarrow> bytes \<Rightarrow> bytes \<Rightarrow> 'pk \<times> bytes"
  sr_pk_from_bytes :: "bytes \<Rightarrow> 'pk option"
  sr_pk_to_bytes :: "'pk \<Rightarrow> bytes"
  sr_sk_from_ed25519 :: "bytes \<Rightarrow> 'sk option"
  sr_sign_simple :: "bytes \<Rightarrow> 'sk \<Rightarrow> bytes \<Rightarrow> bytes \<Rightarrow> 'pk \<Rightarrow> 'sig"
  sr_sig_from_bytes :: "bytes \<Rightarrow> 'sig option"
  sr_sig_to_bytes :: "'sig \<Rightarrow> bytes"
  sr_verify_simple :: "'pk \<Rightarrow> bytes \<Rightarrow> bytes \<Rightarrow> 'sig \<Rightarrow> bool"
  SECRET_KEY_LENGTH :: nat
  KEYPAIR_LENGTH :: nat
  SIGNATURE_LENGTH :: nat

text \<open>
  A mini secret key is any 32 bytes. A key pair is written as 64 bytes of secret key in the
  Ed25519 format and 32 bytes of public key, and each part, and the whole, reads back as it
  was. The soft derivation of a key pair derives its public half as the public derivation
  does, and a signature verifies in the context and under the key pair that made it.
\<close>

definition sr_laws :: "('msk, 'sk, 'pk, 'kp, 'sig) sr_api \<Rightarrow> bool" where
  "sr_laws sr \<longleftrightarrow>
     (\<forall>b. (msk_from_bytes sr b \<noteq> None) = (length b = 32))
     \<and> (\<forall>k. length (kp_to_half_ed25519 sr k) = 96)
     \<and> (\<forall>k. kp_from_half_ed25519 sr (kp_to_half_ed25519 sr k) = Some k)
     \<and> (\<forall>b k. kp_from_half_ed25519 sr b = Some k \<longrightarrow> length b = 96)
     \<and> (\<forall>k. sr_sk_from_ed25519 sr (take 64 (kp_to_half_ed25519 sr k)) = Some (kp_secret sr k))
     \<and> (\<forall>k. drop 64 (kp_to_half_ed25519 sr k) = sr_pk_to_bytes sr (kp_public sr k))
     \<and> (\<forall>p. length (sr_pk_to_bytes sr p) = 32)
     \<and> (\<forall>p. sr_pk_from_bytes sr (sr_pk_to_bytes sr p) = Some p)
     \<and> (\<forall>b p. sr_pk_from_bytes sr b = Some p \<longrightarrow> length b = 32)
     \<and> (\<forall>b s. sr_sk_from_ed25519 sr b = Some s \<longrightarrow> length b = 64)
     \<and> (\<forall>r k cc i. kp_public sr (fst (kp_derived_key_simple sr r k cc i))
                 = fst (pk_derived_key_simple sr (kp_public sr k) cc i))
     \<and> (\<forall>s. length (sr_sig_to_bytes sr s) = 64)
     \<and> (\<forall>s. sr_sig_from_bytes sr (sr_sig_to_bytes sr s) = Some s)
     \<and> (\<forall>b s. sr_sig_from_bytes sr b = Some s \<longrightarrow> length b = 64)
     \<and> (\<forall>m r k c. sr_verify_simple sr (kp_public sr (expand_to_keypair_ed25519 sr m)) c k
            (sr_sign_simple sr r (kp_secret sr (expand_to_keypair_ed25519 sr m)) c k
               (kp_public sr (expand_to_keypair_ed25519 sr m))))
     \<and> SECRET_KEY_LENGTH sr = 64 \<and> KEYPAIR_LENGTH sr = 96 \<and> SIGNATURE_LENGTH sr = 64"

lemma sr_lawsD:
  assumes "sr_laws sr"
  shows "(msk_from_bytes sr b \<noteq> None) = (length b = 32)"
    and "length (kp_to_half_ed25519 sr k) = 96"
    and "kp_from_half_ed25519 sr (kp_to_half_ed25519 sr k) = Some k"
    and "kp_from_half_ed25519 sr b = Some k \<Longrightarrow> length b = 96"
    and "sr_sk_from_ed25519 sr (take 64 (kp_to_half_ed25519 sr k)) = Some (kp_secret sr k)"
    and "drop 64 (kp_to_half_ed25519 sr k) = sr_pk_to_bytes sr (kp_public sr k)"
    and "length (sr_pk_to_bytes sr p) = 32"
    and "sr_pk_from_bytes sr (sr_pk_to_bytes sr p) = Some p"
    and "sr_pk_from_bytes sr b = Some p \<Longrightarrow> length b = 32"
    and "sr_sk_from_ed25519 sr b = Some s \<Longrightarrow> length b = 64"
    and "kp_public sr (fst (kp_derived_key_simple sr r k cc i))
           = fst (pk_derived_key_simple sr (kp_public sr k) cc i)"
    and "length (sr_sig_to_bytes sr sg) = 64"
    and "sr_sig_from_bytes sr (sr_sig_to_bytes sr sg) = Some sg"
    and "sr_verify_simple sr (kp_public sr (expand_to_keypair_ed25519 sr m)) c msg
           (sr_sign_simple sr r (kp_secret sr (expand_to_keypair_ed25519 sr m)) c msg
              (kp_public sr (expand_to_keypair_ed25519 sr m)))"
    and "SECRET_KEY_LENGTH sr = 64" and "KEYPAIR_LENGTH sr = 96"
    and "sr_sig_from_bytes sr b = Some sg \<Longrightarrow> length b = 64"
    and "SIGNATURE_LENGTH sr = 64"
  using assms by (simp_all add: sr_laws_def)

lemma msk_from_bytes_ok:
  "sr_laws sr \<Longrightarrow> length b = 32 \<Longrightarrow> \<exists>m. msk_from_bytes sr b = Some m"
  using sr_lawsD(1) by fastforce

lemma msk_from_bytes_err:
  "sr_laws sr \<Longrightarrow> length b \<noteq> 32 \<Longrightarrow> msk_from_bytes sr b = None"
  using sr_lawsD(1) by fastforce

subsection \<open>secp256k1\<close>

text \<open>The context \<open>Secp256k1::new()\<close> carries no state that a result depends on.\<close>

record ('sk, 'pk, 'msg, 'rid, 'rsig) secp_api =
  secp_sk_from_slice :: "bytes \<Rightarrow> 'sk option"
  secp_pk_from_secret_key :: "'sk \<Rightarrow> 'pk"
  secp_pk_serialize :: "'pk \<Rightarrow> bytes"
  secp_pk_from_slice :: "bytes \<Rightarrow> 'pk option"
  secp_message_from_slice :: "bytes \<Rightarrow> 'msg option"
  recovery_id_from_i32 :: "32 word \<Rightarrow> 'rid option"
  recoverable_from_compact :: "bytes \<Rightarrow> 'rid \<Rightarrow> 'rsig option"
  secp_recover :: "'msg \<Rightarrow> 'rsig \<Rightarrow> 'pk option"

text \<open>
  A public key is serialised in the compressed form of 33 bytes and parses again; a message is
  a digest of 32 bytes and a recovery id one of 0 to 3.
\<close>

definition secp_laws :: "('sk, 'pk, 'msg, 'rid, 'rsig) secp_api \<Rightarrow> bool" where
  "secp_laws sp \<longleftrightarrow>
     (\<forall>p. length (secp_pk_serialize sp p) = 33)
     \<and> (\<forall>p. secp_pk_from_slice sp (secp_pk_serialize sp p) = Some p)
     \<and> (\<forall>b. (secp_message_from_slice sp b \<noteq> None) = (length b = 32))
     \<and> (\<forall>i. (recovery_id_from_i32 sp i \<noteq> None) = (0 \<le> sint i \<and> sint i \<le> 3))
     \<and> (\<forall>b s. secp_sk_from_slice sp b = Some s \<longrightarrow> length b = 32)"

lemma secp_lawsD:
  assumes "secp_laws sp"
  shows "length (secp_pk_serialize sp p) = 33"
    and "secp_pk_from_slice sp (secp_pk_serialize sp p) = Some p"
    and "(secp_message_from_slice sp b \<noteq> None) = (length b = 32)"
    and "(recovery_id_from_i32 sp i \<noteq> None) = (0 \<le> sint i \<and> sint i \<le> 3)"
    and "secp_sk_from_slice sp b = Some s \<Longrightarrow> length b = 32"
  using assms unfolding secp_laws_def by blast+

subsection \<open>derivation-path\<close>

datatype child_index = Normal u32 | Hardened u32

record dp_api =
  dp_parse :: "bytes \<Rightarrow> child_index list option"
  ci_is_normal :: "child_index \<Rightarrow> bool"
  ci_to_bits :: "child_index \<Rightarrow> u32"

text \<open>The raw bits of an index have the top bit set exactly for a hardened one.\<close>

definition dp_laws :: "dp_api \<Rightarrow> bool" where
  "dp_laws dp \<longleftrightarrow>
     (\<forall>n. ci_is_normal dp (Normal n)) \<and> (\<forall>n. \<not> ci_is_normal dp (Hardened n))
     \<and> (\<forall>n. ci_to_bits dp (Normal n) = n) \<and> (\<forall>n. ci_to_bits dp (Hardened n) = or n (2 ^ 31))"

fun is_hardened :: "child_index \<Rightarrow> bool" where
  "is_hardened (Normal n) = False"
| "is_hardened (Hardened n) = True"

lemma ci_is_normal_iff: "dp_laws dp \<Longrightarrow> ci_is_normal dp i \<longleftrightarrow> \<not> is_hardened i"
  by (cases i) (simp_all add: dp_laws_def)

end
