(* ===== verification/C_Strings.thy ===== *)
theory C_Strings
  imports Crates
begin

section \<open>C strings across the FFI boundary\<close>

text \<open>
  \<open>util.rs\<close> and \<open>rust_cstr_free\<close> of \<open>common.rs\<close>: how strings and byte vectors cross the
  boundary to Dart. Memory is a finite map from addresses to blocks; a block records who
  allocated it (Rust, by \<open>CString::into_raw\<close>, or the foreign side) and its bytes, terminator
  included. Pointers are addresses of blocks; address 0 is null. The allocator is a parameter
  that returns an address not in use (it may reuse a freed one); running out of memory aborts
  the process and is not modelled.
\<close>

type_synonym ptr = nat

datatype owner = RustOwned | Foreign

record block =
  blk_owner :: owner
  blk_bytes :: bytes

type_synonym heap = "ptr \<rightharpoonup> block"
type_synonym allocator = "heap \<Rightarrow> ptr"

definition fresh_alloc :: "allocator \<Rightarrow> bool" where
  "fresh_alloc al \<longleftrightarrow> (\<forall>h. finite (dom h) \<longrightarrow> h (al h) = None \<and> al h \<noteq> 0)"

subsection \<open>Reading: \<open>CStr::from_ptr\<close>, \<open>get_str\<close>, \<open>get_u8vec_from_ptr\<close>\<close>

text \<open>The bytes in front of the first NUL, if there is one in the block.\<close>

fun c_string :: "bytes \<Rightarrow> bytes option" where
  "c_string [] = None"
| "c_string (b # bs) = (if b = 0 then Some [] else map_option ((#) b) (c_string bs))"

definition CStr_from_ptr :: "ptr \<Rightarrow> heap \<Rightarrow> bytes res" where
  "CStr_from_ptr p h =
     (if p = 0 then Inl (Undefined NullPointer)
      else case h p of
        None \<Rightarrow> Inl (Undefined DanglingPointer)
      | Some b \<Rightarrow> (case c_string (blk_bytes b) of
          None \<Rightarrow> Inl (Undefined NoTerminator)
        | Some s \<Rightarrow> Inr s))"

definition input_string_error :: bytes where
  "input_string_error = lit ''Error: input string error''"

definition get_str :: "ptr \<Rightarrow> heap \<Rightarrow> bytes res" where
  "get_str rust_ptr h =
     rbind (CStr_from_ptr rust_ptr h) (\<lambda>c_str.
       Inr (if utf8_valid c_str then c_str else input_string_error))"

definition get_u8vec_from_ptr :: "hex_api \<Rightarrow> ptr \<Rightarrow> heap \<Rightarrow> bytes res" where
  "get_u8vec_from_ptr hx rust_ptr h =
     rbind (get_str rust_ptr h) (\<lambda>s.
       case from_hex hx s of
         Some c \<Rightarrow> Inr c
       | None \<Rightarrow> Inl (Panic (ExplicitPanic ''Error: get_u8vec_from_ptr failed'')))"

subsection \<open>Writing: \<open>get_ptr\<close>, \<open>get_ptr_from_u8vec\<close>; freeing: \<open>rust_cstr_free\<close>\<close>

text \<open>\<open>CString::new(s).unwrap().into_raw()\<close>: an interior NUL is a \<open>NulError\<close>.\<close>

definition CString_new :: "bytes \<Rightarrow> bytes option" where
  "CString_new s = (if 0 \<in> set s then None else Some (s @ [0]))"

definition get_ptr :: "allocator \<Rightarrow> bytes \<Rightarrow> heap \<Rightarrow> (ptr \<times> heap) res" where
  "get_ptr al rust_string h =
     rbind (unwrap (CString_new rust_string)) (\<lambda>c.
       Inr (al h, h(al h \<mapsto> \<lparr>blk_owner = RustOwned, blk_bytes = c\<rparr>)))"

definition get_ptr_from_u8vec ::
    "hex_api \<Rightarrow> allocator \<Rightarrow> bytes \<Rightarrow> heap \<Rightarrow> (ptr \<times> heap) res" where
  "get_ptr_from_u8vec hx al u8vec h = get_ptr al (to_hex hx u8vec) h"

text \<open>
  \<open>CString::from_raw\<close> takes back a block that \<open>into_raw\<close> gave away and whose length, as
  \<open>strlen\<close> recomputes it, is still the length of the allocation.
\<close>

definition rust_cstr_free :: "ptr \<Rightarrow> heap \<Rightarrow> heap res" where
  "rust_cstr_free s h =
     (if s = 0 then Inr h
      else case h s of
        None \<Rightarrow> Inl (Undefined DanglingPointer)
      | Some b \<Rightarrow>
          (if blk_owner b = RustOwned \<and> blk_bytes b \<noteq> []
              \<and> c_string (blk_bytes b) = Some (butlast (blk_bytes b))
           then Inr (h(s := None))
           else Inl (Undefined NotFromIntoRaw)))"

subsection \<open>The heap invariant\<close>

text \<open>
  Null is never allocated, and every block that Rust gave away is a NUL-terminated UTF-8
  string. The foreign side may put anything into its own blocks.
\<close>

definition cstr_block :: "bytes \<Rightarrow> bool" where
  "cstr_block bs \<longleftrightarrow> (\<exists>s. bs = s @ [0] \<and> 0 \<notin> set s \<and> utf8_valid s)"

definition wf_heap :: "heap \<Rightarrow> bool" where
  "wf_heap h \<longleftrightarrow> finite (dom h) \<and> h 0 = None
     \<and> (\<forall>p b. h p = Some b \<and> blk_owner b = RustOwned \<longrightarrow> cstr_block (blk_bytes b))"

lemma wf_heapD:
  assumes "wf_heap h"
  shows "finite (dom h)" "h 0 = None"
    and "h p = Some b \<Longrightarrow> blk_owner b = RustOwned \<Longrightarrow> cstr_block (blk_bytes b)"
  using assms unfolding wf_heap_def by blast+

lemma wf_heap_update:
  "wf_heap h \<Longrightarrow> p \<noteq> 0 \<Longrightarrow> (blk_owner b = RustOwned \<Longrightarrow> cstr_block (blk_bytes b))
     \<Longrightarrow> wf_heap (h(p \<mapsto> b))"
  by (auto simp: wf_heap_def)

lemma wf_heap_delete: "wf_heap h \<Longrightarrow> wf_heap (h(p := None))"
  by (auto simp: wf_heap_def)

lemma fresh_allocD:
  assumes "fresh_alloc al" "wf_heap h"
  shows "h (al h) = None" "al h \<noteq> 0"
  using assms by (simp_all add: fresh_alloc_def wf_heap_def)

lemma c_string_append [simp]: "0 \<notin> set s \<Longrightarrow> c_string (s @ 0 # r) = Some s"
  by (induction s) simp_all

lemma c_string_Some: "c_string bs = Some s \<Longrightarrow> \<exists>r. bs = s @ 0 # r \<and> 0 \<notin> set s"
proof (induction bs arbitrary: s)
  case (Cons b bs)
  then show ?case by (cases "b = 0") fastforce+
qed simp

lemma c_string_cstr_block: "cstr_block bs \<Longrightarrow> c_string bs = Some (butlast bs)"
  by (auto simp: cstr_block_def)

lemma cstr_block_not_Nil: "cstr_block bs \<Longrightarrow> bs \<noteq> []"
  by (auto simp: cstr_block_def)

subsection \<open>The operations on well-formed heaps\<close>

lemma get_ptr_ok:
  "0 \<notin> set s \<Longrightarrow>
     get_ptr al s h = Inr (al h, h(al h \<mapsto> \<lparr>blk_owner = RustOwned, blk_bytes = s @ [0]\<rparr>))"
  by (simp add: get_ptr_def CString_new_def)

lemma get_ptr_nul: "0 \<in> set s \<Longrightarrow> get_ptr al s h = Inl (Panic UnwrapErr)"
  by (simp add: get_ptr_def CString_new_def)

lemma no_undefined_get_ptr [simp, intro]: "no_undefined (get_ptr al s h)"
  by (cases "0 \<in> set s") (simp_all add: get_ptr_ok get_ptr_nul)

lemma no_undefined_get_ptr_from_u8vec [simp, intro]:
  "no_undefined (get_ptr_from_u8vec hx al v h)"
  by (simp add: get_ptr_from_u8vec_def)

lemma get_ptr_wf:
  assumes "get_ptr al s h = Inr (p, h')" "wf_heap h" "fresh_alloc al" "utf8_valid s"
  shows "wf_heap h' \<and> p \<noteq> 0 \<and> h p = None
     \<and> (\<exists>b. blk_owner b = RustOwned \<and> blk_bytes b = s @ [0] \<and> h' = h(p \<mapsto> b))"
proof -
  have s: "0 \<notin> set s" using assms(1) get_ptr_nul [of s al h] by auto
  define b where "b = \<lparr>blk_owner = RustOwned, blk_bytes = s @ [0]\<rparr>"
  have "p = al h" "h' = h(p \<mapsto> b)" using assms(1) s by (auto simp: get_ptr_ok b_def)
  moreover have "blk_owner b = RustOwned" "blk_bytes b = s @ [0]" by (simp_all add: b_def)
  moreover have "cstr_block (s @ [0])" using s assms(4) by (auto simp: cstr_block_def)
  ultimately show ?thesis
    using fresh_allocD [OF assms(3,2)] wf_heap_update [OF assms(2), of p b] by auto
qed

lemma get_str_local: "h p = h' p \<Longrightarrow> get_str p h = get_str p h'"
  by (simp add: get_str_def CStr_from_ptr_def)

lemma get_u8vec_local: "h p = h' p \<Longrightarrow> get_u8vec_from_ptr hx p h = get_u8vec_from_ptr hx p h'"
  by (simp add: get_u8vec_from_ptr_def get_str_local [of h p h'])

lemma get_str_block:
  "p \<noteq> 0 \<Longrightarrow> h p = Some b \<Longrightarrow> c_string (blk_bytes b) = Some s \<Longrightarrow>
     get_str p h = Inr (if utf8_valid s then s else input_string_error)"
  by (simp add: get_str_def CStr_from_ptr_def)

lemma get_str_utf8_valid: "get_str p h = Inr s \<Longrightarrow> utf8_valid s"
  by (auto simp: get_str_def rbind_eq_Inr_iff input_string_error_def u8_nat split: if_splits)

lemma input_string_error_not_hex:
  "hex_laws hx \<Longrightarrow> from_hex hx input_string_error = None"
  by (rule from_hex_reject [where b = 114])
     (simp_all add: input_string_error_def is_hex_digit_def is_hex_space_def)

text \<open>A pointer the foreign side may pass: not null, live, and terminated.\<close>

definition readable :: "ptr \<Rightarrow> heap \<Rightarrow> bool" where
  "readable p h \<longleftrightarrow> p \<noteq> 0
     \<and> (case h p of None \<Rightarrow> False | Some b \<Rightarrow> c_string (blk_bytes b) \<noteq> None)"

lemma readable_iff:
  "readable p h \<longleftrightarrow> p \<noteq> 0 \<and> (\<exists>b s. h p = Some b \<and> c_string (blk_bytes b) = Some s)"
  by (auto simp: readable_def split: option.split)

lemma readable_get_str: "readable p h \<Longrightarrow> \<exists>s. get_str p h = Inr s"
  by (auto simp: readable_iff get_str_block)

lemma readable_no_undefined [intro]:
  "readable p h \<Longrightarrow> no_undefined (get_str p h)"
  "readable p h \<Longrightarrow> no_undefined (get_u8vec_from_ptr hx p h)"
  using readable_get_str [of p h] by (auto simp: get_u8vec_from_ptr_def split: option.split)

lemma rust_block_readable:
  "wf_heap h \<Longrightarrow> h p = Some b \<Longrightarrow> blk_owner b = RustOwned \<Longrightarrow> readable p h"
  using wf_heapD(2) [of h] wf_heapD(3) [of h p b] c_string_cstr_block [of "blk_bytes b"]
  by (cases "p = 0") (auto simp: readable_iff)

lemma rust_cstr_free_ok:
  "wf_heap h \<Longrightarrow> p \<noteq> 0 \<Longrightarrow> h p = Some b \<Longrightarrow> blk_owner b = RustOwned \<Longrightarrow>
     rust_cstr_free p h = Inr (h(p := None))"
  using wf_heapD(3) [of h p b]
  by (simp add: rust_cstr_free_def c_string_cstr_block cstr_block_not_Nil)

lemma rust_cstr_free_dangling:
  "p \<noteq> 0 \<Longrightarrow> h p = None \<Longrightarrow> rust_cstr_free p h = Inl (Undefined DanglingPointer)"
  by (simp add: rust_cstr_free_def)

subsection \<open>The interface: a port for values\<close>

text \<open>
  What \<open>common.rs\<close> relies on, whether it passes strings or byte vectors: a value that is put
  into memory lands in a block of its own, that Rust owns and that no live pointer names, and
  is read back from it for as long as that block is left alone. \<open>put_all\<close> passes a list of
  arguments.
\<close>

fun put_all :: "('v \<Rightarrow> heap \<Rightarrow> (ptr \<times> heap) res) \<Rightarrow> 'v list \<Rightarrow> heap \<Rightarrow> (ptr list \<times> heap) res"
where
  "put_all put [] h = Inr ([], h)"
| "put_all put (v # vs) h =
     rbind (put v h) (\<lambda>(p, h1). rbind (put_all put vs h1) (\<lambda>(ps, h2). Inr (p # ps, h2)))"

locale value_port =
  fixes lawful :: "'c \<Rightarrow> bool"
    and adm :: "'v \<Rightarrow> bool"
    and put :: "'c \<Rightarrow> 'v \<Rightarrow> heap \<Rightarrow> (ptr \<times> heap) res"
    and get :: "'c \<Rightarrow> ptr \<Rightarrow> heap \<Rightarrow> 'v res"
  assumes put_total: "lawful c \<Longrightarrow> wf_heap h \<Longrightarrow> adm v \<Longrightarrow> \<exists>p h'. put c v h = Inr (p, h')"
    and put_block: "lawful c \<Longrightarrow> wf_heap h \<Longrightarrow> adm v \<Longrightarrow> put c v h = Inr (p, h') \<Longrightarrow>
          wf_heap h' \<and> p \<noteq> 0 \<and> h p = None \<and> (\<exists>b. blk_owner b = RustOwned \<and> h' = h(p \<mapsto> b))"
    and get_put: "lawful c \<Longrightarrow> wf_heap h \<Longrightarrow> adm v \<Longrightarrow> put c v h = Inr (p, h') \<Longrightarrow>
          get c p h' = Inr v"
    and get_local: "h p = h' p \<Longrightarrow> get c p h = get c p h'"
begin

lemma put_frame:
  "lawful c \<Longrightarrow> wf_heap h \<Longrightarrow> adm v \<Longrightarrow> put c v h = Inr (p, h') \<Longrightarrow> h q \<noteq> None \<Longrightarrow> h' q = h q"
  using put_block [of c h v p h'] by auto

lemma put_free:
  assumes "lawful c" "wf_heap h" "adm v" "put c v h = Inr (p, h')"
  shows "rust_cstr_free p h' = Inr h"
proof -
  obtain b where b: "wf_heap h'" "p \<noteq> 0" "h p = None" "blk_owner b = RustOwned" "h' = h(p \<mapsto> b)"
    using put_block [OF assms] by blast
  then have "rust_cstr_free p h' = Inr (h'(p := None))" by (intro rust_cstr_free_ok) auto
  then show ?thesis using b(3,5) by (simp add: fun_upd_idem)
qed

lemma put_free_twice:
  assumes "lawful c" "wf_heap h" "adm v" "put c v h = Inr (p, h')"
  shows "rbind (rust_cstr_free p h') (rust_cstr_free p) = Inl (Undefined DanglingPointer)"
  using put_free [OF assms] put_block [OF assms] by (auto simp: rust_cstr_free_dangling)

lemma put_all_get:
  assumes "lawful c" "wf_heap h" "\<forall>v\<in>set vs. adm v"
  shows "\<exists>ps h'. put_all (put c) vs h = Inr (ps, h') \<and> wf_heap h' \<and> distinct ps
    \<and> map (\<lambda>p. get c p h') ps = map Inr vs
    \<and> (\<forall>q. h q \<noteq> None \<longrightarrow> h' q = h q) \<and> (\<forall>p\<in>set ps. p \<noteq> 0 \<and> h p = None \<and> h' p \<noteq> None)"
  using assms(2,3)
proof (induction vs arbitrary: h)
  case Nil
  then show ?case by simp
next
  case (Cons v vs)
  then obtain p h1 where put: "put c v h = Inr (p, h1)"
    using put_total [OF assms(1)] by (meson list.set_intros(1))
  have adm: "adm v" using Cons.prems by simp
  note blk = put_block [OF assms(1) Cons.prems(1) adm put]
  obtain ps h2 where rest: "put_all (put c) vs h1 = Inr (ps, h2)" "wf_heap h2" "distinct ps"
      "map (\<lambda>p. get c p h2) ps = map Inr vs" "\<forall>q. h1 q \<noteq> None \<longrightarrow> h2 q = h1 q"
      "\<forall>p\<in>set ps. p \<noteq> 0 \<and> h1 p = None \<and> h2 p \<noteq> None"
  proof -
    have "wf_heap h1" "\<forall>v\<in>set vs. adm v" using blk Cons.prems by simp_all
    from Cons.IH [OF this] show thesis using that by blast
  qed
  have live: "h1 p \<noteq> None" using blk by auto
  then have "h2 p = h1 p" using rest(5) by simp
  then have "get c p h2 = get c p h1" by (rule get_local)
  also have "\<dots> = Inr v" by (rule get_put [OF assms(1) Cons.prems(1) adm put])
  finally have "get c p h2 = Inr v" .
  moreover have "p \<notin> set ps" using bspec [OF rest(6), of p] live by auto
  moreover have keep: "h2 q = h q" if "h q \<noteq> None" for q
    using that rest(5) put_frame [OF assms(1) Cons.prems(1) adm put that] by simp
  moreover have "q \<noteq> 0 \<and> h q = None \<and> h2 q \<noteq> None" if q: "q \<in> set (p # ps)" for q
  proof (cases "q = p")
    case True
    then show ?thesis using blk live \<open>h2 p = h1 p\<close> by simp
  next
    case False
    then have "q \<noteq> 0 \<and> h1 q = None \<and> h2 q \<noteq> None" using bspec [OF rest(6), of q] q by simp
    moreover have "h q = h1 q" using blk False by auto
    ultimately show ?thesis by simp
  qed
  ultimately show ?case using put rest(1-4) by auto
qed

end

text \<open>
  Both ports of \<open>util.rs\<close>: strings without NUL (\<open>get_ptr\<close>, \<open>get_str\<close>) and byte vectors as
  hexadecimal text (\<open>get_ptr_from_u8vec\<close>, \<open>get_u8vec_from_ptr\<close>).
\<close>

definition c_text :: "bytes \<Rightarrow> bool" where
  "c_text s \<longleftrightarrow> utf8_valid s \<and> 0 \<notin> set s"

lemma c_text_to_hex [simp]: "hex_laws hx \<Longrightarrow> c_text (to_hex hx v)"
  by (simp add: c_text_def)

interpretation str_port: value_port fresh_alloc c_text get_ptr "\<lambda>_. get_str"
proof
  fix al h s p h'
  assume al: "fresh_alloc al" and wf: "wf_heap h" and s: "c_text s"
  show "\<exists>p h'. get_ptr al s h = Inr (p, h')" using s by (simp add: get_ptr_ok c_text_def)
  assume put: "get_ptr al s h = Inr (p, h')"
  have utf8: "utf8_valid s" using s by (simp add: c_text_def)
  show "wf_heap h' \<and> p \<noteq> 0 \<and> h p = None \<and> (\<exists>b. blk_owner b = RustOwned \<and> h' = h(p \<mapsto> b))"
    using get_ptr_wf [OF put wf al utf8] by blast
  show "get_str p h' = Inr s"
    using get_ptr_wf [OF put wf al utf8] s by (auto simp: get_str_block c_text_def)
qed (rule get_str_local)

interpretation u8vec_port: value_port
  "\<lambda>(hx, al). hex_laws hx \<and> fresh_alloc al" "\<lambda>_. True"
  "\<lambda>(hx, al). get_ptr_from_u8vec hx al" "\<lambda>(hx, al). get_u8vec_from_ptr hx"
proof (unfold_locales, goal_cases)
  case (1 c h v)
  then show ?case
    by (cases c) (simp add: get_ptr_from_u8vec_def get_ptr_ok)
next
  case (2 c h v p h')
  then show ?case
    using str_port.put_block [of "snd c" h "to_hex (fst c) v" p h']
    by (cases c) (simp add: get_ptr_from_u8vec_def)
next
  case (3 c h v p h')
  then obtain hx al where c: "c = (hx, al)" "hex_laws hx" "fresh_alloc al"
      "get_ptr al (to_hex hx v) h = Inr (p, h')"
    by (cases c) (auto simp: get_ptr_from_u8vec_def)
  then have "get_str p h' = Inr (to_hex hx v)" using 3(2) by (intro str_port.get_put) auto
  with c show ?case by (simp add: get_u8vec_from_ptr_def)
next
  case (4 h p h' c)
  then show ?case by (cases c) (simp, rule get_u8vec_local)
qed

end
