(* ===== verification/Reference_Crates.thy ===== *)
theory Reference_Crates
  imports C_Strings
begin

section \<open>Reference instances of the crate interfaces\<close>

text \<open>
  Small executable instances of the crate records, each with the proof that it satisfies the
  laws of \<open>Crates\<close>. They are not the real algorithms (the hexadecimal codec is); they show
  that the laws can hold together, and the witnesses evaluate the model on them.
\<close>

subsection \<open>Words as fixed-length byte strings\<close>

definition word_le :: "bytes \<Rightarrow> 'a::len word" where
  "word_le b = word_of_nat (le_value b)"

lemma le_value_less: "le_value b < 256 ^ length b"
proof (induction b)
  case (Cons a b)
  have "unat a < 256" by simp
  then have "le_value (a # b) < 256 * Suc (le_value b)" by simp
  also have "\<dots> \<le> 256 * 256 ^ length b" using Cons by (intro mult_le_mono2) simp
  finally show ?case by simp
qed simp

lemma le_value_inject: "length a = length b \<Longrightarrow> le_value a = le_value b \<Longrightarrow> a = b"
proof (induction a b rule: list_induct2)
  case (Cons x xs y ys)
  have "unat x < 256" "unat y < 256" by simp_all
  with Cons.prems have "unat x = unat y" "le_value xs = le_value ys"
    by (metis le_value.simps(2) mod_mult_self2 mod_less)
      (metis Cons.prems \<open>unat x < 256\<close> \<open>unat y < 256\<close> add.commute div_mult_self2 div_less add_0
        le_value.simps(2) mult.commute numeral_eq_iff semiring_norm(85) zero_neq_numeral)
  then show ?case using Cons.IH by (simp add: word_unat_eq_iff)
qed simp

lemma bytes_le_word_le [simp]:
  assumes "8 * length b = LENGTH('a::len)"
  shows "bytes_le (length b) (word_le b :: 'a word) = b"
proof (rule le_value_inject)
  have "(256 :: nat) ^ length b = 2 ^ LENGTH('a)"
    by (simp add: assms [symmetric] power_mult)
  then have "le_value b < 2 ^ LENGTH('a)" using le_value_less [of b] by simp
  then show "le_value (bytes_le (length b) (word_le b :: 'a word)) = le_value b"
    by (simp add: le_value_bytes_le word_le_def unat_of_nat assms)
qed simp

lemma word_le_bytes_le [simp]:
  assumes "8 * n = LENGTH('a::len)"
  shows "word_le (bytes_le n (x :: 'a word)) = x"
  by (simp add: word_le_def le_value_bytes_le assms)

definition of_len :: "nat \<Rightarrow> bytes \<Rightarrow> 'a::len word option" where
  "of_len n b = (if length b = n then Some (word_le b) else None)"

lemma of_len_eq_Some: "of_len n b = Some w \<longleftrightarrow> length b = n \<and> w = word_le b"
  by (auto simp: of_len_def)

text \<open>An output of exactly \<open>n\<close> bytes.\<close>

definition pad :: "nat \<Rightarrow> bytes \<Rightarrow> bytes" where
  "pad n b = take n (b @ replicate n 0)"

lemma length_pad [simp]: "length (pad n b) = n"
  by (simp add: pad_def)

subsection \<open>Hexadecimal\<close>

definition hex_val :: "u8 \<Rightarrow> nat option" where
  "hex_val b = (let n = unat b in
     if 48 \<le> n \<and> n \<le> 57 then Some (n - 48)
     else if 97 \<le> n \<and> n \<le> 102 then Some (n - 87)
     else if 65 \<le> n \<and> n \<le> 70 then Some (n - 55)
     else None)"

abbreviation ref_to_hex :: "bytes \<Rightarrow> bytes" where
  "ref_to_hex \<equiv> hex_text"

fun ref_from_hex :: "bytes \<Rightarrow> bytes option" where
  "ref_from_hex [] = Some []"
| "ref_from_hex [c] = None"
| "ref_from_hex (c # d # r) =
     (case (hex_val c, hex_val d) of
        (Some x, Some y) \<Rightarrow> map_option ((#) (byte (16 * x + y))) (ref_from_hex r)
      | _ \<Rightarrow> None)"

definition ref_hex :: hex_api where
  "ref_hex = \<lparr>to_hex = ref_to_hex, from_hex = ref_from_hex\<rparr>"

lemma hex_val_char [simp]: "n < 16 \<Longrightarrow> hex_val (hex_char n) = Some n"
  by (auto simp: hex_val_def hex_char_def Let_def)

lemma hex_val_digit: "hex_val b = Some n \<Longrightarrow> is_hex_digit b"
  by (auto simp: hex_val_def is_hex_digit_def u8_nat Let_def split: if_splits)

lemma ref_from_to_hex: "ref_from_hex (ref_to_hex v) = Some v"
proof (induction v)
  case (Cons b v)
  with byte_nibbles [of b] show ?case by (simp add: mult.commute [of 16])
qed simp

lemma ref_from_hex_digits: "ref_from_hex s = Some v \<Longrightarrow> b \<in> set s \<Longrightarrow> is_hex_digit b"
  by (induction s arbitrary: v rule: ref_from_hex.induct)
    (auto split: option.splits dest: hex_val_digit)

lemma ref_hex_laws [simp]: "hex_laws ref_hex"
  unfolding hex_laws_def using ref_from_hex_digits
  by (auto simp: ref_hex_def ref_from_to_hex)

subsection \<open>The allocator\<close>

definition ref_alloc :: allocator where
  "ref_alloc h = Suc (Max (insert 0 (dom h)))"

lemma ref_alloc_fresh [simp]: "fresh_alloc ref_alloc"
proof -
  have "h (ref_alloc h) = None" if fin: "finite (dom h)" for h :: heap
  proof (rule ccontr)
    let ?s = "insert 0 (dom h)"
    assume "h (ref_alloc h) \<noteq> None"
    then have "Suc (Max ?s) \<in> ?s" by (auto simp: ref_alloc_def)
    with fin have "Suc (Max ?s) \<le> Max ?s" by (intro Max_ge) simp_all
    then show False by (simp only: Suc_n_not_le_n)
  qed
  then show ?thesis by (simp add: fresh_alloc_def ref_alloc_def)
qed

subsection \<open>Digests, MACs and mnemonics\<close>

text \<open>The state of a streaming digest is the input so far.\<close>

definition ref_hash :: "(bytes, bytes, u64 \<times> bytes, u64 \<times> bytes, u8 \<times> u32 \<times> u32) hash_api" where
  "ref_hash = \<lparr>
     blake2b_rfc = (\<lambda>n k d. if 1 \<le> n \<and> n \<le> 64 \<and> length k \<le> 64 then Some (pad n (d @ k)) else None),
     keccak_v256 = [], keccak_update = (@), keccak_finalize = (\<lambda>k n. pad n k),
     sha512_new = [], sha512_input = (@), sha512_result = pad 64,
     xx_with_seed = (\<lambda>s. (s, [])), xx_write = (\<lambda>(s, d) e. (s, d @ e)),
     xx_finish = (\<lambda>(s, d). s + word_le d),
     xx64_with_seed = (\<lambda>s. (s, [])), xx64_write = (\<lambda>(s, d) e. (s, d @ e)),
     xx64_finish = (\<lambda>(s, d). s + word_le d),
     le_write_u64 = (\<lambda>b x. if length b < 8 then None else Some (bytes_le 8 x @ drop 8 b)),
     be_write_u64 = (\<lambda>b x. if length b < 8 then None else Some (rev (bytes_le 8 x) @ drop 8 b)),
     pbkdf2_hmac_sha512 = (\<lambda>pw s c n. pad n (pw @ s)),
     scrypt_params_new = (\<lambda>l r p. if l = 0 \<or> r = 0 \<or> p = 0 then None else Some (l, r, p)),
     scrypt_hash = (\<lambda>pw s sp n. if n = 0 then None else Some (pad n (pw @ s)))\<rparr>"

lemma ref_hash_laws [simp]: "hash_laws ref_hash"
  by (simp add: hash_laws_def ref_hash_def)

definition ref_hmac :: "bytes hmac_api" where
  "ref_hmac = \<lparr>hmac_new_varkey = Some, hmac_input = (@), hmac_code = pad 64\<rparr>"

lemma ref_hmac_laws [simp]: "hmac_laws ref_hmac"
  by (simp add: hmac_laws_def ref_hmac_def)

text \<open>A mnemonic is its entropy, its phrase the entropy in hexadecimal.\<close>

definition entropy_lengths :: "nat list" where
  "entropy_lengths = [16, 20, 24, 28, 32]"

definition ref_bip39 :: "(nat, bytes, 512 word) bip39_api" where
  "ref_bip39 = \<lparr>
     for_word_count = (\<lambda>n. if n \<in> {12, 15, 18, 21, 24} then Some (n * 4 div 3) else None),
     mnemonic_new = (\<lambda>r t. pad t r),
     into_phrase = ref_to_hex,
     from_phrase = (\<lambda>s. case ref_from_hex s of
        Some e \<Rightarrow> if length e \<in> set entropy_lengths then Some e else None | None \<Rightarrow> None),
     validate_phrase = (\<lambda>s. case ref_from_hex s of
        Some e \<Rightarrow> length e \<in> set entropy_lengths | None \<Rightarrow> False),
     mnemonic_entropy = (\<lambda>m. m),
     seed_new = (\<lambda>m pw. word_le (m @ pw)),
     seed_as_bytes = bytes_le 64\<rparr>"

lemma ref_bip39_laws [simp]: "bip39_laws ref_bip39"
  using utf8_valid_to_hex [OF ref_hex_laws] nul_not_in_to_hex [OF ref_hex_laws]
  by (auto simp: bip39_laws_def ref_bip39_def ref_from_to_hex entropy_lengths_def ref_hex_def
      split: option.splits if_splits)

subsection \<open>Signatures\<close>

text \<open>
  A public key is a function of its secret key, by default plus one, a signature the public key and a digest of the
  message: enough to verify, and no more.
\<close>

type_synonym ref_ed_api =
  "(256 word, 256 word, 256 word \<times> 256 word, 256 word \<times> 256 word) ed_api"

definition ref_ed_with :: "(256 word \<Rightarrow> 256 word) \<Rightarrow> ref_ed_api" where
  "ref_ed_with f = \<lparr>
     ed_sk_from_bytes = of_len 32, ed_sk_to_bytes = bytes_le 32,
     ed_pk_of_sk = f, ed_pk_from_bytes = of_len 32, ed_pk_to_bytes = bytes_le 32,
     ed_kp_from_bytes = (\<lambda>b. if length b = 64
        then Some (word_le (take 32 b), word_le (drop 32 b)) else None),
     ed_kp_to_bytes = (\<lambda>(s, p). bytes_le 32 s @ bytes_le 32 p),
     ed_kp_sign = (\<lambda>(s, p) m. (p, word_le m)),
     ed_sig_try_from = (\<lambda>b. if length b = 64
        then Some (word_le (take 32 b), word_le (drop 32 b)) else None),
     ed_sig_to_bytes = (\<lambda>(r, t). bytes_le 32 r @ bytes_le 32 t),
     ed_pk_verify = (\<lambda>p m (r, t). r = p \<and> t = word_le m),
     ED_SECRET_KEY_LENGTH = 32, ED_KEYPAIR_LENGTH = 64, ED_SIGNATURE_LENGTH = 64\<rparr>"

definition ref_ed :: ref_ed_api where
  "ref_ed = ref_ed_with (\<lambda>s. s + 1)"

lemmas ref_ed_defs = ref_ed_def ref_ed_with_def

lemma bytes_le_word_le_take:
  fixes b :: bytes
  assumes "length b = m" "k \<le> m" "8 * k = LENGTH('a::len)"
  shows "bytes_le k (word_le (take k b) :: 'a word) = take k b"
  using bytes_le_word_le [where 'a = 'a, of "take k b"] assms by simp

lemma bytes_le_word_le_drop:
  fixes b :: bytes
  assumes "length b = m" "8 * (m - k) = LENGTH('a::len)"
  shows "bytes_le (m - k) (word_le (drop k b) :: 'a word) = drop k b"
  using bytes_le_word_le [where 'a = 'a, of "drop k b"] assms by simp

lemma ref_ed_with_laws [simp]: "ed_laws (ref_ed_with f)"
  unfolding ed_laws_def
proof (intro conjI allI impI)
  fix b s
  show "ed_sk_from_bytes (ref_ed_with f) b = Some s \<Longrightarrow> ed_sk_to_bytes (ref_ed_with f) s = b"
    using bytes_le_word_le [where 'a = 256, of b] by (auto simp: ref_ed_with_def of_len_eq_Some)
  show "ed_pk_from_bytes (ref_ed_with f) b = Some s \<Longrightarrow> ed_pk_to_bytes (ref_ed_with f) s = b"
    using bytes_le_word_le [where 'a = 256, of b] by (auto simp: ref_ed_with_def of_len_eq_Some)
next
  fix b k
  assume "ed_kp_from_bytes (ref_ed_with f) b = Some k"
  then show "length b = 64" and "ed_kp_to_bytes (ref_ed_with f) k = b"
    using bytes_le_word_le_take [where 'a = 256 and b = b and m = 64 and k = 32]
      bytes_le_word_le_drop [where 'a = 256 and b = b and m = 64 and k = 32]
    by (auto simp: ref_ed_with_def split: if_splits)
qed (auto simp: ref_ed_with_def of_len_def split: if_splits prod.splits)

lemma ref_ed_laws [simp]: "ed_laws ref_ed"
  by (simp add: ref_ed_def)

type_synonym ref_sr_api =
  "(256 word, 512 word, 256 word, 512 word \<times> 256 word, 256 word \<times> 256 word) sr_api"

definition ref_sr_with :: "(256 word \<Rightarrow> 256 word) \<Rightarrow> ref_sr_api" where
  "ref_sr_with f = \<lparr>
     msk_from_bytes = of_len 32,
     expand_to_keypair_ed25519 = (\<lambda>m. (ucast m, f m)),
     kp_from_half_ed25519 = (\<lambda>b. if length b = 96
        then Some (word_le (take 64 b), word_le (drop 64 b)) else None),
     kp_to_half_ed25519 = (\<lambda>(s, p). bytes_le 64 s @ bytes_le 32 p),
     kp_secret = fst, kp_public = snd,
     hard_derive_mini_secret_key = (\<lambda>s cc i. (ucast s + word_le (the cc @ i), the cc)),
     kp_derived_key_simple = (\<lambda>r (s, p) cc i. ((s + word_le r, p + word_le cc), cc)),
     pk_derived_key_simple = (\<lambda>p cc i. (p + word_le cc, cc)),
     sr_pk_from_bytes = of_len 32, sr_pk_to_bytes = bytes_le 32,
     sr_sk_from_ed25519 = of_len 64,
     sr_sign_simple = (\<lambda>r s c m p. (p, word_le (c @ m))),
     sr_sig_from_bytes = (\<lambda>b. if length b = 64
        then Some (word_le (take 32 b), word_le (drop 32 b)) else None),
     sr_sig_to_bytes = (\<lambda>(r, t). bytes_le 32 r @ bytes_le 32 t),
     sr_verify_simple = (\<lambda>p c m (r, t). r = p \<and> t = word_le (c @ m)),
     SECRET_KEY_LENGTH = 64, KEYPAIR_LENGTH = 96, SIGNATURE_LENGTH = 64\<rparr>"

definition ref_sr :: ref_sr_api where
  "ref_sr = ref_sr_with (\<lambda>m. m + 1)"

lemmas ref_sr_defs = ref_sr_def ref_sr_with_def

lemma ref_sr_with_laws [simp]: "sr_laws (ref_sr_with f)"
  unfolding sr_laws_def
  by (intro conjI allI impI) (auto simp: ref_sr_with_def of_len_def split: if_splits prod.splits)

lemma ref_sr_laws [simp]: "sr_laws ref_sr"
  by (simp add: ref_sr_def)

subsection \<open>secp256k1 and derivation paths\<close>

definition ref_secp :: "(256 word, 256 word, 256 word, 32 word, bytes) secp_api" where
  "ref_secp = \<lparr>
     secp_sk_from_slice = of_len 32,
     secp_pk_from_secret_key = (\<lambda>s. s + 1),
     secp_pk_serialize = (\<lambda>p. 2 # bytes_le 32 p),
     secp_pk_from_slice = (\<lambda>b. case b of [] \<Rightarrow> None
        | t # r \<Rightarrow> if t = 2 \<and> length r = 32 then Some (word_le r)
                   else if t = 4 \<and> length r = 64 then Some (word_le (take 32 r)) else None),
     secp_message_from_slice = of_len 32,
     recovery_id_from_i32 = (\<lambda>i. if 0 \<le> sint i \<and> sint i \<le> 3 then Some i else None),
     recoverable_from_compact = (\<lambda>b i. if length b = 64 then Some b else None),
     secp_recover = (\<lambda>m s. Some (m + word_le s))\<rparr>"

lemma ref_secp_laws [simp]: "secp_laws ref_secp"
  unfolding secp_laws_def
  by (intro conjI allI impI) (auto simp: ref_secp_def of_len_def split: if_splits)

text \<open>A path is a string of bytes below 128 for hardened indices, the others are normal.\<close>

definition ref_dp :: dp_api where
  "ref_dp = \<lparr>
     dp_parse = (\<lambda>s. Some (map (\<lambda>b. if b < 128 then Hardened (ucast b) else Normal (ucast b)) s)),
     ci_is_normal = (\<lambda>i. \<not> is_hardened i),
     ci_to_bits = (\<lambda>i. case i of Normal n \<Rightarrow> n | Hardened n \<Rightarrow> or n (2 ^ 31))\<rparr>"

lemma ref_dp_laws [simp]: "dp_laws ref_dp"
  by (simp add: dp_laws_def ref_dp_def)

end
