(* ===== verification/Boundary.thy ===== *)
theory Boundary
  imports Reference_Crates
begin

section \<open>What the FFI boundary guarantees\<close>

text \<open>
  The properties of \<open>util.rs\<close> and \<open>rust_cstr_free\<close>, from the lemmas and the two ports of
  \<open>C_Strings\<close>, with witnesses on the reference instances.
\<close>

lemma get_str_undefined_iff: "no_undefined (get_str p h) \<longleftrightarrow> readable p h"
  by (auto simp: get_str_def CStr_from_ptr_def readable_iff split: option.splits)

lemma get_u8vec_undefined_iff: "no_undefined (get_u8vec_from_ptr hx p h) \<longleftrightarrow> readable p h"
proof (cases "readable p h")
  case False
  then have "\<not> no_undefined (get_str p h)" by (simp add: get_str_undefined_iff)
  then show ?thesis using False by (cases "get_str p h") (auto simp: get_u8vec_from_ptr_def)
qed (simp add: readable_no_undefined)

definition demo_heap :: "bytes \<Rightarrow> heap" where
  "demo_heap s = [16 \<mapsto> \<lparr>blk_owner = Foreign, blk_bytes = s @ [0]\<rparr>]"

lemma wf_demo_heap [simp]: "wf_heap (demo_heap s)"
  by (auto simp: demo_heap_def wf_heap_def split: if_splits)

text \<open>
  C12: what \<open>get_str\<close> accepts. From a live, terminated block it returns the bytes in front of
  the first NUL if they are the UTF-8 encoding of a sequence of Unicode scalar values, and the
  message \<open>Error: input string error\<close> otherwise; it panics in no case.
\<close>

theorem get_str_accepts_encodings:
  assumes "p \<noteq> 0" and "h p = Some b" and "blk_bytes b = s @ 0 # r" and "0 \<notin> set s"
  shows "get_str p h = Inr
    (if \<exists>cs. (\<forall>c\<in>set cs. is_scalar c) \<and> s = concat (map utf8_encode cs)
     then s else input_string_error)"
proof -
  have "c_string (blk_bytes b) = Some s" using assms(3,4) by simp
  then show ?thesis
    using get_str_block [of p h b, OF assms(1,2)] utf8_valid_iff_encodings [of s] by auto
qed

theorem get_str_accepts_encodings_witness:
  "get_str 16 (demo_heap [0xE2, 0x82, 0xAC]) = Inr [0xE2, 0x82, 0xAC]
   \<and> get_str 16 (demo_heap [0xC0, 0x80]) = Inr input_string_error"
proof -
  have euro: "\<exists>cs. (\<forall>c\<in>set cs. is_scalar c) \<and> [0xE2, 0x82, 0xAC :: u8] = concat (map utf8_encode cs)"
    using utf8_valid_iff_encodings [of "[0xE2, 0x82, 0xAC]"] by (simp add: u8_nat second3_def is_cont_def)
  have overlong: "\<not> (\<exists>cs. (\<forall>c\<in>set cs. is_scalar c) \<and> [0xC0, 0x80 :: u8] = concat (map utf8_encode cs))"
    using utf8_valid_iff_encodings [of "[0xC0, 0x80]"] by (simp add: u8_nat second3_def is_cont_def)
  have "get_str 16 (demo_heap [0xE2, 0x82, 0xAC]) = Inr [0xE2, 0x82, 0xAC]"
    using euro get_str_accepts_encodings [of 16 "demo_heap [0xE2, 0x82, 0xAC]" _ "[0xE2, 0x82, 0xAC]" "[]"]
    by (simp add: demo_heap_def)
  moreover have "get_str 16 (demo_heap [0xC0, 0x80]) = Inr input_string_error"
    using get_str_accepts_encodings [of 16 "demo_heap [0xC0, 0x80]" _ "[0xC0, 0x80]" "[]"]
    unfolding if_not_P [OF overlong] by (simp add: demo_heap_def)
  ultimately show ?thesis ..
qed

text \<open>
  C34: reading is undefined behaviour exactly for the pointers that the caller must not pass:
  null, dangling or without a terminator. From every other pointer \<open>get_str\<close> returns valid
  UTF-8 without NUL, which \<open>get_ptr\<close> can always pass back, and \<open>get_u8vec_from_ptr\<close> returns or
  panics with its own message.
\<close>

theorem reading_is_defined_iff_readable:
  "(no_undefined (get_str p h) \<longleftrightarrow> readable p h)
   \<and> (no_undefined (get_u8vec_from_ptr hx p h) \<longleftrightarrow> readable p h)
   \<and> (readable p h \<longrightarrow> (\<exists>s r. get_str p h = Inr s \<and> utf8_valid s \<and> get_ptr al s h = Inr r))
   \<and> (readable p h \<longrightarrow> (\<exists>v. get_u8vec_from_ptr hx p h = Inr v)
        \<or> get_u8vec_from_ptr hx p h
            = Inl (Panic (ExplicitPanic ''Error: get_u8vec_from_ptr failed'')))"
proof -
  have "\<exists>s r. get_str p h = Inr s \<and> utf8_valid s \<and> get_ptr al s h = Inr r" if ok: "readable p h"
  proof -
    obtain b t where b: "p \<noteq> 0" "h p = Some b" "c_string (blk_bytes b) = Some t"
      using ok by (auto simp: readable_iff)
    have "0 \<notin> set t" using c_string_Some [OF b(3)] by blast
    moreover have "0 \<notin> set input_string_error" by (simp add: input_string_error_def)
    ultimately show ?thesis
      using get_str_block [of p h b, OF b] get_str_utf8_valid [of p h] by (auto simp: get_ptr_ok)
  qed
  moreover have "(\<exists>v. get_u8vec_from_ptr hx p h = Inr v) \<or> get_u8vec_from_ptr hx p h
      = Inl (Panic (ExplicitPanic ''Error: get_u8vec_from_ptr failed''))" if ok: "readable p h"
  proof -
    obtain s where "get_str p h = Inr s" using readable_get_str [OF ok] by blast
    then show ?thesis by (cases "from_hex hx s") (simp_all add: get_u8vec_from_ptr_def)
  qed
  ultimately show ?thesis using get_str_undefined_iff get_u8vec_undefined_iff by blast
qed

theorem reading_is_defined_iff_readable_witness:
  "\<not> no_undefined (get_str 7 (demo_heap [97]))
   \<and> (\<exists>s r. get_str 16 (demo_heap [97]) = Inr s \<and> get_ptr ref_alloc s (demo_heap [97]) = Inr r)"
proof -
  have "\<not> readable 7 (demo_heap [97])" "readable 16 (demo_heap [97])"
    by (simp_all add: readable_iff demo_heap_def)
  then show ?thesis
    using reading_is_defined_iff_readable [of 7 "demo_heap [97]" ref_hex ref_alloc]
      reading_is_defined_iff_readable [of 16 "demo_heap [97]" ref_hex ref_alloc] by blast
qed

text \<open>
  C21: values survive the trip through C memory. Strings without NUL that are put into memory
  one after the other get distinct fresh pointers, disturb no block that was there, and are all
  read back unchanged; the same holds for arbitrary byte vectors in hexadecimal.
\<close>

theorem values_cross_the_boundary:
  assumes "hex_laws hx" and "fresh_alloc al" and "wf_heap h" and "\<forall>s\<in>set ss. c_text s"
  shows "(\<exists>ps h'. put_all (get_ptr al) ss h = Inr (ps, h') \<and> wf_heap h' \<and> distinct ps
        \<and> map (\<lambda>p. get_str p h') ps = map Inr ss \<and> (\<forall>q. h q \<noteq> None \<longrightarrow> h' q = h q))
    \<and> (\<exists>ps h'. put_all (get_ptr_from_u8vec hx al) vs h = Inr (ps, h') \<and> wf_heap h' \<and> distinct ps
        \<and> map (\<lambda>p. get_u8vec_from_ptr hx p h') ps = map Inr vs \<and> (\<forall>q. h q \<noteq> None \<longrightarrow> h' q = h q))"
proof
  show "\<exists>ps h'. put_all (get_ptr al) ss h = Inr (ps, h') \<and> wf_heap h' \<and> distinct ps
        \<and> map (\<lambda>p. get_str p h') ps = map Inr ss \<and> (\<forall>q. h q \<noteq> None \<longrightarrow> h' q = h q)"
    using str_port.put_all_get [OF assms(2-4)] by blast
  show "\<exists>ps h'. put_all (get_ptr_from_u8vec hx al) vs h = Inr (ps, h') \<and> wf_heap h' \<and> distinct ps
        \<and> map (\<lambda>p. get_u8vec_from_ptr hx p h') ps = map Inr vs \<and> (\<forall>q. h q \<noteq> None \<longrightarrow> h' q = h q)"
    using u8vec_port.put_all_get [of "(hx, al)" h vs] assms by auto
qed

theorem values_cross_the_boundary_witness:
  "\<exists>ps h'. put_all (get_ptr_from_u8vec ref_hex ref_alloc) [[1, 255], []] (demo_heap [97]) = Inr (ps, h')
     \<and> map (\<lambda>p. get_u8vec_from_ptr ref_hex p h') ps = [Inr [1, 255], Inr []]"
  using values_cross_the_boundary [OF ref_hex_laws ref_alloc_fresh wf_demo_heap,
      of "[]" "[97]" "[[1, 255], []]"] by auto

text \<open>
  C30: \<open>rust_cstr_free\<close>. Null is ignored; freeing a pointer that \<open>get_ptr\<close> gave out restores the
  memory as it was before; a second free, or a free of a block of the foreign side, is
  undefined behaviour.
\<close>

theorem free_undoes_get_ptr:
  assumes "fresh_alloc al" and "wf_heap h" and "c_text s" and "get_ptr al s h = Inr (p, h')"
  shows "rust_cstr_free 0 h = Inr h
    \<and> rust_cstr_free p h' = Inr h
    \<and> rbind (rust_cstr_free p h') (rust_cstr_free p) = Inl (Undefined DanglingPointer)
    \<and> (\<forall>q b. q \<noteq> 0 \<and> h q = Some b \<and> blk_owner b = Foreign \<longrightarrow>
         rust_cstr_free q h = Inl (Undefined NotFromIntoRaw))"
proof -
  have "rust_cstr_free q h = Inl (Undefined NotFromIntoRaw)"
    if "q \<noteq> 0" "h q = Some b" "blk_owner b = Foreign" for q b
    using that by (simp add: rust_cstr_free_def)
  moreover have "rust_cstr_free 0 h = Inr h" by (simp add: rust_cstr_free_def)
  ultimately show ?thesis
    using str_port.put_free [OF assms] str_port.put_free_twice [OF assms] by blast
qed

theorem free_undoes_get_ptr_witness:
  "\<exists>p h'. get_ptr ref_alloc [104, 105] (demo_heap [97]) = Inr (p, h')
     \<and> rust_cstr_free p h' = Inr (demo_heap [97])
     \<and> rust_cstr_free 16 (demo_heap [97]) = Inl (Undefined NotFromIntoRaw)"
proof -
  have ct: "c_text [104, 105]" by (simp add: c_text_def u8_nat)
  then obtain p h' where put: "get_ptr ref_alloc [104, 105] (demo_heap [97]) = Inr (p, h')"
    using str_port.put_total [OF ref_alloc_fresh wf_demo_heap] by blast
  have "demo_heap [97] 16 = Some \<lparr>blk_owner = Foreign, blk_bytes = [97, 0]\<rparr>"
    by (simp add: demo_heap_def)
  then show ?thesis
    using free_undoes_get_ptr [OF ref_alloc_fresh wf_demo_heap ct put] put by fastforce
qed

end
