(* ===== verification/Hashing.thy ===== *)
theory Hashing
  imports Reference_Crates
begin

section \<open>Hashing (\<open>hashing.rs\<close>)\<close>

text \<open>
  The hash wrappers. \<open>create_twox\<close> and \<open>ext_xxhash\<close> turn a 64-bit digest into bytes, little
  endian and big endian; \<open>ext_twox\<close> concatenates one digest per round, in the loop
  \<open>twox_loop\<close> over the \<open>u32\<close> round numbers; the others call one crate function each.
\<close>

definition create_twox :: "('kec, 'sha, 'xx, 'xx64, 'sp) hash_api \<Rightarrow> bytes \<Rightarrow> u64 \<Rightarrow> bytes res"
where
  "create_twox ha data seed =
     (let hasher = xx_write ha (xx_with_seed ha seed) data;
          hash64 = xx_finish ha hasher
      in crate_call (le_write_u64 ha (replicate 8 0) hash64))"

definition ext_blake2b ::
    "('kec, 'sha, 'xx, 'xx64, 'sp) hash_api \<Rightarrow> bytes \<Rightarrow> bytes \<Rightarrow> u32 \<Rightarrow> bytes res" where
  "ext_blake2b ha data key sz = crate_call (blake2b_rfc ha (unat sz) key data)"

definition ext_keccak256 :: "('kec, 'sha, 'xx, 'xx64, 'sp) hash_api \<Rightarrow> bytes \<Rightarrow> bytes res" where
  "ext_keccak256 ha data =
     (let keccak = keccak_update ha (keccak_v256 ha) data in Inr (keccak_finalize ha keccak 32))"

definition ext_pbkdf2 ::
    "('kec, 'sha, 'xx, 'xx64, 'sp) hash_api \<Rightarrow> bytes \<Rightarrow> bytes \<Rightarrow> u32 \<Rightarrow> bytes res" where
  "ext_pbkdf2 ha data salt rounds = Inr (pbkdf2_hmac_sha512 ha data salt (unat rounds) 64)"

definition ext_scrypt ::
    "('kec, 'sha, 'xx, 'xx64, 'sp) hash_api \<Rightarrow> bytes \<Rightarrow> bytes \<Rightarrow> u8 \<Rightarrow> u32 \<Rightarrow> u32 \<Rightarrow> bytes res"
where
  "ext_scrypt ha password salt log2_n r p =
     rbind (unwrap (scrypt_params_new ha log2_n r p)) (\<lambda>params.
       case scrypt_hash ha password salt params 64 of
         Some result \<Rightarrow> Inr result
       | None \<Rightarrow> Inl (Panic (ExplicitPanic ''Invalid scrypt hash.'')))"

definition ext_sha512 :: "('kec, 'sha, 'xx, 'xx64, 'sp) hash_api \<Rightarrow> bytes \<Rightarrow> bytes res" where
  "ext_sha512 ha data = Inr (sha512_result ha (sha512_input ha (sha512_new ha) data))"

text \<open>\<open>for round in 0..rounds\<close>: the counter stays below \<open>rounds\<close>, so it never wraps.\<close>

lemma unat_Suc_round: "round < rounds \<Longrightarrow> unat (round + 1 :: u32) = Suc (unat round)"
  using unsigned_less [of rounds, where ?'a = nat]
  by (simp add: unat_word_ariths word_less_nat_alt)

function twox_loop ::
    "('kec, 'sha, 'xx, 'xx64, 'sp) hash_api \<Rightarrow> bytes \<Rightarrow> u32 \<Rightarrow> u32 \<Rightarrow> bytes \<Rightarrow> bytes res" where
  "twox_loop ha data round rounds vec =
     (if round < rounds
      then rbind (create_twox ha data (ucast round)) (\<lambda>t.
             twox_loop ha data (round + 1) rounds (vec @ t))
      else Inr vec)"
  by pat_completeness auto
termination
  by (relation "measure (\<lambda>(ha, data, round, rounds, vec). unat rounds - unat round)")
    (auto simp: unat_Suc_round word_less_nat_alt)

declare twox_loop.simps [simp del]

definition ext_twox :: "('kec, 'sha, 'xx, 'xx64, 'sp) hash_api \<Rightarrow> bytes \<Rightarrow> u32 \<Rightarrow> bytes res" where
  "ext_twox ha data rounds = twox_loop ha data 0 rounds []"

definition ext_xxhash :: "('kec, 'sha, 'xx, 'xx64, 'sp) hash_api \<Rightarrow> bytes \<Rightarrow> u32 \<Rightarrow> bytes res" where
  "ext_xxhash ha data seed =
     (let hasher = xx64_write ha (xx64_with_seed ha (ucast seed)) data;
          hash64 = xx64_finish ha hasher
      in crate_call (be_write_u64 ha (replicate 8 0) hash64))"

subsection \<open>The digest of one seed\<close>

definition xx64 :: "('kec, 'sha, 'xx, 'xx64, 'sp) hash_api \<Rightarrow> bytes \<Rightarrow> u64 \<Rightarrow> u64" where
  "xx64 ha data seed = xx64_finish ha (xx64_write ha (xx64_with_seed ha seed) data)"

lemma create_twox_eq: "hash_laws ha \<Longrightarrow> create_twox ha data seed = Inr (bytes_le 8 (xx64 ha data seed))"
  by (simp add: create_twox_def xx64_def hash_lawsD(5,9))

lemma ext_xxhash_eq:
  "hash_laws ha \<Longrightarrow> ext_xxhash ha data seed = Inr (rev (bytes_le 8 (xx64 ha data (ucast seed))))"
  by (simp add: ext_xxhash_def xx64_def hash_lawsD(6))

definition twox_chunks :: "('kec, 'sha, 'xx, 'xx64, 'sp) hash_api \<Rightarrow> bytes \<Rightarrow> nat \<Rightarrow> nat \<Rightarrow> bytes"
where
  "twox_chunks ha data i n = concat (map (\<lambda>k. bytes_le 8 (xx64 ha data (word_of_nat k))) [i..<n])"

text \<open>The loop invariant: what is left to append are the chunks of the rounds still to come.\<close>

lemma twox_loop_eq:
  assumes "hash_laws ha"
  shows "twox_loop ha data round rounds vec = Inr (vec @ twox_chunks ha data (unat round) (unat rounds))"
  using assms
proof (induction ha data round rounds vec rule: twox_loop.induct)
  case (1 ha data round rounds vec)
  show ?case
  proof (cases "round < rounds")
    case True
    let ?t = "bytes_le 8 (xx64 ha data (ucast round))"
    have ct: "create_twox ha data (ucast round) = Inr ?t" by (rule create_twox_eq [OF "1.prems"])
    have "twox_loop ha data round rounds vec = twox_loop ha data (round + 1) rounds (vec @ ?t)"
      using True by (simp add: twox_loop.simps [of ha data round] ct)
    also have "\<dots> = Inr ((vec @ ?t) @ twox_chunks ha data (unat (round + 1)) (unat rounds))"
      by (rule "1.IH" [OF True ct "1.prems"])
    also have "(vec @ ?t) @ twox_chunks ha data (unat (round + 1)) (unat rounds)
        = vec @ twox_chunks ha data (unat round) (unat rounds)"
      using True
      by (simp add: twox_chunks_def unat_Suc_round [OF True] upt_conv_Cons word_less_nat_alt)
    finally show ?thesis .
  next
    case False
    then show ?thesis
      by (simp add: twox_loop.simps [of ha data round] twox_chunks_def word_less_nat_alt)
  qed
qed

lemma ext_twox_eq: "hash_laws ha \<Longrightarrow> ext_twox ha data rounds = Inr (twox_chunks ha data 0 (unat rounds))"
  by (simp add: ext_twox_def twox_loop_eq)

lemma length_twox_chunks [simp]: "length (twox_chunks ha data 0 n) = 8 * n"
  by (induction n) (simp_all add: twox_chunks_def)

lemma twox_chunks_Suc:
  "twox_chunks ha data 0 (Suc n) = twox_chunks ha data 0 n @ bytes_le 8 (xx64 ha data (word_of_nat n))"
  by (simp add: twox_chunks_def)

lemma take_twox_chunks:
  "m \<le> n \<Longrightarrow> take (8 * m) (twox_chunks ha data 0 n) = twox_chunks ha data 0 m"
proof (induction n)
  case (Suc n)
  then show ?case by (cases "m = Suc n") (simp_all add: twox_chunks_Suc)
qed (simp add: twox_chunks_def)

lemma twox_chunks_nth:
  assumes "k < n"
  shows "take 8 (drop (8 * k) (twox_chunks ha data 0 n)) = bytes_le 8 (xx64 ha data (word_of_nat k))"
proof -
  have "take 8 (drop (8 * k) (twox_chunks ha data 0 n))
      = drop (8 * k) (take (8 * Suc k) (twox_chunks ha data 0 n))"
    by (simp add: take_drop)
  also have "\<dots> = drop (8 * k) (twox_chunks ha data 0 (Suc k))"
    using assms by (simp only: take_twox_chunks Suc_leI)
  finally show ?thesis by (simp add: twox_chunks_Suc)
qed

lemma ext_blake2b_result:
  assumes "hash_laws ha"
  shows "if sz = 0 \<or> 64 < unat sz \<or> 64 < length key
    then ext_blake2b ha data key sz = Inl (Panic CrateAssert)
    else \<exists>v. ext_blake2b ha data key sz = Inr v \<and> length v = unat sz"
proof -
  have nz: "1 \<le> unat sz \<longleftrightarrow> sz \<noteq> 0" by (simp add: Suc_le_eq unat_gt_0)
  show ?thesis
    using hash_lawsD(1) [OF assms, of "unat sz" key data] nz
      hash_lawsD(2) [OF assms, of "unat sz" key data]
    by (cases "blake2b_rfc ha (unat sz) key data") (auto simp: ext_blake2b_def)
qed

lemma ext_scrypt_result:
  assumes "hash_laws ha"
  shows "if scrypt_params_new ha l r p = None
    then ext_scrypt ha pw salt l r p = Inl (Panic UnwrapErr)
    else \<exists>v. ext_scrypt ha pw salt l r p = Inr v \<and> length v = 64"
proof (cases "scrypt_params_new ha l r p")
  case (Some sp)
  obtain v where "scrypt_hash ha pw salt sp 64 = Some v" "length v = 64"
    using hash_lawsD(8) [OF assms, of 64 pw salt sp] by auto
  with Some show ?thesis by (simp add: ext_scrypt_def)
qed (simp add: ext_scrypt_def)

subsection \<open>Properties\<close>

text \<open>
  C25: \<open>ext_twox\<close> returns eight bytes per round, for every round count of a \<open>u32\<close>, and the
  eight bytes of round \<open>k\<close> are the little-endian digest of the data with seed \<open>k\<close>.
\<close>

theorem ext_twox_rounds:
  assumes "hash_laws ha"
  shows "\<exists>v. ext_twox ha data rounds = Inr v \<and> length v = 8 * unat rounds
    \<and> (\<forall>k < unat rounds. le_value (take 8 (drop (8 * k) v)) = unat (xx64 ha data (word_of_nat k)))"
  using assms by (simp add: ext_twox_eq twox_chunks_nth)

theorem ext_twox_rounds_witness:
  "\<exists>v. ext_twox ref_hash [1, 2] 3 = Inr v \<and> length v = 24
    \<and> le_value (take 8 (drop 16 v)) = unat (xx64 ref_hash [1, 2] 2)"
  using ext_twox_rounds [OF ref_hash_laws, of "[1, 2]" 3] by (auto dest!: spec [where x = 2])

text \<open>
  Fewer rounds give a prefix: the 64-bit, 128-bit and 256-bit hashes of the same data
  start with the same bytes.
\<close>

theorem ext_twox_prefix:
  assumes "hash_laws ha" and "m \<le> n" and "ext_twox ha data n = Inr v"
  shows "ext_twox ha data m = Inr (take (8 * unat m) v)"
  using assms by (auto simp: ext_twox_eq take_twox_chunks word_le_nat_alt)

theorem ext_twox_prefix_witness:
  "ext_twox ref_hash [7] 2 = Inr (take 16 (twox_chunks ref_hash [7] 0 4))"
  using ext_twox_prefix [of ref_hash 2 4 "[7]"] by (simp add: ext_twox_eq)

text \<open>
  \<open>ext_xxhash\<close> with seed 0 is one round of \<open>ext_twox\<close> read in the opposite byte order, and
  different 64-bit digests never give the same bytes.
\<close>

theorem ext_xxhash_reverses_twox:
  assumes "hash_laws ha"
  shows "ext_xxhash ha data 0 = rbind (ext_twox ha data 1) (\<lambda>v. Inr (rev v))
    \<and> (ext_xxhash ha data s = ext_xxhash ha data' s'
         \<longleftrightarrow> xx64 ha data (ucast s) = xx64 ha data' (ucast s'))"
  using assms by (simp add: ext_xxhash_eq ext_twox_eq twox_chunks_def)

theorem ext_xxhash_reverses_twox_witness:
  "ext_xxhash ref_hash [97] 0 = rbind (ext_twox ref_hash [97] 1) (\<lambda>v. Inr (rev v))"
  using ext_xxhash_reverses_twox [OF ref_hash_laws] by blast

text \<open>
  What the wrappers accept and how much they return. \<open>ext_blake2b\<close> returns \<open>size\<close> bytes
  for sizes 1 to 64 with a key of at most 64 bytes and panics otherwise; \<open>ext_scrypt\<close> panics
  exactly on parameters that the crate rejects; \<open>ext_sha512\<close>, \<open>ext_pbkdf2\<close> and \<open>ext_scrypt\<close>
  return 64 bytes and \<open>ext_keccak256\<close> 32.
\<close>

theorem hash_wrapper_results:
  assumes "hash_laws ha"
  shows "(if sz = 0 \<or> 64 < unat sz \<or> 64 < length key
            then ext_blake2b ha data key sz = Inl (Panic CrateAssert)
            else \<exists>v. ext_blake2b ha data key sz = Inr v \<and> length v = unat sz)
    \<and> (if scrypt_params_new ha l r p = None
        then ext_scrypt ha data salt l r p = Inl (Panic UnwrapErr)
        else \<exists>v. ext_scrypt ha data salt l r p = Inr v \<and> length v = 64)
    \<and> (\<exists>v. ext_sha512 ha data = Inr v \<and> length v = 64)
    \<and> (\<exists>v. ext_pbkdf2 ha data salt rounds = Inr v \<and> length v = 64)
    \<and> (\<exists>v. ext_keccak256 ha data = Inr v \<and> length v = 32)"
  using ext_blake2b_result [OF assms, where data = data and key = key and sz = sz]
    ext_scrypt_result [OF assms, where pw = data and salt = salt and l = l and r = r and p = p]
    hash_lawsD(3,4,7) [OF assms]
  by (simp add: ext_sha512_def ext_pbkdf2_def ext_keccak256_def Let_def)

theorem hash_wrapper_results_witness:
  "ext_blake2b ref_hash [1] [] 65 = Inl (Panic CrateAssert)
   \<and> (\<exists>v. ext_blake2b ref_hash [1] [] 32 = Inr v \<and> length v = 32)
   \<and> ext_scrypt ref_hash [1] [] 0 8 1 = Inl (Panic UnwrapErr)"
  using hash_wrapper_results [OF ref_hash_laws, where data = "[1]" and key = "[]" and sz = 65]
    hash_wrapper_results [OF ref_hash_laws, where data = "[1]" and key = "[]" and sz = 32]
    hash_wrapper_results [OF ref_hash_laws, where data = "[1]" and salt = "[]" and l = 0 and r = 8
      and p = 1]
  by (simp add: ref_hash_def)

end
