(* ===== verification/Bip39.thy ===== *)
theory Bip39
  imports Hashing
begin

section \<open>BIP-39 phrases (\<open>bip39.rs\<close>)\<close>

text \<open>
  The mnemonic wrappers. The word list, the checksum and the seed derivation are those of the
  crate; the wrappers choose the word count, unwrap the parse result and cut the outputs to
  their first 32 bytes. \<open>rng\<close> stands for the entropy that \<open>Mnemonic::new\<close> draws.
\<close>

definition ext_bip39_generate :: "('mt, 'mn, 'sd) bip39_api \<Rightarrow> bytes \<Rightarrow> u32 \<Rightarrow> bytes res" where
  "ext_bip39_generate bp rng words =
     rbind (unwrap (for_word_count bp (unat words))) (\<lambda>mtype.
       Inr (into_phrase bp (mnemonic_new bp rng mtype)))"

definition ext_bip39_to_entropy :: "('mt, 'mn, 'sd) bip39_api \<Rightarrow> bytes \<Rightarrow> bytes res" where
  "ext_bip39_to_entropy bp phrase =
     rbind (unwrap (from_phrase bp phrase)) (\<lambda>m. Inr (mnemonic_entropy bp m))"

definition ext_bip39_to_mini_secret ::
    "('mt, 'mn, 'sd) bip39_api \<Rightarrow> ('kec, 'sha, 'xx, 'xx64, 'sp) hash_api \<Rightarrow> bytes \<Rightarrow> bytes \<Rightarrow> bytes res"
where
  "ext_bip39_to_mini_secret bp ha phrase password =
     (let salt = lit ''mnemonic'' @ password in
      rbind (unwrap (from_phrase bp phrase)) (\<lambda>mnemonic.
        slice_to 32 (pbkdf2_hmac_sha512 ha (mnemonic_entropy bp mnemonic) salt 2048 64)))"

definition ext_bip39_to_seed :: "('mt, 'mn, 'sd) bip39_api \<Rightarrow> bytes \<Rightarrow> bytes \<Rightarrow> bytes res" where
  "ext_bip39_to_seed bp phrase password =
     rbind (unwrap (from_phrase bp phrase)) (\<lambda>mnemonic.
       slice_to 32 (seed_as_bytes bp (seed_new bp mnemonic password)))"

definition ext_bip39_validate :: "('mt, 'mn, 'sd) bip39_api \<Rightarrow> bytes \<Rightarrow> bool" where
  "ext_bip39_validate bp phrase = validate_phrase bp phrase"

subsection \<open>The wrappers under the crate's laws\<close>

lemma ext_bip39_validate_iff:
  "bip39_laws bp \<Longrightarrow> ext_bip39_validate bp p \<longleftrightarrow> (\<exists>m. from_phrase bp p = Some m)"
  using bip39_lawsD(2) [of bp p] by (auto simp: ext_bip39_validate_def)

lemma bip39_valid_cases:
  assumes "bip39_laws bp"
  obtains (valid) m where "ext_bip39_validate bp p" "from_phrase bp p = Some m"
  | (invalid) "\<not> ext_bip39_validate bp p" "from_phrase bp p = None"
  using ext_bip39_validate_iff [OF assms, of p] by (cases "from_phrase bp p") auto

lemma ext_bip39_to_mini_secret_valid:
  assumes "hash_laws ha" "from_phrase bp p = Some m"
  shows "ext_bip39_to_mini_secret bp ha p pw = Inr
    (take 32 (pbkdf2_hmac_sha512 ha (mnemonic_entropy bp m) (lit ''mnemonic'' @ pw) 2048 64))"
  using assms by (simp add: ext_bip39_to_mini_secret_def slice_to_def hash_lawsD(7))

lemma ext_bip39_to_seed_valid:
  assumes "bip39_laws bp" "from_phrase bp p = Some m"
  shows "ext_bip39_to_seed bp p pw = Inr (take 32 (seed_as_bytes bp (seed_new bp m pw)))"
  using assms by (simp add: ext_bip39_to_seed_def slice_to_def bip39_lawsD(6))

lemma ext_bip39_invalid:
  assumes "from_phrase bp p = None"
  shows "ext_bip39_to_entropy bp p = Inl (Panic UnwrapErr)"
    and "ext_bip39_to_mini_secret bp ha p pw = Inl (Panic UnwrapErr)"
    and "ext_bip39_to_seed bp p pw = Inl (Panic UnwrapErr)"
  using assms
  by (simp_all add: ext_bip39_to_entropy_def ext_bip39_to_mini_secret_def ext_bip39_to_seed_def)

lemma ext_bip39_generate_cases:
  assumes "bip39_laws bp"
  shows "if unat words \<in> {12, 15, 18, 21, 24}
    then \<exists>p m. ext_bip39_generate bp rng words = Inr p \<and> from_phrase bp p = Some m \<and> c_text p
    else ext_bip39_generate bp rng words = Inl (Panic UnwrapErr)"
proof (cases "for_word_count bp (unat words)")
  case None
  then show ?thesis
    using bip39_lawsD(1) [OF assms, of "unat words"] by (simp add: ext_bip39_generate_def)
next
  case (Some t)
  then have "unat words \<in> {12, 15, 18, 21, 24}" using bip39_lawsD(1) [OF assms, of "unat words"] by simp
  with Some show ?thesis
    using bip39_lawsD(3) [OF assms Some, of rng] bip39_lawsD(4,5) [OF assms]
    by (auto simp: ext_bip39_generate_def c_text_def)
qed

subsection \<open>Properties\<close>

text \<open>
  Generation. For 12, 15, 18, 21 or 24 words a phrase is returned, it validates, and its
  entropy is the entropy of the mnemonic that was drawn; for every other \<open>u32\<close> it panics.
\<close>

theorem generated_phrase_validates:
  assumes "bip39_laws bp"
  shows "if unat words \<in> {12, 15, 18, 21, 24}
    then \<exists>p e. ext_bip39_generate bp rng words = Inr p \<and> ext_bip39_validate bp p
           \<and> ext_bip39_to_entropy bp p = Inr e
    else ext_bip39_generate bp rng words = Inl (Panic UnwrapErr)"
  using ext_bip39_generate_cases [OF assms, of words rng] ext_bip39_validate_iff [OF assms]
  by (auto simp: ext_bip39_to_entropy_def)

theorem generated_phrase_validates_witness:
  "\<exists>p e. ext_bip39_generate ref_bip39 [1, 2, 3] 12 = Inr p \<and> ext_bip39_validate ref_bip39 p
     \<and> ext_bip39_to_entropy ref_bip39 p = Inr e"
  using generated_phrase_validates [OF ref_bip39_laws, of 12 "[1, 2, 3]"] by simp

text \<open>
  Validation guards the other operations. A phrase that validates yields an entropy, and a
  mini secret and a seed of exactly 32 bytes, for every password; a phrase that does not makes
  all three panic.
\<close>

theorem validate_guards_conversions:
  assumes "bip39_laws bp" and "hash_laws ha"
  shows "if ext_bip39_validate bp p
    then (\<exists>e. ext_bip39_to_entropy bp p = Inr e)
      \<and> (\<exists>v. ext_bip39_to_mini_secret bp ha p pw = Inr v \<and> length v = 32)
      \<and> (\<exists>v. ext_bip39_to_seed bp p pw = Inr v \<and> length v = 32)
    else ext_bip39_to_entropy bp p = Inl (Panic UnwrapErr)
      \<and> ext_bip39_to_mini_secret bp ha p pw = Inl (Panic UnwrapErr)
      \<and> ext_bip39_to_seed bp p pw = Inl (Panic UnwrapErr)"
proof (rule bip39_valid_cases [OF assms(1), of p])
  fix m
  assume "ext_bip39_validate bp p" "from_phrase bp p = Some m"
  then show ?thesis
    using assms by (simp add: ext_bip39_to_entropy_def ext_bip39_to_mini_secret_valid
        ext_bip39_to_seed_valid hash_lawsD(7) bip39_lawsD(6))
qed (simp add: ext_bip39_invalid)

theorem validate_guards_conversions_witness:
  "(\<exists>v. ext_bip39_to_seed ref_bip39 (ref_to_hex (replicate 16 0)) [] = Inr v \<and> length v = 32)
   \<and> ext_bip39_to_seed ref_bip39 [0] [] = Inl (Panic UnwrapErr)"
proof -
  have "ext_bip39_validate ref_bip39 (ref_to_hex (replicate 16 0))"
    by (simp add: ext_bip39_validate_def ref_bip39_def ref_from_to_hex entropy_lengths_def)
  moreover have "\<not> ext_bip39_validate ref_bip39 [0]"
    by (simp add: ext_bip39_validate_def ref_bip39_def)
  ultimately show ?thesis
    using validate_guards_conversions [OF ref_bip39_laws ref_hash_laws, of "ref_to_hex (replicate 16 0)"]
      validate_guards_conversions [OF ref_bip39_laws ref_hash_laws, of "[0]"] by simp
qed

end
