(* ===== verification/Signatures.thy ===== *)
theory Signatures
  imports C_Strings
begin

section \<open>The contract of a signature scheme\<close>

text \<open>
  \<open>ed25519.rs\<close> and \<open>sr25519.rs\<close> offer the same three operations to \<open>common.rs\<close>: a key pair
  from a seed of 32 bytes (secret key first, then 32 bytes of public key), a signature, and its
  verification. The two schemes differ in the length of the secret key. What a client may rely
  on is stated and used here once; both modules interpret it.
\<close>

locale signature_scheme =
  fixes lawful :: "'c \<Rightarrow> bool"
    and secret_len :: nat
    and keypair_from_seed :: "'c \<Rightarrow> bytes \<Rightarrow> bytes res"
    and sign :: "'c \<Rightarrow> bytes \<Rightarrow> bytes \<Rightarrow> bytes \<Rightarrow> bytes res"
    and verify :: "'c \<Rightarrow> bytes \<Rightarrow> bytes \<Rightarrow> bytes \<Rightarrow> bool res"
  assumes keypair_ok: "lawful c \<Longrightarrow> length seed = 32 \<Longrightarrow>
        \<exists>kp. keypair_from_seed c seed = Inr kp \<and> length kp = secret_len + 32"
    and keypair_err: "lawful c \<Longrightarrow> length seed \<noteq> 32 \<Longrightarrow>
        keypair_from_seed c seed = Inl (Panic UnwrapErr)"
    and sign_ok: "lawful c \<Longrightarrow> keypair_from_seed c seed = Inr kp \<Longrightarrow>
        \<exists>sg. sign c (drop secret_len kp) (take secret_len kp) m = Inr sg \<and> length sg = 64
          \<and> verify c sg m (drop secret_len kp) = Inr True"
begin

lemma keypair_iff: "lawful c \<Longrightarrow> (\<exists>kp. keypair_from_seed c seed = Inr kp) \<longleftrightarrow> length seed = 32"
  using keypair_ok [of c seed] keypair_err [of c seed] by (cases "length seed = 32") auto

lemma keypair_length:
  "lawful c \<Longrightarrow> keypair_from_seed c seed = Inr kp \<Longrightarrow> length kp = secret_len + 32 \<and> length seed = 32"
  using keypair_ok [of c seed] keypair_err [of c seed] by (cases "length seed = 32") auto

lemma no_undefined_keypair: "lawful c \<Longrightarrow> no_undefined (keypair_from_seed c seed)"
  using keypair_ok [of c seed] keypair_err [of c seed] by (cases "length seed = 32") auto

lemma seed_parts:
  assumes "lawful c" "length seed = 32"
  obtains kp secret public sg where
    "keypair_from_seed c seed = Inr kp" "length kp = secret_len + 32"
    "slice_range 0 secret_len kp = Inr secret"
    "slice_range secret_len (secret_len + 32) kp = Inr public"
    "sign c public secret m = Inr sg" "length sg = 64" "verify c sg m public = Inr True"
proof -
  obtain kp where kp: "keypair_from_seed c seed = Inr kp" "length kp = secret_len + 32"
    using keypair_ok [OF assms] by blast
  moreover from kp have "take 32 (drop secret_len kp) = drop secret_len kp" by simp
  moreover obtain sg where "sign c (drop secret_len kp) (take secret_len kp) m = Inr sg"
      "length sg = 64" "verify c sg m (drop secret_len kp) = Inr True"
    using sign_ok [OF assms(1) kp(1), of m] by blast
  ultimately show thesis by (intro that [of kp]) (simp_all add: slice_range_def)
qed

lemma seed_sign_verify:
  assumes "lawful c" "length seed = 32"
  shows "rbind (keypair_from_seed c seed) (\<lambda>kp.
      rbind (slice_range 0 secret_len kp) (\<lambda>secret.
      rbind (slice_range secret_len (secret_len + 32) kp) (\<lambda>public.
      rbind (sign c public secret m) (\<lambda>sg.
      verify c sg m public)))) = Inr True"
  by (rule seed_parts [OF assms, of m]) simp

end

end
