(* ===== verification/Ed25519.thy ===== *)
theory Ed25519
  imports Reference_Crates Signatures
begin

section \<open>Ed25519 keys and signatures (\<open>ed25519.rs\<close>)\<close>

text \<open>
  The wrappers around the key pair of ed25519-dalek. A secret key has 32 bytes and a key pair
  64: the comments in the source speak of a private key of 64 bytes, which is what the sr25519
  wrappers use. The two \<open>match\<close> helpers panic with their own messages.
\<close>

definition create_from_pair :: "('sk, 'pk, 'kp, 'sig) ed_api \<Rightarrow> bytes \<Rightarrow> 'kp res" where
  "create_from_pair ed pair =
     (case ed_kp_from_bytes ed pair of
        Some pair' \<Rightarrow> Inr pair'
      | None \<Rightarrow> Inl (Panic (ExplicitPanic ''Provided pair is invalid.'')))"

definition create_from_parts :: "('sk, 'pk, 'kp, 'sig) ed_api \<Rightarrow> bytes \<Rightarrow> bytes \<Rightarrow> 'kp res" where
  "create_from_parts ed pubkey seckey =
     (let pair = [] @ seckey; pair = pair @ pubkey in create_from_pair ed pair)"

definition create_from_seed :: "('sk, 'pk, 'kp, 'sig) ed_api \<Rightarrow> bytes \<Rightarrow> 'kp res" where
  "create_from_seed ed seed =
     rbind (unwrap (ed_sk_from_bytes ed seed)) (\<lambda>seckey.
       let pubkey = ed_pk_of_sk ed seckey
       in create_from_parts ed (ed_pk_to_bytes ed pubkey) seed)"

definition create_public :: "('sk, 'pk, 'kp, 'sig) ed_api \<Rightarrow> bytes \<Rightarrow> 'pk res" where
  "create_public ed pubkey =
     (case ed_pk_from_bytes ed pubkey of
        Some pubkey' \<Rightarrow> Inr pubkey'
      | None \<Rightarrow> Inl (Panic (ExplicitPanic ''Provided public key is invalid.'')))"

definition ext_ed_from_seed :: "('sk, 'pk, 'kp, 'sig) ed_api \<Rightarrow> bytes \<Rightarrow> bytes res" where
  "ext_ed_from_seed ed seed =
     rbind (create_from_seed ed seed) (\<lambda>kp. Inr (ed_kp_to_bytes ed kp))"

definition ext_ed_sign ::
    "('sk, 'pk, 'kp, 'sig) ed_api \<Rightarrow> bytes \<Rightarrow> bytes \<Rightarrow> bytes \<Rightarrow> bytes res" where
  "ext_ed_sign ed pubkey seckey message =
     rbind (create_from_parts ed pubkey seckey) (\<lambda>kp.
       Inr (ed_sig_to_bytes ed (ed_kp_sign ed kp message)))"

definition ext_ed_verify ::
    "('sk, 'pk, 'kp, 'sig) ed_api \<Rightarrow> bytes \<Rightarrow> bytes \<Rightarrow> bytes \<Rightarrow> bool res" where
  "ext_ed_verify ed signature message pubkey =
     (case ed_sig_try_from ed signature of
        None \<Rightarrow> Inr False
      | Some sg \<Rightarrow> rbind (create_public ed pubkey) (\<lambda>pk. Inr (ed_pk_verify ed pk message sg)))"

lemmas ed_defs = create_from_pair_def create_from_parts_def create_from_seed_def
  create_public_def ext_ed_from_seed_def ext_ed_sign_def ext_ed_verify_def

subsection \<open>The wrappers under the crate's laws\<close>

definition ed_public :: "('sk, 'pk, 'kp, 'sig) ed_api \<Rightarrow> bytes \<Rightarrow> bytes" where
  "ed_public ed seed = ed_pk_to_bytes ed (ed_pk_of_sk ed (the (ed_sk_from_bytes ed seed)))"

lemma ext_ed_from_seed_eq:
  assumes "ed_laws ed"
  shows "ext_ed_from_seed ed seed =
    (if length seed = 32 then Inr (seed @ ed_public ed seed) else Inl (Panic UnwrapErr))"
proof (cases "length seed = 32")
  case True
  then obtain s where s: "ed_sk_from_bytes ed seed = Some s" using ed_sk_from_bytes_ok [OF assms] by blast
  obtain k where k: "ed_kp_from_bytes ed (seed @ ed_pk_to_bytes ed (ed_pk_of_sk ed s)) = Some k"
    using ed_lawsD(7) [OF assms s] by blast
  then have "ed_kp_to_bytes ed k = seed @ ed_pk_to_bytes ed (ed_pk_of_sk ed s)"
    using ed_lawsD(6) [OF assms k] by simp
  with True s k show ?thesis by (simp add: ed_defs ed_public_def Let_def)
qed (simp add: ed_defs ed_sk_from_bytes_err [OF assms])

lemma length_ed_public [simp]: "ed_laws ed \<Longrightarrow> length (ed_public ed seed) = 32"
  by (simp add: ed_public_def ed_lawsD(3))

lemma ext_ed_sign_panics:
  assumes "ed_laws ed" "length seckey + length pubkey \<noteq> 64"
  shows "ext_ed_sign ed pubkey seckey m = Inl (Panic (ExplicitPanic ''Provided pair is invalid.''))"
proof -
  have "ed_kp_from_bytes ed (seckey @ pubkey) = None"
    using ed_lawsD(6) [OF assms(1)] assms(2) by (cases "ed_kp_from_bytes ed (seckey @ pubkey)") fastforce+
  then show ?thesis by (simp add: ed_defs)
qed

lemma ext_ed_sign_seed:
  assumes "ed_laws ed" "length seed = 32"
  shows "\<exists>sg. ext_ed_sign ed (ed_public ed seed) seed m = Inr sg \<and> length sg = 64
    \<and> ext_ed_verify ed sg m (ed_public ed seed) = Inr True"
proof -
  obtain s where s: "ed_sk_from_bytes ed seed = Some s"
    using ed_sk_from_bytes_ok [OF assms(1)] assms(2) by blast
  obtain k where k: "ed_kp_from_bytes ed (seed @ ed_public ed seed) = Some k"
      "ed_pk_verify ed (ed_pk_of_sk ed s) m (ed_kp_sign ed k m)"
    using ed_lawsD(7) [OF assms(1) s] by (auto simp: ed_public_def s)
  have "create_public ed (ed_public ed seed) = Inr (ed_pk_of_sk ed s)"
    by (simp add: create_public_def ed_public_def s ed_lawsD(4) [OF assms(1)])
  with k show ?thesis
    using ed_lawsD(8,9) [OF assms(1)]
    by (simp add: ext_ed_sign_def ext_ed_verify_def create_from_parts_def create_from_pair_def)
qed

interpretation ed25519: signature_scheme ed_laws 32 ext_ed_from_seed ext_ed_sign ext_ed_verify
proof
  fix ed :: "('sk, 'pk, 'kp, 'sig) ed_api" and seed kp m :: bytes
  assume ed: "ed_laws ed"
  show "length seed = 32 \<Longrightarrow> \<exists>kp. ext_ed_from_seed ed seed = Inr kp \<and> length kp = 32 + 32"
    and "length seed \<noteq> 32 \<Longrightarrow> ext_ed_from_seed ed seed = Inl (Panic UnwrapErr)"
    using ed by (simp_all add: ext_ed_from_seed_eq)
  assume kp: "ext_ed_from_seed ed seed = Inr kp"
  then have "length seed = 32" "kp = seed @ ed_public ed seed"
    using ed by (auto simp: ext_ed_from_seed_eq split: if_splits)
  then show "\<exists>sg. ext_ed_sign ed (drop 32 kp) (take 32 kp) m = Inr sg \<and> length sg = 64
      \<and> ext_ed_verify ed sg m (drop 32 kp) = Inr True"
    using ext_ed_sign_seed [OF ed] by simp
qed

subsection \<open>Properties\<close>

text \<open>
  A key pair from a seed. Every seed of 32 bytes gives a key pair of 64 bytes, the seed
  itself followed by the public key; every other length panics. (The comment above the function
  promises a private key of 64 bytes in front of the public key.)
\<close>

theorem ed_from_seed_layout:
  assumes "ed_laws ed"
  shows "if length seed = 32
    then \<exists>pk. ext_ed_from_seed ed seed = Inr (seed @ pk) \<and> length (seed @ pk) = 64
           \<and> (\<exists>k. create_public ed pk = Inr k)
    else ext_ed_from_seed ed seed = Inl (Panic UnwrapErr)"
  using assms ed_lawsD(4) [OF assms]
  by (simp add: ext_ed_from_seed_eq create_public_def ed_public_def)
    (simp add: ed_lawsD(3))

theorem ed_from_seed_layout_witness:
  "(\<exists>pk. ext_ed_from_seed ref_ed (replicate 32 7) = Inr (replicate 32 7 @ pk))
   \<and> ext_ed_from_seed ref_ed [1] = Inl (Panic UnwrapErr)"
  using ed_from_seed_layout [OF ref_ed_laws, of "replicate 32 7"]
    ed_from_seed_layout [OF ref_ed_laws, of "[1]"] by auto

text \<open>
  What is signed with the two halves of a key pair from a seed verifies under its public
  half, with a signature of 64 bytes, for every seed of 32 bytes and every message.
\<close>

theorem ed_sign_then_verify:
  assumes "ed_laws ed" and "length seed = 32"
  shows "\<exists>kp sg. ext_ed_from_seed ed seed = Inr kp
    \<and> ext_ed_sign ed (drop 32 kp) (take 32 kp) m = Inr sg \<and> length sg = 64
    \<and> ext_ed_verify ed sg m (drop 32 kp) = Inr True"
  using ed25519.keypair_ok [OF assms] ed25519.sign_ok [OF assms(1)] by blast

theorem ed_sign_then_verify_witness:
  "\<exists>kp sg. ext_ed_from_seed ref_ed (replicate 32 7) = Inr kp
    \<and> ext_ed_sign ref_ed (drop 32 kp) (take 32 kp) [1, 2, 3] = Inr sg
    \<and> ext_ed_verify ref_ed sg [1, 2, 3] (drop 32 kp) = Inr True"
  using ed_sign_then_verify [OF ref_ed_laws, of "replicate 32 7" "[1, 2, 3]"] by auto

text \<open>
  \<open>ext_ed_sign\<close> sees only the concatenation of the two keys. It panics unless they have 64
  bytes together, so on the 64-byte private key and 32-byte public key that its comment asks
  for; and where the boundary between the two arguments lies makes no difference.
\<close>

theorem ed_sign_lengths:
  assumes "ed_laws ed"
  shows "(length seckey + length pubkey \<noteq> 64 \<longrightarrow>
      ext_ed_sign ed pubkey seckey m = Inl (Panic (ExplicitPanic ''Provided pair is invalid.'')))
    \<and> (seckey @ pubkey = seckey' @ pubkey' \<longrightarrow>
      ext_ed_sign ed pubkey seckey m = ext_ed_sign ed pubkey' seckey' m)"
  using ext_ed_sign_panics [OF assms] by (simp add: ext_ed_sign_def create_from_parts_def)

theorem ed_sign_lengths_witness:
  "ext_ed_sign ref_ed (replicate 32 1) (replicate 64 2) [] =
     Inl (Panic (ExplicitPanic ''Provided pair is invalid.''))
   \<and> ext_ed_sign ref_ed (replicate 32 1) (replicate 32 1) []
     = ext_ed_sign ref_ed (replicate 31 1) (replicate 33 1) []"
  using ed_sign_lengths [OF ref_ed_laws, where seckey = "replicate 64 2" and pubkey = "replicate 32 1"]
    ed_sign_lengths [OF ref_ed_laws, where seckey = "replicate 32 1" and pubkey = "replicate 32 1"
      and seckey' = "replicate 33 1" and pubkey' = "replicate 31 1" and m = "[]"]
  by (simp add: replicate_add [symmetric])

text \<open>
  Verification answers \<open>false\<close>, without looking at the public key, when the signature is
  malformed, and in particular when it has not 64 bytes; with a well-formed signature a
  malformed public key makes it panic.
\<close>

theorem ed_verify_malformed:
  assumes "ed_laws ed"
  shows "(length signature \<noteq> 64 \<longrightarrow> ext_ed_verify ed signature m pubkey = Inr False)
    \<and> (ed_sig_try_from ed signature \<noteq> None \<and> length pubkey \<noteq> 32 \<longrightarrow>
         ext_ed_verify ed signature m pubkey
           = Inl (Panic (ExplicitPanic ''Provided public key is invalid.'')))"
proof -
  have "ed_sig_try_from ed signature = None" if "length signature \<noteq> 64"
    using that ed_lawsD(10) [OF assms, of signature] by blast
  moreover have "ed_pk_from_bytes ed pubkey = None" if "length pubkey \<noteq> 32"
    using that ed_lawsD(5) [OF assms, of pubkey] by (cases "ed_pk_from_bytes ed pubkey") auto
  ultimately show ?thesis by (auto simp: ext_ed_verify_def create_public_def)
qed

theorem ed_verify_malformed_witness:
  "ext_ed_verify ref_ed [1] [] (replicate 32 0) = Inr False
   \<and> ext_ed_verify ref_ed (replicate 64 0) [] [5]
       = Inl (Panic (ExplicitPanic ''Provided public key is invalid.''))"
  using ed_verify_malformed [OF ref_ed_laws, of "[1]"]
    ed_verify_malformed [OF ref_ed_laws, where signature = "replicate 64 0" and pubkey = "[5]"]
  by (simp add: ref_ed_defs)

end
