(* ===== verification/Sr25519.thy ===== *)
theory Sr25519
  imports Reference_Crates Signatures
begin

section \<open>Sr25519 keys, derivation and signatures (\<open>sr25519.rs\<close>)\<close>

text \<open>
  The schnorrkel wrappers. A key pair is passed as 96 bytes, the secret key in the 64-byte
  Ed25519 format and the public key of 32 bytes. Signing and the soft derivation of a key pair
  draw randomness, the argument \<open>rng\<close>. The \<open>_internal\<close> variants return \<open>None\<close> where the
  others panic.
\<close>

definition SIGNING_CTX :: bytes where
  "SIGNING_CTX = lit ''substrate''"

definition CHAIN_CODE_LENGTH :: nat where
  "CHAIN_CODE_LENGTH = 32"

definition create_cc :: "bytes \<Rightarrow> bytes res" where
  "create_cc data = copy_from_slice CHAIN_CODE_LENGTH data"

definition ext_sr_derive_keypair_hard ::
    "('msk, 'sk, 'pk, 'kp, 'sig) sr_api \<Rightarrow> bytes \<Rightarrow> bytes \<Rightarrow> bytes res" where
  "ext_sr_derive_keypair_hard sr pair cc =
     rbind (unwrap (kp_from_half_ed25519 sr pair)) (\<lambda>kp.
     rbind (create_cc cc) (\<lambda>code.
       let msk = fst (hard_derive_mini_secret_key sr (kp_secret sr kp) (Some code) [])
       in Inr (kp_to_half_ed25519 sr (expand_to_keypair_ed25519 sr msk))))"

definition ext_sr_derive_keypair_soft ::
    "('msk, 'sk, 'pk, 'kp, 'sig) sr_api \<Rightarrow> bytes \<Rightarrow> bytes \<Rightarrow> bytes \<Rightarrow> bytes res" where
  "ext_sr_derive_keypair_soft sr rng pair cc =
     rbind (unwrap (kp_from_half_ed25519 sr pair)) (\<lambda>kp.
     rbind (create_cc cc) (\<lambda>code.
       Inr (kp_to_half_ed25519 sr (fst (kp_derived_key_simple sr rng kp code [])))))"

definition ext_sr_derive_public_soft ::
    "('msk, 'sk, 'pk, 'kp, 'sig) sr_api \<Rightarrow> bytes \<Rightarrow> bytes \<Rightarrow> bytes res" where
  "ext_sr_derive_public_soft sr pubkey cc =
     rbind (unwrap (sr_pk_from_bytes sr pubkey)) (\<lambda>pk.
     rbind (create_cc cc) (\<lambda>code.
       Inr (sr_pk_to_bytes sr (fst (pk_derived_key_simple sr pk code [])))))"

definition ext_sr_from_seed :: "('msk, 'sk, 'pk, 'kp, 'sig) sr_api \<Rightarrow> bytes \<Rightarrow> bytes res" where
  "ext_sr_from_seed sr seed =
     rbind (unwrap (msk_from_bytes sr seed)) (\<lambda>msk.
       Inr (kp_to_half_ed25519 sr (expand_to_keypair_ed25519 sr msk)))"

definition ext_sr_from_pair :: "('msk, 'sk, 'pk, 'kp, 'sig) sr_api \<Rightarrow> bytes \<Rightarrow> bytes res" where
  "ext_sr_from_pair sr pair =
     rbind (unwrap (kp_from_half_ed25519 sr pair)) (\<lambda>kp. Inr (kp_to_half_ed25519 sr kp))"

definition ext_sr_sign ::
    "('msk, 'sk, 'pk, 'kp, 'sig) sr_api \<Rightarrow> bytes \<Rightarrow> bytes \<Rightarrow> bytes \<Rightarrow> bytes \<Rightarrow> bytes res" where
  "ext_sr_sign sr rng pubkey secret message =
     rbind (unwrap (sr_sk_from_ed25519 sr secret)) (\<lambda>sk.
     rbind (unwrap (sr_pk_from_bytes sr pubkey)) (\<lambda>pk.
       Inr (sr_sig_to_bytes sr (sr_sign_simple sr rng sk SIGNING_CTX message pk))))"

definition ext_sr_sign_internal ::
    "('msk, 'sk, 'pk, 'kp, 'sig) sr_api \<Rightarrow> bytes \<Rightarrow> bytes \<Rightarrow> bytes \<Rightarrow> bytes \<Rightarrow> bytes option" where
  "ext_sr_sign_internal sr rng pubkey secret message =
     (let sk = sr_sk_from_ed25519 sr secret; kp = sr_pk_from_bytes sr pubkey in
      case sk of None \<Rightarrow> None
      | Some s \<Rightarrow> (case kp of None \<Rightarrow> None
        | Some p \<Rightarrow> Some (sr_sig_to_bytes sr (sr_sign_simple sr rng s SIGNING_CTX message p))))"

definition ext_sr_verify_internal ::
    "('msk, 'sk, 'pk, 'kp, 'sig) sr_api \<Rightarrow> bytes \<Rightarrow> bytes \<Rightarrow> bytes \<Rightarrow> bool option" where
  "ext_sr_verify_internal sr signature message pubkey =
     (let sg = sr_sig_from_bytes sr signature; kp = sr_pk_from_bytes sr pubkey in
      case kp of None \<Rightarrow> None
      | Some p \<Rightarrow> (case sg of None \<Rightarrow> None
        | Some s \<Rightarrow> Some (sr_verify_simple sr p SIGNING_CTX message s)))"

definition ext_sr_verify ::
    "('msk, 'sk, 'pk, 'kp, 'sig) sr_api \<Rightarrow> bytes \<Rightarrow> bytes \<Rightarrow> bytes \<Rightarrow> bool" where
  "ext_sr_verify sr signature message pubkey =
     (case ext_sr_verify_internal sr signature message pubkey of Some result \<Rightarrow> result | None \<Rightarrow> False)"

subsection \<open>The wrappers under the crate's laws\<close>

lemma create_cc_eq:
  "create_cc cc = (if length cc = 32 then Inr cc else Inl (Panic CopyLength))"
  by (simp add: create_cc_def CHAIN_CODE_LENGTH_def copy_from_slice_def)

lemma ext_sr_from_seed_eq:
  assumes "sr_laws sr"
  shows "ext_sr_from_seed sr seed =
    (if length seed = 32
     then Inr (kp_to_half_ed25519 sr (expand_to_keypair_ed25519 sr (the (msk_from_bytes sr seed))))
     else Inl (Panic UnwrapErr))"
proof (cases "length seed = 32")
  case True
  then obtain m where "msk_from_bytes sr seed = Some m" using msk_from_bytes_ok [OF assms] by blast
  with True show ?thesis by (simp add: ext_sr_from_seed_def)
qed (simp add: ext_sr_from_seed_def msk_from_bytes_err [OF assms])

text \<open>The two halves of a written key pair read back.\<close>

lemma sr_halves:
  assumes "sr_laws sr"
  shows "sr_sk_from_ed25519 sr (take 64 (kp_to_half_ed25519 sr k)) = Some (kp_secret sr k)"
    and "sr_pk_from_bytes sr (drop 64 (kp_to_half_ed25519 sr k)) = Some (kp_public sr k)"
  using sr_lawsD(5,6,8) [OF assms] by simp_all

lemma ext_sr_sign_verify_halves:
  assumes "sr_laws sr"
  defines "kp m \<equiv> kp_to_half_ed25519 sr (expand_to_keypair_ed25519 sr m)"
  shows "\<exists>sg. ext_sr_sign sr rng (drop 64 (kp m)) (take 64 (kp m)) msg = Inr sg \<and> length sg = 64
    \<and> ext_sr_verify sr sg msg (drop 64 (kp m))"
  using sr_halves [OF assms(1)] sr_lawsD(12,13,14) [OF assms(1)]
  by (simp add: kp_def ext_sr_sign_def ext_sr_verify_def ext_sr_verify_internal_def Let_def)

interpretation sr25519: signature_scheme "\<lambda>(sr, rng). sr_laws sr" 64
  "\<lambda>(sr, rng). ext_sr_from_seed sr" "\<lambda>(sr, rng). ext_sr_sign sr rng"
  "\<lambda>(sr, rng) sg m pk. Inr (ext_sr_verify sr sg m pk)"
proof (unfold_locales, goal_cases)
  case (1 c seed)
  then show ?case by (cases c) (simp add: ext_sr_from_seed_eq sr_lawsD(2))
next
  case (2 c seed)
  then show ?case by (cases c) (simp add: ext_sr_from_seed_eq)
next
  case (3 c seed kp m)
  then show ?case
    using ext_sr_sign_verify_halves [of "fst c" "snd c"]
    by (cases c) (auto simp: ext_sr_from_seed_eq split: if_splits)
qed

subsection \<open>Soft derivation, step by step and along a path\<close>

lemma canonical_pair:
  assumes "sr_laws sr"
  shows "ext_sr_from_pair sr pair = Inr pair \<longleftrightarrow> (\<exists>k. pair = kp_to_half_ed25519 sr k)"
  using sr_lawsD(3) [OF assms]
  by (auto simp: ext_sr_from_pair_def rbind_eq_Inr_iff)

lemma soft_step:
  assumes "sr_laws sr" "ext_sr_from_pair sr pair = Inr pair" "length cc = 32"
  shows "\<exists>d. ext_sr_derive_keypair_soft sr rng pair cc = Inr d \<and> ext_sr_from_pair sr d = Inr d
    \<and> ext_sr_derive_public_soft sr (drop 64 pair) cc = Inr (drop 64 d)"
proof -
  obtain k where k: "pair = kp_to_half_ed25519 sr k"
    using assms(1,2) by (auto simp: canonical_pair)
  let ?d = "kp_to_half_ed25519 sr (fst (kp_derived_key_simple sr rng k cc []))"
  have "ext_sr_derive_keypair_soft sr rng pair cc = Inr ?d"
    by (simp add: ext_sr_derive_keypair_soft_def k sr_lawsD(3) [OF assms(1)] create_cc_eq assms(3))
  moreover have "ext_sr_derive_public_soft sr (drop 64 pair) cc = Inr (drop 64 ?d)"
    by (simp add: ext_sr_derive_public_soft_def k sr_halves [OF assms(1)] create_cc_eq assms(3)
        sr_lawsD(6,8,11) [OF assms(1)])
  moreover have "ext_sr_from_pair sr ?d = Inr ?d" using assms(1) by (auto simp: canonical_pair)
  ultimately show ?thesis by blast
qed

text \<open>
  A path gives each step its chain code and, on the secret side, the randomness that this step
  draws for the nonce of the child key.
\<close>

lemma soft_path:
  assumes "sr_laws sr" "ext_sr_from_pair sr pair = Inr pair" "\<forall>(rng, cc)\<in>set path. length cc = 32"
  shows "\<exists>d. foldl (\<lambda>r (rng, cc). rbind r (\<lambda>p. ext_sr_derive_keypair_soft sr rng p cc)) (Inr pair) path
        = Inr d
    \<and> foldl (\<lambda>r cc. rbind r (\<lambda>p. ext_sr_derive_public_soft sr p cc)) (Inr (drop 64 pair)) (map snd path)
        = Inr (drop 64 d)
    \<and> ext_sr_from_pair sr d = Inr d"
  using assms(2,3)
proof (induction path arbitrary: pair)
  case (Cons s path)
  obtain rng cc where s: "s = (rng, cc)" by (cases s)
  then obtain d where d: "ext_sr_derive_keypair_soft sr rng pair cc = Inr d"
      "ext_sr_from_pair sr d = Inr d"
      "ext_sr_derive_public_soft sr (drop 64 pair) cc = Inr (drop 64 d)"
    using soft_step [OF assms(1) Cons.prems(1), of cc rng] Cons.prems(2) by auto
  then show ?case using Cons.IH [of d] Cons.prems s by simp
qed simp

subsection \<open>Properties\<close>

text \<open>
  C11: soft derivation of public keys agrees with soft derivation of key pairs, along every path
  of 32-byte chain codes and whatever randomness each step of the pair draws: deriving the whole
  key pair and keeping its public half is the same as deriving from the public half alone, and
  no step of either derivation panics.
\<close>

theorem sr_soft_derivation_commutes:
  assumes "sr_laws sr" and "ext_sr_from_seed sr seed = Inr pair"
    and "\<forall>(rng, cc)\<in>set path. length cc = 32"
  shows "\<exists>d. foldl (\<lambda>r (rng, cc). rbind r (\<lambda>p. ext_sr_derive_keypair_soft sr rng p cc)) (Inr pair) path
        = Inr d
    \<and> foldl (\<lambda>r cc. rbind r (\<lambda>p. ext_sr_derive_public_soft sr p cc)) (Inr (drop 64 pair)) (map snd path)
        = Inr (drop 64 d)
    \<and> length d = 96"
proof -
  have "ext_sr_from_pair sr pair = Inr pair"
    using assms(1,2) by (auto simp: canonical_pair ext_sr_from_seed_eq split: if_splits)
  then show ?thesis
    using soft_path [OF assms(1) _ assms(3)] sr_lawsD(2) [OF assms(1)]
    by (metis canonical_pair [OF assms(1)])
qed

theorem sr_soft_derivation_commutes_witness:
  "\<exists>pair d. ext_sr_from_seed ref_sr (replicate 32 9) = Inr pair
    \<and> rbind (ext_sr_derive_keypair_soft ref_sr [1] pair (replicate 32 5))
        (\<lambda>p. ext_sr_derive_keypair_soft ref_sr [2] p (replicate 32 6)) = Inr d
    \<and> rbind (ext_sr_derive_public_soft ref_sr (drop 64 pair) (replicate 32 5))
        (\<lambda>p. ext_sr_derive_public_soft ref_sr p (replicate 32 6)) = Inr (drop 64 d)"
proof -
  obtain pair where pair: "ext_sr_from_seed ref_sr (replicate 32 9) = Inr pair"
    by (simp add: ext_sr_from_seed_eq)
  then show ?thesis
    using sr_soft_derivation_commutes [OF ref_sr_laws pair, of "[([1], replicate 32 5), ([2], replicate 32 6)]"]
    by auto
qed

text \<open>
  C36: key pairs are 96 bytes, and \<open>ext_sr_from_pair\<close> is a normal form: what it returns, and
  what \<open>ext_sr_from_seed\<close> returns, it gives back unchanged. A seed is accepted exactly when it
  has 32 bytes.
\<close>

theorem sr_pair_normal_form:
  assumes "sr_laws sr"
  shows "((\<exists>kp. ext_sr_from_seed sr seed = Inr kp) \<longleftrightarrow> length seed = 32)
    \<and> (ext_sr_from_seed sr seed = Inr kp \<longrightarrow> length kp = 96 \<and> ext_sr_from_pair sr kp = Inr kp)
    \<and> (ext_sr_from_pair sr pair = Inr kp \<longrightarrow>
         length pair = 96 \<and> length kp = 96 \<and> ext_sr_from_pair sr kp = Inr kp)"
  using sr_lawsD(2,3,4) [OF assms]
  by (auto simp: ext_sr_from_seed_eq [OF assms] ext_sr_from_pair_def rbind_eq_Inr_iff
      split: if_splits)

theorem sr_pair_normal_form_witness:
  "\<exists>kp. ext_sr_from_seed ref_sr (replicate 32 3) = Inr kp \<and> length kp = 96
     \<and> ext_sr_from_pair ref_sr kp = Inr kp"
proof -
  have "\<exists>kp. ext_sr_from_seed ref_sr (replicate 32 3) = Inr kp"
    using sr_pair_normal_form [OF ref_sr_laws, of "replicate 32 3"] by simp
  then show ?thesis using sr_pair_normal_form [OF ref_sr_laws] by blast
qed

text \<open>
  C35: hard derivation. From every well-formed pair and 32-byte chain code it returns a key pair
  of 96 bytes whose halves sign and verify; the public half of the parent does not enter: two
  pairs with the same secret key derive the same child. A chain code of any other length
  panics, once the pair has been parsed.
\<close>

theorem sr_hard_derivation:
  assumes "sr_laws sr" and "kp_from_half_ed25519 sr pair = Some k"
  shows "if length cc = 32
    then \<exists>d sg. ext_sr_derive_keypair_hard sr pair cc = Inr d \<and> length d = 96
      \<and> ext_sr_sign sr rng (drop 64 d) (take 64 d) m = Inr sg \<and> ext_sr_verify sr sg m (drop 64 d)
      \<and> (\<forall>pair' k'. kp_from_half_ed25519 sr pair' = Some k' \<and> kp_secret sr k' = kp_secret sr k
           \<longrightarrow> ext_sr_derive_keypair_hard sr pair' cc = Inr d)
    else ext_sr_derive_keypair_hard sr pair cc = Inl (Panic CopyLength)"
proof (cases "length cc = 32")
  case True
  let ?m = "fst (hard_derive_mini_secret_key sr (kp_secret sr k) (Some cc) [])"
  let ?d = "kp_to_half_ed25519 sr (expand_to_keypair_ed25519 sr ?m)"
  have eq: "ext_sr_derive_keypair_hard sr pair' cc = Inr ?d"
    if "kp_from_half_ed25519 sr pair' = Some k'" "kp_secret sr k' = kp_secret sr k" for pair' k'
    using that True by (simp add: ext_sr_derive_keypair_hard_def create_cc_eq)
  obtain sg where "ext_sr_sign sr rng (drop 64 ?d) (take 64 ?d) m = Inr sg"
      "ext_sr_verify sr sg m (drop 64 ?d)"
    using ext_sr_sign_verify_halves [OF assms(1)] by blast
  with True eq show ?thesis using assms(2) sr_lawsD(2) [OF assms(1)] by auto
next
  case False
  then show ?thesis using assms(2) by (simp add: ext_sr_derive_keypair_hard_def create_cc_eq)
qed

theorem sr_hard_derivation_witness:
  "\<exists>pair d. ext_sr_from_seed ref_sr (replicate 32 9) = Inr pair
    \<and> ext_sr_derive_keypair_hard ref_sr pair (replicate 32 5) = Inr d \<and> length d = 96
    \<and> ext_sr_derive_keypair_hard ref_sr pair [1] = Inl (Panic CopyLength)"
proof -
  let ?pair = "kp_to_half_ed25519 ref_sr (expand_to_keypair_ed25519 ref_sr (word_le (replicate 32 9)))"
  have pair: "ext_sr_from_seed ref_sr (replicate 32 9) = Inr ?pair"
    by (simp add: ext_sr_from_seed_def ref_sr_defs of_len_def)
  have k: "kp_from_half_ed25519 ref_sr ?pair
      = Some (expand_to_keypair_ed25519 ref_sr (word_le (replicate 32 9)))"
    by (rule sr_lawsD(3) [OF ref_sr_laws])
  obtain d where "ext_sr_derive_keypair_hard ref_sr ?pair (replicate 32 5) = Inr d" "length d = 96"
    using sr_hard_derivation [OF ref_sr_laws k, of "replicate 32 5"] by (simp, blast)
  moreover have "ext_sr_derive_keypair_hard ref_sr ?pair [1] = Inl (Panic CopyLength)"
    using sr_hard_derivation [OF ref_sr_laws k, of "[1]"] by simp
  ultimately show ?thesis using pair by blast
qed

text \<open>
  Signing and verification. With the halves of a key pair from a 32-byte seed, signing
  returns 64 bytes that verify, whatever randomness is drawn.
\<close>

theorem sr_sign_then_verify:
  assumes "sr_laws sr" and "length seed = 32"
  shows "\<exists>kp sg. ext_sr_from_seed sr seed = Inr kp
    \<and> ext_sr_sign sr rng (drop 64 kp) (take 64 kp) m = Inr sg \<and> length sg = 64
    \<and> ext_sr_verify sr sg m (drop 64 kp)"
  using sr25519.keypair_ok [of "(sr, rng)" seed] sr25519.sign_ok [of "(sr, rng)" seed] assms
  by fastforce

theorem sr_sign_then_verify_witness:
  "\<exists>kp sg. ext_sr_from_seed ref_sr (replicate 32 4) = Inr kp
    \<and> ext_sr_sign ref_sr [8] (drop 64 kp) (take 64 kp) [1, 2] = Inr sg
    \<and> ext_sr_verify ref_sr sg [1, 2] (drop 64 kp)"
  using sr_sign_then_verify [OF ref_sr_laws, of "replicate 32 4" "[8]" "[1, 2]"] by auto

text \<open>
  The two signing functions agree: \<open>ext_sr_sign_internal\<close> returns the signature exactly when
  \<open>ext_sr_sign\<close> returns it, and \<open>None\<close> exactly when \<open>ext_sr_sign\<close> panics on a key it cannot parse.
\<close>

theorem sr_sign_internal_agrees:
  "ext_sr_sign sr rng pubkey secret m =
     (case ext_sr_sign_internal sr rng pubkey secret m of
        Some sg \<Rightarrow> Inr sg | None \<Rightarrow> Inl (Panic UnwrapErr))"
  by (simp add: ext_sr_sign_def ext_sr_sign_internal_def Let_def split: option.split)

text \<open>
  Verification never panics, and answers \<open>true\<close> only for a signature of 64 bytes and a public
  key of 32; on anything malformed it answers \<open>false\<close>.
\<close>

theorem sr_verify_accepts_only_wellformed:
  assumes "sr_laws sr" and "ext_sr_verify sr signature m pubkey"
  shows "length signature = 64 \<and> length pubkey = 32
    \<and> ext_sr_verify_internal sr signature m pubkey = Some True"
  using assms(2) sr_lawsD(9,17) [OF assms(1)]
  by (auto simp: ext_sr_verify_def ext_sr_verify_internal_def Let_def split: option.splits)

theorem sr_verify_accepts_only_wellformed_witness:
  "\<exists>sg pk. ext_sr_verify ref_sr sg [1] pk \<and> length sg = 64 \<and> length pk = 32"
proof -
  have ok: "ext_sr_verify ref_sr (replicate 32 0 @ bytes_le 32 (word_le (SIGNING_CTX @ [1]) :: 256 word))
      [1] (replicate 32 0)"
    using word_le_bytes_le [where 'a = 256 and n = 32]
    by (simp add: ext_sr_verify_def ext_sr_verify_internal_def ref_sr_defs of_len_def)
  show ?thesis using ok sr_verify_accepts_only_wellformed [OF ref_sr_laws ok] by blast
qed

end
