(* ===== verification/Bip32.thy ===== *)
theory Bip32
  imports Reference_Crates
begin

section \<open>Hierarchical keys (\<open>bip32.rs\<close>)\<close>

text \<open>
  Extended Ed25519 secret keys: the master key from a seed, hardened child derivation, the walk
  along a derivation path, and the two public keys. A function whose Rust result is
  \<open>Result<T, Error>\<close> returns a \<open>(error + 'a) res\<close>: the outer layer is a panic, the inner one the
  \<open>Result\<close>, and \<open>try_bind\<close> is the operator \<open>?\<close>. The build profile decides what \<open>self.depth + 1\<close>
  does at 255.
\<close>

definition ED25519_BIP32_NAME :: bytes where
  "ED25519_BIP32_NAME = lit ''ed25519 seed''"

datatype error = Ed25519 | ExpectedHardenedIndex child_index

record 'sk ExtendedSecretKey =
  depth :: u8
  child_index :: child_index
  secret_key :: 'sk
  chain_code :: bytes

definition try_bind :: "(error + 'a) res \<Rightarrow> ('a \<Rightarrow> (error + 'b) res) \<Rightarrow> (error + 'b) res" where
  "try_bind m f = rbind m (\<lambda>r. case r of Inl e \<Rightarrow> Inr (Inl e) | Inr x \<Rightarrow> f x)"

lemma try_bind_simps [simp]:
  "try_bind (Inl e) f = Inl e"
  "try_bind (Inr (Inl x)) f = Inr (Inl x)"
  "try_bind (Inr (Inr y)) f = f y"
  by (simp_all add: try_bind_def)

lemma try_bind_eq_Ok_iff:
  "try_bind m f = Inr (Inr y) \<longleftrightarrow> (\<exists>x. m = Inr (Inr x) \<and> f x = Inr (Inr y))"
  by (auto simp: try_bind_def rbind_def split: sum.split)

lemma try_bind_assoc: "try_bind (try_bind m f) g = try_bind m (\<lambda>x. try_bind (f x) g)"
  by (auto simp: try_bind_def rbind_def split: sum.split)

text \<open>\<open>impl From<SignatureError> for Error\<close>, and the conversion that \<open>?\<close> makes with it.\<close>

definition from_signature_error :: "unit \<Rightarrow> error" where
  "from_signature_error u = Ed25519"

definition try_signature :: "'a option \<Rightarrow> (error + 'a) res" where
  "try_signature r = (case r of None \<Rightarrow> Inr (Inl (from_signature_error ())) | Some x \<Rightarrow> Inr (Inr x))"

subsection \<open>The operations\<close>

definition from_seed ::
    "('sk, 'pk, 'kp, 'sig) ed_api \<Rightarrow> 'mac hmac_api \<Rightarrow> bytes \<Rightarrow> (error + 'sk ExtendedSecretKey) res"
where
  "from_seed ed hm seed =
     rbind (unwrap (hmac_new_varkey hm ED25519_BIP32_NAME)) (\<lambda>mac.
       let mac = hmac_input hm mac seed; bytes = hmac_code hm mac in
       rbind (slice_to 32 bytes) (\<lambda>left.
       try_bind (try_signature (ed_sk_from_bytes ed left)) (\<lambda>sk.
       rbind (slice_from 32 bytes) (\<lambda>right.
       rbind (copy_from_slice 32 right) (\<lambda>cc.
         Inr (Inr \<lparr>depth = 0, child_index = Normal 0, secret_key = sk, chain_code = cc\<rparr>))))))"

definition derive_child ::
    "profile \<Rightarrow> ('sk, 'pk, 'kp, 'sig) ed_api \<Rightarrow> 'mac hmac_api \<Rightarrow> dp_api
       \<Rightarrow> 'sk ExtendedSecretKey \<Rightarrow> child_index \<Rightarrow> (error + 'sk ExtendedSecretKey) res"
where
  "derive_child prof ed hm dp self index =
     (if ci_is_normal dp index then Inr (Inl (ExpectedHardenedIndex index))
      else
        rbind (unwrap (hmac_new_varkey hm (chain_code self))) (\<lambda>mac.
          let mac = hmac_input hm mac [0];
              mac = hmac_input hm mac (ed_sk_to_bytes ed (secret_key self));
              mac = hmac_input hm mac (to_be_bytes (ci_to_bits dp index));
              bytes = hmac_code hm mac in
          rbind (slice_to 32 bytes) (\<lambda>left.
          try_bind (try_signature (ed_sk_from_bytes ed left)) (\<lambda>sk.
          rbind (slice_from 32 bytes) (\<lambda>right.
          rbind (copy_from_slice 32 right) (\<lambda>cc.
          rbind (add_u8 prof (depth self) 1) (\<lambda>d.
            Inr (Inr \<lparr>depth = d, child_index = index, secret_key = sk, chain_code = cc\<rparr>))))))))"

definition clone ::
    "('sk, 'pk, 'kp, 'sig) ed_api \<Rightarrow> 'sk ExtendedSecretKey \<Rightarrow> 'sk ExtendedSecretKey res" where
  "clone ed self =
     rbind (unwrap (ed_sk_from_bytes ed (ed_sk_to_bytes ed (secret_key self)))) (\<lambda>sk.
       Inr \<lparr>depth = depth self, child_index = child_index self, secret_key = sk,
            chain_code = chain_code self\<rparr>)"

fun derive_loop ::
    "profile \<Rightarrow> ('sk, 'pk, 'kp, 'sig) ed_api \<Rightarrow> 'mac hmac_api \<Rightarrow> dp_api
       \<Rightarrow> 'sk ExtendedSecretKey \<Rightarrow> child_index list \<Rightarrow> (error + 'sk ExtendedSecretKey) res"
where
  "derive_loop prof ed hm dp nxt [] = Inr (Inr nxt)"
| "derive_loop prof ed hm dp nxt (index # path) =
     try_bind (derive_child prof ed hm dp nxt index) (\<lambda>n. derive_loop prof ed hm dp n path)"

definition derive ::
    "profile \<Rightarrow> ('sk, 'pk, 'kp, 'sig) ed_api \<Rightarrow> 'mac hmac_api \<Rightarrow> dp_api
       \<Rightarrow> 'sk ExtendedSecretKey \<Rightarrow> child_index list \<Rightarrow> (error + 'sk ExtendedSecretKey) res"
where
  "derive prof ed hm dp self path =
     (case path of
        index # rest \<Rightarrow>
          try_bind (derive_child prof ed hm dp self index) (\<lambda>nxt. derive_loop prof ed hm dp nxt rest)
      | [] \<Rightarrow> rbind (clone ed self) (\<lambda>nxt. Inr (Inr nxt)))"

definition public_key :: "('sk, 'pk, 'kp, 'sig) ed_api \<Rightarrow> 'sk ExtendedSecretKey \<Rightarrow> 'pk" where
  "public_key ed self = ed_pk_of_sk ed (secret_key self)"

definition public_key_secp256k1 ::
    "('sk, 'pk, 'kp, 'sig) ed_api \<Rightarrow> ('ssk, 'spk, 'msg, 'rid, 'rsig) secp_api
       \<Rightarrow> 'sk ExtendedSecretKey \<Rightarrow> bytes res"
where
  "public_key_secp256k1 ed sp self =
     (let sbytes = ed_sk_to_bytes ed (secret_key self) in
      rbind (unwrap (secp_sk_from_slice sp sbytes)) (\<lambda>sk.
        Inr (secp_pk_serialize sp (secp_pk_from_secret_key sp sk))))"

definition hex_str :: "hex_api \<Rightarrow> bytes \<Rightarrow> bytes res" where
  "hex_str hx string =
     (case from_hex hx string of
        Some c \<Rightarrow> Inr c
      | None \<Rightarrow> Inl (Panic (ExplicitPanic ''wrong'')))"

text \<open>\<open>.unwrap()\<close> on a \<open>Result<_, Error>\<close>.\<close>

definition unwrap_result :: "(error + 'a) res \<Rightarrow> 'a res" where
  "unwrap_result m = rbind m (\<lambda>r. case r of Inl _ \<Rightarrow> Inl (Panic UnwrapErr) | Inr x \<Rightarrow> Inr x)"

lemma unwrap_result_simps [simp]:
  "unwrap_result (Inl e) = Inl e"
  "unwrap_result (Inr (Inl x)) = Inl (Panic UnwrapErr)"
  "unwrap_result (Inr (Inr y)) = Inr y"
  by (simp_all add: unwrap_result_def)

definition root ::
    "hex_api \<Rightarrow> ('sk, 'pk, 'kp, 'sig) ed_api \<Rightarrow> 'mac hmac_api \<Rightarrow> bytes \<Rightarrow> 'sk ExtendedSecretKey res"
where
  "root hx ed hm seed = rbind (hex_str hx seed) (\<lambda>s. unwrap_result (from_seed ed hm s))"

subsection \<open>The specification: SLIP-0010 for Ed25519\<close>

text \<open>
  A node is a secret and a chain code, the two halves of one HMAC-SHA512. A child index \<open>n\<close>
  stands for the hardened index \<open>n + 2^31\<close>. The MAC is taken in one piece.
\<close>

definition hmac_sha512 :: "'mac hmac_api \<Rightarrow> bytes \<Rightarrow> bytes \<Rightarrow> bytes" where
  "hmac_sha512 hm key msg = hmac_code hm (hmac_input hm (the (hmac_new_varkey hm key)) msg)"

definition halves :: "bytes \<Rightarrow> bytes \<times> bytes" where
  "halves v = (take 32 v, drop 32 v)"

definition slip10_master :: "'mac hmac_api \<Rightarrow> bytes \<Rightarrow> bytes \<times> bytes" where
  "slip10_master hm seed = halves (hmac_sha512 hm (lit ''ed25519 seed'') seed)"

definition slip10_child :: "'mac hmac_api \<Rightarrow> bytes \<times> bytes \<Rightarrow> u32 \<Rightarrow> bytes \<times> bytes" where
  "slip10_child hm node n =
     halves (hmac_sha512 hm (snd node) (0 # fst node @ to_be_bytes (n + 2 ^ 31)))"

definition node_of :: "('sk, 'pk, 'kp, 'sig) ed_api \<Rightarrow> 'sk ExtendedSecretKey \<Rightarrow> bytes \<times> bytes" where
  "node_of ed k = (ed_sk_to_bytes ed (secret_key k), chain_code k)"

subsection \<open>The key invariant and one derivation step\<close>

definition wf_key :: "('sk, 'pk, 'kp, 'sig) ed_api \<Rightarrow> 'sk ExtendedSecretKey \<Rightarrow> bool" where
  "wf_key ed k \<longleftrightarrow> ed_sk_from_bytes ed (ed_sk_to_bytes ed (secret_key k)) = Some (secret_key k)
     \<and> length (chain_code k) = 32"

lemma clone_wf [simp]: "wf_key ed k \<Longrightarrow> clone ed k = Inr k"
  by (simp add: clone_def wf_key_def)

lemma length_hmac_sha512 [simp]: "hmac_laws hm \<Longrightarrow> length (hmac_sha512 hm k m) = 64"
  by (simp add: hmac_sha512_def hmac_lawsD(3))

lemma and_exp_not_bit: "\<not> bit (n :: 'a::len word) k \<Longrightarrow> and n (2 ^ k) = 0"
  by (rule bit_word_eqI) (auto simp: bit_and_iff bit_exp_iff)

lemma or_hardened_bit:
  fixes n :: u32
  assumes "n < 2 ^ 31"
  shows "or n (2 ^ 31) = n + 2 ^ 31"
proof -
  have "\<not> bit n 31"
  proof -
    have "unat n div 2 ^ 31 = 0" using assms by (simp add: word_less_nat_alt)
    then have "unat (drop_bit 31 n) = 0" unfolding unat_drop_bit_eq by (simp add: drop_bit_eq_div)
    then show ?thesis by (simp add: bit_iff_odd_drop_bit unat_eq_zero)
  qed
  then have "and n (2 ^ 31) = 0" by (rule and_exp_not_bit)
  then show ?thesis by (simp add: disjunctive_add_eq_or)
qed

text \<open>Both constructors cut an HMAC in two; neither half can have a wrong length.\<close>

lemma halves_parse:
  assumes "ed_laws ed" "length v = 64"
  obtains sk where "ed_sk_from_bytes ed (take 32 v) = Some sk" "ed_sk_to_bytes ed sk = take 32 v"
proof -
  obtain sk where sk: "ed_sk_from_bytes ed (take 32 v) = Some sk"
    using ed_sk_from_bytes_ok [OF assms(1), of "take 32 v"] assms(2) by auto
  then show thesis using that ed_lawsD(2) [OF assms(1) sk] by blast
qed

lemma from_seed_ok:
  assumes "ed_laws ed" "hmac_laws hm"
  shows "\<exists>k. from_seed ed hm seed = Inr (Inr k) \<and> wf_key ed k \<and> depth k = 0
    \<and> child_index k = Normal 0 \<and> node_of ed k = slip10_master hm seed"
proof -
  obtain mac where mac: "hmac_new_varkey hm ED25519_BIP32_NAME = Some mac"
    using hmac_lawsD(1) [OF assms(2)] by blast
  let ?v = "hmac_code hm (hmac_input hm mac seed)"
  have len: "length ?v = 64" by (rule hmac_lawsD(3) [OF assms(2)])
  obtain sk where sk: "ed_sk_from_bytes ed (take 32 ?v) = Some sk" "ed_sk_to_bytes ed sk = take 32 ?v"
    using halves_parse [OF assms(1) len] by blast
  have "hmac_sha512 hm (lit ''ed25519 seed'') seed = ?v"
    using mac by (simp add: hmac_sha512_def ED25519_BIP32_NAME_def)
  then show ?thesis
    using mac sk len
    by (simp add: from_seed_def try_signature_def rust_defs wf_key_def node_of_def slip10_master_def
        halves_def)
qed

lemma derive_child_normal:
  "dp_laws dp \<Longrightarrow> \<not> is_hardened i \<Longrightarrow>
     derive_child prof ed hm dp k i = Inr (Inl (ExpectedHardenedIndex i))"
  by (simp add: derive_child_def ci_is_normal_iff)

lemma derive_child_hardened:
  assumes "ed_laws ed" "hmac_laws hm" "dp_laws dp" "is_hardened i"
  shows "\<exists>sk cc. derive_child prof ed hm dp k i =
      rbind (add_u8 prof (depth k) 1) (\<lambda>d.
        Inr (Inr \<lparr>depth = d, child_index = i, secret_key = sk, chain_code = cc\<rparr>))
    \<and> ed_sk_from_bytes ed (ed_sk_to_bytes ed sk) = Some sk \<and> length cc = 32
    \<and> (\<forall>n. i = Hardened n \<and> n < 2 ^ 31 \<longrightarrow>
         (ed_sk_to_bytes ed sk, cc) = slip10_child hm (node_of ed k) n)"
proof -
  obtain mac where mac: "hmac_new_varkey hm (chain_code k) = Some mac"
    using hmac_lawsD(1) [OF assms(2)] by blast
  let ?v = "hmac_code hm (hmac_input hm mac
    (0 # ed_sk_to_bytes ed (secret_key k) @ to_be_bytes (ci_to_bits dp i)))"
  have len: "length ?v = 64" by (rule hmac_lawsD(3) [OF assms(2)])
  obtain sk where sk: "ed_sk_from_bytes ed (take 32 ?v) = Some sk" "ed_sk_to_bytes ed sk = take 32 ?v"
    using halves_parse [OF assms(1) len] by blast
  have eq: "derive_child prof ed hm dp k i = rbind (add_u8 prof (depth k) 1) (\<lambda>d.
      Inr (Inr \<lparr>depth = d, child_index = i, secret_key = sk, chain_code = drop 32 ?v\<rparr>))"
    using mac sk(1) len assms(3,4)
    by (simp add: derive_child_def ci_is_normal_iff hmac_lawsD(2) [OF assms(2)] try_signature_def
        rust_defs Let_def)
  have "(ed_sk_to_bytes ed sk, drop 32 ?v) = slip10_child hm (node_of ed k) n"
    if "i = Hardened n" "n < 2 ^ 31" for n
    using that mac sk(2) assms(3)
    by (simp add: slip10_child_def halves_def hmac_sha512_def node_of_def dp_laws_def
        or_hardened_bit [OF that(2), simplified])
  then show ?thesis using eq sk len by (intro exI [of _ sk] exI [of _ "drop 32 ?v"]) simp
qed

lemma derive_child_step:
  assumes "ed_laws ed" "hmac_laws hm" "dp_laws dp" "is_hardened i"
  shows "if prof = Debug \<and> unat (depth k) = 255
    then derive_child prof ed hm dp k i = Inl (Panic ArithOverflow)
    else \<exists>k'. derive_child prof ed hm dp k i = Inr (Inr k') \<and> wf_key ed k' \<and> depth k' = depth k + 1
      \<and> child_index k' = i
      \<and> (\<forall>n. i = Hardened n \<and> n < 2 ^ 31 \<longrightarrow> node_of ed k' = slip10_child hm (node_of ed k) n)"
proof -
  obtain sk cc where step: "derive_child prof ed hm dp k i = rbind (add_u8 prof (depth k) 1)
      (\<lambda>d. Inr (Inr \<lparr>depth = d, child_index = i, secret_key = sk, chain_code = cc\<rparr>))"
    and key: "ed_sk_from_bytes ed (ed_sk_to_bytes ed sk) = Some sk" "length cc = 32"
      "\<forall>n. i = Hardened n \<and> n < 2 ^ 31 \<longrightarrow> (ed_sk_to_bytes ed sk, cc) = slip10_child hm (node_of ed k) n"
    using derive_child_hardened [OF assms, of prof k] by blast
  have "256 \<le> x + 1 \<longleftrightarrow> x = 255" if "x < 256" for x :: nat using that by arith
  from this [of "unat (depth k)"]
  have "2 ^ 8 \<le> unat (depth k) + unat (1 :: u8) \<longleftrightarrow> unat (depth k) = 255" by simp
  with step have "derive_child prof ed hm dp k i =
      (if prof = Debug \<and> unat (depth k) = 255 then Inl (Panic ArithOverflow)
       else Inr (Inr \<lparr>depth = depth k + 1, child_index = i, secret_key = sk, chain_code = cc\<rparr>))"
    by (simp add: add_u8_def rbind_if)
  with key show ?thesis
    by (cases "prof = Debug \<and> unat (depth k) = 255") (auto simp: wf_key_def node_of_def)
qed

subsection \<open>The interface: deriving along a path\<close>

text \<open>
  What a client of the derivation relies on: a child exists for every hardened index as long as
  the level stays below 255, a normal index is rejected, and the walk takes the steps from left
  to right and stops at the first error.
\<close>

locale child_derivation =
  fixes lawful :: "'c \<Rightarrow> bool"
    and wf :: "'c \<Rightarrow> 'k \<Rightarrow> bool"
    and hardened :: "'i \<Rightarrow> bool"
    and level :: "'k \<Rightarrow> nat"
    and reject :: "'i \<Rightarrow> error"
    and child :: "'c \<Rightarrow> 'k \<Rightarrow> 'i \<Rightarrow> (error + 'k) res"
    and walk :: "'c \<Rightarrow> 'k \<Rightarrow> 'i list \<Rightarrow> (error + 'k) res"
  assumes child_ok: "lawful c \<Longrightarrow> wf c k \<Longrightarrow> hardened i \<Longrightarrow> level k < 255 \<Longrightarrow>
        \<exists>k'. child c k i = Inr (Inr k') \<and> wf c k' \<and> level k' = Suc (level k)"
    and child_reject: "lawful c \<Longrightarrow> \<not> hardened i \<Longrightarrow> child c k i = Inr (Inl (reject i))"
    and child_wf: "lawful c \<Longrightarrow> child c k i = Inr (Inr k') \<Longrightarrow> wf c k'"
    and walk_Nil: "lawful c \<Longrightarrow> wf c k \<Longrightarrow> walk c k [] = Inr (Inr k)"
    and walk_Cons: "lawful c \<Longrightarrow> wf c k \<Longrightarrow>
        walk c k (i # p) = try_bind (child c k i) (\<lambda>n. walk c n p)"
begin

lemma walk_wf:
  assumes "lawful c" "wf c k" "walk c k p = Inr (Inr k')"
  shows "wf c k'"
  using assms(2,3)
proof (induction p arbitrary: k)
  case (Cons i p)
  then obtain n where "child c k i = Inr (Inr n)" "walk c n p = Inr (Inr k')"
    by (auto simp: walk_Cons assms(1) try_bind_eq_Ok_iff)
  then show ?case using Cons.IH child_wf [OF assms(1)] by blast
qed (simp add: walk_Nil assms(1))

lemma walk_append:
  assumes "lawful c" "wf c k"
  shows "walk c k (p @ q) = try_bind (walk c k p) (\<lambda>n. walk c n q)"
  using assms(2)
proof (induction p arbitrary: k)
  case (Cons i p)
  have "try_bind (child c k i) (\<lambda>n. walk c n (p @ q))
      = try_bind (child c k i) (\<lambda>n. try_bind (walk c n p) (\<lambda>n. walk c n q))"
  proof (cases "child c k i")
    case (Inr r)
    then show ?thesis using Cons.IH child_wf [OF assms(1)] by (cases r) simp_all
  qed simp
  then show ?case using Cons.prems by (simp add: walk_Cons assms(1) try_bind_assoc)
qed (simp add: walk_Nil assms(1))

lemma walk_result:
  assumes "lawful c" "wf c k" "level k + length p \<le> 255"
  shows "case find (\<lambda>i. \<not> hardened i) p of
      Some i \<Rightarrow> walk c k p = Inr (Inl (reject i))
    | None \<Rightarrow> \<exists>k'. walk c k p = Inr (Inr k') \<and> wf c k' \<and> level k' = level k + length p"
  using assms(2,3)
proof (induction p arbitrary: k)
  case (Cons i p)
  show ?case
  proof (cases "hardened i")
    case True
    then obtain n where "child c k i = Inr (Inr n)" "wf c n" "level n = Suc (level k)"
      using child_ok [OF assms(1) Cons.prems(1) True] Cons.prems(2) by auto
    then show ?thesis
      using Cons.IH [of n] Cons.prems True
      by (cases "find (\<lambda>i. \<not> hardened i) p") (auto simp: walk_Cons assms(1))
  next
    case False
    then show ?thesis using Cons.prems by (simp add: walk_Cons assms(1) child_reject)
  qed
qed (simp add: walk_Nil assms(1))

end

lemma derive_eq_loop:
  "wf_key ed k \<Longrightarrow> derive prof ed hm dp k p = derive_loop prof ed hm dp k p"
  by (cases p) (simp_all add: derive_def)

lemma derive_child_wf:
  assumes "ed_laws ed" "hmac_laws hm" "dp_laws dp" "derive_child prof ed hm dp k i = Inr (Inr k')"
  shows "wf_key ed k'"
proof (cases "is_hardened i")
  case True
  then show ?thesis using derive_child_step [OF assms(1-3) True, of prof k] assms(4)
    by (auto split: if_splits)
next
  case False
  then show ?thesis using derive_child_normal [OF assms(3) False, of prof ed hm k] assms(4) by simp
qed

lemma derive_Cons:
  assumes "ed_laws ed" "hmac_laws hm" "dp_laws dp"
  shows "derive prof ed hm dp k (i # p)
    = try_bind (derive_child prof ed hm dp k i) (\<lambda>n. derive prof ed hm dp n p)"
proof (cases "derive_child prof ed hm dp k i")
  case (Inr r)
  then show ?thesis
    using derive_child_wf [OF assms] by (cases r) (simp_all add: derive_def [of _ _ _ _ k] derive_eq_loop)
qed (simp add: derive_def)

lemma unat_depth_Suc: "unat (d :: u8) < 255 \<Longrightarrow> unat (d + 1) = Suc (unat d)"
  by (simp add: unat_word_ariths)

interpretation hd_key: child_derivation
  "\<lambda>(prof, ed, hm, dp). ed_laws ed \<and> hmac_laws hm \<and> dp_laws dp"
  "\<lambda>(prof, ed, hm, dp). wf_key ed" is_hardened "\<lambda>k. unat (depth k)" ExpectedHardenedIndex
  "\<lambda>(prof, ed, hm, dp). derive_child prof ed hm dp" "\<lambda>(prof, ed, hm, dp). derive prof ed hm dp"
proof (unfold_locales, goal_cases)
  case (1 c k i)
  obtain prof ed hm dp where c: "c = (prof, ed, hm, dp)" by (cases c)
  show ?case
    using 1 derive_child_step [of ed hm dp i prof k] by (auto simp: c unat_depth_Suc)
next
  case (2 c i k)
  then show ?case by (cases c) (simp add: derive_child_normal)
next
  case (3 c k i k')
  then show ?case by (cases c) (auto intro: derive_child_wf)
next
  case (4 c k)
  then show ?case by (cases c) (simp add: derive_def)
next
  case (5 c k i p)
  then show ?case by (cases c) (simp add: derive_Cons)
qed

subsection \<open>Paths of every length\<close>

text \<open>
  The outcome of every path. Indices are derived from the left; a debug build panics when it
  would derive a hardened index at depth 255, and in either build the first normal index that
  is reached is rejected, whatever the depth, since the index is checked before the depth. In a
  release build the depth wraps around.
\<close>

lemma derive_outcome:
  assumes "ed_laws ed" "hmac_laws hm" "dp_laws dp" "wf_key ed k"
  shows "if prof = Debug \<and> 255 < unat (depth k) + length (takeWhile is_hardened p)
    then derive prof ed hm dp k p = Inl (Panic ArithOverflow)
    else (case find (\<lambda>i. \<not> is_hardened i) p of
        Some i \<Rightarrow> derive prof ed hm dp k p = Inr (Inl (ExpectedHardenedIndex i))
      | None \<Rightarrow> \<exists>k'. derive prof ed hm dp k p = Inr (Inr k') \<and> depth k' = depth k + of_nat (length p))"
  using assms(4)
proof (induction p arbitrary: k)
  case Nil
  have "unat (depth k) < 256" by simp
  then have "unat (depth k) \<le> 255" by linarith
  then show ?case using Nil by (simp add: derive_def)
next
  case (Cons i p)
  note derive = derive_Cons [OF assms(1-3)]
  show ?case
  proof (cases "is_hardened i")
    case True
    note step = derive_child_step [OF assms(1-3) True, of prof k]
    show ?thesis
    proof (cases "prof = Debug \<and> unat (depth k) = 255")
      case overflow: True
      then show ?thesis using step True by (simp add: derive)
    next
      case False
      then obtain n where n: "derive_child prof ed hm dp k i = Inr (Inr n)" "wf_key ed n"
          "depth n = depth k + 1"
        using step by (auto split: if_splits)
      have "unat (depth k) < 256" by simp
      then have "unat (depth k) < 255" if "prof = Debug" using False that by linarith
      then have "prof = Debug \<and> 255 < unat (depth n) + length (takeWhile is_hardened p)
          \<longleftrightarrow> prof = Debug \<and> 255 < unat (depth k) + length (takeWhile is_hardened (i # p))"
        using unat_depth_Suc [of "depth k"] n(3) True by auto
      moreover have "derive prof ed hm dp k (i # p) = derive prof ed hm dp n p"
        by (simp add: derive n(1))
      moreover have "find (\<lambda>i. \<not> is_hardened i) (i # p) = find (\<lambda>i. \<not> is_hardened i) p"
        using True by simp
      moreover have "depth n + of_nat (length p) = depth k + of_nat (length (i # p))"
        using n(3) by simp
      ultimately show ?thesis using Cons.IH [OF n(2)] by (simp only:)
    qed
  next
    case False
    have "unat (depth k) < 256" by simp
    then have "unat (depth k) \<le> 255" by linarith
    then show ?thesis using False by (simp add: derive derive_child_normal [OF assms(3)])
  qed
qed

lemma derive_hardened_path:
  assumes "ed_laws ed" "hmac_laws hm" "dp_laws dp" "wf_key ed k" "\<forall>i\<in>set p. is_hardened i"
  shows "if prof = Debug \<and> 255 < unat (depth k) + length p
    then derive prof ed hm dp k p = Inl (Panic ArithOverflow)
    else \<exists>k'. derive prof ed hm dp k p = Inr (Inr k') \<and> depth k' = depth k + of_nat (length p)"
proof -
  have whole: "takeWhile is_hardened p = p" using assms(5) by (simp add: takeWhile_eq_all_conv)
  have none: "find (\<lambda>i. \<not> is_hardened i) p = None" using assms(5) by (simp add: find_None_iff)
  show ?thesis by (rule derive_outcome [OF assms(1-4), of prof p, unfolded whole none option.case])
qed

text \<open>Whenever a hardened path is derived, its node is that of the specification.\<close>

lemma derive_hardened_node:
  assumes "ed_laws ed" "hmac_laws hm" "dp_laws dp" "wf_key ed k"
    and "derive prof ed hm dp k (map Hardened ns) = Inr (Inr k')" "\<forall>n\<in>set ns. n < 2 ^ 31"
  shows "node_of ed k' = foldl (slip10_child hm) (node_of ed k) ns"
  using assms(4-6)
proof (induction ns arbitrary: k)
  case (Cons n ns)
  from Cons.prems(2) obtain m where m: "derive_child prof ed hm dp k (Hardened n) = Inr (Inr m)"
      "derive prof ed hm dp m (map Hardened ns) = Inr (Inr k')"
    by (auto simp: derive_Cons [OF assms(1-3)] try_bind_eq_Ok_iff)
  have "is_hardened (Hardened n)" by simp
  from derive_child_step [OF assms(1-3) this, of prof k] m(1) Cons.prems(3)
  have "node_of ed m = slip10_child hm (node_of ed k) n" "wf_key ed m"
    by (auto split: if_splits)
  then show ?case using Cons.IH [of m] m(2) Cons.prems(3) by simp
qed (simp add: derive_def)

subsection \<open>Properties\<close>

text \<open>
  C2: the walk from a seed along a hardened path is the SLIP-0010 derivation for Ed25519:
  for every path of up to 255 indices below \<open>2^31\<close>, in both build profiles, it succeeds and
  its secret key and chain code are those of the specification; the depth counts the steps.
\<close>

theorem derive_refines_slip10:
  assumes "ed_laws ed" and "hmac_laws hm" and "dp_laws dp"
    and "length ns \<le> 255" and "\<forall>n\<in>set ns. n < 2 ^ 31"
  shows "\<exists>m k. from_seed ed hm seed = Inr (Inr m)
    \<and> derive prof ed hm dp m (map Hardened ns) = Inr (Inr k)
    \<and> node_of ed k = foldl (slip10_child hm) (slip10_master hm seed) ns
    \<and> unat (depth k) = length ns"
proof -
  obtain m where m: "from_seed ed hm seed = Inr (Inr m)" "wf_key ed m" "depth m = 0"
      "node_of ed m = slip10_master hm seed"
    using from_seed_ok [OF assms(1,2)] by blast
  have "\<forall>i\<in>set (map Hardened ns). is_hardened i" by simp
  from derive_hardened_path [OF assms(1-3) m(2) this, of prof] m(3) assms(4)
  obtain k where k: "derive prof ed hm dp m (map Hardened ns) = Inr (Inr k)"
      "depth k = of_nat (length ns)"
    by auto
  moreover have "node_of ed k = foldl (slip10_child hm) (node_of ed m) ns"
    by (rule derive_hardened_node [OF assms(1-3) m(2) k(1) assms(5)])
  moreover have "unat (of_nat (length ns) :: u8) = length ns"
    using assms(4) by (simp add: unat_of_nat)
  ultimately show ?thesis using m by metis
qed

theorem derive_refines_slip10_witness:
  "\<exists>m k. from_seed ref_ed ref_hmac [1, 2] = Inr (Inr m)
    \<and> derive Release ref_ed ref_hmac ref_dp m [Hardened 44, Hardened 354] = Inr (Inr k)
    \<and> node_of ref_ed k = slip10_child ref_hmac (slip10_child ref_hmac (slip10_master ref_hmac [1, 2]) 44) 354
    \<and> unat (depth k) = 2"
  using derive_refines_slip10 [OF ref_ed_laws ref_hmac_laws ref_dp_laws, of "[44, 354]" "[1, 2]" Release]
  by (simp, simp add: numeral_2_eq_2)

text \<open>
  Deriving along a concatenated path is deriving along the first part and then, from the
  key that gives, along the second; panics and errors of the first part are those of the whole.
  The empty path returns the key itself.
\<close>

theorem derive_append:
  assumes "ed_laws ed" and "hmac_laws hm" and "dp_laws dp" and "wf_key ed k"
  shows "derive prof ed hm dp k (p @ q)
      = try_bind (derive prof ed hm dp k p) (\<lambda>n. derive prof ed hm dp n q)
    \<and> derive prof ed hm dp k [] = Inr (Inr k)"
  using hd_key.walk_append [of "(prof, ed, hm, dp)" k p q]
    hd_key.walk_Nil [of "(prof, ed, hm, dp)" k] assms by simp

theorem derive_append_witness:
  "\<exists>m. from_seed ref_ed ref_hmac [1] = Inr (Inr m)
    \<and> derive Debug ref_ed ref_hmac ref_dp m [Hardened 1, Hardened 2]
      = try_bind (derive Debug ref_ed ref_hmac ref_dp m [Hardened 1])
          (\<lambda>n. derive Debug ref_ed ref_hmac ref_dp n [Hardened 2])"
proof -
  obtain m where m: "from_seed ref_ed ref_hmac [1] = Inr (Inr m)" "wf_key ref_ed m"
    using from_seed_ok [OF ref_ed_laws ref_hmac_laws] by blast
  have "[Hardened 1, Hardened 2] = [Hardened 1] @ [Hardened 2]" by simp
  then show ?thesis
    using m(1) derive_append [OF ref_ed_laws ref_hmac_laws ref_dp_laws m(2),
        of Debug "[Hardened 1]" "[Hardened 2]"] by metis
qed

text \<open>
  C27: while the depth stays within 255, a path is derivable exactly when it has no normal
  index, and the error names the first normal index of the path.
\<close>

theorem derive_reports_first_normal_index:
  assumes "ed_laws ed" and "hmac_laws hm" and "dp_laws dp" and "wf_key ed k"
    and "unat (depth k) + length p \<le> 255"
  shows "case find (\<lambda>i. \<not> is_hardened i) p of
      Some i \<Rightarrow> derive prof ed hm dp k p = Inr (Inl (ExpectedHardenedIndex i))
    | None \<Rightarrow> \<exists>k'. derive prof ed hm dp k p = Inr (Inr k') \<and> wf_key ed k'
        \<and> unat (depth k') = unat (depth k) + length p"
  using hd_key.walk_result [of "(prof, ed, hm, dp)" k p] assms
  by (cases "find (\<lambda>i. \<not> is_hardened i) p") simp_all

theorem derive_reports_first_normal_index_witness:
  "\<exists>m. from_seed ref_ed ref_hmac [9] = Inr (Inr m)
    \<and> derive Debug ref_ed ref_hmac ref_dp m [Hardened 0, Normal 1, Hardened 2, Normal 3]
      = Inr (Inl (ExpectedHardenedIndex (Normal 1)))"
proof -
  obtain m where m: "from_seed ref_ed ref_hmac [9] = Inr (Inr m)" "wf_key ref_ed m" "depth m = 0"
    using from_seed_ok [OF ref_ed_laws ref_hmac_laws] by blast
  then show ?thesis
    using derive_reports_first_normal_index [OF ref_ed_laws ref_hmac_laws ref_dp_laws m(2),
        of "[Hardened 0, Normal 1, Hardened 2, Normal 3]" Debug] by simp
qed

text \<open>
  C24: the depth is a \<open>u8\<close>. Along a hardened path that leaves 255 a debug build panics; a
  release build goes on and the depth wraps, so that the key after 256 steps has the depth of
  the root.
\<close>

theorem derive_depth_overflow:
  assumes "ed_laws ed" and "hmac_laws hm" and "dp_laws dp" and "wf_key ed k"
    and "\<forall>i\<in>set p. is_hardened i"
  shows "if prof = Debug \<and> 255 < unat (depth k) + length p
    then derive prof ed hm dp k p = Inl (Panic ArithOverflow)
    else \<exists>k'. derive prof ed hm dp k p = Inr (Inr k')
      \<and> unat (depth k') = (unat (depth k) + length p) mod 256"
proof (cases "prof = Debug \<and> 255 < unat (depth k) + length p")
  case False
  then obtain k' where "derive prof ed hm dp k p = Inr (Inr k')"
      "depth k' = depth k + of_nat (length p)"
    using derive_hardened_path [OF assms, of prof] by auto
  moreover have "unat (depth k + of_nat (length p)) = (unat (depth k) + length p) mod 256"
    by (simp add: unat_word_ariths unat_of_nat mod_simps)
  ultimately show ?thesis unfolding if_not_P [OF False] by auto
qed (use derive_hardened_path [OF assms, of prof] in simp)

theorem derive_depth_overflow_witness:
  "\<exists>m k. from_seed ref_ed ref_hmac [] = Inr (Inr m)
    \<and> derive Debug ref_ed ref_hmac ref_dp m (replicate 256 (Hardened 0)) = Inl (Panic ArithOverflow)
    \<and> derive Release ref_ed ref_hmac ref_dp m (replicate 256 (Hardened 0)) = Inr (Inr k)
    \<and> depth k = 0"
proof -
  obtain m where m: "from_seed ref_ed ref_hmac [] = Inr (Inr m)" "wf_key ref_ed m" "depth m = 0"
    using from_seed_ok [OF ref_ed_laws ref_hmac_laws] by blast
  note overflow = derive_depth_overflow [OF ref_ed_laws ref_hmac_laws ref_dp_laws m(2),
      of "replicate 256 (Hardened 0)"]
  have "derive Debug ref_ed ref_hmac ref_dp m (replicate 256 (Hardened 0)) = Inl (Panic ArithOverflow)"
    using overflow [of Debug] m(3) by simp
  moreover obtain k where
      "derive Release ref_ed ref_hmac ref_dp m (replicate 256 (Hardened 0)) = Inr (Inr k)"
      "unat (depth k) = 0"
    using overflow [of Release] m(3) by auto
  ultimately show ?thesis using m by (auto simp: unat_eq_zero)
qed

text \<open>
  The secp256k1 public key of an extended key. The same 32 secret bytes are read as a
  secp256k1 scalar: the result is a compressed key of 33 bytes, and it panics exactly when the
  bytes are not a valid scalar, which Ed25519 secrets need not be.
\<close>

theorem public_key_secp256k1_result:
  assumes "secp_laws sp"
  shows "case secp_sk_from_slice sp (ed_sk_to_bytes ed (secret_key k)) of
      None \<Rightarrow> public_key_secp256k1 ed sp k = Inl (Panic UnwrapErr)
    | Some s \<Rightarrow> \<exists>v. public_key_secp256k1 ed sp k = Inr v \<and> length v = 33
        \<and> secp_pk_from_slice sp v = Some (secp_pk_from_secret_key sp s)"
  using secp_lawsD(1,2) [OF assms]
  by (simp add: public_key_secp256k1_def Let_def split: option.split)

end
