(* ===== verification/Exports.thy ===== *)
theory Exports
  imports Boundary Bip39 Ed25519 Sr25519 Bip32
begin

section \<open>The exported functions (\<open>common.rs\<close>)\<close>

text \<open>
  The \<open>extern "C"\<close> functions: they read their pointer arguments, call one function of the
  modules, and put the result into memory. Each takes the crates it uses, the allocator where
  it returns a pointer, its arguments, and the memory; arguments are read in the order of the
  code, so the first bad argument decides the panic. A function that returns a \<open>bool\<close> only
  reads the memory. A panic that leaves an \<open>extern "C"\<close> function ends the model's run.
\<close>

type_synonym out = "(ptr \<times> heap) res"

subsection \<open>BIP-39\<close>

definition bip39_generate ::
    "('mt, 'mn, 'sd) bip39_api \<Rightarrow> allocator \<Rightarrow> bytes \<Rightarrow> u32 \<Rightarrow> heap \<Rightarrow> out" where
  "bip39_generate bp al rng words_number h =
     rbind (ext_bip39_generate bp rng words_number) (\<lambda>phrase.
       if ext_bip39_validate bp phrase then get_ptr al phrase h
       else get_ptr al (lit ''Error: Generating phrases failed'') h)"

definition bip39_validate :: "('mt, 'mn, 'sd) bip39_api \<Rightarrow> ptr \<Rightarrow> heap \<Rightarrow> bool res" where
  "bip39_validate bp phrase h = rbind (get_str phrase h) (\<lambda>s. Inr (ext_bip39_validate bp s))"

definition phrases_invalid :: bytes where
  "phrases_invalid = lit ''Error: Phrases are in-valid''"

definition bip39_to_entropy ::
    "hex_api \<Rightarrow> ('mt, 'mn, 'sd) bip39_api \<Rightarrow> allocator \<Rightarrow> ptr \<Rightarrow> heap \<Rightarrow> out" where
  "bip39_to_entropy hx bp al phrase h =
     rbind (bip39_validate bp phrase h) (\<lambda>valid.
       if valid then
         rbind (get_str phrase h) (\<lambda>s.
         rbind (ext_bip39_to_entropy bp s) (\<lambda>result_vec.
           get_ptr_from_u8vec hx al result_vec h))
       else get_ptr al phrases_invalid h)"

definition bip39_to_mini_secret ::
    "hex_api \<Rightarrow> ('mt, 'mn, 'sd) bip39_api \<Rightarrow> ('kec, 'sha, 'xx, 'xx64, 'sp) hash_api \<Rightarrow> allocator
       \<Rightarrow> ptr \<Rightarrow> ptr \<Rightarrow> heap \<Rightarrow> out" where
  "bip39_to_mini_secret hx bp ha al phrase password h =
     rbind (bip39_validate bp phrase h) (\<lambda>valid.
       if valid then
         rbind (get_str phrase h) (\<lambda>s.
         rbind (get_str password h) (\<lambda>pw.
         rbind (ext_bip39_to_mini_secret bp ha s pw) (\<lambda>result_vec.
           get_ptr_from_u8vec hx al result_vec h)))
       else get_ptr al phrases_invalid h)"

definition bip39_to_seed ::
    "hex_api \<Rightarrow> ('mt, 'mn, 'sd) bip39_api \<Rightarrow> allocator \<Rightarrow> ptr \<Rightarrow> ptr \<Rightarrow> heap \<Rightarrow> out" where
  "bip39_to_seed hx bp al phrase password h =
     rbind (bip39_validate bp phrase h) (\<lambda>valid.
       if valid then
         rbind (get_str phrase h) (\<lambda>s.
         rbind (get_str password h) (\<lambda>pw.
         rbind (ext_bip39_to_seed bp s pw) (\<lambda>result_vec.
           get_ptr_from_u8vec hx al result_vec h)))
       else get_ptr al phrases_invalid h)"

subsection \<open>Hashing\<close>

definition blake2b ::
    "hex_api \<Rightarrow> ('kec, 'sha, 'xx, 'xx64, 'sp) hash_api \<Rightarrow> allocator \<Rightarrow> ptr \<Rightarrow> ptr \<Rightarrow> u32 \<Rightarrow> heap \<Rightarrow> out"
where
  "blake2b hx ha al data key sz h =
     rbind (get_u8vec_from_ptr hx data h) (\<lambda>d.
     rbind (get_u8vec_from_ptr hx key h) (\<lambda>k.
     rbind (ext_blake2b ha d k sz) (\<lambda>result_vec. get_ptr_from_u8vec hx al result_vec h)))"

definition keccak256 ::
    "hex_api \<Rightarrow> ('kec, 'sha, 'xx, 'xx64, 'sp) hash_api \<Rightarrow> allocator \<Rightarrow> ptr \<Rightarrow> heap \<Rightarrow> out" where
  "keccak256 hx ha al data h =
     rbind (get_u8vec_from_ptr hx data h) (\<lambda>d.
     rbind (ext_keccak256 ha d) (\<lambda>result_vec. get_ptr_from_u8vec hx al result_vec h))"

definition pbkdf2 ::
    "hex_api \<Rightarrow> ('kec, 'sha, 'xx, 'xx64, 'sp) hash_api \<Rightarrow> allocator \<Rightarrow> ptr \<Rightarrow> ptr \<Rightarrow> u32 \<Rightarrow> heap \<Rightarrow> out"
where
  "pbkdf2 hx ha al data salt rounds h =
     rbind (get_u8vec_from_ptr hx data h) (\<lambda>d.
     rbind (get_u8vec_from_ptr hx salt h) (\<lambda>s.
     rbind (ext_pbkdf2 ha d s rounds) (\<lambda>result_vec. get_ptr_from_u8vec hx al result_vec h)))"

definition scrypt ::
    "hex_api \<Rightarrow> ('kec, 'sha, 'xx, 'xx64, 'sp) hash_api \<Rightarrow> allocator
       \<Rightarrow> ptr \<Rightarrow> ptr \<Rightarrow> u8 \<Rightarrow> u32 \<Rightarrow> u32 \<Rightarrow> heap \<Rightarrow> out"
where
  "scrypt hx ha al password salt log2_n r p h =
     rbind (get_u8vec_from_ptr hx password h) (\<lambda>pw.
     rbind (get_u8vec_from_ptr hx salt h) (\<lambda>s.
     rbind (ext_scrypt ha pw s log2_n r p) (\<lambda>result_vec. get_ptr_from_u8vec hx al result_vec h)))"

definition sha512 ::
    "hex_api \<Rightarrow> ('kec, 'sha, 'xx, 'xx64, 'sp) hash_api \<Rightarrow> allocator \<Rightarrow> ptr \<Rightarrow> heap \<Rightarrow> out" where
  "sha512 hx ha al data h =
     rbind (get_u8vec_from_ptr hx data h) (\<lambda>d.
     rbind (ext_sha512 ha d) (\<lambda>result_vec. get_ptr_from_u8vec hx al result_vec h))"

definition twox ::
    "hex_api \<Rightarrow> ('kec, 'sha, 'xx, 'xx64, 'sp) hash_api \<Rightarrow> allocator \<Rightarrow> ptr \<Rightarrow> u32 \<Rightarrow> heap \<Rightarrow> out" where
  "twox hx ha al data rounds h =
     rbind (get_u8vec_from_ptr hx data h) (\<lambda>d.
     rbind (ext_twox ha d rounds) (\<lambda>result_vec. get_ptr_from_u8vec hx al result_vec h))"

definition xxhash64 ::
    "hex_api \<Rightarrow> ('kec, 'sha, 'xx, 'xx64, 'sp) hash_api \<Rightarrow> allocator \<Rightarrow> ptr \<Rightarrow> u32 \<Rightarrow> heap \<Rightarrow> out" where
  "xxhash64 hx ha al data seed h =
     rbind (get_u8vec_from_ptr hx data h) (\<lambda>d.
     rbind (ext_xxhash ha d seed) (\<lambda>result_vec. get_ptr_from_u8vec hx al result_vec h))"

subsection \<open>Keys: BIP-32, public keys from private keys, secp256k1\<close>

definition bip32_get_private_key ::
    "profile \<Rightarrow> hex_api \<Rightarrow> ('sk, 'pk, 'kp, 'sig) ed_api \<Rightarrow> 'mac hmac_api \<Rightarrow> dp_api \<Rightarrow> allocator
       \<Rightarrow> ptr \<Rightarrow> ptr \<Rightarrow> heap \<Rightarrow> out"
where
  "bip32_get_private_key prof hx ed hm dp al seed path h =
     rbind (get_str path h) (\<lambda>ps.
     rbind (unwrap (dp_parse dp ps)) (\<lambda>vector_path.
     rbind (get_str seed h) (\<lambda>ss.
     rbind (root hx ed hm ss) (\<lambda>r.
     rbind (unwrap_result (derive prof ed hm dp r vector_path)) (\<lambda>node.
       let sk = ed_sk_to_bytes ed (secret_key node) in get_ptr_from_u8vec hx al sk h)))))"

definition ed25519_get_pub_from_prv ::
    "hex_api \<Rightarrow> ('sk, 'pk, 'kp, 'sig) ed_api \<Rightarrow> allocator \<Rightarrow> ptr \<Rightarrow> heap \<Rightarrow> out" where
  "ed25519_get_pub_from_prv hx ed al private_key h =
     rbind (get_u8vec_from_ptr hx private_key h) (\<lambda>sk_vec.
     rbind (unwrap (ed_sk_from_bytes ed sk_vec)) (\<lambda>sk.
       let pk = ed_pk_of_sk ed sk in get_ptr_from_u8vec hx al (ed_pk_to_bytes ed pk) h))"

definition secp256k1_get_pub_from_prv ::
    "hex_api \<Rightarrow> ('ssk, 'spk, 'msg, 'rid, 'rsig) secp_api \<Rightarrow> allocator \<Rightarrow> ptr \<Rightarrow> heap \<Rightarrow> out" where
  "secp256k1_get_pub_from_prv hx sp al private_key h =
     rbind (get_u8vec_from_ptr hx private_key h) (\<lambda>sk_vec.
     rbind (slice_to 32 sk_vec) (\<lambda>sk_bytes.
     rbind (unwrap (secp_sk_from_slice sp sk_bytes)) (\<lambda>sk.
       let pk = secp_pk_from_secret_key sp sk
       in get_ptr_from_u8vec hx al (secp_pk_serialize sp pk) h)))"

definition secp256k1_get_compress_pub ::
    "hex_api \<Rightarrow> ('ssk, 'spk, 'msg, 'rid, 'rsig) secp_api \<Rightarrow> allocator \<Rightarrow> ptr \<Rightarrow> heap \<Rightarrow> out" where
  "secp256k1_get_compress_pub hx sp al uncompressed h =
     rbind (get_u8vec_from_ptr hx uncompressed h) (\<lambda>u8_vec.
     rbind (unwrap (secp_pk_from_slice sp u8_vec)) (\<lambda>pk.
       get_ptr_from_u8vec hx al (secp_pk_serialize sp pk) h))"

definition secp256k1_recover ::
    "hex_api \<Rightarrow> ('ssk, 'spk, 'msg, 'rid, 'rsig) secp_api \<Rightarrow> allocator
       \<Rightarrow> ptr \<Rightarrow> ptr \<Rightarrow> u8 \<Rightarrow> heap \<Rightarrow> out"
where
  "secp256k1_recover hx sp al message signature recovery_id h =
     rbind (get_u8vec_from_ptr hx message h) (\<lambda>msg_vec.
     rbind (get_u8vec_from_ptr hx signature h) (\<lambda>sig_vec.
     rbind (unwrap (secp_message_from_slice sp msg_vec)) (\<lambda>msg.
     rbind (unwrap (recovery_id_from_i32 sp (ucast recovery_id))) (\<lambda>rid.
     rbind (slice_to 64 sig_vec) (\<lambda>compact.
     rbind (unwrap (recoverable_from_compact sp compact rid)) (\<lambda>sg.
     rbind (unwrap (secp_recover sp msg sg)) (\<lambda>pk.
       get_ptr_from_u8vec hx al (secp_pk_serialize sp pk) h)))))))"

definition sr25519_get_pub_from_seed ::
    "hex_api \<Rightarrow> ('msk, 'sk, 'pk, 'kp, 'sig) sr_api \<Rightarrow> allocator \<Rightarrow> ptr \<Rightarrow> heap \<Rightarrow> out" where
  "sr25519_get_pub_from_seed hx sr al seed h =
     rbind (get_u8vec_from_ptr hx seed h) (\<lambda>seed_vec.
     rbind (slice_to 32 seed_vec) (\<lambda>mini.
     rbind (ext_sr_from_seed sr mini) (\<lambda>result_vec.
     rbind (slice_range (SECRET_KEY_LENGTH sr) (KEYPAIR_LENGTH sr) result_vec) (\<lambda>pk.
       get_ptr_from_u8vec hx al pk h))))"

subsection \<open>Ed25519\<close>

definition ed25519_keypair_from_seed ::
    "hex_api \<Rightarrow> ('sk, 'pk, 'kp, 'sig) ed_api \<Rightarrow> allocator \<Rightarrow> ptr \<Rightarrow> heap \<Rightarrow> out" where
  "ed25519_keypair_from_seed hx ed al seed h =
     rbind (get_u8vec_from_ptr hx seed h) (\<lambda>seed_vec.
     rbind (ext_ed_from_seed ed seed_vec) (\<lambda>result_vec. get_ptr_from_u8vec hx al result_vec h))"

definition ed25519_sign ::
    "hex_api \<Rightarrow> ('sk, 'pk, 'kp, 'sig) ed_api \<Rightarrow> allocator \<Rightarrow> ptr \<Rightarrow> ptr \<Rightarrow> ptr \<Rightarrow> heap \<Rightarrow> out" where
  "ed25519_sign hx ed al pubkey seckey message h =
     rbind (get_u8vec_from_ptr hx pubkey h) (\<lambda>pubkey_vec.
     rbind (get_u8vec_from_ptr hx seckey h) (\<lambda>seckey_vec.
     rbind (get_u8vec_from_ptr hx message h) (\<lambda>message_vec.
     rbind (ext_ed_sign ed pubkey_vec seckey_vec message_vec) (\<lambda>result_vec.
       get_ptr_from_u8vec hx al result_vec h))))"

definition ed25519_verify ::
    "hex_api \<Rightarrow> ('sk, 'pk, 'kp, 'sig) ed_api \<Rightarrow> ptr \<Rightarrow> ptr \<Rightarrow> ptr \<Rightarrow> heap \<Rightarrow> bool res" where
  "ed25519_verify hx ed signature message pubkey h =
     rbind (get_u8vec_from_ptr hx signature h) (\<lambda>signature_vec.
     rbind (get_u8vec_from_ptr hx message h) (\<lambda>message_vec.
     rbind (get_u8vec_from_ptr hx pubkey h) (\<lambda>pubkey_vec.
       ext_ed_verify ed signature_vec message_vec pubkey_vec)))"

subsection \<open>Sr25519\<close>

definition sr25519_derive_keypair_hard ::
    "hex_api \<Rightarrow> ('msk, 'sk, 'pk, 'kp, 'sig) sr_api \<Rightarrow> allocator \<Rightarrow> ptr \<Rightarrow> ptr \<Rightarrow> heap \<Rightarrow> out" where
  "sr25519_derive_keypair_hard hx sr al pair cc h =
     rbind (get_u8vec_from_ptr hx pair h) (\<lambda>pair_vec.
     rbind (get_u8vec_from_ptr hx cc h) (\<lambda>cc_vec.
     rbind (ext_sr_derive_keypair_hard sr pair_vec cc_vec) (\<lambda>result_vec.
       get_ptr_from_u8vec hx al result_vec h)))"

definition sr25519_derive_keypair_soft ::
    "hex_api \<Rightarrow> ('msk, 'sk, 'pk, 'kp, 'sig) sr_api \<Rightarrow> allocator \<Rightarrow> bytes \<Rightarrow> ptr \<Rightarrow> ptr \<Rightarrow> heap \<Rightarrow> out"
where
  "sr25519_derive_keypair_soft hx sr al rng pair cc h =
     rbind (get_u8vec_from_ptr hx pair h) (\<lambda>pair_vec.
     rbind (get_u8vec_from_ptr hx cc h) (\<lambda>cc_vec.
     rbind (ext_sr_derive_keypair_soft sr rng pair_vec cc_vec) (\<lambda>result_vec.
       get_ptr_from_u8vec hx al result_vec h)))"

definition sr25519_derive_public_soft ::
    "hex_api \<Rightarrow> ('msk, 'sk, 'pk, 'kp, 'sig) sr_api \<Rightarrow> allocator \<Rightarrow> ptr \<Rightarrow> ptr \<Rightarrow> heap \<Rightarrow> out" where
  "sr25519_derive_public_soft hx sr al pubkey cc h =
     rbind (get_u8vec_from_ptr hx pubkey h) (\<lambda>pubkey_vec.
     rbind (get_u8vec_from_ptr hx cc h) (\<lambda>cc_vec.
     rbind (ext_sr_derive_public_soft sr pubkey_vec cc_vec) (\<lambda>result_vec.
       get_ptr_from_u8vec hx al result_vec h)))"

definition sr25519_keypair_from_seed ::
    "hex_api \<Rightarrow> ('msk, 'sk, 'pk, 'kp, 'sig) sr_api \<Rightarrow> allocator \<Rightarrow> ptr \<Rightarrow> heap \<Rightarrow> out" where
  "sr25519_keypair_from_seed hx sr al seed h =
     rbind (get_u8vec_from_ptr hx seed h) (\<lambda>seed_vec.
     rbind (ext_sr_from_seed sr seed_vec) (\<lambda>result_vec. get_ptr_from_u8vec hx al result_vec h))"

definition sr25519_keypair_from_pair ::
    "hex_api \<Rightarrow> ('msk, 'sk, 'pk, 'kp, 'sig) sr_api \<Rightarrow> allocator \<Rightarrow> ptr \<Rightarrow> heap \<Rightarrow> out" where
  "sr25519_keypair_from_pair hx sr al pair h =
     rbind (get_u8vec_from_ptr hx pair h) (\<lambda>pair_vec.
     rbind (ext_sr_from_pair sr pair_vec) (\<lambda>result_vec. get_ptr_from_u8vec hx al result_vec h))"

definition sr25519_sign ::
    "hex_api \<Rightarrow> ('msk, 'sk, 'pk, 'kp, 'sig) sr_api \<Rightarrow> allocator \<Rightarrow> bytes
       \<Rightarrow> ptr \<Rightarrow> ptr \<Rightarrow> ptr \<Rightarrow> heap \<Rightarrow> out"
where
  "sr25519_sign hx sr al rng pubkey seckey message h =
     rbind (get_u8vec_from_ptr hx pubkey h) (\<lambda>pubkey_vec.
     rbind (get_u8vec_from_ptr hx seckey h) (\<lambda>seckey_vec.
     rbind (get_u8vec_from_ptr hx message h) (\<lambda>message_vec.
     rbind (ext_sr_sign sr rng pubkey_vec seckey_vec message_vec) (\<lambda>result_vec.
       get_ptr_from_u8vec hx al result_vec h))))"

definition sr25519_verify ::
    "hex_api \<Rightarrow> ('msk, 'sk, 'pk, 'kp, 'sig) sr_api \<Rightarrow> ptr \<Rightarrow> ptr \<Rightarrow> ptr \<Rightarrow> heap \<Rightarrow> bool res" where
  "sr25519_verify hx sr signature message pubkey h =
     rbind (get_u8vec_from_ptr hx signature h) (\<lambda>signature_vec.
     rbind (get_u8vec_from_ptr hx message h) (\<lambda>message_vec.
     rbind (get_u8vec_from_ptr hx pubkey h) (\<lambda>pubkey_vec.
       Inr (ext_sr_verify sr signature_vec message_vec pubkey_vec))))"

lemmas export_defs = bip39_generate_def bip39_validate_def bip39_to_entropy_def
  bip39_to_mini_secret_def bip39_to_seed_def blake2b_def keccak256_def pbkdf2_def scrypt_def
  sha512_def twox_def xxhash64_def bip32_get_private_key_def ed25519_get_pub_from_prv_def
  secp256k1_get_pub_from_prv_def secp256k1_get_compress_pub_def secp256k1_recover_def
  sr25519_get_pub_from_seed_def ed25519_keypair_from_seed_def ed25519_sign_def ed25519_verify_def
  sr25519_derive_keypair_hard_def sr25519_derive_keypair_soft_def sr25519_derive_public_soft_def
  sr25519_keypair_from_seed_def sr25519_keypair_from_pair_def sr25519_sign_def sr25519_verify_def

subsection \<open>What every export returns\<close>

text \<open>
  \<open>gives_string\<close>: no undefined behaviour, and a result is a fresh Rust string. The rules
  follow the shape of the definitions, so each export is one application of the simplifier.
\<close>

definition gives_string :: "allocator \<Rightarrow> heap \<Rightarrow> out \<Rightarrow> bool" where
  "gives_string al h m \<longleftrightarrow> no_undefined m
     \<and> (\<forall>r. m = Inr r \<longrightarrow> (\<exists>s. c_text s \<and> get_ptr al s h = Inr r))"

lemma gives_string_get_ptr: "utf8_valid s \<Longrightarrow> gives_string al h (get_ptr al s h)"
  by (cases "0 \<in> set s") (auto simp: gives_string_def get_ptr_nul c_text_def get_ptr_ok)

lemma gives_string_put: "hex_laws hx \<Longrightarrow> gives_string al h (get_ptr_from_u8vec hx al v h)"
  by (simp add: get_ptr_from_u8vec_def gives_string_get_ptr)

lemma gives_string_rbind:
  assumes "no_undefined m" and "\<And>x. m = Inr x \<Longrightarrow> gives_string al h (f x)"
  shows "gives_string al h (rbind m f)"
  using assms by (cases m) (auto simp: gives_string_def no_undefined_Inl)

lemma no_undefined_result [simp]: "no_undefined (unwrap_result m) \<longleftrightarrow> no_undefined m"
proof (cases m)
  case (Inr r)
  then show ?thesis by (cases r) simp_all
qed (simp add: no_undefined_Inl)

lemma no_undefined_try_bind:
  assumes "no_undefined m" and "\<And>x. no_undefined (f x)"
  shows "no_undefined (try_bind m f)"
  using assms by (auto simp: try_bind_def intro!: no_undefined_rbind split: sum.split)

lemma no_undefined_hashing:
  "no_undefined (ext_blake2b ha d k sz)" "no_undefined (ext_keccak256 ha d)"
  "no_undefined (ext_pbkdf2 ha d s n)" "no_undefined (ext_scrypt ha d s l r p)"
  "no_undefined (ext_sha512 ha d)" "no_undefined (ext_xxhash ha d seed)"
  by (auto simp: ext_blake2b_def ext_keccak256_def ext_pbkdf2_def ext_scrypt_def ext_sha512_def
      ext_xxhash_def Let_def split: option.split)

lemma no_undefined_ext_twox: "no_undefined (ext_twox ha d n)"
proof -
  have "no_undefined (twox_loop ha d i n v)" for i v
  proof (induction ha d i n v rule: twox_loop.induct)
    case (1 ha d i n v)
    have "no_undefined (create_twox ha d (ucast i))" by (simp add: create_twox_def Let_def)
    with 1 show ?case by (subst twox_loop.simps) auto
  qed
  then show ?thesis by (simp add: ext_twox_def)
qed

lemma no_undefined_bip39:
  "no_undefined (ext_bip39_generate bp rng n)" "no_undefined (ext_bip39_to_entropy bp s)"
  "no_undefined (ext_bip39_to_mini_secret bp ha s pw)" "no_undefined (ext_bip39_to_seed bp s pw)"
  by (auto simp: ext_bip39_generate_def ext_bip39_to_entropy_def ext_bip39_to_mini_secret_def
      ext_bip39_to_seed_def Let_def)

lemma no_undefined_ed25519:
  "no_undefined (ext_ed_from_seed ed s)" "no_undefined (ext_ed_sign ed pk sk m)"
  "no_undefined (ext_ed_verify ed sg m pk)"
  by (auto simp: ed_defs Let_def split: option.split)

lemma no_undefined_sr25519:
  "no_undefined (ext_sr_from_seed sr s)" "no_undefined (ext_sr_from_pair sr s)"
  "no_undefined (ext_sr_derive_keypair_hard sr kp cc)"
  "no_undefined (ext_sr_derive_keypair_soft sr rng kp cc)"
  "no_undefined (ext_sr_derive_public_soft sr pk cc)" "no_undefined (ext_sr_sign sr rng pk sk m)"
  by (auto simp: ext_sr_from_seed_def ext_sr_from_pair_def ext_sr_derive_keypair_hard_def
      ext_sr_derive_keypair_soft_def ext_sr_derive_public_soft_def ext_sr_sign_def create_cc_def
      Let_def intro!: no_undefined_rbind)

lemma no_undefined_try_signature [simp]: "no_undefined (try_signature r)"
  by (simp add: try_signature_def split: option.split)

lemma no_undefined_bip32:
  "no_undefined (root hx ed hm s)" "no_undefined (derive prof ed hm dp k p)"
proof -
  show "no_undefined (root hx ed hm s)"
    by (auto simp: root_def hex_str_def from_seed_def Let_def
        intro!: no_undefined_rbind no_undefined_try_bind split: option.split)
  have child: "no_undefined (derive_child prof ed hm dp k i)" for k i
    by (auto simp: derive_child_def Let_def intro!: no_undefined_rbind no_undefined_try_bind)
  then have "no_undefined (derive_loop prof ed hm dp k p)" for k p
    by (induction p arbitrary: k) (auto intro: no_undefined_try_bind)
  with child show "no_undefined (derive prof ed hm dp k p)"
    by (auto simp: derive_def clone_def intro!: no_undefined_try_bind split: list.split)
qed

lemmas no_undefined_modules = no_undefined_hashing no_undefined_ext_twox no_undefined_bip39
  no_undefined_ed25519 no_undefined_sr25519 no_undefined_bip32

text \<open>One line per export; the pointer arguments have to be readable.\<close>

lemmas export_intros = gives_string_rbind gives_string_put no_undefined_rbind readable_no_undefined

lemma bip39_exports_give:
  assumes "hex_laws hx" "bip39_laws bp"
  shows "gives_string al h (bip39_generate bp al rng n h)"
    and "readable p h \<Longrightarrow> no_undefined (bip39_validate bp p h)"
    and "readable p h \<Longrightarrow> gives_string al h (bip39_to_entropy hx bp al p h)"
    and "readable p h \<Longrightarrow> readable q h \<Longrightarrow> gives_string al h (bip39_to_mini_secret hx bp ha al p q h)"
    and "readable p h \<Longrightarrow> readable q h \<Longrightarrow> gives_string al h (bip39_to_seed hx bp al p q h)"
proof -
  have utf: "utf8_valid (lit ''Error: Generating phrases failed'')" "utf8_valid phrases_invalid"
    by (simp_all add: phrases_invalid_def u8_nat)
  have "utf8_valid s" if "ext_bip39_generate bp rng n = Inr s" for s
    using that bip39_lawsD(4) [OF assms(2)] by (auto simp: ext_bip39_generate_def rbind_eq_Inr_iff)
  with utf show "gives_string al h (bip39_generate bp al rng n h)"
    unfolding bip39_generate_def
    by (intro gives_string_rbind) (simp_all add: no_undefined_modules gives_string_get_ptr)
  show valid: "readable p h \<Longrightarrow> no_undefined (bip39_validate bp p h)"
    by (auto simp: bip39_validate_def)
  note put = gives_string_get_ptr [OF utf(2)] gives_string_put [OF assms(1)]
  show "readable p h \<Longrightarrow> gives_string al h (bip39_to_entropy hx bp al p h)"
    unfolding bip39_to_entropy_def
    by (auto simp: assms put no_undefined_modules valid intro!: export_intros)
  show "readable p h \<Longrightarrow> readable q h \<Longrightarrow> gives_string al h (bip39_to_mini_secret hx bp ha al p q h)"
    unfolding bip39_to_mini_secret_def
    by (auto simp: assms put no_undefined_modules valid intro!: export_intros)
  show "readable p h \<Longrightarrow> readable q h \<Longrightarrow> gives_string al h (bip39_to_seed hx bp al p q h)"
    unfolding bip39_to_seed_def
    by (auto simp: assms put no_undefined_modules valid intro!: export_intros)
qed

lemma hash_exports_give:
  assumes "hex_laws hx" "readable p h"
  shows "readable q h \<Longrightarrow> gives_string al h (blake2b hx ha al p q n h)"
    and "gives_string al h (keccak256 hx ha al p h)"
    and "readable q h \<Longrightarrow> gives_string al h (pbkdf2 hx ha al p q n h)"
    and "readable q h \<Longrightarrow> gives_string al h (scrypt hx ha al p q l r n h)"
    and "gives_string al h (sha512 hx ha al p h)"
    and "gives_string al h (twox hx ha al p n h)"
    and "gives_string al h (xxhash64 hx ha al p n h)"
  unfolding blake2b_def keccak256_def pbkdf2_def scrypt_def sha512_def twox_def xxhash64_def
  by (intro export_intros assms no_undefined_modules; assumption)+

lemma key_exports_give:
  assumes "hex_laws hx" "readable p h"
  shows "readable q h \<Longrightarrow> gives_string al h (bip32_get_private_key prof hx ed hm dp al p q h)"
    and "gives_string al h (ed25519_get_pub_from_prv hx ed al p h)"
    and "gives_string al h (secp256k1_get_pub_from_prv hx sp al p h)"
    and "gives_string al h (secp256k1_get_compress_pub hx sp al p h)"
    and "readable q h \<Longrightarrow> gives_string al h (secp256k1_recover hx sp al p q i h)"
    and "gives_string al h (sr25519_get_pub_from_seed hx sr al p h)"
  unfolding bip32_get_private_key_def ed25519_get_pub_from_prv_def secp256k1_get_pub_from_prv_def
    secp256k1_get_compress_pub_def secp256k1_recover_def sr25519_get_pub_from_seed_def Let_def
  by (intro export_intros assms no_undefined_modules no_undefined_unwrap no_undefined_slices
      no_undefined_result [THEN iffD2]; assumption)+

lemma signature_exports_give:
  assumes "hex_laws hx" "readable p h"
  shows "gives_string al h (ed25519_keypair_from_seed hx ed al p h)"
    and "readable q h \<Longrightarrow> readable r h \<Longrightarrow> gives_string al h (ed25519_sign hx ed al p q r h)"
    and "readable q h \<Longrightarrow> readable r h \<Longrightarrow> no_undefined (ed25519_verify hx ed p q r h)"
    and "readable q h \<Longrightarrow> gives_string al h (sr25519_derive_keypair_hard hx sr al p q h)"
    and "readable q h \<Longrightarrow> gives_string al h (sr25519_derive_keypair_soft hx sr al rng p q h)"
    and "readable q h \<Longrightarrow> gives_string al h (sr25519_derive_public_soft hx sr al p q h)"
    and "gives_string al h (sr25519_keypair_from_seed hx sr al p h)"
    and "gives_string al h (sr25519_keypair_from_pair hx sr al p h)"
    and "readable q h \<Longrightarrow> readable r h \<Longrightarrow> gives_string al h (sr25519_sign hx sr al rng p q r h)"
    and "readable q h \<Longrightarrow> readable r h \<Longrightarrow> no_undefined (sr25519_verify hx sr p q r h)"
  unfolding ed25519_keypair_from_seed_def ed25519_sign_def ed25519_verify_def
    sr25519_derive_keypair_hard_def sr25519_derive_keypair_soft_def sr25519_derive_public_soft_def
    sr25519_keypair_from_seed_def sr25519_keypair_from_pair_def sr25519_sign_def sr25519_verify_def
  by (intro export_intros assms no_undefined_modules no_undefined_simps; assumption)+

end
