(* ===== verification/Export_Contracts.thy ===== *)
theory Export_Contracts
  imports Exports
begin

section \<open>The exports against their pure functions\<close>

text \<open>
  Each exported function is compared with the function of its module on the decoded
  arguments: \<open>port_refines hx m r\<close> says that the export \<open>m\<close> panics as the pure result \<open>r\<close> does,
  and otherwise returns a fresh pointer from which the client reads exactly the bytes of \<open>r\<close>.
\<close>

definition delivers :: "hex_api \<Rightarrow> out \<Rightarrow> bytes \<Rightarrow> bool" where
  "delivers hx m v \<longleftrightarrow> (\<exists>p h'. m = Inr (p, h') \<and> p \<noteq> 0 \<and> wf_heap h' \<and> get_u8vec_from_ptr hx p h' = Inr v)"

definition delivers_text :: "out \<Rightarrow> bytes \<Rightarrow> bool" where
  "delivers_text m s \<longleftrightarrow> (\<exists>p h'. m = Inr (p, h') \<and> p \<noteq> 0 \<and> wf_heap h' \<and> get_str p h' = Inr s)"

definition port_refines :: "hex_api \<Rightarrow> out \<Rightarrow> bytes res \<Rightarrow> bool" where
  "port_refines hx m r \<longleftrightarrow> (case r of Inl f \<Rightarrow> m = Inl f | Inr v \<Rightarrow> delivers hx m v)"

lemma port_refines_simps [simp]:
  "port_refines hx m (Inl f) \<longleftrightarrow> m = Inl f"
  "port_refines hx m (Inr v) \<longleftrightarrow> delivers hx m v"
  by (simp_all add: port_refines_def)

lemma delivers_put:
  assumes "hex_laws hx" "fresh_alloc al" "wf_heap h"
  shows "delivers hx (get_ptr_from_u8vec hx al v h) v"
proof -
  obtain p h' where "get_ptr_from_u8vec hx al v h = Inr (p, h')"
    using u8vec_port.put_total [of "(hx, al)" h v] assms by auto
  then show ?thesis
    using u8vec_port.put_block [of "(hx, al)" h v p h'] u8vec_port.get_put [of "(hx, al)" h v p h'] assms
    by (simp add: delivers_def)
qed

lemma delivers_text_put:
  assumes "fresh_alloc al" "wf_heap h" "c_text s"
  shows "delivers_text (get_ptr al s h) s"
  using str_port.put_total [OF assms] str_port.put_block [OF assms] str_port.get_put [OF assms]
  unfolding delivers_text_def by blast

lemma port_refines_put:
  assumes "hex_laws hx" "fresh_alloc al" "wf_heap h"
  shows "port_refines hx (rbind r (\<lambda>v. get_ptr_from_u8vec hx al v h)) r"
  using delivers_put [OF assms] by (cases r) simp_all

lemma demo_hex [simp]: "get_u8vec_from_ptr ref_hex 16 (demo_heap (ref_to_hex v)) = Inr v"
proof -
  have "c_text (ref_to_hex v)" using c_text_to_hex [OF ref_hex_laws] by (simp add: ref_hex_def)
  then show ?thesis
    by (simp add: get_u8vec_from_ptr_def get_str_def CStr_from_ptr_def demo_heap_def c_text_def
        ref_from_to_hex ref_hex_def)
qed

lemma demo_str: "c_text s \<Longrightarrow> get_str 16 (demo_heap s) = Inr s"
  by (simp add: get_str_def CStr_from_ptr_def demo_heap_def c_text_def)

lemma put_chain:
  assumes "hex_laws hx" "fresh_alloc al" "wf_heap h"
  shows "\<exists>p h'. get_ptr_from_u8vec hx al v h = Inr (p, h') \<and> wf_heap h'
    \<and> get_u8vec_from_ptr hx p h' = Inr v \<and> get_str p h' = Inr (to_hex hx v)
    \<and> (\<forall>q. h q \<noteq> None \<longrightarrow> h' q = h q)"
proof -
  have ct: "c_text (to_hex hx v)" using assms(1) by simp
  obtain p h' where put: "get_ptr al (to_hex hx v) h = Inr (p, h')"
    using str_port.put_total [OF assms(2,3) ct] by blast
  note str = str_port.get_put [OF assms(2,3) ct put]
  have "get_u8vec_from_ptr hx p h' = Inr v"
    using assms(1) by (simp add: get_u8vec_from_ptr_def str)
  then show ?thesis
    using str put str_port.put_block [OF assms(2,3) ct put] str_port.put_frame [OF assms(2,3) ct put]
    by (auto simp: get_ptr_from_u8vec_def)
qed

lemma get_str_live: "get_str p h = Inr s \<Longrightarrow> h p \<noteq> None"
  by (auto simp: get_str_def CStr_from_ptr_def rbind_eq_Inr_iff split: if_splits option.splits)

lemma get_u8vec_live: "get_u8vec_from_ptr hx p h = Inr v \<Longrightarrow> h p \<noteq> None"
  by (auto simp: get_u8vec_from_ptr_def rbind_eq_Inr_iff dest: get_str_live)

subsection \<open>Hashing\<close>

text \<open>
  Each of the seven hashing exports computes its function of \<open>hashing.rs\<close> on the bytes that
  its pointers name: it panics exactly when the function does, and otherwise the client reads
  the function's result back from the returned pointer.
\<close>

theorem hash_exports_refine:
  assumes "hex_laws hx" and "fresh_alloc al" and "wf_heap h"
    and "get_u8vec_from_ptr hx d h = Inr data" and "get_u8vec_from_ptr hx k h = Inr key"
  shows "port_refines hx (blake2b hx ha al d k sz h) (ext_blake2b ha data key sz)
    \<and> port_refines hx (keccak256 hx ha al d h) (ext_keccak256 ha data)
    \<and> port_refines hx (pbkdf2 hx ha al d k rounds h) (ext_pbkdf2 ha data key rounds)
    \<and> port_refines hx (scrypt hx ha al d k l r p h) (ext_scrypt ha data key l r p)
    \<and> port_refines hx (sha512 hx ha al d h) (ext_sha512 ha data)
    \<and> port_refines hx (twox hx ha al d rounds h) (ext_twox ha data rounds)
    \<and> port_refines hx (xxhash64 hx ha al d seed h) (ext_xxhash ha data seed)"
  by (simp add: blake2b_def keccak256_def pbkdf2_def scrypt_def sha512_def twox_def xxhash64_def
      assms(4,5) port_refines_put [OF assms(1-3)] del: port_refines_simps)

theorem hash_exports_refine_witness:
  "delivers ref_hex (keccak256 ref_hex ref_hash ref_alloc 16 (demo_heap (ref_to_hex [1, 2])))
     (pad 32 [1, 2])
   \<and> blake2b ref_hex ref_hash ref_alloc 16 16 0 (demo_heap (ref_to_hex [1, 2])) = Inl (Panic CrateAssert)"
  using hash_exports_refine [OF ref_hex_laws ref_alloc_fresh wf_demo_heap demo_hex demo_hex,
      where ha = ref_hash and data = "[1, 2]" and sz = 0]
  by (simp add: ext_keccak256_def ext_blake2b_def ref_hash_def)

subsection \<open>BIP-39\<close>

lemma c_text_phrases_invalid: "c_text phrases_invalid"
  by (simp add: phrases_invalid_def c_text_def u8_nat)

lemma phrases_invalid_not_hex: "hex_laws hx \<Longrightarrow> from_hex hx phrases_invalid = None"
  by (rule from_hex_reject [where b = 114])
     (simp_all add: phrases_invalid_def is_hex_digit_def is_hex_space_def)

text \<open>
  C10: the phrase conversions of the FFI never panic: on readable strings a valid phrase gives
  the entropy, the mini secret and the seed of \<open>bip39.rs\<close>, the last two of 32 bytes, and an
  invalid one gives the message \<open>Error: Phrases are in-valid\<close>, which no result can be mistaken
  for, since it is not hexadecimal.
\<close>

theorem bip39_exports_never_panic:
  assumes "hex_laws hx" and "bip39_laws bp" and "hash_laws ha" and "fresh_alloc al" and "wf_heap h"
    and "get_str p h = Inr phrase" and "get_str q h = Inr password"
  shows "if ext_bip39_validate bp phrase
    then (\<exists>e. ext_bip39_to_entropy bp phrase = Inr e \<and> delivers hx (bip39_to_entropy hx bp al p h) e)
      \<and> (\<exists>v. ext_bip39_to_mini_secret bp ha phrase password = Inr v \<and> length v = 32
           \<and> delivers hx (bip39_to_mini_secret hx bp ha al p q h) v)
      \<and> (\<exists>v. ext_bip39_to_seed bp phrase password = Inr v \<and> length v = 32
           \<and> delivers hx (bip39_to_seed hx bp al p q h) v)
    else delivers_text (bip39_to_entropy hx bp al p h) phrases_invalid
      \<and> delivers_text (bip39_to_mini_secret hx bp ha al p q h) phrases_invalid
      \<and> delivers_text (bip39_to_seed hx bp al p q h) phrases_invalid
      \<and> from_hex hx phrases_invalid = None"
proof (rule bip39_valid_cases [OF assms(2), of phrase])
  fix m
  assume "ext_bip39_validate bp phrase" "from_phrase bp phrase = Some m"
  then show ?thesis
    using delivers_put [OF assms(1,4,5)] assms(2,3)
    by (simp add: bip39_to_entropy_def bip39_to_mini_secret_def bip39_to_seed_def bip39_validate_def
        assms(6,7) ext_bip39_to_entropy_def ext_bip39_to_mini_secret_valid ext_bip39_to_seed_valid
        hash_lawsD(7) bip39_lawsD(6))
next
  assume "\<not> ext_bip39_validate bp phrase"
  then show ?thesis
    using delivers_text_put [OF assms(4,5) c_text_phrases_invalid] phrases_invalid_not_hex [OF assms(1)]
    by (simp add: bip39_to_entropy_def bip39_to_mini_secret_def bip39_to_seed_def bip39_validate_def
        assms(6))
qed

theorem bip39_exports_never_panic_witness:
  "delivers_text (bip39_to_seed ref_hex ref_bip39 ref_alloc 16 16 (demo_heap [97])) phrases_invalid"
proof -
  have s: "get_str 16 (demo_heap [97]) = Inr [97]" by (rule demo_str) (simp add: c_text_def u8_nat)
  have "\<not> ext_bip39_validate ref_bip39 [97]"
    by (simp add: ext_bip39_validate_def ref_bip39_def)
  then show ?thesis
    using bip39_exports_never_panic [OF ref_hex_laws ref_bip39_laws ref_hash_laws ref_alloc_fresh
        wf_demo_heap s s] by simp
qed

text \<open>
  C31: generation through the FFI. For the five word counts the client reads a phrase that
  \<open>bip39_validate\<close> accepts from the returned pointer and whose entropy \<open>bip39_to_entropy\<close>
  delivers; the branch \<open>Error: Generating phrases failed\<close> is never taken. For any other count
  the export panics.
\<close>

theorem bip39_generate_then_use:
  assumes "hex_laws hx" and "bip39_laws bp" and "fresh_alloc al" and "wf_heap h"
  shows "if unat words \<in> {12, 15, 18, 21, 24}
    then \<exists>r h' phrase e. bip39_generate bp al rng words h = Inr (r, h') \<and> get_str r h' = Inr phrase
      \<and> ext_bip39_generate bp rng words = Inr phrase
      \<and> bip39_validate bp r h' = Inr True \<and> delivers hx (bip39_to_entropy hx bp al r h') e
    else bip39_generate bp al rng words h = Inl (Panic UnwrapErr)"
proof (cases "unat words \<in> {12, 15, 18, 21, 24}")
  case True
  then obtain phrase m where gen: "ext_bip39_generate bp rng words = Inr phrase"
      "from_phrase bp phrase = Some m" "c_text phrase"
    using ext_bip39_generate_cases [OF assms(2), of words rng] by auto
  then have valid: "ext_bip39_validate bp phrase" by (simp add: ext_bip39_validate_iff [OF assms(2)])
  obtain r h' where put: "get_ptr al phrase h = Inr (r, h')" "wf_heap h'" "get_str r h' = Inr phrase"
    using delivers_text_put [OF assms(3,4) gen(3)] by (auto simp: delivers_text_def)
  have "delivers hx (bip39_to_entropy hx bp al r h') (mnemonic_entropy bp m)"
    using delivers_put [OF assms(1,3) put(2)]
    by (simp add: bip39_to_entropy_def bip39_validate_def put(3) valid ext_bip39_to_entropy_def gen(2))
  moreover have "bip39_generate bp al rng words h = Inr (r, h')"
    by (simp add: bip39_generate_def gen(1) valid put(1))
  moreover have "bip39_validate bp r h' = Inr True" by (simp add: bip39_validate_def put(3) valid)
  ultimately show ?thesis unfolding if_P [OF True] using gen(1) put(3) by blast
next
  case False
  then have "ext_bip39_generate bp rng words = Inl (Panic UnwrapErr)"
    using ext_bip39_generate_cases [OF assms(2), of words rng] by (simp only: if_False)
  then show ?thesis unfolding if_not_P [OF False] by (simp add: bip39_generate_def)
qed

theorem bip39_generate_then_use_witness:
  "(\<exists>r h'. bip39_generate ref_bip39 ref_alloc [] 24 (demo_heap []) = Inr (r, h')
      \<and> bip39_validate ref_bip39 r h' = Inr True)
   \<and> bip39_generate ref_bip39 ref_alloc [] 13 (demo_heap []) = Inl (Panic UnwrapErr)"
  using bip39_generate_then_use [OF ref_hex_laws ref_bip39_laws ref_alloc_fresh wf_demo_heap, of 24 "[]" "[]"]
    bip39_generate_then_use [OF ref_hex_laws ref_bip39_laws ref_alloc_fresh wf_demo_heap, of 13 "[]" "[]"]
  by auto

text \<open>
  C32: passwords that are not UTF-8 are not rejected: \<open>get_str\<close> replaces each of them by the same
  error text, so that with a valid phrase every malformed password gives one and the same
  mini secret and seed, those of the password \<open>Error: input string error\<close>.
\<close>

theorem malformed_passwords_collapse:
  assumes "hex_laws hx" and "fresh_alloc al" and "wf_heap h"
    and "get_str p h = Inr phrase" and "ext_bip39_validate bp phrase"
    and "q \<noteq> 0" and "h q = Some b" and "blk_bytes b = s @ 0 # r" and "0 \<notin> set s" and "\<not> utf8_valid s"
  shows "port_refines hx (bip39_to_mini_secret hx bp ha al p q h)
      (ext_bip39_to_mini_secret bp ha phrase input_string_error)
    \<and> port_refines hx (bip39_to_seed hx bp al p q h) (ext_bip39_to_seed bp phrase input_string_error)"
proof -
  have "get_str q h = Inr input_string_error"
    using get_str_block [of q h b s] assms(6-10) by simp
  then show ?thesis
    using port_refines_put [OF assms(1-3)]
    by (simp add: bip39_to_mini_secret_def bip39_to_seed_def bip39_validate_def assms(4,5)
        del: port_refines_simps)
qed

definition demo_heap2 :: "bytes \<Rightarrow> bytes \<Rightarrow> heap" where
  "demo_heap2 s t = (demo_heap s)(32 \<mapsto> \<lparr>blk_owner = Foreign, blk_bytes = t @ [0]\<rparr>)"

lemma wf_demo_heap2 [simp]: "wf_heap (demo_heap2 s t)"
  unfolding demo_heap2_def by (intro wf_heap_update) simp_all

lemma demo_str2:
  "c_text s \<Longrightarrow> get_str 16 (demo_heap2 s t) = Inr s"
  "c_text t \<Longrightarrow> get_str 32 (demo_heap2 s t) = Inr t"
  by (simp_all add: get_str_def CStr_from_ptr_def demo_heap2_def demo_heap_def c_text_def)

lemma demo_hex2 [simp]:
  "get_u8vec_from_ptr ref_hex 16 (demo_heap2 (ref_to_hex v) t) = Inr v"
  "get_u8vec_from_ptr ref_hex 32 (demo_heap2 s (ref_to_hex w)) = Inr w"
proof -
  have "c_text (ref_to_hex x)" for x using c_text_to_hex [OF ref_hex_laws] by (simp add: ref_hex_def)
  then show "get_u8vec_from_ptr ref_hex 16 (demo_heap2 (ref_to_hex v) t) = Inr v"
    and "get_u8vec_from_ptr ref_hex 32 (demo_heap2 s (ref_to_hex w)) = Inr w"
    by (simp_all add: get_u8vec_from_ptr_def demo_str2 ref_from_to_hex ref_hex_def)
qed

theorem malformed_passwords_collapse_witness:
  "port_refines ref_hex
     (bip39_to_seed ref_hex ref_bip39 ref_alloc 16 32 (demo_heap2 (ref_to_hex (replicate 16 0)) [0xFF]))
     (ext_bip39_to_seed ref_bip39 (ref_to_hex (replicate 16 0)) input_string_error)"
proof -
  let ?p = "ref_to_hex (replicate 16 0)"
  have "c_text ?p" using c_text_to_hex [OF ref_hex_laws] by (simp add: ref_hex_def)
  then have p: "get_str 16 (demo_heap2 ?p [0xFF]) = Inr ?p" by (rule demo_str2)
  have valid: "ext_bip39_validate ref_bip39 ?p"
    by (simp add: ext_bip39_validate_def ref_bip39_def ref_from_to_hex entropy_lengths_def)
  show ?thesis
    by (rule malformed_passwords_collapse [OF ref_hex_laws ref_alloc_fresh wf_demo_heap2 p valid,
          of 32 "\<lparr>blk_owner = Foreign, blk_bytes = [0xFF, 0]\<rparr>" "[0xFF]" "[]", THEN conjunct2])
      (simp_all add: demo_heap2_def u8_nat)
qed

end
