(* ===== verification/Key_Contracts.thy ===== *)
theory Key_Contracts
  imports Export_Contracts
begin

section \<open>Keys and signatures through the FFI\<close>

text \<open>
  The exports on keys: each against the function of its module, a whole sign-and-verify
  conversation through C memory for both signature schemes, hierarchical keys from the strings
  the client passes, and the secp256k1 functions, whose code is in \<open>common.rs\<close> itself.
\<close>

subsection \<open>Refinement\<close>

text \<open>
  C37: the Ed25519 and Sr25519 exports compute the functions of their modules on the bytes that
  their pointers name, and panic exactly when those panic.
\<close>

theorem signature_exports_refine:
  assumes "hex_laws hx" and "fresh_alloc al" and "wf_heap h"
    and "get_u8vec_from_ptr hx p h = Inr a" and "get_u8vec_from_ptr hx q h = Inr b"
    and "get_u8vec_from_ptr hx r h = Inr c"
  shows "port_refines hx (ed25519_keypair_from_seed hx ed al p h) (ext_ed_from_seed ed a)
    \<and> port_refines hx (ed25519_sign hx ed al p q r h) (ext_ed_sign ed a b c)
    \<and> ed25519_verify hx ed p q r h = ext_ed_verify ed a b c
    \<and> port_refines hx (sr25519_keypair_from_seed hx sr al p h) (ext_sr_from_seed sr a)
    \<and> port_refines hx (sr25519_keypair_from_pair hx sr al p h) (ext_sr_from_pair sr a)
    \<and> port_refines hx (sr25519_derive_keypair_hard hx sr al p q h) (ext_sr_derive_keypair_hard sr a b)
    \<and> port_refines hx (sr25519_derive_keypair_soft hx sr al rng p q h)
        (ext_sr_derive_keypair_soft sr rng a b)
    \<and> port_refines hx (sr25519_derive_public_soft hx sr al p q h) (ext_sr_derive_public_soft sr a b)
    \<and> port_refines hx (sr25519_sign hx sr al rng p q r h) (ext_sr_sign sr rng a b c)
    \<and> sr25519_verify hx sr p q r h = Inr (ext_sr_verify sr a b c)"
  by (simp add: ed25519_keypair_from_seed_def ed25519_sign_def ed25519_verify_def
      sr25519_keypair_from_seed_def sr25519_keypair_from_pair_def sr25519_derive_keypair_hard_def
      sr25519_derive_keypair_soft_def sr25519_derive_public_soft_def sr25519_sign_def
      sr25519_verify_def assms(4-6) port_refines_put [OF assms(1-3)] del: port_refines_simps)

theorem signature_exports_refine_witness:
  "ed25519_keypair_from_seed ref_hex ref_ed ref_alloc 16 (demo_heap (ref_to_hex [1]))
     = Inl (Panic UnwrapErr)
   \<and> sr25519_verify ref_hex ref_sr 16 16 16 (demo_heap (ref_to_hex [1])) = Inr False"
  using signature_exports_refine [OF ref_hex_laws ref_alloc_fresh wf_demo_heap demo_hex demo_hex demo_hex,
      where a = "[1]" and ed = ref_ed and sr = ref_sr]
  by (simp add: ext_ed_from_seed_eq ext_sr_verify_def ext_sr_verify_internal_def ref_sr_defs of_len_def)

subsection \<open>The interface: a signature scheme behind pointers\<close>

text \<open>
  The contract of \<open>Signatures\<close> extended by three exports that decode, call and encode. The
  client's conversation is proved once: between the calls it may do anything to the memory, as
  long as the pointers it passes name the bytes it means.
\<close>

locale signature_exports = signature_scheme lawful secret_len keypair_from_seed sign verify
  for lawful :: "'c \<Rightarrow> bool" and secret_len and keypair_from_seed and sign and verify +
  fixes hexed :: "'c \<Rightarrow> hex_api"
    and alloc :: "'c \<Rightarrow> allocator"
    and ex_keypair :: "'c \<Rightarrow> ptr \<Rightarrow> heap \<Rightarrow> out"
    and ex_sign :: "'c \<Rightarrow> ptr \<Rightarrow> ptr \<Rightarrow> ptr \<Rightarrow> heap \<Rightarrow> out"
    and ex_verify :: "'c \<Rightarrow> ptr \<Rightarrow> ptr \<Rightarrow> ptr \<Rightarrow> heap \<Rightarrow> bool res"
  assumes port: "lawful c \<Longrightarrow> hex_laws (hexed c) \<and> fresh_alloc (alloc c)"
    and ex_keypair: "lawful c \<Longrightarrow> wf_heap h \<Longrightarrow> get_u8vec_from_ptr (hexed c) p h = Inr seed \<Longrightarrow>
        port_refines (hexed c) (ex_keypair c p h) (keypair_from_seed c seed)"
    and ex_sign: "lawful c \<Longrightarrow> wf_heap h \<Longrightarrow> get_u8vec_from_ptr (hexed c) p h = Inr pk \<Longrightarrow>
        get_u8vec_from_ptr (hexed c) q h = Inr sk \<Longrightarrow> get_u8vec_from_ptr (hexed c) r h = Inr m \<Longrightarrow>
        port_refines (hexed c) (ex_sign c p q r h) (sign c pk sk m)"
    and ex_verify: "lawful c \<Longrightarrow> get_u8vec_from_ptr (hexed c) p h = Inr sg \<Longrightarrow>
        get_u8vec_from_ptr (hexed c) q h = Inr m \<Longrightarrow> get_u8vec_from_ptr (hexed c) r h = Inr pk \<Longrightarrow>
        ex_verify c p q r h = verify c sg m pk"
begin

lemma keypair_delivers:
  assumes "lawful c" "wf_heap h" "get_u8vec_from_ptr (hexed c) p h = Inr seed" "length seed = 32"
  shows "\<exists>kp. keypair_from_seed c seed = Inr kp \<and> length kp = secret_len + 32
    \<and> delivers (hexed c) (ex_keypair c p h) kp"
  using keypair_ok [OF assms(1,4)] ex_keypair [OF assms(1-3)] by auto

lemma sign_delivers:
  assumes "lawful c" "wf_heap h" "keypair_from_seed c seed = Inr kp"
    and "get_u8vec_from_ptr (hexed c) p h = Inr (drop secret_len kp)"
    and "get_u8vec_from_ptr (hexed c) q h = Inr (take secret_len kp)"
    and "get_u8vec_from_ptr (hexed c) r h = Inr m"
  shows "\<exists>sg. sign c (drop secret_len kp) (take secret_len kp) m = Inr sg \<and> length sg = 64
    \<and> delivers (hexed c) (ex_sign c p q r h) sg"
  using sign_ok [OF assms(1,3), of m] ex_sign [OF assms(1,2,4,5,6)] by auto

lemma verify_accepts:
  assumes "lawful c" "keypair_from_seed c seed = Inr kp"
    and "sign c (drop secret_len kp) (take secret_len kp) m = Inr sg"
    and "get_u8vec_from_ptr (hexed c) p h = Inr sg" "get_u8vec_from_ptr (hexed c) q h = Inr m"
    and "get_u8vec_from_ptr (hexed c) r h = Inr (drop secret_len kp)"
  shows "ex_verify c p q r h = Inr True"
  using sign_ok [OF assms(1,2), of m] ex_verify [OF assms(1,4-6)] assms(3) by auto

lemma conversation:
  assumes "lawful c" "wf_heap h" "get_u8vec_from_ptr (hexed c) p h = Inr seed" "length seed = 32"
  shows "\<exists>kp. delivers (hexed c) (ex_keypair c p h) kp \<and> length kp = secret_len + 32
    \<and> (\<forall>h1 p1 p2 p3 m. wf_heap h1
        \<and> get_u8vec_from_ptr (hexed c) p1 h1 = Inr (drop secret_len kp)
        \<and> get_u8vec_from_ptr (hexed c) p2 h1 = Inr (take secret_len kp)
        \<and> get_u8vec_from_ptr (hexed c) p3 h1 = Inr m \<longrightarrow>
        (\<exists>sg. delivers (hexed c) (ex_sign c p1 p2 p3 h1) sg \<and> length sg = 64
          \<and> (\<forall>h2 q1 q2 q3. get_u8vec_from_ptr (hexed c) q1 h2 = Inr sg
              \<and> get_u8vec_from_ptr (hexed c) q2 h2 = Inr m
              \<and> get_u8vec_from_ptr (hexed c) q3 h2 = Inr (drop secret_len kp) \<longrightarrow>
              ex_verify c q1 q2 q3 h2 = Inr True)))"
  using keypair_delivers [OF assms] sign_delivers [OF assms(1)] verify_accepts [OF assms(1)]
  by (metis (no_types, lifting))

end

interpretation ed25519_ffi: signature_exports
  "\<lambda>(hx, al, ed). hex_laws hx \<and> fresh_alloc al \<and> ed_laws ed" 32
  "\<lambda>(hx, al, ed). ext_ed_from_seed ed" "\<lambda>(hx, al, ed). ext_ed_sign ed"
  "\<lambda>(hx, al, ed). ext_ed_verify ed" fst "\<lambda>(hx, al, ed). al"
  "\<lambda>(hx, al, ed). ed25519_keypair_from_seed hx ed al" "\<lambda>(hx, al, ed). ed25519_sign hx ed al"
  "\<lambda>(hx, al, ed). ed25519_verify hx ed"
proof (unfold_locales, goal_cases)
  case (1 c seed)
  then show ?case using ed25519.keypair_ok [of "snd (snd c)" seed] by (cases c) simp
next
  case (2 c seed)
  then show ?case using ed25519.keypair_err [of "snd (snd c)" seed] by (cases c) simp
next
  case (3 c seed kp m)
  then show ?case using ed25519.sign_ok [of "snd (snd c)" seed kp m] by (cases c) simp
next
  case (4 c)
  then show ?case by (cases c) simp
next
  case (5 c h p seed)
  then show ?case
    by (cases c) (simp add: ed25519_keypair_from_seed_def port_refines_put del: port_refines_simps)
next
  case (6 c h p pk q sk r m)
  then show ?case
    by (cases c) (simp add: ed25519_sign_def port_refines_put del: port_refines_simps)
next
  case (7 c p h sg q m r pk)
  then show ?case by (cases c) (simp add: ed25519_verify_def)
qed

interpretation sr25519_ffi: signature_exports
  "\<lambda>(hx, al, sr, rng). hex_laws hx \<and> fresh_alloc al \<and> sr_laws sr" 64
  "\<lambda>(hx, al, sr, rng). ext_sr_from_seed sr" "\<lambda>(hx, al, sr, rng). ext_sr_sign sr rng"
  "\<lambda>(hx, al, sr, rng) sg m pk. Inr (ext_sr_verify sr sg m pk)" fst "\<lambda>(hx, al, sr, rng). al"
  "\<lambda>(hx, al, sr, rng). sr25519_keypair_from_seed hx sr al"
  "\<lambda>(hx, al, sr, rng). sr25519_sign hx sr al rng" "\<lambda>(hx, al, sr, rng). sr25519_verify hx sr"
proof (unfold_locales, goal_cases)
  case (1 c seed)
  then show ?case using sr25519.keypair_ok [of "snd (snd c)" seed] by (cases c) simp
next
  case (2 c seed)
  then show ?case using sr25519.keypair_err [of "snd (snd c)" seed] by (cases c) simp
next
  case (3 c seed kp m)
  then show ?case using sr25519.sign_ok [of "snd (snd c)" seed kp m] by (cases c) simp
next
  case (4 c)
  then show ?case by (cases c) simp
next
  case (5 c h p seed)
  then show ?case
    by (cases c) (simp add: sr25519_keypair_from_seed_def port_refines_put del: port_refines_simps)
next
  case (6 c h p pk q sk r m)
  then show ?case
    by (cases c) (simp add: sr25519_sign_def port_refines_put del: port_refines_simps)
next
  case (7 c p h sg q m r pk)
  then show ?case by (cases c) (simp add: sr25519_verify_def)
qed

subsection \<open>Conversations\<close>

text \<open>
  C7: an Ed25519 conversation through C memory. The pointer that \<open>ed25519_keypair_from_seed\<close>
  returns for a seed of 32 bytes names a pair of 64 bytes; whenever the client later passes its
  second half, its first half and a message, in whatever memory, \<open>ed25519_sign\<close> delivers 64
  bytes, and whenever it passes those with the message and the second half,
  \<open>ed25519_verify\<close> answers true.
\<close>

theorem ed25519_ffi_conversation:
  assumes "hex_laws hx" and "fresh_alloc al" and "ed_laws ed" and "wf_heap h"
    and "get_u8vec_from_ptr hx p h = Inr seed" and "length seed = 32"
  shows "\<exists>kp. delivers hx (ed25519_keypair_from_seed hx ed al p h) kp \<and> length kp = 64
    \<and> (\<forall>h1 p1 p2 p3 m. wf_heap h1 \<and> get_u8vec_from_ptr hx p1 h1 = Inr (drop 32 kp)
        \<and> get_u8vec_from_ptr hx p2 h1 = Inr (take 32 kp) \<and> get_u8vec_from_ptr hx p3 h1 = Inr m \<longrightarrow>
        (\<exists>sg. delivers hx (ed25519_sign hx ed al p1 p2 p3 h1) sg \<and> length sg = 64
          \<and> (\<forall>h2 q1 q2 q3. get_u8vec_from_ptr hx q1 h2 = Inr sg
              \<and> get_u8vec_from_ptr hx q2 h2 = Inr m
              \<and> get_u8vec_from_ptr hx q3 h2 = Inr (drop 32 kp) \<longrightarrow>
              ed25519_verify hx ed q1 q2 q3 h2 = Inr True)))"
  using ed25519_ffi.conversation [of "(hx, al, ed)" h p seed] assms by simp

theorem ed25519_ffi_conversation_witness:
  "\<exists>kp. delivers ref_hex (ed25519_keypair_from_seed ref_hex ref_ed ref_alloc 16
      (demo_heap (ref_to_hex (replicate 32 7)))) kp \<and> length kp = 64"
  using ed25519_ffi_conversation [OF ref_hex_laws ref_alloc_fresh ref_ed_laws wf_demo_heap demo_hex,
      of "replicate 32 7"] by auto

text \<open>
  C6: the same for Sr25519, whose pair has 96 bytes, the secret key being the first 64, and for
  every randomness drawn by the signature.
\<close>

theorem sr25519_ffi_conversation:
  assumes "hex_laws hx" and "fresh_alloc al" and "sr_laws sr" and "wf_heap h"
    and "get_u8vec_from_ptr hx p h = Inr seed" and "length seed = 32"
  shows "\<exists>kp. delivers hx (sr25519_keypair_from_seed hx sr al p h) kp \<and> length kp = 96
    \<and> (\<forall>h1 p1 p2 p3 m. wf_heap h1 \<and> get_u8vec_from_ptr hx p1 h1 = Inr (drop 64 kp)
        \<and> get_u8vec_from_ptr hx p2 h1 = Inr (take 64 kp) \<and> get_u8vec_from_ptr hx p3 h1 = Inr m \<longrightarrow>
        (\<exists>sg. delivers hx (sr25519_sign hx sr al rng p1 p2 p3 h1) sg \<and> length sg = 64
          \<and> (\<forall>h2 q1 q2 q3. get_u8vec_from_ptr hx q1 h2 = Inr sg
              \<and> get_u8vec_from_ptr hx q2 h2 = Inr m
              \<and> get_u8vec_from_ptr hx q3 h2 = Inr (drop 64 kp) \<longrightarrow>
              sr25519_verify hx sr q1 q2 q3 h2 = Inr True)))"
  using sr25519_ffi.conversation [of "(hx, al, sr, rng)" h p seed] assms by simp

theorem sr25519_ffi_conversation_witness:
  "\<exists>kp. delivers ref_hex (sr25519_keypair_from_seed ref_hex ref_sr ref_alloc 16
      (demo_heap (ref_to_hex (replicate 32 7)))) kp \<and> length kp = 96"
  using sr25519_ffi_conversation [OF ref_hex_laws ref_alloc_fresh ref_sr_laws wf_demo_heap demo_hex,
      where seed = "replicate 32 7" and rng = "[]"] by auto

subsection \<open>Public keys\<close>

text \<open>
  \<open>sr25519_get_pub_from_seed\<close> delivers the public half of the key pair of the first 32 bytes
  of its argument, whatever follows them, and panics on fewer; \<open>sr25519_keypair_from_seed\<close> and
  \<open>ed25519_get_pub_from_prv\<close> insist on exactly 32.
\<close>

theorem public_key_exports:
  assumes "hex_laws hx" and "fresh_alloc al" and "sr_laws sr" and "ed_laws ed" and "wf_heap h"
    and "get_u8vec_from_ptr hx p h = Inr seed"
  shows "(if length seed < 32 then sr25519_get_pub_from_seed hx sr al p h = Inl (Panic SliceIndex)
      else \<exists>kp. ext_sr_from_seed sr (take 32 seed) = Inr kp
        \<and> delivers hx (sr25519_get_pub_from_seed hx sr al p h) (drop 64 kp))
    \<and> (length seed \<noteq> 32 \<longrightarrow> sr25519_keypair_from_seed hx sr al p h = Inl (Panic UnwrapErr)
        \<and> ed25519_get_pub_from_prv hx ed al p h = Inl (Panic UnwrapErr))
    \<and> (length seed = 32 \<longrightarrow> (\<exists>kp. ext_ed_from_seed ed seed = Inr kp
        \<and> delivers hx (ed25519_get_pub_from_prv hx ed al p h) (drop 32 kp)))"
proof (intro conjI impI)
  show "if length seed < 32 then sr25519_get_pub_from_seed hx sr al p h = Inl (Panic SliceIndex)
      else \<exists>kp. ext_sr_from_seed sr (take 32 seed) = Inr kp
        \<and> delivers hx (sr25519_get_pub_from_seed hx sr al p h) (drop 64 kp)"
  proof (cases "length seed < 32")
    case False
    then obtain kp where "ext_sr_from_seed sr (take 32 seed) = Inr kp" "length kp = 96"
      using sr25519.keypair_ok [of "(sr, [])" "take 32 seed"] assms(3) by auto
    with False show ?thesis
      using delivers_put [OF assms(1,2,5)]
      by (simp add: sr25519_get_pub_from_seed_def assms(6) slice_to_def slice_range_def
          sr_lawsD(15,16) [OF assms(3)])
  qed (simp add: sr25519_get_pub_from_seed_def assms(6) slice_to_def)
next
  assume "length seed \<noteq> 32"
  then show "sr25519_keypair_from_seed hx sr al p h = Inl (Panic UnwrapErr)"
    and "ed25519_get_pub_from_prv hx ed al p h = Inl (Panic UnwrapErr)"
    by (simp_all add: sr25519_keypair_from_seed_def ed25519_get_pub_from_prv_def assms(6)
        ext_sr_from_seed_eq [OF assms(3)] ed_sk_from_bytes_err [OF assms(4)])
next
  assume len: "length seed = 32"
  then obtain s where "ed_sk_from_bytes ed seed = Some s" using ed_sk_from_bytes_ok [OF assms(4)] by blast
  then show "\<exists>kp. ext_ed_from_seed ed seed = Inr kp
      \<and> delivers hx (ed25519_get_pub_from_prv hx ed al p h) (drop 32 kp)"
    using delivers_put [OF assms(1,2,5)] len
    by (simp add: ext_ed_from_seed_eq [OF assms(4)] ed25519_get_pub_from_prv_def assms(6) ed_public_def)
qed

theorem public_key_exports_witness:
  "sr25519_get_pub_from_seed ref_hex ref_sr ref_alloc 16 (demo_heap (ref_to_hex [1])) = Inl (Panic SliceIndex)
   \<and> (\<exists>kp. delivers ref_hex (sr25519_get_pub_from_seed ref_hex ref_sr ref_alloc 16
        (demo_heap (ref_to_hex (replicate 40 1)))) (drop 64 kp))"
  using public_key_exports [OF ref_hex_laws ref_alloc_fresh ref_sr_laws ref_ed_laws wf_demo_heap demo_hex,
      of "[1]"]
    public_key_exports [OF ref_hex_laws ref_alloc_fresh ref_sr_laws ref_ed_laws wf_demo_heap demo_hex,
      of "replicate 40 1"] by auto

subsection \<open>Hierarchical keys\<close>

lemma bip32_run:
  assumes "get_str p h = Inr seed" "get_str q h = Inr path"
    and "dp_parse dp path = Some ixs" "from_hex hx seed = Some sd" "from_seed ed hm sd = Inr (Inr m)"
  shows "bip32_get_private_key prof hx ed hm dp al p q h =
    rbind (unwrap_result (derive prof ed hm dp m ixs))
      (\<lambda>node. get_ptr_from_u8vec hx al (ed_sk_to_bytes ed (secret_key node)) h)"
  by (simp add: bip32_get_private_key_def assms root_def hex_str_def)

lemma derive_key_cases:
  assumes "ed_laws ed" "hmac_laws hm" "dp_laws dp" "wf_key ed m" "depth m = 0"
  obtains (overflow) "prof = Debug" "255 < length (takeWhile is_hardened ixs)"
      "derive prof ed hm dp m ixs = Inl (Panic ArithOverflow)"
    | (normal) i where "\<not> (prof = Debug \<and> 255 < length (takeWhile is_hardened ixs))"
      "i \<in> set ixs" "\<not> is_hardened i" "derive prof ed hm dp m ixs = Inr (Inl (ExpectedHardenedIndex i))"
    | (hardened) k where "\<not> (prof = Debug \<and> 255 < length (takeWhile is_hardened ixs))"
      "\<forall>i\<in>set ixs. is_hardened i" "derive prof ed hm dp m ixs = Inr (Inr k)"
proof -
  note outcome = derive_outcome [OF assms(1-4), of prof ixs]
  show thesis
  proof (cases "prof = Debug \<and> 255 < length (takeWhile is_hardened ixs)")
    case True
    then show thesis using overflow outcome assms(5) by simp
  next
    case False
    note found = outcome [unfolded assms(5) unsigned_0 add_0 if_not_P [OF False]]
    show thesis
    proof (cases "find (\<lambda>i. \<not> is_hardened i) ixs")
      case None
      then have "\<forall>i\<in>set ixs. is_hardened i" by (simp add: find_None_iff)
      then show thesis using hardened False found None by auto
    next
      case (Some i)
      then have "i \<in> set ixs \<and> \<not> is_hardened i" by (auto simp: find_Some_iff)
      then show thesis using normal False found Some by auto
    qed
  qed
qed

lemma bip32_delivers:
  assumes "hex_laws hx" "fresh_alloc al" "wf_heap h"
    and "bip32_get_private_key prof hx ed hm dp al p q h =
      rbind (unwrap_result (derive prof ed hm dp m ixs))
        (\<lambda>node. get_ptr_from_u8vec hx al (ed_sk_to_bytes ed (secret_key node)) h)"
    and "derive prof ed hm dp m ixs = Inr (Inr k)" "node_of ed k = n"
  shows "delivers hx (bip32_get_private_key prof hx ed hm dp al p q h) (fst n)"
proof -
  have "fst n = ed_sk_to_bytes ed (secret_key k)" using assms(6) by (auto simp: node_of_def)
  then show ?thesis using delivers_put [OF assms(1-3)] by (simp add: assms(4,5))
qed

text \<open>
  C9: \<open>bip32_get_private_key\<close> from the client's strings. A path that does not parse panics
  before the seed is looked at, and a seed that is not hexadecimal panics with \<open>wrong\<close>. On a
  path of any length, in a debug build more than 255 hardened indices in front panic with the
  overflow of the depth; otherwise a normal index anywhere in the path panics in the final
  \<open>unwrap\<close>, and from a path of hardened indices only, each below \<open>2^31\<close>, the client reads the
  secret key of the SLIP-0010 derivation.
\<close>

theorem bip32_export_refines_slip10:
  assumes "hex_laws hx" and "fresh_alloc al" and "ed_laws ed" and "hmac_laws hm" and "dp_laws dp"
    and "wf_heap h" and "get_str p h = Inr seed" and "get_str q h = Inr path"
  shows "case dp_parse dp path of
      None \<Rightarrow> bip32_get_private_key prof hx ed hm dp al p q h = Inl (Panic UnwrapErr)
    | Some ixs \<Rightarrow> (case from_hex hx seed of
        None \<Rightarrow> bip32_get_private_key prof hx ed hm dp al p q h = Inl (Panic (ExplicitPanic ''wrong''))
      | Some sd \<Rightarrow>
          (if prof = Debug \<and> 255 < length (takeWhile is_hardened ixs)
           then bip32_get_private_key prof hx ed hm dp al p q h = Inl (Panic ArithOverflow)
           else if \<exists>i\<in>set ixs. \<not> is_hardened i
           then bip32_get_private_key prof hx ed hm dp al p q h = Inl (Panic UnwrapErr)
           else \<forall>ns. ixs = map Hardened ns \<and> (\<forall>n\<in>set ns. n < 2 ^ 31) \<longrightarrow>
             delivers hx (bip32_get_private_key prof hx ed hm dp al p q h)
               (fst (foldl (slip10_child hm) (slip10_master hm sd) ns))))"
proof -
  consider (bad_path) "dp_parse dp path = None"
    | (bad_seed) ixs where "dp_parse dp path = Some ixs" "from_hex hx seed = None"
    | (ok) ixs sd where "dp_parse dp path = Some ixs" "from_hex hx seed = Some sd"
    by (cases "dp_parse dp path"; cases "from_hex hx seed") auto
  then show ?thesis
  proof cases
    case ok
    obtain m where m: "from_seed ed hm sd = Inr (Inr m)" "wf_key ed m" "depth m = 0"
        "node_of ed m = slip10_master hm sd"
      using from_seed_ok [OF assms(3,4)] by blast
    note run = bip32_run [OF assms(7,8) ok m(1), of prof al]
    from assms(3-5) m(2,3) show ?thesis
    proof (cases rule: derive_key_cases [where prof = prof and ixs = ixs])
      case overflow
      then show ?thesis using ok run by simp
    next
      case (normal i)
      then show ?thesis using ok by (auto simp: run)
    next
      case (hardened k)
      have "delivers hx (bip32_get_private_key prof hx ed hm dp al p q h)
          (fst (foldl (slip10_child hm) (slip10_master hm sd) ns))"
        if ns: "ixs = map Hardened ns" "\<forall>n\<in>set ns. n < 2 ^ 31" for ns
        using bip32_delivers [OF assms(1,2,6) run hardened(3)]
          derive_hardened_node [OF assms(3-5) m(2) hardened(3) [unfolded ns(1)] ns(2)] m(4)
        by simp
      then show ?thesis using ok hardened(1,2) by auto
    qed
  qed (simp_all add: bip32_get_private_key_def assms(7,8) root_def hex_str_def)
qed

theorem bip32_export_refines_slip10_witness:
  "bip32_get_private_key Release ref_hex ref_ed ref_hmac ref_dp ref_alloc 16 32
     (demo_heap2 (lit ''zz'') (lit ''1'')) = Inl (Panic (ExplicitPanic ''wrong''))
   \<and> (\<exists>v. delivers ref_hex (bip32_get_private_key Release ref_hex ref_ed ref_hmac ref_dp ref_alloc 16 32
        (demo_heap2 (lit ''00ff'') (lit ''1''))) v)
   \<and> bip32_get_private_key Debug ref_hex ref_ed ref_hmac ref_dp ref_alloc 16 32
       (demo_heap2 (lit ''00ff'') (replicate 256 49)) = Inl (Panic ArithOverflow)"
proof -
  have str: "get_str 16 (demo_heap2 (lit ''zz'') (lit ''1'')) = Inr (lit ''zz'')"
      "get_str 32 (demo_heap2 (lit ''zz'') (lit ''1'')) = Inr (lit ''1'')"
      "get_str 16 (demo_heap2 (lit ''00ff'') (lit ''1'')) = Inr (lit ''00ff'')"
      "get_str 32 (demo_heap2 (lit ''00ff'') (lit ''1'')) = Inr (lit ''1'')"
    by (rule demo_str2, simp add: c_text_def u8_nat)+
  have path: "c_text (replicate 256 49)" by (auto simp: c_text_def u8_nat intro!: utf8_valid_ascii)
  have long: "get_str 16 (demo_heap2 (lit ''00ff'') (replicate 256 49)) = Inr (lit ''00ff'')"
      "get_str 32 (demo_heap2 (lit ''00ff'') (replicate 256 49)) = Inr (replicate 256 49)"
    by (rule demo_str2, simp add: c_text_def u8_nat, rule demo_str2, rule path)
  have parse_long: "dp_parse ref_dp (replicate 256 49) = Some (replicate 256 (Hardened 49))"
    by (simp add: ref_dp_def)
  have parse: "dp_parse ref_dp (lit ''1'') = Some [Hardened 49]"
      "from_hex ref_hex (lit ''zz'') = None" "from_hex ref_hex (lit ''00ff'') = Some [0, 255]"
    by (simp_all add: ref_dp_def ref_hex_def hex_val_def byte_def Let_def)
  note run = bip32_export_refines_slip10 [OF ref_hex_laws ref_alloc_fresh ref_ed_laws ref_hmac_laws
      ref_dp_laws wf_demo_heap2]
  have "\<forall>ns. [Hardened 49] = map Hardened ns \<and> (\<forall>n\<in>set ns. n < 2 ^ 31) \<longrightarrow>
      delivers ref_hex (bip32_get_private_key Release ref_hex ref_ed ref_hmac ref_dp ref_alloc 16 32
        (demo_heap2 (lit ''00ff'') (lit ''1'')))
        (fst (foldl (slip10_child ref_hmac) (slip10_master ref_hmac [0, 255]) ns))"
    using run [OF str(3,4), of Release] unfolding parse option.case by simp
  moreover have "255 < length (takeWhile is_hardened (replicate 256 (Hardened 49)))"
    by (simp add: takeWhile_replicate)
  then have "bip32_get_private_key Debug ref_hex ref_ed ref_hmac ref_dp ref_alloc 16 32
       (demo_heap2 (lit ''00ff'') (replicate 256 49)) = Inl (Panic ArithOverflow)"
    using run [OF long, of Debug] unfolding parse_long parse option.case by simp
  ultimately show ?thesis
    using run [OF str(1,2), of Release] unfolding parse option.case
    by (auto dest: spec [of _ "[49]"])
qed

subsection \<open>secp256k1\<close>

text \<open>
  C33: compression. Whatever \<open>secp256k1_get_pub_from_prv\<close>, \<open>secp256k1_recover\<close> or
  \<open>secp256k1_get_compress_pub\<close> returns is the compressed form of 33 bytes of a public key, and
  passing it to \<open>secp256k1_get_compress_pub\<close> delivers the same bytes again.
\<close>

theorem secp256k1_compression_idempotent:
  assumes "hex_laws hx" and "fresh_alloc al" and "secp_laws sp" and "wf_heap h"
    and "secp256k1_get_pub_from_prv hx sp al p h = Inr (r, h')
      \<or> secp256k1_recover hx sp al p q rid h = Inr (r, h')
      \<or> secp256k1_get_compress_pub hx sp al p h = Inr (r, h')"
  shows "\<exists>v. get_u8vec_from_ptr hx r h' = Inr v \<and> length v = 33
    \<and> delivers hx (secp256k1_get_compress_pub hx sp al r h') v"
proof -
  obtain pk where put: "get_ptr_from_u8vec hx al (secp_pk_serialize sp pk) h = Inr (r, h')"
    using assms(5)
    by (auto simp: secp256k1_get_pub_from_prv_def secp256k1_recover_def
        secp256k1_get_compress_pub_def Let_def rbind_eq_Inr_iff)
  have "delivers hx (Inr (r, h')) (secp_pk_serialize sp pk)"
    using delivers_put [OF assms(1,2,4), of "secp_pk_serialize sp pk"] by (simp add: put)
  then have r: "wf_heap h'" "get_u8vec_from_ptr hx r h' = Inr (secp_pk_serialize sp pk)"
    by (simp_all add: delivers_def)
  then show ?thesis
    using delivers_put [OF assms(1,2) r(1)] secp_lawsD(1,2) [OF assms(3)]
    by (simp add: secp256k1_get_compress_pub_def)
qed

theorem secp256k1_compression_idempotent_witness:
  "\<exists>r h' v. secp256k1_get_compress_pub ref_hex ref_secp ref_alloc 16
        (demo_heap (ref_to_hex (4 # replicate 64 9))) = Inr (r, h')
     \<and> length v = 33 \<and> delivers ref_hex (secp256k1_get_compress_pub ref_hex ref_secp ref_alloc r h') v"
proof -
  define w :: bytes where "w = 4 # replicate 64 9"
  let ?pk = "word_le (replicate 32 9) :: 256 word" and ?h = "demo_heap (ref_to_hex w)"
  have "delivers ref_hex (get_ptr_from_u8vec ref_hex ref_alloc (secp_pk_serialize ref_secp ?pk) ?h)
      (secp_pk_serialize ref_secp ?pk)"
    by (rule delivers_put) simp_all
  moreover have "secp_pk_from_slice ref_secp w = Some ?pk" by (simp add: ref_secp_def w_def)
  ultimately obtain r h' where "secp256k1_get_compress_pub ref_hex ref_secp ref_alloc 16 ?h = Inr (r, h')"
    by (auto simp: secp256k1_get_compress_pub_def delivers_def)
  then show ?thesis
    using secp256k1_compression_idempotent [OF ref_hex_laws ref_alloc_fresh ref_secp_laws wf_demo_heap]
    unfolding w_def by blast
qed

lemma secp_rid:
  assumes "secp_laws sp"
  shows "recovery_id_from_i32 sp (ucast (rid :: u8)) \<noteq> None \<longleftrightarrow> rid \<le> 3"
proof -
  have low: "- 2147483648 \<le> uint rid" by (rule order_trans [of _ 0]) simp_all
  have s: "sint (ucast rid :: 32 word) = int (unat rid)"
    using unsigned_less [of rid, where ?'a = int]
    by (simp add: low signed_ucast_eq signed_take_bit_int_eq_self_iff signed_take_bit_int_eq_self)
  have three: "unat (3 :: u8) = 3" by simp
  have "rid \<le> 3 \<longleftrightarrow> 0 \<le> sint (ucast rid :: 32 word) \<and> sint (ucast rid :: 32 word) \<le> 3"
    unfolding s word_le_nat_alt three by linarith
  then show ?thesis using secp_lawsD(4) [OF assms, of "ucast rid"] by blast
qed

text \<open>
  The guards of recovery, in the order of the code: a message that is not 32 bytes panics,
  then a recovery id above 3, then a signature of fewer than 64 bytes; bytes after the 64th of
  the signature (such as a trailing recovery byte) are ignored, and the id argument decides.
\<close>

theorem secp256k1_recover_guards:
  assumes "secp_laws sp" and "get_u8vec_from_ptr hx p h = Inr msg" and "get_u8vec_from_ptr hx q h = Inr sg"
  shows "(length msg \<noteq> 32 \<longrightarrow> secp256k1_recover hx sp al p q rid h = Inl (Panic UnwrapErr))
    \<and> (3 < rid \<longrightarrow> secp256k1_recover hx sp al p q rid h = Inl (Panic UnwrapErr))
    \<and> (length msg = 32 \<and> rid \<le> 3 \<and> length sg < 64 \<longrightarrow>
         secp256k1_recover hx sp al p q rid h = Inl (Panic SliceIndex))
    \<and> (get_u8vec_from_ptr hx q' h = Inr (take 64 sg) \<and> 64 \<le> length sg \<longrightarrow>
         secp256k1_recover hx sp al p q rid h = secp256k1_recover hx sp al p q' rid h)"
proof -
  have msg: "secp_message_from_slice sp msg = None \<longleftrightarrow> length msg \<noteq> 32"
    using secp_lawsD(3) [OF assms(1), of msg] by blast
  have rid: "recovery_id_from_i32 sp (ucast rid) = None \<longleftrightarrow> 3 < rid"
    using secp_rid [OF assms(1), of rid] not_le [of rid 3] by blast
  have "secp256k1_recover hx sp al p q rid h = Inl (Panic UnwrapErr)" if "length msg \<noteq> 32 \<or> 3 < rid"
    using that msg rid
    by (cases "secp_message_from_slice sp msg") (auto simp: secp256k1_recover_def assms(2,3))
  moreover have "secp256k1_recover hx sp al p q rid h = Inl (Panic SliceIndex)"
    if "length msg = 32" "rid \<le> 3" "length sg < 64"
    using that msg rid
    by (cases "secp_message_from_slice sp msg"; cases "recovery_id_from_i32 sp (ucast rid)")
      (simp_all add: secp256k1_recover_def assms(2,3) slice_to_def)
  moreover have "secp256k1_recover hx sp al p q rid h = secp256k1_recover hx sp al p q' rid h"
    if "get_u8vec_from_ptr hx q' h = Inr (take 64 sg)" "64 \<le> length sg"
    using that by (simp add: secp256k1_recover_def assms(2,3) slice_to_def)
  ultimately show ?thesis by blast
qed

theorem secp256k1_recover_guards_witness:
  "secp256k1_recover ref_hex ref_secp ref_alloc 16 16 4 (demo_heap (ref_to_hex (replicate 32 1)))
     = Inl (Panic UnwrapErr)
   \<and> secp256k1_recover ref_hex ref_secp ref_alloc 16 16 0 (demo_heap (ref_to_hex (replicate 32 1)))
     = Inl (Panic SliceIndex)"
  using secp256k1_recover_guards [OF ref_secp_laws demo_hex demo_hex, where rid = 4 and al = ref_alloc
      and msg = "replicate 32 1"]
    secp256k1_recover_guards [OF ref_secp_laws demo_hex demo_hex, where rid = 0 and al = ref_alloc
      and msg = "replicate 32 1"]
  by simp

end
