(* ===== verification/Session.thy ===== *)
theory Session
  imports Key_Contracts
begin

section \<open>Sessions of a client with the library\<close>

text \<open>
  The whole exported interface as one machine. \<open>call\<close> has one constructor per \<open>extern "C"\<close>
  function, \<open>exec\<close> dispatches it, and \<open>step\<close> is what a client that keeps the rules may do: call
  with readable pointers, free each returned pointer at most once, and allocate, write and free
  blocks of its own. A session state is the memory and the set of returned pointers the client
  has not freed.
\<close>

subsection \<open>The interface as data\<close>

datatype call =
    Bip39Generate u32 | Bip39Validate ptr | Bip39ToEntropy ptr
  | Bip39ToMiniSecret ptr ptr | Bip39ToSeed ptr ptr
  | Blake2b ptr ptr u32 | Keccak256 ptr | Pbkdf2 ptr ptr u32 | Scrypt ptr ptr u8 u32 u32
  | Sha512 ptr | Twox ptr u32 | Xxhash64 ptr u32
  | Bip32GetPrivateKey ptr ptr | Ed25519GetPubFromPrv ptr | Secp256k1GetPubFromPrv ptr
  | Secp256k1GetCompressPub ptr | Secp256k1Recover ptr ptr u8 | Sr25519GetPubFromSeed ptr
  | Ed25519KeypairFromSeed ptr | Ed25519Sign ptr ptr ptr | Ed25519Verify ptr ptr ptr
  | Sr25519DeriveKeypairHard ptr ptr | Sr25519DeriveKeypairSoft ptr ptr
  | Sr25519DerivePublicSoft ptr ptr | Sr25519KeypairFromSeed ptr | Sr25519KeypairFromPair ptr
  | Sr25519Sign ptr ptr ptr | Sr25519Verify ptr ptr ptr

fun call_args :: "call \<Rightarrow> ptr list" where
  "call_args (Bip39Generate n) = []"
| "call_args (Bip39Validate p) = [p]"
| "call_args (Bip39ToEntropy p) = [p]"
| "call_args (Bip39ToMiniSecret p q) = [p, q]"
| "call_args (Bip39ToSeed p q) = [p, q]"
| "call_args (Blake2b p q n) = [p, q]"
| "call_args (Keccak256 p) = [p]"
| "call_args (Pbkdf2 p q n) = [p, q]"
| "call_args (Scrypt p q l r n) = [p, q]"
| "call_args (Sha512 p) = [p]"
| "call_args (Twox p n) = [p]"
| "call_args (Xxhash64 p n) = [p]"
| "call_args (Bip32GetPrivateKey p q) = [p, q]"
| "call_args (Ed25519GetPubFromPrv p) = [p]"
| "call_args (Secp256k1GetPubFromPrv p) = [p]"
| "call_args (Secp256k1GetCompressPub p) = [p]"
| "call_args (Secp256k1Recover p q i) = [p, q]"
| "call_args (Sr25519GetPubFromSeed p) = [p]"
| "call_args (Ed25519KeypairFromSeed p) = [p]"
| "call_args (Ed25519Sign p q r) = [p, q, r]"
| "call_args (Ed25519Verify p q r) = [p, q, r]"
| "call_args (Sr25519DeriveKeypairHard p q) = [p, q]"
| "call_args (Sr25519DeriveKeypairSoft p q) = [p, q]"
| "call_args (Sr25519DerivePublicSoft p q) = [p, q]"
| "call_args (Sr25519KeypairFromSeed p) = [p]"
| "call_args (Sr25519KeypairFromPair p) = [p]"
| "call_args (Sr25519Sign p q r) = [p, q, r]"
| "call_args (Sr25519Verify p q r) = [p, q, r]"

text \<open>
  The pointer that the body of a function reads first: its first argument, except that
  \<open>bip32_get_private_key\<close> parses its second argument, the path, before it reads the seed.
\<close>

definition first_read :: "call \<Rightarrow> ptr option" where
  "first_read f = (case f of
       Bip32GetPrivateKey p q \<Rightarrow> Some q
     | _ \<Rightarrow> (case call_args f of [] \<Rightarrow> None | p # ps \<Rightarrow> Some p))"

datatype ret = RPtr ptr | RBool bool

definition ret_ptr :: "out \<Rightarrow> (ret \<times> heap) res" where
  "ret_ptr m = rbind m (\<lambda>(p, h'). Inr (RPtr p, h'))"

definition ret_bool :: "heap \<Rightarrow> bool res \<Rightarrow> (ret \<times> heap) res" where
  "ret_bool h m = rbind m (\<lambda>b. Inr (RBool b, h))"

text \<open>The crates, the allocator and the build profile that a build of the library fixes.\<close>

record ('kec, 'sha, 'xx, 'xx64, 'sp, 'mac, 'mt, 'mn, 'sd, 'esk, 'epk, 'ekp, 'esig,
        'msk, 'ssk, 'spk, 'skp, 'ssig, 'csk, 'cpk, 'msg, 'rid, 'rsig) crates =
  build :: profile
  allocr :: allocator
  hexa :: hex_api
  hashes :: "('kec, 'sha, 'xx, 'xx64, 'sp) hash_api"
  hmacs :: "'mac hmac_api"
  mnemonics :: "('mt, 'mn, 'sd) bip39_api"
  edc :: "('esk, 'epk, 'ekp, 'esig) ed_api"
  src :: "('msk, 'ssk, 'spk, 'skp, 'ssig) sr_api"
  secp :: "('csk, 'cpk, 'msg, 'rid, 'rsig) secp_api"
  paths :: dp_api

fun exec where
  "exec c rng (Bip39Generate n) h = ret_ptr (bip39_generate (mnemonics c) (allocr c) rng n h)"
| "exec c rng (Bip39Validate p) h = ret_bool h (bip39_validate (mnemonics c) p h)"
| "exec c rng (Bip39ToEntropy p) h =
     ret_ptr (bip39_to_entropy (hexa c) (mnemonics c) (allocr c) p h)"
| "exec c rng (Bip39ToMiniSecret p q) h =
     ret_ptr (bip39_to_mini_secret (hexa c) (mnemonics c) (hashes c) (allocr c) p q h)"
| "exec c rng (Bip39ToSeed p q) h =
     ret_ptr (bip39_to_seed (hexa c) (mnemonics c) (allocr c) p q h)"
| "exec c rng (Blake2b p q n) h = ret_ptr (blake2b (hexa c) (hashes c) (allocr c) p q n h)"
| "exec c rng (Keccak256 p) h = ret_ptr (keccak256 (hexa c) (hashes c) (allocr c) p h)"
| "exec c rng (Pbkdf2 p q n) h = ret_ptr (pbkdf2 (hexa c) (hashes c) (allocr c) p q n h)"
| "exec c rng (Scrypt p q l r n) h = ret_ptr (scrypt (hexa c) (hashes c) (allocr c) p q l r n h)"
| "exec c rng (Sha512 p) h = ret_ptr (sha512 (hexa c) (hashes c) (allocr c) p h)"
| "exec c rng (Twox p n) h = ret_ptr (twox (hexa c) (hashes c) (allocr c) p n h)"
| "exec c rng (Xxhash64 p n) h = ret_ptr (xxhash64 (hexa c) (hashes c) (allocr c) p n h)"
| "exec c rng (Bip32GetPrivateKey p q) h =
     ret_ptr (bip32_get_private_key (build c) (hexa c) (edc c) (hmacs c) (paths c) (allocr c) p q h)"
| "exec c rng (Ed25519GetPubFromPrv p) h =
     ret_ptr (ed25519_get_pub_from_prv (hexa c) (edc c) (allocr c) p h)"
| "exec c rng (Secp256k1GetPubFromPrv p) h =
     ret_ptr (secp256k1_get_pub_from_prv (hexa c) (secp c) (allocr c) p h)"
| "exec c rng (Secp256k1GetCompressPub p) h =
     ret_ptr (secp256k1_get_compress_pub (hexa c) (secp c) (allocr c) p h)"
| "exec c rng (Secp256k1Recover p q i) h =
     ret_ptr (secp256k1_recover (hexa c) (secp c) (allocr c) p q i h)"
| "exec c rng (Sr25519GetPubFromSeed p) h =
     ret_ptr (sr25519_get_pub_from_seed (hexa c) (src c) (allocr c) p h)"
| "exec c rng (Ed25519KeypairFromSeed p) h =
     ret_ptr (ed25519_keypair_from_seed (hexa c) (edc c) (allocr c) p h)"
| "exec c rng (Ed25519Sign p q r) h = ret_ptr (ed25519_sign (hexa c) (edc c) (allocr c) p q r h)"
| "exec c rng (Ed25519Verify p q r) h = ret_bool h (ed25519_verify (hexa c) (edc c) p q r h)"
| "exec c rng (Sr25519DeriveKeypairHard p q) h =
     ret_ptr (sr25519_derive_keypair_hard (hexa c) (src c) (allocr c) p q h)"
| "exec c rng (Sr25519DeriveKeypairSoft p q) h =
     ret_ptr (sr25519_derive_keypair_soft (hexa c) (src c) (allocr c) rng p q h)"
| "exec c rng (Sr25519DerivePublicSoft p q) h =
     ret_ptr (sr25519_derive_public_soft (hexa c) (src c) (allocr c) p q h)"
| "exec c rng (Sr25519KeypairFromSeed p) h =
     ret_ptr (sr25519_keypair_from_seed (hexa c) (src c) (allocr c) p h)"
| "exec c rng (Sr25519KeypairFromPair p) h =
     ret_ptr (sr25519_keypair_from_pair (hexa c) (src c) (allocr c) p h)"
| "exec c rng (Sr25519Sign p q r) h =
     ret_ptr (sr25519_sign (hexa c) (src c) (allocr c) rng p q r h)"
| "exec c rng (Sr25519Verify p q r) h = ret_bool h (sr25519_verify (hexa c) (src c) p q r h)"

text \<open>
  Memory safety needs two of the laws only: the shape of hexadecimal text, and that the phrases
  of the mnemonic crate are text.
\<close>

definition safe_crates where
  "safe_crates c \<longleftrightarrow> fresh_alloc (allocr c) \<and> hex_laws (hexa c) \<and> bip39_laws (mnemonics c)"

lemma gives_string_ret_ptr:
  assumes "gives_string al h m" "ret_ptr m = Inr (r, h')"
  shows "\<exists>p s. r = RPtr p \<and> c_text s \<and> get_ptr al s h = Inr (p, h')"
  using assms by (auto simp: gives_string_def ret_ptr_def rbind_eq_Inr_iff)

lemma no_undefined_ret:
  "gives_string al h m \<Longrightarrow> no_undefined (ret_ptr m)"
  "no_undefined b \<Longrightarrow> no_undefined (ret_bool h b)"
  by (auto simp: gives_string_def ret_ptr_def ret_bool_def intro!: no_undefined_rbind)

text \<open>Every call returns a fresh string or reads only; neither meets undefined behaviour.\<close>

definition well_shaped :: "allocator \<Rightarrow> heap \<Rightarrow> (ret \<times> heap) res \<Rightarrow> bool" where
  "well_shaped al h r \<longleftrightarrow> (\<exists>m. r = ret_ptr m \<and> gives_string al h m)
     \<or> (\<exists>b. r = ret_bool h b \<and> no_undefined b)"

lemma well_shaped_intros:
  "gives_string al h m \<Longrightarrow> well_shaped al h (ret_ptr m)"
  "no_undefined b \<Longrightarrow> well_shaped al h (ret_bool h b)"
  by (auto simp: well_shaped_def)

lemma exec_shape:
  assumes "safe_crates c" "\<forall>p\<in>set (call_args f). readable p h"
  shows "well_shaped (allocr c) h (exec c rng f h)"
proof -
  have laws: "hex_laws (hexa c)" "bip39_laws (mnemonics c)"
    using assms(1) by (simp_all add: safe_crates_def)
  show ?thesis
    using assms(2)
    by (cases f) (simp_all add: well_shaped_intros laws bip39_exports_give [OF laws] hash_exports_give
        key_exports_give signature_exports_give)
qed

subsection \<open>Sessions\<close>

record session =
  mem :: heap
  held :: "ptr set"

datatype 'f action =
    Call 'f ret | Free ptr | HostAlloc ptr bytes | HostWrite ptr bytes | HostFree ptr

text \<open>
  The steps, for any library given by the pointer arguments of a call and its execution. A
  panic has no successor: it ends the session.
\<close>

inductive step ::
    "('f \<Rightarrow> ptr list) \<Rightarrow> ('f \<Rightarrow> heap \<Rightarrow> (ret \<times> heap) res) \<Rightarrow> session \<Rightarrow> 'f action \<Rightarrow> session \<Rightarrow> bool"
  for args and ex
where
  call_ptr: "\<forall>p\<in>set (args f). readable p (mem s) \<Longrightarrow> ex f (mem s) = Inr (RPtr p, h') \<Longrightarrow>
      step args ex s (Call f (RPtr p)) \<lparr>mem = h', held = insert p (held s)\<rparr>"
| call_bool: "\<forall>p\<in>set (args f). readable p (mem s) \<Longrightarrow> ex f (mem s) = Inr (RBool b, h') \<Longrightarrow>
      step args ex s (Call f (RBool b)) \<lparr>mem = h', held = held s\<rparr>"
| free: "p \<in> held s \<Longrightarrow> rust_cstr_free p (mem s) = Inr h' \<Longrightarrow>
      step args ex s (Free p) \<lparr>mem = h', held = held s - {p}\<rparr>"
| host_alloc: "p \<noteq> 0 \<Longrightarrow> mem s p = None \<Longrightarrow>
      step args ex s (HostAlloc p bs)
        \<lparr>mem = (mem s)(p \<mapsto> \<lparr>blk_owner = Foreign, blk_bytes = bs\<rparr>), held = held s\<rparr>"
| host_write: "mem s p = Some b \<Longrightarrow> blk_owner b = Foreign \<Longrightarrow>
      step args ex s (HostWrite p bs) \<lparr>mem = (mem s)(p \<mapsto> b\<lparr>blk_bytes := bs\<rparr>), held = held s\<rparr>"
| host_free: "mem s p = Some b \<Longrightarrow> blk_owner b = Foreign \<Longrightarrow>
      step args ex s (HostFree p) \<lparr>mem = (mem s)(p := None), held = held s\<rparr>"

inductive runs ::
    "('f \<Rightarrow> ptr list) \<Rightarrow> ('f \<Rightarrow> heap \<Rightarrow> (ret \<times> heap) res)
       \<Rightarrow> session \<Rightarrow> 'f action list \<Rightarrow> session \<Rightarrow> bool"
  for args and ex
where
  runs_Nil: "runs args ex s [] s"
| runs_Cons: "step args ex s a s1 \<Longrightarrow> runs args ex s1 as s2 \<Longrightarrow> runs args ex s (a # as) s2"

inductive_cases step_CallE: "step args ex s (Call f r) s'"
inductive_cases step_FreeE: "step args ex s (Free p) s'"
inductive_cases runs_ConsE: "runs args ex s (a # as) s'"
inductive_simps runs_Nil_iff [simp]: "runs args ex s [] s'"
inductive_simps runs_Cons_iff: "runs args ex s (a # as) s'"
inductive_simps step_Free_iff: "step args ex s (Free p) s'"

fun returned :: "'f action \<Rightarrow> nat" where
  "returned (Call f (RPtr p)) = 1"
| "returned _ = 0"

fun released :: "'f action \<Rightarrow> nat" where
  "released (Free p) = 1"
| "released _ = 0"

definition initial :: session where
  "initial = \<lparr>mem = (\<lambda>_. None), held = {}\<rparr>"

text \<open>
  The invariant: a well-formed memory, in which the blocks that Rust owns are exactly those
  behind the held pointers.
\<close>

definition session_inv :: "session \<Rightarrow> bool" where
  "session_inv s \<longleftrightarrow> wf_heap (mem s)
     \<and> held s = {p. \<exists>b. mem s p = Some b \<and> blk_owner b = RustOwned}"

lemma session_inv_initial [simp]: "session_inv initial"
  by (simp add: session_inv_def initial_def wf_heap_def)

lemma session_inv_finite: "session_inv s \<Longrightarrow> finite (held s)"
  unfolding session_inv_def by (auto intro: finite_subset [OF _ wf_heapD(1)])

lemma session_inv_held:
  assumes "session_inv s" "p \<in> held s"
  shows "p \<noteq> 0 \<and> readable p (mem s) \<and> rust_cstr_free p (mem s) = Inr ((mem s)(p := None))"
proof -
  obtain b where b: "wf_heap (mem s)" "mem s p = Some b" "blk_owner b = RustOwned"
    using assms by (auto simp: session_inv_def)
  have "p \<noteq> 0" using wf_heapD(2) [OF b(1)] b(2) by (cases "p = 0") auto
  then show ?thesis using rust_cstr_free_ok b rust_block_readable by blast
qed

lemma runs_append:
  "runs args ex s as s1 \<Longrightarrow> runs args ex s1 bs s2 \<Longrightarrow> runs args ex s (as @ bs) s2"
  by (induction rule: runs.induct) (auto intro: runs.intros)

lemma runs_one: "step args ex s a s1 \<Longrightarrow> runs args ex s [a] s1"
  by (auto intro: runs.intros)

text \<open>Frees need no call: what they lead to does not depend on the library.\<close>

lemma step_Free_held:
  assumes "session_inv s" "p \<in> held s"
  shows "step args ex s (Free p) s' \<longleftrightarrow> s' = \<lparr>mem = (mem s)(p := None), held = held s - {p}\<rparr>"
  using session_inv_held [OF assms] assms(2) by (auto simp: step_Free_iff)

lemma session_inv_free:
  "session_inv s \<Longrightarrow> session_inv \<lparr>mem = (mem s)(p := None), held = held s - {p}\<rparr>"
  by (auto simp: session_inv_def wf_heap_delete)

lemma runs_release:
  assumes "session_inv s" "distinct ps" "set ps \<subseteq> held s"
  shows "runs args ex s (map Free ps) s'
    \<longleftrightarrow> s' = \<lparr>mem = (\<lambda>p. if p \<in> set ps then None else mem s p), held = held s - set ps\<rparr>"
  using assms
proof (induction ps arbitrary: s)
  case Nil
  have "s = \<lparr>mem = mem s, held = held s\<rparr>" by simp
  then show ?case by auto
next
  case (Cons p ps)
  let ?s = "\<lparr>mem = (mem s)(p := None), held = held s - {p}\<rparr>"
  have "runs args ex s (map Free (p # ps)) s' \<longleftrightarrow> runs args ex ?s (map Free ps) s'"
    using Cons.prems by (simp add: runs_Cons_iff step_Free_held)
  also have "\<dots> \<longleftrightarrow> s' = \<lparr>mem = (\<lambda>q. if q \<in> set ps then None else mem ?s q), held = held ?s - set ps\<rparr>"
    using Cons.prems by (intro Cons.IH session_inv_free) auto
  also have "(\<lambda>q. if q \<in> set ps then None else mem ?s q) = (\<lambda>q. if q \<in> set (p # ps) then None else mem s q)"
    by auto
  also have "held ?s - set ps = held s - set (p # ps)" by auto
  finally show ?case .
qed

subsection \<open>The interface: a library behind C pointers\<close>

text \<open>
  What a client may rely on: on readable arguments a call is free of undefined behaviour, a
  returned pointer names a new block that Rust owns and nothing else changes, and a call that
  returns a \<open>bool\<close> changes nothing.
\<close>

locale ffi_library =
  fixes lawful :: "'c \<Rightarrow> bool"
    and args :: "'f \<Rightarrow> ptr list"
    and ex :: "'c \<Rightarrow> 'f \<Rightarrow> heap \<Rightarrow> (ret \<times> heap) res"
  assumes ex_defined: "lawful c \<Longrightarrow> \<forall>p\<in>set (args f). readable p h \<Longrightarrow> no_undefined (ex c f h)"
    and ex_ptr: "lawful c \<Longrightarrow> wf_heap h \<Longrightarrow> \<forall>p\<in>set (args f). readable p h \<Longrightarrow>
        ex c f h = Inr (RPtr p, h') \<Longrightarrow>
        wf_heap h' \<and> h p = None \<and> (\<exists>b. blk_owner b = RustOwned \<and> h' = h(p \<mapsto> b))"
    and ex_bool: "lawful c \<Longrightarrow> \<forall>p\<in>set (args f). readable p h \<Longrightarrow>
        ex c f h = Inr (RBool b, h') \<Longrightarrow> h' = h"
begin

lemma step_inv:
  assumes "lawful c" "session_inv s" "step args (ex c) s a s'"
  shows "session_inv s'"
  using assms(3)
proof cases
  case (call_ptr f p h')
  then obtain b where "wf_heap h'" "mem s p = None" "blk_owner b = RustOwned" "h' = (mem s)(p \<mapsto> b)"
    using ex_ptr [OF assms(1)] assms(2) unfolding session_inv_def by blast
  then show ?thesis using assms(2) call_ptr by (auto simp: session_inv_def)
next
  case (call_bool f b h')
  then have "h' = mem s" using ex_bool [OF assms(1)] by blast
  then show ?thesis using call_bool assms(2) by (auto simp: session_inv_def)
next
  case (free p h')
  then have "h' = (mem s)(p := None)" using session_inv_held [OF assms(2)] by auto
  then show ?thesis using assms(2) free by (auto simp: session_inv_def wf_heap_delete)
next
  case (host_alloc p bs)
  then show ?thesis using assms(2) by (auto simp: session_inv_def intro!: wf_heap_update)
next
  case (host_write p b bs)
  moreover have "mem s 0 = None" using assms(2) wf_heapD(2) by (simp add: session_inv_def)
  with host_write have "p \<noteq> 0" by (intro notI) simp
  ultimately show ?thesis using assms(2) by (auto simp: session_inv_def intro!: wf_heap_update)
next
  case (host_free p b)
  then show ?thesis using assms(2) by (auto simp: session_inv_def wf_heap_delete)
qed

lemma runs_inv:
  assumes "lawful c" "session_inv s" "runs args (ex c) s as s'"
  shows "session_inv s'"
  using assms(3,2)
proof (induction rule: runs.induct)
  case (runs_Cons s a s1 as s2)
  then show ?case using step_inv [OF assms(1)] by blast
qed

text \<open>Each pointer in the client's hands was returned once and has not been freed.\<close>

lemma step_count:
  assumes "lawful c" "session_inv s" "step args (ex c) s a s'"
  shows "card (held s') + released a = card (held s) + returned a"
  using assms(3)
proof cases
  case (call_ptr f p h')
  then have "mem s p = None" using ex_ptr [OF assms(1)] assms(2) unfolding session_inv_def by blast
  then have "p \<notin> held s" using assms(2) by (auto simp: session_inv_def)
  then show ?thesis using call_ptr session_inv_finite [OF assms(2)] by simp
next
  case (free p h')
  then show ?thesis
    using session_inv_finite [OF assms(2)] card_Suc_Diff1 [of "held s" p] by simp
qed simp_all

lemma runs_count:
  assumes "lawful c" "session_inv s" "runs args (ex c) s as s'"
  shows "card (held s') + sum_list (map released as) = card (held s) + sum_list (map returned as)"
  using assms(3,2)
proof (induction rule: runs.induct)
  case (runs_Cons s a s1 as s2)
  then show ?case using step_count [OF assms(1)] step_inv [OF assms(1)] by fastforce
qed simp

text \<open>A string the client holds keeps its content until the client frees it.\<close>

lemma step_keeps:
  assumes "lawful c" "session_inv s" "step args (ex c) s a s'" "p \<in> held s" "a \<noteq> Free p"
  shows "p \<in> held s' \<and> mem s' p = mem s p"
proof -
  have own: "\<exists>b. mem s p = Some b \<and> blk_owner b = RustOwned"
    using assms(2,4) by (auto simp: session_inv_def)
  from assms(3) show ?thesis
  proof cases
    case (call_ptr f q h')
    then obtain b where "mem s q = None" "h' = (mem s)(q \<mapsto> b)"
      using ex_ptr [OF assms(1)] assms(2) unfolding session_inv_def by blast
    then show ?thesis using own call_ptr assms(4) by auto
  next
    case (call_bool f b h')
    then have "h' = mem s" using ex_bool [OF assms(1)] by blast
    then show ?thesis using call_bool assms(4) by simp
  next
    case (free q h')
    then have "h' = (mem s)(q := None)" using session_inv_held [OF assms(2)] by auto
    then show ?thesis using free assms(4,5) by auto
  qed (use own assms(4) in auto)
qed

lemma runs_keeps:
  assumes "lawful c" "session_inv s" "runs args (ex c) s as s'" "p \<in> held s" "Free p \<notin> set as"
  shows "p \<in> held s' \<and> mem s' p = mem s p"
  using assms(3,2,4,5)
proof (induction rule: runs.induct)
  case (runs_Cons s a s1 as s2)
  then show ?case
    using step_keeps [OF assms(1), of s a s1 p] step_inv [OF assms(1), of s a s1] by auto
qed simp

end

interpretation rust_lib: ffi_library safe_crates "\<lambda>(rng, f). call_args f" "\<lambda>c (rng, f). exec c rng f"
proof (unfold_locales, goal_cases)
  case (1 c f h)
  then show ?case
    using exec_shape [of c "snd f" h "fst f"]
    by (cases f) (auto simp: well_shaped_def intro: no_undefined_ret)
next
  case (2 c h f p h')
  obtain rng g where f: "f = (rng, g)" by (cases f)
  have "\<not> (\<exists>b. exec c rng g h = ret_bool h b)"
    using 2(4) by (auto simp: f ret_bool_def rbind_def split: sum.splits)
  then obtain m where m: "exec c rng g h = ret_ptr m" "gives_string (allocr c) h m"
    using exec_shape [of c g h rng] 2 by (auto simp: well_shaped_def f)
  then obtain s where s: "c_text s" "get_ptr (allocr c) s h = Inr (p, h')"
    using gives_string_ret_ptr [OF m(2)] 2(4) by (auto simp: f)
  then show ?case
    using get_ptr_wf [OF s(2) 2(2)] 2(1) by (auto simp: safe_crates_def c_text_def)
next
  case (3 c f h b h')
  obtain rng g where f: "f = (rng, g)" by (cases f)
  have "\<not> (\<exists>m. exec c rng g h = ret_ptr m)"
    using 3(3) by (auto simp: f ret_ptr_def rbind_def split: sum.splits prod.splits)
  then obtain m where "exec c rng g h = ret_bool h m"
    using exec_shape [of c g h rng] 3 by (auto simp: well_shaped_def f)
  with 3(3) have "ret_bool h m = Inr (RBool b, h')" by (simp add: f)
  then show ?case by (simp add: ret_bool_def rbind_eq_Inr_iff)
qed

abbreviation client_runs where
  "client_runs c \<equiv> runs (\<lambda>(rng, f). call_args f) (\<lambda>(rng, f). exec c rng f)"

subsection \<open>A concrete session\<close>

definition ref_crates where
  "ref_crates = \<lparr>build = Release, allocr = ref_alloc, hexa = ref_hex, hashes = ref_hash,
     hmacs = ref_hmac, mnemonics = ref_bip39, edc = ref_ed, src = ref_sr, secp = ref_secp,
     paths = ref_dp\<rparr>"

lemma ref_crates_safe [simp]: "safe_crates ref_crates"
  by (simp add: safe_crates_def ref_crates_def)

text \<open>A client that generates a phrase, and one that frees it afterwards.\<close>

lemma demo_call:
  obtains p h' where "exec ref_crates [] (Bip39Generate 12) (mem initial) = Inr (RPtr p, h')"
proof -
  have wf: "wf_heap (mem initial)" using session_inv_initial by (simp add: session_inv_def)
  obtain s m where s: "ext_bip39_generate ref_bip39 [] 12 = Inr s" "from_phrase ref_bip39 s = Some m"
      "c_text s"
    using ext_bip39_generate_cases [OF ref_bip39_laws, of 12 "[]"] by auto
  then have "ext_bip39_validate ref_bip39 s" by (simp add: ext_bip39_validate_iff)
  moreover obtain p h' where "get_ptr ref_alloc s (mem initial) = Inr (p, h')"
    using str_port.put_total [OF ref_alloc_fresh wf s(3)] by blast
  ultimately have "exec ref_crates [] (Bip39Generate 12) (mem initial) = Inr (RPtr p, h')"
    by (simp add: ref_crates_def bip39_generate_def s(1) ret_ptr_def)
  then show thesis by (rule that)
qed

lemma demo_runs:
  obtains p s1 s2 where
    "client_runs ref_crates initial [Call ([], Bip39Generate 12) (RPtr p)] s1" "p \<in> held s1"
    "client_runs ref_crates initial [Call ([], Bip39Generate 12) (RPtr p), Free p] s2"
    "step (\<lambda>(rng, f). call_args f) (\<lambda>(rng, f). exec ref_crates rng f) s1 (Free p) s2"
proof -
  obtain p h' where call: "exec ref_crates [] (Bip39Generate 12) (mem initial) = Inr (RPtr p, h')"
    by (rule demo_call)
  let ?s1 = "\<lparr>mem = h', held = insert p (held initial)\<rparr>"
  have one: "step (\<lambda>(rng, f). call_args f) (\<lambda>(rng, f). exec ref_crates rng f) initial
      (Call ([], Bip39Generate 12) (RPtr p)) ?s1"
    by (rule step.call_ptr) (use call in simp_all)
  then have run1: "client_runs ref_crates initial [Call ([], Bip39Generate 12) (RPtr p)] ?s1"
    by (auto intro: runs.intros)
  have "session_inv ?s1" by (rule rust_lib.runs_inv [OF ref_crates_safe session_inv_initial run1])
  then have "rust_cstr_free p (mem ?s1) = Inr ((mem ?s1)(p := None))"
    using session_inv_held [of ?s1 p] by simp
  then have two: "step (\<lambda>(rng, f). call_args f) (\<lambda>(rng, f). exec ref_crates rng f) ?s1
      (Free p) \<lparr>mem = (mem ?s1)(p := None), held = held ?s1 - {p}\<rparr>"
    by (intro step.free) simp_all
  have "client_runs ref_crates initial [Call ([], Bip39Generate 12) (RPtr p), Free p]
      \<lparr>mem = (mem ?s1)(p := None), held = held ?s1 - {p}\<rparr>"
    using one two by (auto intro: runs.intros)
  with run1 two show thesis by (intro that) simp_all
qed

subsection \<open>Properties\<close>

text \<open>
  C1: memory safety of the whole interface. In every state that a client keeping the rules can
  reach, in any interleaving of its own allocations, calls and frees, no call on readable
  pointers and no free of a held pointer meets undefined behaviour, every held pointer is
  readable, and the memory stays well formed.
\<close>

theorem session_is_memory_safe:
  assumes "safe_crates c" and "client_runs c initial as s"
  shows "wf_heap (mem s)
    \<and> (\<forall>rng f. (\<forall>p\<in>set (call_args f). readable p (mem s)) \<longrightarrow> no_undefined (exec c rng f (mem s)))
    \<and> (\<forall>p\<in>held s. readable p (mem s) \<and> rust_cstr_free p (mem s) = Inr ((mem s)(p := None)))"
proof -
  have inv: "session_inv s" by (rule rust_lib.runs_inv [OF assms(1) session_inv_initial assms(2)])
  moreover have "no_undefined (exec c rng f (mem s))"
    if "\<forall>p\<in>set (call_args f). readable p (mem s)" for rng f
    using rust_lib.ex_defined [OF assms(1), of "(rng, f)" "mem s"] that by simp
  ultimately show ?thesis using session_inv_held by (auto simp: session_inv_def)
qed

theorem session_is_memory_safe_witness:
  "\<exists>p s. client_runs ref_crates initial [Call ([], Bip39Generate 12) (RPtr p)] s
    \<and> readable p (mem s) \<and> no_undefined (exec ref_crates [] (Bip39Validate p) (mem s))"
proof -
  obtain p s where s: "client_runs ref_crates initial [Call ([], Bip39Generate 12) (RPtr p)] s" "p \<in> held s"
    using demo_runs by blast
  have "call_args (Bip39Validate p) = [p]" by simp
  then show ?thesis
    using s session_is_memory_safe [OF ref_crates_safe s(1)]
    by (metis empty_iff empty_set set_ConsD)
qed

text \<open>
  C8: leaks are counted exactly. After any session the blocks that Rust owns are the pointers
  the client still holds, and their number is that of the calls that returned a string minus
  that of the frees: a client that frees every returned pointer leaves nothing behind, and each
  omitted \<open>rust_cstr_free\<close> leaves one block.
\<close>

theorem session_leak_accounting:
  assumes "safe_crates c" and "client_runs c initial as s"
  shows "card {p. \<exists>b. mem s p = Some b \<and> blk_owner b = RustOwned} + sum_list (map released as)
    = sum_list (map returned as)"
proof -
  have "held s = {p. \<exists>b. mem s p = Some b \<and> blk_owner b = RustOwned}"
    using rust_lib.runs_inv [OF assms(1) session_inv_initial assms(2)] by (simp add: session_inv_def)
  then show ?thesis
    using rust_lib.runs_count [OF assms(1) session_inv_initial assms(2)] by (simp add: initial_def)
qed

theorem session_leak_accounting_witness:
  "\<exists>p s1 s2. client_runs ref_crates initial [Call ([], Bip39Generate 12) (RPtr p)] s1
    \<and> card {p. \<exists>b. mem s1 p = Some b \<and> blk_owner b = RustOwned} = 1
    \<and> client_runs ref_crates initial [Call ([], Bip39Generate 12) (RPtr p), Free p] s2
    \<and> card {p. \<exists>b. mem s2 p = Some b \<and> blk_owner b = RustOwned} = 0"
proof -
  obtain p s1 s2 where
    s: "client_runs ref_crates initial [Call ([], Bip39Generate 12) (RPtr p)] s1"
      "client_runs ref_crates initial [Call ([], Bip39Generate 12) (RPtr p), Free p] s2"
    using demo_runs by blast
  then show ?thesis
    using session_leak_accounting [OF ref_crates_safe s(1)]
      session_leak_accounting [OF ref_crates_safe s(2)] by auto
qed

text \<open>
  C28: returned strings are stable. A string that the client holds reads the same after any
  further calls, frees of other pointers and writes to the client's own blocks, until the
  client frees it.
\<close>

theorem held_strings_are_stable:
  assumes "safe_crates c" and "client_runs c initial as s" and "p \<in> held s"
    and "client_runs c s bs s'" and "Free p \<notin> set bs"
  shows "p \<in> held s' \<and> get_str p (mem s') = get_str p (mem s)
    \<and> get_u8vec_from_ptr hx p (mem s') = get_u8vec_from_ptr hx p (mem s)"
proof -
  have "session_inv s" by (rule rust_lib.runs_inv [OF assms(1) session_inv_initial assms(2)])
  then have "p \<in> held s' \<and> mem s' p = mem s p"
    by (rule rust_lib.runs_keeps [OF assms(1) _ assms(4,3,5)])
  then show ?thesis using get_str_local get_u8vec_local by blast
qed

theorem held_strings_are_stable_witness:
  "\<exists>p s. client_runs ref_crates initial [Call ([], Bip39Generate 12) (RPtr p)] s \<and> p \<in> held s
    \<and> (\<forall>s'. client_runs ref_crates s [HostAlloc 99 [0]] s' \<longrightarrow> get_str p (mem s') = get_str p (mem s))"
proof -
  obtain p s where s: "client_runs ref_crates initial [Call ([], Bip39Generate 12) (RPtr p)] s" "p \<in> held s"
    using demo_runs by blast
  then show ?thesis
    using held_strings_are_stable [OF ref_crates_safe s, of "[HostAlloc 99 [0]]"] by auto
qed

text \<open>
  C13: a client can always clean up. From every state of a session there is an order in which to
  free the held pointers, and each such order is a run that cannot be refused and has one
  outcome: nothing is held, no block is Rust's, and the client's own blocks are as they were.
\<close>

theorem session_can_release_everything:
  assumes "safe_crates c" and "client_runs c initial as s"
  shows "(\<exists>ps. distinct ps \<and> set ps = held s)
    \<and> (\<forall>ps. distinct ps \<and> set ps = held s \<longrightarrow>
        (\<exists>!s'. client_runs c s (map Free ps) s')
        \<and> (\<forall>s'. client_runs c s (map Free ps) s' \<longrightarrow> held s' = {}
            \<and> (\<forall>p b. mem s' p = Some b \<longleftrightarrow> mem s p = Some b \<and> blk_owner b = Foreign)))"
proof -
  have inv: "session_inv s" by (rule rust_lib.runs_inv [OF assms(1) session_inv_initial assms(2)])
  have owners: "mem s p = Some b \<Longrightarrow> p \<notin> held s \<longleftrightarrow> blk_owner b = Foreign" for p b
    using inv by (cases "blk_owner b") (auto simp: session_inv_def)
  show ?thesis
    using finite_distinct_list [OF session_inv_finite [OF inv]] owners
    by (auto simp: runs_release [OF inv])
qed

theorem session_can_release_everything_witness:
  "\<exists>p s. client_runs ref_crates initial [Call ([], Bip39Generate 12) (RPtr p)] s \<and> p \<in> held s
    \<and> (\<exists>ps s'. p \<in> set ps \<and> client_runs ref_crates s (map Free ps) s' \<and> held s' = {})"
proof -
  obtain p s where s: "client_runs ref_crates initial [Call ([], Bip39Generate 12) (RPtr p)] s" "p \<in> held s"
    using demo_runs by blast
  note release = session_can_release_everything [OF ref_crates_safe s(1)]
  then obtain ps where ps: "distinct ps \<and> set ps = held s" by blast
  then have "\<exists>s'. client_runs ref_crates s (map Free ps) s' \<and> held s' = {}"
    using conjunct2 [OF release, rule_format, OF ps] by blast
  then show ?thesis using s ps by blast
qed

text \<open>
  C29: after the free. In the state after \<open>rust_cstr_free p\<close> the pointer is dangling: freeing it
  again, and calling any exported function that reads it before its other arguments, is
  undefined behaviour, not an error value. Of the 28 functions only \<open>bip39_generate\<close> reads no
  pointer; \<open>bip32_get_private_key\<close> reads its path first, the others their first argument.
\<close>

theorem use_after_free_is_undefined:
  assumes "safe_crates c" and "client_runs c initial as s"
    and "step (\<lambda>(rng, f). call_args f) (\<lambda>(rng, f). exec c rng f) s (Free p) s'"
  shows "rust_cstr_free p (mem s') = Inl (Undefined DanglingPointer)
    \<and> (\<forall>rng f. first_read f = Some p \<longrightarrow>
         exec c rng f (mem s') = Inl (Undefined DanglingPointer))"
proof -
  have inv: "session_inv s" by (rule rust_lib.runs_inv [OF assms(1) session_inv_initial assms(2)])
  from assms(3) have "p \<in> held s" "rust_cstr_free p (mem s) = Inr (mem s')" by (auto elim: step_FreeE)
  with session_inv_held [OF inv] have "p \<noteq> 0" "mem s' = (mem s)(p := None)" by force+
  then have p: "p \<noteq> 0" "mem s' p = None" by simp_all
  then have "CStr_from_ptr p (mem s') = Inl (Undefined DanglingPointer)" by (simp add: CStr_from_ptr_def)
  then have gone: "get_str p (mem s') = Inl (Undefined DanglingPointer)"
      "get_u8vec_from_ptr hx p (mem s') = Inl (Undefined DanglingPointer)" for hx
    by (simp_all add: get_str_def get_u8vec_from_ptr_def)
  have "exec c rng f (mem s') = Inl (Undefined DanglingPointer)" if "first_read f = Some p" for rng f
    using that by (cases f) (simp_all add: first_read_def export_defs ret_ptr_def ret_bool_def gone)
  then show ?thesis using rust_cstr_free_dangling [of p "mem s'"] p by blast
qed

theorem use_after_free_is_undefined_witness:
  "\<exists>p s. client_runs ref_crates initial [Call ([], Bip39Generate 12) (RPtr p), Free p] s
    \<and> rust_cstr_free p (mem s) = Inl (Undefined DanglingPointer)
    \<and> exec ref_crates [] (Bip39Validate p) (mem s) = Inl (Undefined DanglingPointer)
    \<and> (\<forall>q. exec ref_crates [] (Bip32GetPrivateKey q p) (mem s) = Inl (Undefined DanglingPointer))"
proof -
  obtain p s1 s2 where
    s: "client_runs ref_crates initial [Call ([], Bip39Generate 12) (RPtr p)] s1"
      "client_runs ref_crates initial [Call ([], Bip39Generate 12) (RPtr p), Free p] s2"
      "step (\<lambda>(rng, f). call_args f) (\<lambda>(rng, f). exec ref_crates rng f) s1 (Free p) s2"
    using demo_runs by blast
  have "first_read (Bip39Validate p) = Some p" "\<forall>q. first_read (Bip32GetPrivateKey q p) = Some p"
    by (simp_all add: first_read_def)
  then show ?thesis using s(2) use_after_free_is_undefined [OF ref_crates_safe s(1,3)] by blast
qed

end
