(* ===== verification/Call_Contract.thy ===== *)
theory Call_Contract
  imports Session
begin

section \<open>The contract of every call\<close>

text \<open>
  What a client must establish before a call and what it may expect after it, for the whole
  interface at once. \<open>accepts\<close> says for each exported function which readable arguments it
  returns on; \<open>result_shape\<close> says what kind of value it returns. Both are proved exact or sound
  against \<open>exec\<close>, for every lawful set of crates.
\<close>

definition lawful_crates where
  "lawful_crates c \<longleftrightarrow> safe_crates c \<and> hash_laws (hashes c) \<and> hmac_laws (hmacs c) \<and> ed_laws (edc c)
     \<and> sr_laws (src c) \<and> secp_laws (secp c) \<and> dp_laws (paths c)"

lemma lawful_cratesD:
  assumes "lawful_crates c"
  shows "safe_crates c" "hash_laws (hashes c)" "hmac_laws (hmacs c)" "ed_laws (edc c)"
    "sr_laws (src c)" "secp_laws (secp c)" "dp_laws (paths c)"
    "fresh_alloc (allocr c)" "hex_laws (hexa c)" "bip39_laws (mnemonics c)"
  using assms by (simp_all add: lawful_crates_def safe_crates_def)

lemma ref_crates_lawful [simp]: "lawful_crates ref_crates"
  using ref_crates_safe by (simp add: lawful_crates_def ref_crates_def)

subsection \<open>Which arguments a call returns on\<close>

text \<open>\<open>names c h p P\<close>: the string at \<open>p\<close> is hexadecimal for bytes with the property \<open>P\<close>.\<close>

definition names where
  "names c h p P \<longleftrightarrow> (case get_u8vec_from_ptr (hexa c) p h of Inr v \<Rightarrow> P v | Inl _ \<Rightarrow> False)"

definition spells where
  "spells h p P \<longleftrightarrow> (case get_str p h of Inr s \<Rightarrow> P s | Inl _ \<Rightarrow> False)"

abbreviation bytes_of_len :: "nat \<Rightarrow> bytes \<Rightarrow> bool" where
  "bytes_of_len n v \<equiv> length v = n"

fun accepts where
  "accepts c h (Bip39Generate n) \<longleftrightarrow> unat n \<in> {12, 15, 18, 21, 24}"
| "accepts c h (Bip39Validate p) \<longleftrightarrow> True"
| "accepts c h (Bip39ToEntropy p) \<longleftrightarrow> True"
| "accepts c h (Bip39ToMiniSecret p q) \<longleftrightarrow> True"
| "accepts c h (Bip39ToSeed p q) \<longleftrightarrow> True"
| "accepts c h (Blake2b p q n) \<longleftrightarrow> names c h p (\<lambda>d. names c h q (\<lambda>k.
     length k \<le> 64 \<and> 1 \<le> unat n \<and> unat n \<le> 64))"
| "accepts c h (Keccak256 p) \<longleftrightarrow> names c h p (\<lambda>d. True)"
| "accepts c h (Pbkdf2 p q n) \<longleftrightarrow> names c h p (\<lambda>d. names c h q (\<lambda>s. True))"
| "accepts c h (Scrypt p q l r n) \<longleftrightarrow> names c h p (\<lambda>d. names c h q (\<lambda>s.
     scrypt_params_new (hashes c) l r n \<noteq> None))"
| "accepts c h (Sha512 p) \<longleftrightarrow> names c h p (\<lambda>d. True)"
| "accepts c h (Twox p n) \<longleftrightarrow> names c h p (\<lambda>d. True)"
| "accepts c h (Xxhash64 p n) \<longleftrightarrow> names c h p (\<lambda>d. True)"
| "accepts c h (Bip32GetPrivateKey p q) \<longleftrightarrow> spells h q (\<lambda>path. spells h p (\<lambda>seed.
     from_hex (hexa c) seed \<noteq> None \<and> (case dp_parse (paths c) path of None \<Rightarrow> False
       | Some ixs \<Rightarrow> (\<forall>i\<in>set ixs. is_hardened i) \<and> (build c = Debug \<longrightarrow> length ixs \<le> 255))))"
| "accepts c h (Ed25519GetPubFromPrv p) \<longleftrightarrow> names c h p (bytes_of_len 32)"
| "accepts c h (Secp256k1GetPubFromPrv p) \<longleftrightarrow> names c h p (\<lambda>v.
     32 \<le> length v \<and> secp_sk_from_slice (secp c) (take 32 v) \<noteq> None)"
| "accepts c h (Secp256k1GetCompressPub p) \<longleftrightarrow> names c h p (\<lambda>v. secp_pk_from_slice (secp c) v \<noteq> None)"
| "accepts c h (Secp256k1Recover p q i) \<longleftrightarrow> names c h p (\<lambda>m. names c h q (\<lambda>v.
     length m = 32 \<and> i \<le> 3 \<and> 64 \<le> length v \<and>
     (case recoverable_from_compact (secp c) (take 64 v)
             (the (recovery_id_from_i32 (secp c) (ucast i))) of
        None \<Rightarrow> False
      | Some sg \<Rightarrow> secp_recover (secp c) (the (secp_message_from_slice (secp c) m)) sg \<noteq> None)))"
| "accepts c h (Sr25519GetPubFromSeed p) \<longleftrightarrow> names c h p (\<lambda>v. 32 \<le> length v)"
| "accepts c h (Ed25519KeypairFromSeed p) \<longleftrightarrow> names c h p (bytes_of_len 32)"
| "accepts c h (Ed25519Sign p q r) \<longleftrightarrow> names c h p (\<lambda>pk. names c h q (\<lambda>sk. names c h r (\<lambda>m.
     ed_kp_from_bytes (edc c) (sk @ pk) \<noteq> None)))"
| "accepts c h (Ed25519Verify p q r) \<longleftrightarrow> names c h p (\<lambda>sg. names c h q (\<lambda>m. names c h r (\<lambda>pk.
     ed_sig_try_from (edc c) sg \<noteq> None \<longrightarrow> ed_pk_from_bytes (edc c) pk \<noteq> None)))"
| "accepts c h (Sr25519DeriveKeypairHard p q) \<longleftrightarrow> names c h p (\<lambda>kp. names c h q (\<lambda>cc.
     kp_from_half_ed25519 (src c) kp \<noteq> None \<and> length cc = 32))"
| "accepts c h (Sr25519DeriveKeypairSoft p q) \<longleftrightarrow> names c h p (\<lambda>kp. names c h q (\<lambda>cc.
     kp_from_half_ed25519 (src c) kp \<noteq> None \<and> length cc = 32))"
| "accepts c h (Sr25519DerivePublicSoft p q) \<longleftrightarrow> names c h p (\<lambda>pk. names c h q (\<lambda>cc.
     sr_pk_from_bytes (src c) pk \<noteq> None \<and> length cc = 32))"
| "accepts c h (Sr25519KeypairFromSeed p) \<longleftrightarrow> names c h p (bytes_of_len 32)"
| "accepts c h (Sr25519KeypairFromPair p) \<longleftrightarrow> names c h p (\<lambda>kp. kp_from_half_ed25519 (src c) kp \<noteq> None)"
| "accepts c h (Sr25519Sign p q r) \<longleftrightarrow> names c h p (\<lambda>pk. names c h q (\<lambda>sk. names c h r (\<lambda>m.
     sr_sk_from_ed25519 (src c) sk \<noteq> None \<and> sr_pk_from_bytes (src c) pk \<noteq> None)))"
| "accepts c h (Sr25519Verify p q r) \<longleftrightarrow> names c h p (\<lambda>sg. names c h q (\<lambda>m. names c h r (\<lambda>pk. True)))"

subsection \<open>Which calls return\<close>

definition returns :: "'a res \<Rightarrow> bool" where
  "returns m \<longleftrightarrow> (\<exists>x. m = Inr x)"

lemma returns_simps [simp]:
  "returns (Inr x)" "\<not> returns (Inl e)"
  "returns (unwrap r) \<longleftrightarrow> r \<noteq> None"
  "returns (ret_ptr m) \<longleftrightarrow> returns m"
  "returns (ret_bool h b) \<longleftrightarrow> returns b"
  by (auto simp: returns_def ret_ptr_def ret_bool_def rbind_eq_Inr_iff unwrap_eq_Inr_iff)

lemma returns_rbind: "returns (rbind m f) \<longleftrightarrow> (\<exists>x. m = Inr x \<and> returns (f x))"
  by (auto simp: returns_def rbind_eq_Inr_iff)

lemma returns_names:
  "returns (rbind (get_u8vec_from_ptr (hexa c) p h) f) \<longleftrightarrow> names c h p (\<lambda>v. returns (f v))"
  by (cases "get_u8vec_from_ptr (hexa c) p h") (simp_all add: names_def)

lemma returns_spells: "returns (rbind (get_str p h) f) \<longleftrightarrow> spells h p (\<lambda>s. returns (f s))"
  by (cases "get_str p h") (simp_all add: spells_def)

lemma returns_then: "(\<And>x. returns (f x)) \<Longrightarrow> returns (rbind m f) \<longleftrightarrow> returns m"
  by (simp add: returns_rbind) (simp add: returns_def)

lemma returns_unwrap:
  "returns (rbind (unwrap r) f) \<longleftrightarrow> (case r of None \<Rightarrow> False | Some x \<Rightarrow> returns (f x))"
  by (cases r) simp_all

lemma returns_slice_to: "returns (rbind (slice_to n v) f) \<longleftrightarrow> n \<le> length v \<and> returns (f (take n v))"
  by (simp add: slice_to_def)

lemma returns_put:
  assumes "hex_laws hx" "fresh_alloc al" "wf_heap h"
  shows "returns (get_ptr_from_u8vec hx al v h)"
  using put_chain [OF assms, of v] by (auto simp: returns_def)

lemma returns_hashing:
  assumes "hash_laws ha"
  shows "returns (ext_blake2b ha d k n) \<longleftrightarrow> length k \<le> 64 \<and> 1 \<le> unat n \<and> unat n \<le> 64"
    and "returns (ext_scrypt ha d k l r p) \<longleftrightarrow> scrypt_params_new ha l r p \<noteq> None"
    and "returns (ext_keccak256 ha d)" "returns (ext_pbkdf2 ha d k n)" "returns (ext_sha512 ha d)"
    and "returns (ext_twox ha d n)" "returns (ext_xxhash ha d n)"
proof -
  have "1 \<le> unat n \<longleftrightarrow> n \<noteq> 0" by (simp add: Suc_le_eq unat_gt_0)
  then show "returns (ext_blake2b ha d k n) \<longleftrightarrow> length k \<le> 64 \<and> 1 \<le> unat n \<and> unat n \<le> 64"
    using ext_blake2b_result [OF assms, of n k d] by (auto split: if_splits)
  show "returns (ext_scrypt ha d k l r p) \<longleftrightarrow> scrypt_params_new ha l r p \<noteq> None"
    using ext_scrypt_result [OF assms, of l r p d k] by (auto split: if_splits)
qed (simp_all add: ext_keccak256_def ext_pbkdf2_def ext_sha512_def ext_twox_eq ext_xxhash_eq assms)

lemma returns_ed:
  assumes "ed_laws ed"
  shows "returns (ext_ed_from_seed ed seed) \<longleftrightarrow> length seed = 32"
    and "returns (ext_ed_sign ed pk sk m) \<longleftrightarrow> ed_kp_from_bytes ed (sk @ pk) \<noteq> None"
    and "returns (ext_ed_verify ed sg m pk)
      \<longleftrightarrow> (ed_sig_try_from ed sg \<noteq> None \<longrightarrow> ed_pk_from_bytes ed pk \<noteq> None)"
proof -
  show "returns (ext_ed_from_seed ed seed) \<longleftrightarrow> length seed = 32" by (simp add: ext_ed_from_seed_eq [OF assms])
qed (auto simp: ed_defs split: option.split)

lemma returns_sr:
  assumes "sr_laws sr"
  shows "returns (ext_sr_from_seed sr seed) \<longleftrightarrow> length seed = 32"
    and "returns (ext_sr_from_pair sr kp) \<longleftrightarrow> kp_from_half_ed25519 sr kp \<noteq> None"
    and "returns (ext_sr_derive_keypair_hard sr kp cc)
      \<longleftrightarrow> kp_from_half_ed25519 sr kp \<noteq> None \<and> length cc = 32"
    and "returns (ext_sr_derive_keypair_soft sr rng kp cc)
      \<longleftrightarrow> kp_from_half_ed25519 sr kp \<noteq> None \<and> length cc = 32"
    and "returns (ext_sr_derive_public_soft sr pk cc) \<longleftrightarrow> sr_pk_from_bytes sr pk \<noteq> None \<and> length cc = 32"
    and "returns (ext_sr_sign sr rng pk sk m)
      \<longleftrightarrow> sr_sk_from_ed25519 sr sk \<noteq> None \<and> sr_pk_from_bytes sr pk \<noteq> None"
  using assms
  by (auto simp: ext_sr_from_seed_eq ext_sr_from_pair_def ext_sr_derive_keypair_hard_def create_cc_eq Let_def
      ext_sr_derive_keypair_soft_def ext_sr_derive_public_soft_def ext_sr_sign_def returns_unwrap
      split: option.split)

text \<open>A path of any length: in a debug build the depth must stay a \<open>u8\<close>, a release build wraps.\<close>

lemma derive_returns_iff:
  assumes "ed_laws ed" "hmac_laws hm" "dp_laws dp" "wf_key ed k"
  shows "returns (unwrap_result (derive prof ed hm dp k p)) \<longleftrightarrow>
    (\<forall>i\<in>set p. is_hardened i) \<and> (prof = Debug \<longrightarrow> unat (depth k) + length p \<le> 255)"
proof (cases "find (\<lambda>i. \<not> is_hardened i) p")
  case None
  then have hard: "\<forall>i\<in>set p. is_hardened i" by (simp add: find_None_iff)
  then have whole: "takeWhile is_hardened p = p" by (simp add: takeWhile_eq_all_conv)
  show ?thesis
    using derive_outcome [OF assms, of prof p, unfolded whole] hard None by (auto split: if_splits)
next
  case (Some i)
  then have "\<not> (\<forall>i\<in>set p. is_hardened i)" by (auto simp: find_Some_iff)
  then show ?thesis using derive_outcome [OF assms, of prof p] Some by (auto split: if_splits)
qed

lemma returns_bip32:
  assumes "lawful_crates c" "wf_heap h"
  shows "returns (bip32_get_private_key (build c) (hexa c) (edc c) (hmacs c) (paths c) (allocr c) p q h)
    \<longleftrightarrow> accepts c h (Bip32GetPrivateKey p q)"
proof -
  note laws = lawful_cratesD [OF assms(1)]
  have put: "returns (get_ptr_from_u8vec (hexa c) (allocr c) v h)" for v
    by (rule returns_put [OF laws(9,8) assms(2)])
  have walk: "returns (rbind (root (hexa c) (edc c) (hmacs c) seed) (\<lambda>r.
        rbind (unwrap_result (derive (build c) (edc c) (hmacs c) (paths c) r ixs)) f))
      \<longleftrightarrow> from_hex (hexa c) seed \<noteq> None
        \<and> (\<forall>i\<in>set ixs. is_hardened i) \<and> (build c = Debug \<longrightarrow> length ixs \<le> 255)"
    if f: "\<And>x. returns (f x)" for seed ixs f
  proof (cases "from_hex (hexa c) seed")
    case (Some sd)
    obtain m where "from_seed (edc c) (hmacs c) sd = Inr (Inr m)" "wf_key (edc c) m" "depth m = 0"
      using from_seed_ok [OF laws(4,3)] by blast
    then show ?thesis
      using Some derive_returns_iff [OF laws(4,3,7)] by (simp add: root_def hex_str_def returns_then [OF f])
  qed (simp add: root_def hex_str_def)
  show ?thesis
    unfolding bip32_get_private_key_def Let_def accepts.simps returns_spells returns_unwrap
    by (simp add: spells_def walk put split: sum.split option.split)
qed

lemma returns_bip39:
  assumes "lawful_crates c" "wf_heap h"
  shows "returns (exec c rng (Bip39Generate n) h) \<longleftrightarrow> accepts c h (Bip39Generate n)"
    and "readable p h \<Longrightarrow> returns (exec c rng (Bip39Validate p) h)"
    and "readable p h \<Longrightarrow> returns (exec c rng (Bip39ToEntropy p) h)"
    and "readable p h \<Longrightarrow> readable q h \<Longrightarrow> returns (exec c rng (Bip39ToMiniSecret p q) h)"
    and "readable p h \<Longrightarrow> readable q h \<Longrightarrow> returns (exec c rng (Bip39ToSeed p q) h)"
proof -
  note laws = lawful_cratesD [OF assms(1)]
  have put: "returns (get_ptr_from_u8vec (hexa c) (allocr c) v h)" for v
    by (rule returns_put [OF laws(9,8) assms(2)])
  have put_text: "c_text s \<Longrightarrow> returns (get_ptr (allocr c) s h)" for s
    using str_port.put_total [OF laws(8) assms(2), of s] by (auto simp: returns_def)
  show "returns (exec c rng (Bip39Generate n) h) \<longleftrightarrow> accepts c h (Bip39Generate n)"
    using ext_bip39_generate_cases [OF laws(10), of n rng]
    by (auto simp: bip39_generate_def ext_bip39_validate_iff [OF laws(10)] put_text split: if_splits)
  note defs = bip39_to_entropy_def bip39_to_mini_secret_def bip39_to_seed_def bip39_validate_def
    ext_bip39_to_entropy_def ext_bip39_to_mini_secret_valid [OF laws(2)] ext_bip39_to_seed_valid [OF laws(10)]
  have "returns (exec c rng (Bip39Validate p) h) \<and> returns (exec c rng (Bip39ToEntropy p) h)
      \<and> (readable q h \<longrightarrow> returns (exec c rng (Bip39ToMiniSecret p q) h) \<and> returns (exec c rng (Bip39ToSeed p q) h))"
    if p: "readable p h" for q
  proof -
    obtain s where s: "get_str p h = Inr s" using readable_get_str [OF p] by blast
    show ?thesis
    proof (rule bip39_valid_cases [OF laws(10), of s])
      fix m
      assume "ext_bip39_validate (mnemonics c) s" "from_phrase (mnemonics c) s = Some m"
      then show ?thesis using readable_get_str [of q h] by (auto simp: defs s put)
    next
      assume "\<not> ext_bip39_validate (mnemonics c) s"
      then show ?thesis by (simp add: defs s put_text c_text_phrases_invalid)
    qed
  qed
  then show "readable p h \<Longrightarrow> returns (exec c rng (Bip39Validate p) h)"
    and "readable p h \<Longrightarrow> returns (exec c rng (Bip39ToEntropy p) h)"
    and "readable p h \<Longrightarrow> readable q h \<Longrightarrow> returns (exec c rng (Bip39ToMiniSecret p q) h)"
    and "readable p h \<Longrightarrow> readable q h \<Longrightarrow> returns (exec c rng (Bip39ToSeed p q) h)"
    by blast+
qed

lemma returns_hash_exports:
  assumes "lawful_crates c" "wf_heap h"
  shows "returns (exec c rng (Blake2b p q n) h) \<longleftrightarrow> accepts c h (Blake2b p q n)"
    and "returns (exec c rng (Keccak256 p) h) \<longleftrightarrow> accepts c h (Keccak256 p)"
    and "returns (exec c rng (Pbkdf2 p q n) h) \<longleftrightarrow> accepts c h (Pbkdf2 p q n)"
    and "returns (exec c rng (Scrypt p q l r m) h) \<longleftrightarrow> accepts c h (Scrypt p q l r m)"
    and "returns (exec c rng (Sha512 p) h) \<longleftrightarrow> accepts c h (Sha512 p)"
    and "returns (exec c rng (Twox p n) h) \<longleftrightarrow> accepts c h (Twox p n)"
    and "returns (exec c rng (Xxhash64 p n) h) \<longleftrightarrow> accepts c h (Xxhash64 p n)"
proof -
  note laws = lawful_cratesD [OF assms(1)]
  show "returns (exec c rng (Blake2b p q n) h) \<longleftrightarrow> accepts c h (Blake2b p q n)"
    and "returns (exec c rng (Keccak256 p) h) \<longleftrightarrow> accepts c h (Keccak256 p)"
    and "returns (exec c rng (Pbkdf2 p q n) h) \<longleftrightarrow> accepts c h (Pbkdf2 p q n)"
    and "returns (exec c rng (Scrypt p q l r m) h) \<longleftrightarrow> accepts c h (Scrypt p q l r m)"
    and "returns (exec c rng (Sha512 p) h) \<longleftrightarrow> accepts c h (Sha512 p)"
    and "returns (exec c rng (Twox p n) h) \<longleftrightarrow> accepts c h (Twox p n)"
    and "returns (exec c rng (Xxhash64 p n) h) \<longleftrightarrow> accepts c h (Xxhash64 p n)"
    by (simp_all add: blake2b_def keccak256_def pbkdf2_def scrypt_def sha512_def twox_def xxhash64_def
        returns_names returns_then [OF returns_put [OF laws(9,8) assms(2)]] returns_hashing [OF laws(2)])
qed

lemma returns_secp_recover:
  assumes "lawful_crates c" "wf_heap h"
  shows "returns (secp256k1_recover (hexa c) (secp c) (allocr c) p q i h) \<longleftrightarrow> accepts c h (Secp256k1Recover p q i)"
proof -
  note laws = lawful_cratesD [OF assms(1)]
  have inner: "returns (rbind (unwrap (secp_message_from_slice (secp c) msg_vec)) (\<lambda>msg.
       rbind (unwrap (recovery_id_from_i32 (secp c) (ucast i))) (\<lambda>rid.
       rbind (slice_to 64 sig_vec) (\<lambda>compact.
       rbind (unwrap (recoverable_from_compact (secp c) compact rid)) (\<lambda>sg.
       rbind (unwrap (secp_recover (secp c) msg sg)) (\<lambda>pk.
         get_ptr_from_u8vec (hexa c) (allocr c) (secp_pk_serialize (secp c) pk) h))))))
     \<longleftrightarrow> length msg_vec = 32 \<and> i \<le> 3 \<and> 64 \<le> length sig_vec \<and>
       (case recoverable_from_compact (secp c) (take 64 sig_vec)
               (the (recovery_id_from_i32 (secp c) (ucast i))) of
          None \<Rightarrow> False
        | Some sg \<Rightarrow> secp_recover (secp c) (the (secp_message_from_slice (secp c) msg_vec)) sg \<noteq> None)"
    for msg_vec sig_vec
    using secp_lawsD(3) [OF laws(6), of msg_vec] secp_rid [OF laws(6), of i]
    by (cases "secp_message_from_slice (secp c) msg_vec"; cases "recovery_id_from_i32 (secp c) (ucast i)")
      (auto simp: returns_unwrap returns_slice_to returns_then [OF returns_put [OF laws(9,8) assms(2)]]
        split: option.split)
  show ?thesis
    by (simp only: secp256k1_recover_def returns_names inner accepts.simps)
qed

lemma returns_key_exports:
  assumes "lawful_crates c" "wf_heap h"
  shows "returns (exec c rng (Bip32GetPrivateKey p q) h) \<longleftrightarrow> accepts c h (Bip32GetPrivateKey p q)"
    and "returns (exec c rng (Ed25519GetPubFromPrv p) h) \<longleftrightarrow> accepts c h (Ed25519GetPubFromPrv p)"
    and "returns (exec c rng (Secp256k1GetPubFromPrv p) h) \<longleftrightarrow> accepts c h (Secp256k1GetPubFromPrv p)"
    and "returns (exec c rng (Secp256k1GetCompressPub p) h) \<longleftrightarrow> accepts c h (Secp256k1GetCompressPub p)"
    and "returns (exec c rng (Secp256k1Recover p q i) h) \<longleftrightarrow> accepts c h (Secp256k1Recover p q i)"
    and "returns (exec c rng (Sr25519GetPubFromSeed p) h) \<longleftrightarrow> accepts c h (Sr25519GetPubFromSeed p)"
proof -
  note laws = lawful_cratesD [OF assms(1)]
  note put = returns_put [OF laws(9,8) assms(2)]
  have "returns (rbind (ext_sr_from_seed (src c) (take 32 v)) (\<lambda>result_vec.
      rbind (slice_range (SECRET_KEY_LENGTH (src c)) (KEYPAIR_LENGTH (src c)) result_vec) (\<lambda>pk.
        get_ptr_from_u8vec (hexa c) (allocr c) pk h)))" if "32 \<le> length v" for v
    using that by (simp add: ext_sr_from_seed_eq [OF laws(5)] slice_range_def sr_lawsD [OF laws(5)] put)
  moreover have "ed_sk_from_bytes (edc c) v \<noteq> None \<longleftrightarrow> length v = 32" for v
    by (rule ed_lawsD(1) [OF laws(4)])
  ultimately show "returns (exec c rng (Bip32GetPrivateKey p q) h) \<longleftrightarrow> accepts c h (Bip32GetPrivateKey p q)"
    and "returns (exec c rng (Ed25519GetPubFromPrv p) h) \<longleftrightarrow> accepts c h (Ed25519GetPubFromPrv p)"
    and "returns (exec c rng (Secp256k1GetPubFromPrv p) h) \<longleftrightarrow> accepts c h (Secp256k1GetPubFromPrv p)"
    and "returns (exec c rng (Secp256k1GetCompressPub p) h) \<longleftrightarrow> accepts c h (Secp256k1GetCompressPub p)"
    and "returns (exec c rng (Secp256k1Recover p q i) h) \<longleftrightarrow> accepts c h (Secp256k1Recover p q i)"
    and "returns (exec c rng (Sr25519GetPubFromSeed p) h) \<longleftrightarrow> accepts c h (Sr25519GetPubFromSeed p)"
    by (simp_all add: returns_bip32 [OF assms(1,2)] returns_secp_recover [OF assms(1,2)]
        ed25519_get_pub_from_prv_def secp256k1_get_pub_from_prv_def secp256k1_get_compress_pub_def
        sr25519_get_pub_from_seed_def returns_names returns_slice_to returns_then [OF put] names_def
        del: accepts.simps(13,17) cong: conj_cong split: sum.split)
qed

lemma returns_signature_exports:
  assumes "lawful_crates c" "wf_heap h"
  shows "returns (exec c rng (Ed25519KeypairFromSeed p) h) \<longleftrightarrow> accepts c h (Ed25519KeypairFromSeed p)"
    and "returns (exec c rng (Ed25519Sign p q r) h) \<longleftrightarrow> accepts c h (Ed25519Sign p q r)"
    and "returns (exec c rng (Ed25519Verify p q r) h) \<longleftrightarrow> accepts c h (Ed25519Verify p q r)"
    and "returns (exec c rng (Sr25519DeriveKeypairHard p q) h) \<longleftrightarrow> accepts c h (Sr25519DeriveKeypairHard p q)"
    and "returns (exec c rng (Sr25519DeriveKeypairSoft p q) h) \<longleftrightarrow> accepts c h (Sr25519DeriveKeypairSoft p q)"
    and "returns (exec c rng (Sr25519DerivePublicSoft p q) h) \<longleftrightarrow> accepts c h (Sr25519DerivePublicSoft p q)"
    and "returns (exec c rng (Sr25519KeypairFromSeed p) h) \<longleftrightarrow> accepts c h (Sr25519KeypairFromSeed p)"
    and "returns (exec c rng (Sr25519KeypairFromPair p) h) \<longleftrightarrow> accepts c h (Sr25519KeypairFromPair p)"
    and "returns (exec c rng (Sr25519Sign p q r) h) \<longleftrightarrow> accepts c h (Sr25519Sign p q r)"
    and "returns (exec c rng (Sr25519Verify p q r) h) \<longleftrightarrow> accepts c h (Sr25519Verify p q r)"
proof -
  note laws = lawful_cratesD [OF assms(1)]
  show "returns (exec c rng (Ed25519KeypairFromSeed p) h) \<longleftrightarrow> accepts c h (Ed25519KeypairFromSeed p)"
    and "returns (exec c rng (Ed25519Sign p q r) h) \<longleftrightarrow> accepts c h (Ed25519Sign p q r)"
    and "returns (exec c rng (Ed25519Verify p q r) h) \<longleftrightarrow> accepts c h (Ed25519Verify p q r)"
    and "returns (exec c rng (Sr25519DeriveKeypairHard p q) h) \<longleftrightarrow> accepts c h (Sr25519DeriveKeypairHard p q)"
    and "returns (exec c rng (Sr25519DeriveKeypairSoft p q) h) \<longleftrightarrow> accepts c h (Sr25519DeriveKeypairSoft p q)"
    and "returns (exec c rng (Sr25519DerivePublicSoft p q) h) \<longleftrightarrow> accepts c h (Sr25519DerivePublicSoft p q)"
    and "returns (exec c rng (Sr25519KeypairFromSeed p) h) \<longleftrightarrow> accepts c h (Sr25519KeypairFromSeed p)"
    and "returns (exec c rng (Sr25519KeypairFromPair p) h) \<longleftrightarrow> accepts c h (Sr25519KeypairFromPair p)"
    and "returns (exec c rng (Sr25519Sign p q r) h) \<longleftrightarrow> accepts c h (Sr25519Sign p q r)"
    and "returns (exec c rng (Sr25519Verify p q r) h) \<longleftrightarrow> accepts c h (Sr25519Verify p q r)"
    by (simp_all add: ed25519_keypair_from_seed_def ed25519_sign_def ed25519_verify_def
        sr25519_derive_keypair_hard_def sr25519_derive_keypair_soft_def sr25519_derive_public_soft_def
        sr25519_keypair_from_seed_def sr25519_keypair_from_pair_def sr25519_sign_def sr25519_verify_def
        returns_names returns_then [OF returns_put [OF laws(9,8) assms(2)]]
        returns_ed [OF laws(4)] returns_sr [OF laws(5)])
qed

lemma exec_returns_iff:
  assumes "lawful_crates c" "wf_heap h" "\<forall>p\<in>set (call_args f). readable p h"
  shows "returns (exec c rng f h) \<longleftrightarrow> accepts c h f"
proof -
  note groups = returns_hash_exports [OF assms(1,2)] returns_key_exports [OF assms(1,2)]
    returns_signature_exports [OF assms(1,2)] returns_bip39 [OF assms(1,2)]
  show ?thesis
    using assms(3)
    by (cases f) (simp_all only: groups call_args.simps list.set ball_simps accepts.simps(2-5) simp_thms)
qed

subsection \<open>What a call returns\<close>

text \<open>
  The shapes of results: a \<open>bool\<close>; a phrase; \<open>n\<close> bytes in hexadecimal; for the conversions of a
  phrase bytes in hexadecimal, of a fixed number or not, or the message for an invalid phrase.
\<close>

datatype shape = Answer | PhraseText | HexBytes nat | Conversion "nat option"

fun result_shape :: "call \<Rightarrow> shape" where
  "result_shape (Bip39Generate n) = PhraseText"
| "result_shape (Bip39Validate p) = Answer"
| "result_shape (Bip39ToEntropy p) = Conversion None"
| "result_shape (Bip39ToMiniSecret p q) = Conversion (Some 32)"
| "result_shape (Bip39ToSeed p q) = Conversion (Some 32)"
| "result_shape (Blake2b p q n) = HexBytes (unat n)"
| "result_shape (Keccak256 p) = HexBytes 32"
| "result_shape (Pbkdf2 p q n) = HexBytes 64"
| "result_shape (Scrypt p q l r n) = HexBytes 64"
| "result_shape (Sha512 p) = HexBytes 64"
| "result_shape (Twox p n) = HexBytes (8 * unat n)"
| "result_shape (Xxhash64 p n) = HexBytes 8"
| "result_shape (Bip32GetPrivateKey p q) = HexBytes 32"
| "result_shape (Ed25519GetPubFromPrv p) = HexBytes 32"
| "result_shape (Secp256k1GetPubFromPrv p) = HexBytes 33"
| "result_shape (Secp256k1GetCompressPub p) = HexBytes 33"
| "result_shape (Secp256k1Recover p q i) = HexBytes 33"
| "result_shape (Sr25519GetPubFromSeed p) = HexBytes 32"
| "result_shape (Ed25519KeypairFromSeed p) = HexBytes 64"
| "result_shape (Ed25519Sign p q r) = HexBytes 64"
| "result_shape (Ed25519Verify p q r) = Answer"
| "result_shape (Sr25519DeriveKeypairHard p q) = HexBytes 96"
| "result_shape (Sr25519DeriveKeypairSoft p q) = HexBytes 96"
| "result_shape (Sr25519DerivePublicSoft p q) = HexBytes 32"
| "result_shape (Sr25519KeypairFromSeed p) = HexBytes 96"
| "result_shape (Sr25519KeypairFromPair p) = HexBytes 96"
| "result_shape (Sr25519Sign p q r) = HexBytes 64"
| "result_shape (Sr25519Verify p q r) = Answer"

definition lower_hex_text :: "bytes \<Rightarrow> bool" where
  "lower_hex_text s \<longleftrightarrow> list_all (\<lambda>b. 48 \<le> b \<and> b \<le> 57 \<or> 97 \<le> b \<and> b \<le> 102) s"

lemma lower_hex_text_hex_text: "lower_hex_text (hex_text v)"
proof -
  have "48 \<le> hex_char n \<and> hex_char n \<le> 57 \<or> 97 \<le> hex_char n \<and> hex_char n \<le> 102" if "n < 16" for n
    using that by (auto simp: hex_char_def u8_nat)
  then show ?thesis
    by (induction v) (auto simp: lower_hex_text_def byte_nibbles)
qed

definition hex_result where
  "hex_result c h p P \<longleftrightarrow> names c h p (\<lambda>v. P v \<and> spells h p (\<lambda>s. s = hex_text v \<and> lower_hex_text s))"

definition has_shape where
  "has_shape c h r s \<longleftrightarrow> (case r of
       RBool b \<Rightarrow> s = Answer
     | RPtr p \<Rightarrow> (case s of
         Answer \<Rightarrow> False
       | PhraseText \<Rightarrow> spells h p (ext_bip39_validate (mnemonics c))
       | HexBytes n \<Rightarrow> hex_result c h p (bytes_of_len n)
       | Conversion k \<Rightarrow> hex_result c h p (\<lambda>v. case k of None \<Rightarrow> True | Some n \<Rightarrow> length v = n)
           \<or> spells h p (\<lambda>s. s = phrases_invalid)))"

text \<open>\<open>sends c h P m\<close>: if \<open>m\<close> returns, it has put bytes with the property \<open>P\<close> into memory.\<close>

definition sends where
  "sends c h P m \<longleftrightarrow>
     (\<forall>p h'. m = Inr (p, h') \<longrightarrow> (\<exists>v. P v \<and> get_ptr_from_u8vec (hexa c) (allocr c) v h = Inr (p, h')))"

lemma sends_put: "P v \<Longrightarrow> sends c h P (get_ptr_from_u8vec (hexa c) (allocr c) v h)"
  by (auto simp: sends_def)

lemma sends_rbind: "(\<And>x. m = Inr x \<Longrightarrow> sends c h P (f x)) \<Longrightarrow> sends c h P (rbind m f)"
  by (auto simp: sends_def rbind_eq_Inr_iff)

lemma sends_result:
  assumes "lawful_crates c" "wf_heap h" "sends c h P m" "m = Inr (p, h')"
  shows "hex_result c h' p P"
proof -
  note laws = lawful_cratesD [OF assms(1)]
  obtain v where v: "P v" "get_ptr_from_u8vec (hexa c) (allocr c) v h = Inr (p, h')"
    using assms(3,4) by (auto simp: sends_def)
  then have "get_u8vec_from_ptr (hexa c) p h' = Inr v" "get_str p h' = Inr (hex_text v)"
    using put_chain [OF laws(9,8) assms(2), of v] by (auto simp: to_hex_eq [OF laws(9)])
  then show ?thesis using v(1) by (simp add: hex_result_def names_def spells_def lower_hex_text_hex_text)
qed

subsubsection \<open>The lengths of the results of the modules\<close>

lemma hash_lengths:
  assumes "hash_laws ha"
  shows "ext_blake2b ha d k n = Inr v \<Longrightarrow> length v = unat n"
    and "ext_scrypt ha d k l r p = Inr v \<Longrightarrow> length v = 64"
    and "ext_keccak256 ha d = Inr v \<Longrightarrow> length v = 32"
    and "ext_pbkdf2 ha d k n = Inr v \<Longrightarrow> length v = 64"
    and "ext_sha512 ha d = Inr v \<Longrightarrow> length v = 64"
    and "ext_twox ha d n = Inr v \<Longrightarrow> length v = 8 * unat n"
    and "ext_xxhash ha d n = Inr v \<Longrightarrow> length v = 8"
proof -
  show "ext_blake2b ha d k n = Inr v \<Longrightarrow> length v = unat n"
    using ext_blake2b_result [OF assms, of n k d] by (auto split: if_splits)
  show "ext_scrypt ha d k l r p = Inr v \<Longrightarrow> length v = 64"
    using ext_scrypt_result [OF assms, of l r p d k] by (auto split: if_splits)
qed (auto simp: ext_keccak256_def ext_pbkdf2_def ext_sha512_def ext_twox_eq ext_xxhash_eq assms
    hash_lawsD(3,4,7) [OF assms])

lemma ed_lengths:
  assumes "ed_laws ed"
  shows "ext_ed_from_seed ed seed = Inr v \<Longrightarrow> length v = 64"
    and "ext_ed_sign ed pk sk m = Inr v \<Longrightarrow> length v = 64"
    and "ed_sk_from_bytes ed b = Some s \<Longrightarrow> length (ed_pk_to_bytes ed (ed_pk_of_sk ed s)) = 32"
proof -
  show "ext_ed_from_seed ed seed = Inr v \<Longrightarrow> length v = 64"
    by (auto simp: ext_ed_from_seed_eq [OF assms] assms split: if_splits)
qed (auto simp: ed_defs rbind_eq_Inr_iff ed_lawsD(3,8) [OF assms])

lemma sr_lengths:
  assumes "sr_laws sr"
  shows "ext_sr_from_seed sr seed = Inr v \<Longrightarrow> length v = 96"
    and "ext_sr_from_pair sr kp = Inr v \<Longrightarrow> length v = 96"
    and "ext_sr_derive_keypair_hard sr kp cc = Inr v \<Longrightarrow> length v = 96"
    and "ext_sr_derive_keypair_soft sr rng kp cc = Inr v \<Longrightarrow> length v = 96"
    and "ext_sr_derive_public_soft sr pk cc = Inr v \<Longrightarrow> length v = 32"
    and "ext_sr_sign sr rng pk sk m = Inr v \<Longrightarrow> length v = 64"
  by (auto simp: ext_sr_from_seed_def ext_sr_from_pair_def ext_sr_derive_keypair_hard_def Let_def
      ext_sr_derive_keypair_soft_def ext_sr_derive_public_soft_def ext_sr_sign_def rbind_eq_Inr_iff
      sr_lawsD(2,7,12) [OF assms])

lemma slice_range_length: "slice_range a b v = Inr w \<Longrightarrow> length w = b - a"
  by (auto simp: slice_range_def split: if_splits)

lemma bip39_lengths:
  "ext_bip39_to_mini_secret bp ha s pw = Inr v \<Longrightarrow> length v = 32"
  "ext_bip39_to_seed bp s pw = Inr v \<Longrightarrow> length v = 32"
  by (auto simp: ext_bip39_to_mini_secret_def ext_bip39_to_seed_def slice_to_def rbind_eq_Inr_iff Let_def
      split: if_splits)

lemma unwrap_result_eq_Inr_iff: "unwrap_result m = Inr x \<longleftrightarrow> m = Inr (Inr x)"
proof (cases m)
  case (Inr r)
  then show ?thesis by (cases r) simp_all
qed simp

lemma derived_secret_length:
  assumes "ed_laws ed" "hmac_laws hm" "dp_laws dp"
    and "root hx ed hm seed = Inr r" "unwrap_result (derive prof ed hm dp r ixs) = Inr k"
  shows "length (ed_sk_to_bytes ed (secret_key k)) = 32"
proof -
  have wf: "wf_key ed k" if "wf_key ed r" "derive prof ed hm dp r ixs = Inr (Inr k)" for r
    using that
  proof (induction ixs arbitrary: r)
    case (Cons i ixs)
    then obtain n where "derive_child prof ed hm dp r i = Inr (Inr n)" "derive prof ed hm dp n ixs = Inr (Inr k)"
      by (auto simp: derive_Cons [OF assms(1-3)] try_bind_eq_Ok_iff)
    then show ?case using Cons.IH [of n] derive_child_wf [OF assms(1-3)] by blast
  qed (simp add: derive_def)
  obtain sd where "from_seed ed hm sd = Inr (Inr r)"
    using assms(4) by (auto simp: root_def rbind_eq_Inr_iff unwrap_result_eq_Inr_iff)
  then have "wf_key ed r" using from_seed_ok [OF assms(1,2), of sd] by auto
  then have "wf_key ed k"
    using wf assms(5) by (simp add: unwrap_result_eq_Inr_iff)
  then show ?thesis using ed_lawsD(1) [OF assms(1), of "ed_sk_to_bytes ed (secret_key k)"] by (simp add: wf_key_def)
qed

lemma hash_exports_send:
  assumes "lawful_crates c"
  shows "sends c h (bytes_of_len (unat n)) (blake2b (hexa c) (hashes c) (allocr c) p q n h)"
    and "sends c h (bytes_of_len 32) (keccak256 (hexa c) (hashes c) (allocr c) p h)"
    and "sends c h (bytes_of_len 64) (pbkdf2 (hexa c) (hashes c) (allocr c) p q n h)"
    and "sends c h (bytes_of_len 64) (scrypt (hexa c) (hashes c) (allocr c) p q l r m h)"
    and "sends c h (bytes_of_len 64) (sha512 (hexa c) (hashes c) (allocr c) p h)"
    and "sends c h (bytes_of_len (8 * unat n)) (twox (hexa c) (hashes c) (allocr c) p n h)"
    and "sends c h (bytes_of_len 8) (xxhash64 (hexa c) (hashes c) (allocr c) p n h)"
  unfolding blake2b_def keccak256_def pbkdf2_def scrypt_def sha512_def twox_def xxhash64_def
  by (intro sends_rbind sends_put, erule hash_lengths [OF lawful_cratesD(2) [OF assms]])+

lemma key_exports_send:
  assumes "lawful_crates c"
  shows "sends c h (bytes_of_len 32)
      (bip32_get_private_key prof (hexa c) (edc c) (hmacs c) (paths c) (allocr c) p q h)"
    and "sends c h (bytes_of_len 32) (ed25519_get_pub_from_prv (hexa c) (edc c) (allocr c) p h)"
    and "sends c h (bytes_of_len 33) (secp256k1_get_pub_from_prv (hexa c) (secp c) (allocr c) p h)"
    and "sends c h (bytes_of_len 33) (secp256k1_get_compress_pub (hexa c) (secp c) (allocr c) p h)"
    and "sends c h (bytes_of_len 33) (secp256k1_recover (hexa c) (secp c) (allocr c) p q i h)"
    and "sends c h (bytes_of_len 32) (sr25519_get_pub_from_seed (hexa c) (src c) (allocr c) p h)"
proof -
  note laws = lawful_cratesD [OF assms]
  have pk: "slice_range (SECRET_KEY_LENGTH (src c)) (KEYPAIR_LENGTH (src c)) v = Inr w \<Longrightarrow> length w = 32" for v w
    using slice_range_length [of _ _ v w] by (simp add: sr_lawsD(15,16) [OF laws(5)])
  show "sends c h (bytes_of_len 32)
      (bip32_get_private_key prof (hexa c) (edc c) (hmacs c) (paths c) (allocr c) p q h)"
    unfolding bip32_get_private_key_def Let_def
    by (intro sends_rbind sends_put) (rule derived_secret_length [OF laws(4,3,7)])
  show "sends c h (bytes_of_len 32) (ed25519_get_pub_from_prv (hexa c) (edc c) (allocr c) p h)"
    and "sends c h (bytes_of_len 33) (secp256k1_get_pub_from_prv (hexa c) (secp c) (allocr c) p h)"
    and "sends c h (bytes_of_len 33) (secp256k1_get_compress_pub (hexa c) (secp c) (allocr c) p h)"
    and "sends c h (bytes_of_len 33) (secp256k1_recover (hexa c) (secp c) (allocr c) p q i h)"
    and "sends c h (bytes_of_len 32) (sr25519_get_pub_from_seed (hexa c) (src c) (allocr c) p h)"
    unfolding ed25519_get_pub_from_prv_def secp256k1_get_pub_from_prv_def
      secp256k1_get_compress_pub_def secp256k1_recover_def sr25519_get_pub_from_seed_def Let_def
    by (intro sends_rbind sends_put, (rule ed_lawsD(3) [OF laws(4)] secp_lawsD(1) [OF laws(6)] | erule pk))+
qed

lemma signature_exports_send:
  assumes "lawful_crates c"
  shows "sends c h (bytes_of_len 64) (ed25519_keypair_from_seed (hexa c) (edc c) (allocr c) p h)"
    and "sends c h (bytes_of_len 64) (ed25519_sign (hexa c) (edc c) (allocr c) p q r h)"
    and "sends c h (bytes_of_len 96) (sr25519_derive_keypair_hard (hexa c) (src c) (allocr c) p q h)"
    and "sends c h (bytes_of_len 96) (sr25519_derive_keypair_soft (hexa c) (src c) (allocr c) rng p q h)"
    and "sends c h (bytes_of_len 32) (sr25519_derive_public_soft (hexa c) (src c) (allocr c) p q h)"
    and "sends c h (bytes_of_len 96) (sr25519_keypair_from_seed (hexa c) (src c) (allocr c) p h)"
    and "sends c h (bytes_of_len 96) (sr25519_keypair_from_pair (hexa c) (src c) (allocr c) p h)"
    and "sends c h (bytes_of_len 64) (sr25519_sign (hexa c) (src c) (allocr c) rng p q r h)"
  unfolding ed25519_keypair_from_seed_def ed25519_sign_def sr25519_derive_keypair_hard_def
    sr25519_derive_keypair_soft_def sr25519_derive_public_soft_def sr25519_keypair_from_seed_def
    sr25519_keypair_from_pair_def sr25519_sign_def
  by (intro sends_rbind sends_put, (erule ed_lengths(1,2) [OF lawful_cratesD(4) [OF assms]]
      sr_lengths [OF lawful_cratesD(5) [OF assms]]))+

lemma sent_shape:
  assumes "lawful_crates c" "wf_heap h" "sends c h (bytes_of_len n) m" "ret_ptr m = Inr (r, h')"
  shows "has_shape c h' r (HexBytes n)"
  using sends_result [OF assms(1-3)] assms(4) by (auto simp: ret_ptr_def rbind_eq_Inr_iff has_shape_def)

lemma answer_shape: "ret_bool h m = Inr (r, h') \<Longrightarrow> has_shape c h' r Answer"
  by (auto simp: ret_bool_def rbind_eq_Inr_iff has_shape_def)

text \<open>The conversions of a phrase: the message or what the module returns.\<close>

lemma conversion_shape:
  assumes "lawful_crates c" "wf_heap h"
    and "ret_ptr (rbind v (\<lambda>valid. if valid then m else get_ptr (allocr c) phrases_invalid h)) = Inr (r, h')"
    and "sends c h (\<lambda>v. case k of None \<Rightarrow> True | Some n \<Rightarrow> length v = n) m"
  shows "has_shape c h' r (Conversion k)"
proof -
  obtain p valid where p: "r = RPtr p"
      "(if valid then m else get_ptr (allocr c) phrases_invalid h) = Inr (p, h')"
    using assms(3) by (auto simp: ret_ptr_def rbind_eq_Inr_iff)
  show ?thesis
  proof (cases valid)
    case True
    then show ?thesis using sends_result [OF assms(1,2,4), of p h'] p by (auto simp: has_shape_def)
  next
    case False
    then have "get_str p h' = Inr phrases_invalid"
      using str_port.get_put [OF lawful_cratesD(8) [OF assms(1)] assms(2) c_text_phrases_invalid, of p h'] p
      by simp
    then show ?thesis using p(1) by (simp add: has_shape_def spells_def)
  qed
qed

lemma bip39_exports_shape:
  assumes "lawful_crates c" "wf_heap h" "exec c rng f h = Inr (r, h')"
    and "f \<in> {Bip39Generate n, Bip39ToEntropy p, Bip39ToMiniSecret p q, Bip39ToSeed p q}"
  shows "has_shape c h' r (result_shape f)"
proof -
  note laws = lawful_cratesD [OF assms(1)]
  have generate: ?thesis if f: "f = Bip39Generate n"
  proof (cases "unat n \<in> {12, 15, 18, 21, 24}")
    case True
    then obtain s m where s: "ext_bip39_generate (mnemonics c) rng n = Inr s"
        "from_phrase (mnemonics c) s = Some m" "c_text s"
      using ext_bip39_generate_cases [OF laws(10), of n rng] by auto
    then have "ext_bip39_validate (mnemonics c) s" by (simp add: ext_bip39_validate_iff [OF laws(10)])
    then obtain p where "r = RPtr p" "get_ptr (allocr c) s h = Inr (p, h')"
      using assms(3) s(1) by (auto simp: f bip39_generate_def ret_ptr_def rbind_eq_Inr_iff)
    then show ?thesis
      using str_port.get_put [OF laws(8) assms(2) s(3)] \<open>ext_bip39_validate (mnemonics c) s\<close>
      by (simp add: f has_shape_def spells_def)
  next
    case False
    then show ?thesis
      using ext_bip39_generate_cases [OF laws(10), of n rng] assms(3)
      by (simp add: f bip39_generate_def ret_ptr_def)
  qed
  have len: "sends c h (\<lambda>v. case Some 32 of None \<Rightarrow> True | Some n \<Rightarrow> length v = n)
      (rbind (get_str p h) (\<lambda>s. rbind (get_str q h) (\<lambda>pw.
        rbind (ext_bip39_to_mini_secret (mnemonics c) (hashes c) s pw) (\<lambda>result_vec.
          get_ptr_from_u8vec (hexa c) (allocr c) result_vec h))))"
    "sends c h (\<lambda>v. case Some 32 of None \<Rightarrow> True | Some n \<Rightarrow> length v = n)
      (rbind (get_str p h) (\<lambda>s. rbind (get_str q h) (\<lambda>pw.
        rbind (ext_bip39_to_seed (mnemonics c) s pw) (\<lambda>result_vec.
          get_ptr_from_u8vec (hexa c) (allocr c) result_vec h))))"
    "sends c h (\<lambda>v. case None of None \<Rightarrow> True | Some n \<Rightarrow> length v = n)
      (rbind (get_str p h) (\<lambda>s. rbind (ext_bip39_to_entropy (mnemonics c) s) (\<lambda>result_vec.
          get_ptr_from_u8vec (hexa c) (allocr c) result_vec h)))"
    by (intro sends_rbind sends_put; simp add: bip39_lengths)+
  show ?thesis
    using assms(3,4) generate conversion_shape [OF assms(1,2) _ len(1)] conversion_shape [OF assms(1,2) _ len(2)]
      conversion_shape [OF assms(1,2) _ len(3)]
    by (auto simp: bip39_to_entropy_def bip39_to_mini_secret_def bip39_to_seed_def)
qed

lemma exec_has_shape:
  assumes "lawful_crates c" "wf_heap h" "exec c rng f h = Inr (r, h')"
  shows "has_shape c h' r (result_shape f)"
proof -
  note sends = hash_exports_send [OF assms(1)] key_exports_send [OF assms(1)] signature_exports_send [OF assms(1)]
  show ?thesis
    using assms(3) bip39_exports_shape [OF assms]
    by (cases f) (auto intro: answer_shape sends [THEN sent_shape [OF assms(1,2)]])
qed

subsection \<open>Properties\<close>

text \<open>
  C3: which calls return. In every well-formed memory and on readable arguments a call of any
  exported function returns exactly when \<open>accepts\<close> holds of its arguments, whatever randomness is
  drawn, and otherwise panics: there is no third outcome.
\<close>

theorem calls_return_iff_accepted:
  assumes "lawful_crates c" and "wf_heap h" and "\<forall>p\<in>set (call_args f). readable p h"
  shows "if accepts c h f then \<exists>r h'. exec c rng f h = Inr (r, h')
    else \<exists>e. exec c rng f h = Inl (Panic e)"
proof -
  have "no_undefined (exec c rng f h)"
    using rust_lib.ex_defined [OF lawful_cratesD(1) [OF assms(1)], of "(rng, f)"] assms(3) by simp
  then show ?thesis
    using exec_returns_iff [OF assms, of rng]
    by (cases "exec c rng f h") (auto simp: no_undefined_Inl)
qed

theorem calls_return_iff_accepted_witness:
  "(\<exists>r h'. exec ref_crates [] (Keccak256 16) (demo_heap (ref_to_hex [1, 2])) = Inr (r, h'))
   \<and> (\<exists>e. exec ref_crates [] (Sr25519KeypairFromSeed 16) (demo_heap (ref_to_hex [1, 2])) = Inl (Panic e))"
proof -
  let ?h = "demo_heap (ref_to_hex [1, 2])"
  have names: "names ref_crates ?h 16 P \<longleftrightarrow> P [1, 2]" for P
    by (simp add: names_def ref_crates_def del: hex_text.simps)
  have "no_undefined (get_u8vec_from_ptr ref_hex 16 ?h)" by (simp del: hex_text.simps)
  then have args: "\<forall>p\<in>set (call_args (Keccak256 16)). readable p ?h"
      "\<forall>p\<in>set (call_args (Sr25519KeypairFromSeed 16)). readable p ?h"
    by (simp_all add: get_u8vec_undefined_iff)
  show ?thesis
    using calls_return_iff_accepted [OF ref_crates_lawful wf_demo_heap args(1), of "[]"]
      calls_return_iff_accepted [OF ref_crates_lawful wf_demo_heap args(2), of "[]"]
    by (simp only: accepts.simps names) simp
qed

text \<open>
  C5: what a call returns. Whatever its arguments, a call that returns gives a \<open>bool\<close> exactly for
  the three tests, a phrase that validates for \<open>bip39_generate\<close>, and otherwise a string of
  lower-case hexadecimal digits that every other export reads as the documented number of
  bytes; only the conversions of a phrase may give the message for an invalid one instead.
\<close>

theorem call_results_have_shape:
  assumes "lawful_crates c" and "wf_heap h" and "exec c rng f h = Inr (r, h')"
  shows "has_shape c h' r (result_shape f)"
  by (rule exec_has_shape [OF assms])

theorem call_results_have_shape_witness:
  "\<exists>p h'. exec ref_crates [] (Sha512 16) (demo_heap (ref_to_hex [1, 2])) = Inr (RPtr p, h')
    \<and> names ref_crates h' p (bytes_of_len 64)"
proof -
  let ?h = "demo_heap (ref_to_hex [1, 2])"
  have "names ref_crates ?h 16 (\<lambda>d. True)" by (simp add: names_def ref_crates_def del: hex_text.simps)
  then have "returns (exec ref_crates [] (Sha512 16) ?h)"
    using returns_hash_exports(5) [OF ref_crates_lawful wf_demo_heap] by (simp only: accepts.simps)
  then obtain r h' where run: "exec ref_crates [] (Sha512 16) ?h = Inr (r, h')"
    by (auto simp only: returns_def)
  show ?thesis
    using call_results_have_shape [OF ref_crates_lawful wf_demo_heap run] run
    by (cases r) (auto simp: has_shape_def hex_result_def names_def simp del: exec.simps hex_text.simps
      split: sum.splits)
qed

end
