(* ===== verification/Dart_Client.thy ===== *)
theory Dart_Client
  imports Call_Contract
begin

section \<open>The Dart wrappers as clients (\<open>lib/crypto/common.dart\<close>)\<close>

text \<open>
  The functions that Dart programs call. Each checks its hexadecimal arguments with \<open>isHexString\<close>,
  copies its strings into C memory with \<open>toUtf8\<close>, calls one export, reads the returned string,
  frees it, and throws it if it starts with \<open>Error:\<close>. A wrapper is a \<open>plan\<close>: the guards in the
  order of the code, the strings it passes, the export, and whether it frees the result; \<open>dart_run\<close>
  executes it. A Dart string is modelled by its UTF-8 bytes, integers by the width the bindings
  give them. The bodies that run in an isolate share the native memory and are the same sequence.
  \<open>toUtf8\<close> of package ffi allocates with an allocator of its own, the parameter \<open>mal\<close>.
\<close>

subsection \<open>Strings\<close>

definition strip0xHex :: "bytes \<Rightarrow> bytes" where
  "strip0xHex hex = (if take 2 hex = lit ''0x'' then drop 2 hex else hex)"

text \<open>The prefix is stripped in either case; the pattern asks for a digit at every position.\<close>

definition isHexString :: "bytes \<Rightarrow> bool" where
  "isHexString str =
     (let result = if take 2 str \<in> {lit ''0x'', lit ''0X''} then drop 2 str else str
      in list_all is_hex_digit result)"

text \<open>
  \<open>plainToHex\<close> encodes the string in UTF-8, the branch of \<open>stringToU8a\<close> that its default
  arguments choose; a string is its encoding here. The digits are those of \<open>hex.encode\<close>.
\<close>

definition stringToU8a :: "bytes \<Rightarrow> bytes" where
  "stringToU8a msg = msg"

definition bytesToHex :: "bool \<Rightarrow> bytes \<Rightarrow> bytes" where
  "bytesToHex include0x bytes = (if include0x then lit ''0x'' else []) @ hex_text bytes"

definition u8aToHex :: "bytes \<Rightarrow> bytes" where
  "u8aToHex u8a = bytesToHex True u8a"

definition plainToHex :: "bytes \<Rightarrow> bytes" where
  "plainToHex s = u8aToHex (stringToU8a s)"

lemma strip_plainToHex [simp]: "strip0xHex (plainToHex s) = hex_text s"
  by (simp add: strip0xHex_def plainToHex_def u8aToHex_def bytesToHex_def stringToU8a_def)

text \<open>
  The bindings declare the results of type \<open>bool\<close> as \<open>Int32\<close>: the byte of the Rust side, zero
  extended, which the wrappers compare with 1.
\<close>

definition bool_as_int32 :: "bool \<Rightarrow> 32 word" where
  "bool_as_int32 b = (if b then 1 else 0)"

lemma bool_as_int32_eq_1 [simp]: "bool_as_int32 b = 1 \<longleftrightarrow> b"
  by (simp add: bool_as_int32_def)

datatype dart_value = DString bytes | DBool bool

datatype outcome = Throw bytes | Return dart_value

definition throwReturn :: "bytes \<Rightarrow> outcome" where
  "throwReturn message = (if take 6 message = lit ''Error:'' then Throw message else Return (DString message))"

subsection \<open>The wrappers\<close>

datatype wrapper =
    DBip39Generate u32 | DBip39Validate bytes | DBip39ToEntropy bytes
  | DBip39ToMiniSecret bytes bytes | DBip39ToSeed bytes bytes
  | DBlake2b bytes bytes u32 | DKeccak256 bytes | DSha512 bytes | DXxhash bytes u32
  | DPbkdf2 bytes bytes u32 | DScrypt bytes bytes u8 u32 u32 | DTwox bytes u32
  | DBip32GetPrivateKey bytes bytes | DEd25519GetPubFromPrivate bytes
  | DSecp256k1GetPubFromPrivate bytes | DSecp256k1RecoverPublic bytes bytes u8
  | DSecp256k1GetCompressPub bytes | DSr25519GetPubFromSeed bytes | DEd25519KeypairFromSeed bytes
  | DEd25519Sign bytes bytes bytes | DEd25519Verify bytes bytes bytes
  | DSr25519DeriveKeypairHard bytes bytes | DSr25519DeriveKeypairSoft bytes bytes
  | DSr25519DerivePublicSoft bytes bytes | DSr25519KeypairFromSeed bytes
  | DSr25519KeypairFromPair bytes | DSr25519Sign bytes bytes bytes | DSr25519Verify bytes bytes bytes

record plan =
  guards :: "(string \<times> bytes) list"
  passed :: "bytes list"
  target :: "ptr list \<Rightarrow> call"
  frees :: bool

text \<open>An argument that is checked is passed without its prefix.\<close>

definition guarded :: "(string \<times> bytes) list \<Rightarrow> (ptr list \<Rightarrow> call) \<Rightarrow> plan" where
  "guarded gs f = \<lparr>guards = gs, passed = map (strip0xHex \<circ> snd) gs, target = f, frees = True\<rparr>"

definition plain :: "bytes list \<Rightarrow> (ptr list \<Rightarrow> call) \<Rightarrow> plan" where
  "plain ss f = \<lparr>guards = [], passed = ss, target = f, frees = True\<rparr>"

fun plan_of :: "wrapper \<Rightarrow> plan" where
  "plan_of (DBip39Generate n) = plain [] (\<lambda>ps. Bip39Generate n)"
| "plan_of (DBip39Validate phrase) = plain [phrase] (\<lambda>ps. Bip39Validate (ps ! 0))"
| "plan_of (DBip39ToEntropy phrase) = plain [phrase] (\<lambda>ps. Bip39ToEntropy (ps ! 0))"
| "plan_of (DBip39ToMiniSecret phrase password) =
     plain [phrase, password] (\<lambda>ps. Bip39ToMiniSecret (ps ! 0) (ps ! 1))"
| "plan_of (DBip39ToSeed phrase password) =
     plain [phrase, password] (\<lambda>ps. Bip39ToSeed (ps ! 0) (ps ! 1))"
| "plan_of (DBlake2b data password sz) =
     \<lparr>guards = [(''data'', data)], passed = [strip0xHex data, strip0xHex (plainToHex password)],
      target = (\<lambda>ps. Blake2b (ps ! 0) (ps ! 1) sz), frees = True\<rparr>"
| "plan_of (DKeccak256 data) = guarded [(''data'', data)] (\<lambda>ps. Keccak256 (ps ! 0))"
| "plan_of (DSha512 data) = plain [strip0xHex (plainToHex data)] (\<lambda>ps. Sha512 (ps ! 0))"
| "plan_of (DXxhash data seed) = plain [strip0xHex (plainToHex data)] (\<lambda>ps. Xxhash64 (ps ! 0) seed)"
| "plan_of (DPbkdf2 data salt rounds) =
     plain [strip0xHex (plainToHex data), strip0xHex (plainToHex salt)]
       (\<lambda>ps. Pbkdf2 (ps ! 0) (ps ! 1) rounds)"
| "plan_of (DScrypt password salt log2N r p) =
     plain [strip0xHex (plainToHex password), strip0xHex (plainToHex salt)]
       (\<lambda>ps. Scrypt (ps ! 0) (ps ! 1) log2N r p)"
| "plan_of (DTwox data rounds) = plain [strip0xHex (plainToHex data)] (\<lambda>ps. Twox (ps ! 0) rounds)"
| "plan_of (DBip32GetPrivateKey seed path) =
     \<lparr>guards = [(''seed'', seed)], passed = [strip0xHex seed, strip0xHex path],
      target = (\<lambda>ps. Bip32GetPrivateKey (ps ! 0) (ps ! 1)), frees = True\<rparr>"
| "plan_of (DEd25519GetPubFromPrivate privateKey) =
     guarded [(''privateKey'', privateKey)] (\<lambda>ps. Ed25519GetPubFromPrv (ps ! 0))"
| "plan_of (DSecp256k1GetPubFromPrivate privateKey) =
     guarded [(''privateKey'', privateKey)] (\<lambda>ps. Secp256k1GetPubFromPrv (ps ! 0))"
| "plan_of (DSecp256k1RecoverPublic message signature recoveryId) =
     guarded [(''message'', message), (''signature'', signature)]
       (\<lambda>ps. Secp256k1Recover (ps ! 0) (ps ! 1) recoveryId)"
| "plan_of (DSecp256k1GetCompressPub pubKey) =
     guarded [(''pubKey'', pubKey)] (\<lambda>ps. Secp256k1GetCompressPub (ps ! 0))"
| "plan_of (DSr25519GetPubFromSeed seed) = guarded [(''seed'', seed)] (\<lambda>ps. Sr25519GetPubFromSeed (ps ! 0))"
| "plan_of (DEd25519KeypairFromSeed seed) = guarded [(''seed'', seed)] (\<lambda>ps. Ed25519KeypairFromSeed (ps ! 0))"
| "plan_of (DEd25519Sign pubkey seckey message) =
     guarded [(''pubkey'', pubkey), (''seckey'', seckey), (''message'', message)]
       (\<lambda>ps. Ed25519Sign (ps ! 0) (ps ! 1) (ps ! 2))"
| "plan_of (DEd25519Verify signature message pubkey) =
     guarded [(''signature'', signature), (''message'', message), (''pubkey'', pubkey)]
       (\<lambda>ps. Ed25519Verify (ps ! 0) (ps ! 1) (ps ! 2))"
| "plan_of (DSr25519DeriveKeypairHard pair cc) =
     guarded [(''pair'', pair), (''cc'', cc)] (\<lambda>ps. Sr25519DeriveKeypairHard (ps ! 0) (ps ! 1))"
| "plan_of (DSr25519DeriveKeypairSoft pair cc) =
     guarded [(''pair'', pair), (''cc'', cc)] (\<lambda>ps. Sr25519DeriveKeypairSoft (ps ! 0) (ps ! 1))"
| "plan_of (DSr25519DerivePublicSoft public cc) =
     guarded [(''public'', public), (''cc'', cc)] (\<lambda>ps. Sr25519DerivePublicSoft (ps ! 0) (ps ! 1))"
| "plan_of (DSr25519KeypairFromSeed seed) =
     (guarded [(''seed'', seed)] (\<lambda>ps. Sr25519KeypairFromSeed (ps ! 0)))\<lparr>frees := False\<rparr>"
| "plan_of (DSr25519KeypairFromPair seed) = guarded [(''seed'', seed)] (\<lambda>ps. Sr25519KeypairFromPair (ps ! 0))"
| "plan_of (DSr25519Sign pubkey seckey message) =
     \<lparr>guards = [(''seckey'', seckey), (''message'', message), (''pubkey'', pubkey)],
      passed = [strip0xHex pubkey, strip0xHex seckey, strip0xHex message],
      target = (\<lambda>ps. Sr25519Sign (ps ! 0) (ps ! 1) (ps ! 2)), frees = True\<rparr>"
| "plan_of (DSr25519Verify signature message pubkey) =
     guarded [(''signature'', signature), (''message'', message), (''pubkey'', pubkey)]
       (\<lambda>ps. Sr25519Verify (ps ! 0) (ps ! 1) (ps ! 2))"

subsection \<open>Running a wrapper\<close>

definition toUtf8 :: "allocator \<Rightarrow> bytes \<Rightarrow> heap \<Rightarrow> ptr \<times> heap" where
  "toUtf8 mal s h = (mal h, h(mal h \<mapsto> \<lparr>blk_owner = Foreign, blk_bytes = s @ [0]\<rparr>))"

fun copy_args :: "allocator \<Rightarrow> bytes list \<Rightarrow> heap \<Rightarrow> ptr list \<times> heap" where
  "copy_args mal [] h = ([], h)"
| "copy_args mal (s # ss) h =
     (let (p, h1) = toUtf8 mal s h; (ps, h2) = copy_args mal ss h1 in (p # ps, h2))"

definition not_hex :: "string \<Rightarrow> bytes" where
  "not_hex name = lit (''ERROR: `'' @ name @ ''` should be `hex` without `0x`'')"

definition refused :: "plan \<Rightarrow> bytes option" where
  "refused w = map_option (not_hex \<circ> fst) (find (\<lambda>(name, s). \<not> isHexString s) (guards w))"

definition dart_run where
  "dart_run c mal rng w h =
     (case refused (plan_of w) of
        Some msg \<Rightarrow> Inr (Throw msg, h)
      | None \<Rightarrow>
          let (ps, h1) = copy_args mal (passed (plan_of w)) h in
          rbind (exec c rng (target (plan_of w) ps) h1) (\<lambda>(r, h2). case r of
            RBool b \<Rightarrow> Inr (Return (DBool (bool_as_int32 b = 1)), h2)
          | RPtr p \<Rightarrow>
              rbind (CStr_from_ptr p h2) (\<lambda>resultString.
              rbind (if frees (plan_of w) then rust_cstr_free p h2 else Inr h2) (\<lambda>h3.
                Inr (throwReturn resultString, h3)))))"

subsection \<open>What a wrapper leaves in memory\<close>

definition dart_block :: "bytes \<Rightarrow> block" where
  "dart_block s = \<lparr>blk_owner = Foreign, blk_bytes = s @ [0]\<rparr>"

lemma dart_block_simps [simp]: "blk_owner (dart_block s) = Foreign" "blk_bytes (dart_block s) = s @ [0]"
  by (simp_all add: dart_block_def)

lemma copy_args_ok:
  assumes "fresh_alloc mal" "wf_heap h" "copy_args mal ss h = (ps, h1)"
  shows "wf_heap h1 \<and> distinct ps \<and> (\<forall>q. q \<notin> set ps \<longrightarrow> h1 q = h q)
    \<and> list_all2 (\<lambda>p s. p \<noteq> 0 \<and> h p = None \<and> h1 p = Some (dart_block s)) ps ss"
  using assms(2,3)
proof (induction ss arbitrary: h ps h1)
  case (Cons s ss)
  let ?h = "h(mal h \<mapsto> dart_block s)"
  obtain qs where ps: "ps = mal h # qs" "copy_args mal ss ?h = (qs, h1)"
    using Cons.prems(2) by (auto simp: toUtf8_def dart_block_def split: prod.splits)
  note new = fresh_allocD [OF assms(1) Cons.prems(1)]
  have "wf_heap ?h" by (rule wf_heap_update [OF Cons.prems(1)]) (simp_all add: new)
  note IH = Cons.IH [OF this ps(2)]
  then have qs: "q \<noteq> mal h \<and> h q = None" if "q \<in> set qs" for q
    using that by (auto simp: list_all2_conv_all_nth in_set_conv_nth split: if_splits)
  then have "mal h \<notin> set qs" by blast
  moreover have "list_all2 (\<lambda>p s. p \<noteq> 0 \<and> h p = None \<and> h1 p = Some (dart_block s)) qs ss"
    using IH by (auto elim!: list_all2_mono split: if_splits)
  ultimately show ?case using IH new by (auto simp: ps(1))
qed simp

lemma call_args_passed:
  "length ps = length (passed (plan_of w)) \<Longrightarrow> set (call_args (target (plan_of w) ps)) \<subseteq> set ps"
  by (cases w) (auto simp: plain_def guarded_def length_Suc_conv)

lemma target_readable:
  assumes "fresh_alloc mal" "wf_heap h" "copy_args mal (passed (plan_of w)) h = (ps, h1)"
  shows "\<forall>p\<in>set (call_args (target (plan_of w) ps)). readable p h1"
proof -
  note ok = copy_args_ok [OF assms]
  have block: "c_string (s @ [0]) \<noteq> None" for s :: bytes by (induction s) simp_all
  have "readable p h1" if "p \<in> set ps" for p
    using ok that block
    by (fastforce simp: readable_iff list_all2_conv_all_nth in_set_conv_nth)
  moreover have "length ps = length (passed (plan_of w))"
    using ok list_all2_lengthD by blast
  ultimately show ?thesis using call_args_passed by blast
qed

text \<open>One wrapper whose guards let it through, by the outcome of the export.\<close>

lemma dart_run_cases:
  assumes "lawful_crates c" "fresh_alloc mal" "wf_heap h" "refused (plan_of w) = None"
    and "copy_args mal (passed (plan_of w)) h = (ps, h1)"
  obtains (panics) e where "exec c rng (target (plan_of w) ps) h1 = Inl (Panic e)"
      "dart_run c mal rng w h = Inl (Panic e)"
  | (answers) b where "exec c rng (target (plan_of w) ps) h1 = Inr (RBool b, h1)"
      "dart_run c mal rng w h = Inr (Return (DBool b), h1)"
  | (text_returned) p b s where
      "exec c rng (target (plan_of w) ps) h1 = Inr (RPtr p, h1(p \<mapsto> b))" "h1 p = None"
      "blk_owner b = RustOwned" "wf_heap (h1(p \<mapsto> b))" "get_str p (h1(p \<mapsto> b)) = Inr s"
      "dart_run c mal rng w h
        = Inr (throwReturn s, if frees (plan_of w) then h1 else h1(p \<mapsto> b))"
proof -
  let ?f = "target (plan_of w) ps"
  note safe = lawful_cratesD(1) [OF assms(1)]
  have wf: "wf_heap h1" using copy_args_ok [OF assms(2,3,5)] by blast
  have args: "\<forall>p\<in>set (case (rng, ?f) of (rng, f) \<Rightarrow> call_args f). readable p h1"
    using target_readable [OF assms(2,3,5)] by simp
  note lib = rust_lib.ex_defined [OF safe args] rust_lib.ex_ptr [OF safe wf args] rust_lib.ex_bool [OF safe args]
  show thesis
  proof (cases "exec c rng ?f h1")
    case (Inl e)
    then obtain k where "e = Panic k" using lib(1) by (auto simp: no_undefined_Inl)
    then show thesis using Inl by (intro panics) (simp_all add: dart_run_def assms(4,5))
  next
    case (Inr rh)
    obtain r h2 where rh: "rh = (r, h2)" by (cases rh)
    show thesis
    proof (cases r)
      case (RBool b)
      then have "h2 = h1" using lib(3) Inr rh by simp
      then show thesis using RBool Inr rh by (intro answers) (simp_all add: dart_run_def assms(4,5))
    next
      case (RPtr p)
      then obtain b where b: "wf_heap h2" "h1 p = None" "blk_owner b = RustOwned" "h2 = h1(p \<mapsto> b)"
        using lib(2) Inr rh by fastforce
      have inv: "session_inv \<lparr>mem = h2, held = {p. \<exists>b. h2 p = Some b \<and> blk_owner b = RustOwned}\<rparr>"
        using b(1) by (simp add: session_inv_def)
      have held: "readable p h2" "rust_cstr_free p h2 = Inr (h2(p := None))"
        using session_inv_held [OF inv, of p] b by simp_all
      obtain t where t: "CStr_from_ptr p h2 = Inr t" "utf8_valid t"
      proof -
        have "cstr_block (blk_bytes b)" using wf_heapD(3) [OF b(1), of p b] b by simp
        then obtain t where "blk_bytes b = t @ [0]" "0 \<notin> set t" "utf8_valid t" by (auto simp: cstr_block_def)
        then show thesis
          using that [of t] held(1) b(4) by (simp add: CStr_from_ptr_def readable_iff)
      qed
      have "h2(p := None) = h1" using b by auto
      then show thesis
        using RPtr Inr rh b t held
        by (intro text_returned [of p b t]) (simp_all add: dart_run_def assms(4,5) get_str_def)
    qed
  qed
qed

subsection \<open>What a wrapper returns\<close>

text \<open>No result that is hexadecimal starts like an error message.\<close>

lemma throwReturn_hex: "lower_hex_text s \<Longrightarrow> throwReturn s = Return (DString s)"
  by (cases s) (auto simp: throwReturn_def lower_hex_text_def u8_nat)

lemma throwReturn_invalid [simp]: "throwReturn phrases_invalid = Throw phrases_invalid"
  by (simp add: throwReturn_def phrases_invalid_def)

definition returns_shape where
  "returns_shape c v s \<longleftrightarrow> (case s of
       Answer \<Rightarrow> \<exists>b. v = Return (DBool b)
     | PhraseText \<Rightarrow> \<exists>t. ext_bip39_validate (mnemonics c) t \<and> v = Return (DString t)
     | HexBytes n \<Rightarrow> \<exists>b. length b = n \<and> v = Return (DString (hex_text b))
     | Conversion k \<Rightarrow> v = Throw phrases_invalid
         \<or> (\<exists>b. (case k of None \<Rightarrow> True | Some n \<Rightarrow> length b = n) \<and> v = Return (DString (hex_text b))))"

text \<open>
  The phrases that are generated, in the English word list, hold lower-case letters and spaces,
  so that none of them starts like an error message.
\<close>

definition lower_case_phrases :: "('mt, 'mn, 'sd) bip39_api \<Rightarrow> bool" where
  "lower_case_phrases bp \<longleftrightarrow>
     (\<forall>r t. \<forall>b\<in>set (into_phrase bp (mnemonic_new bp r t)). b < 65 \<or> 90 < b)"

lemma ref_lower_case_phrases: "lower_case_phrases ref_bip39"
proof -
  have "b < 65 \<or> 90 < b" if "b \<in> set (hex_text v)" for b v
    using that lower_hex_text_hex_text [of v] by (auto simp: lower_hex_text_def list_all_iff u8_nat)
  then show ?thesis
    by (simp add: lower_case_phrases_def ref_bip39_def)
qed

lemma throwReturn_phrase:
  assumes "lower_case_phrases bp" "ext_bip39_generate bp rng n = Inr t"
  shows "throwReturn t = Return (DString t)"
proof -
  have "\<forall>b\<in>set t. b < 65 \<or> 90 < b"
    using assms by (auto simp: lower_case_phrases_def ext_bip39_generate_def rbind_eq_Inr_iff)
  then have "69 \<notin> set t" by (auto simp: u8_nat)
  moreover have "set (take 6 t) \<subseteq> set t" by (rule set_take_subset)
  ultimately have "69 \<notin> set (take 6 t)" by blast
  then have "take 6 t \<noteq> lit ''Error:''" by auto
  then show ?thesis by (simp add: throwReturn_def)
qed

lemma returned_phrase:
  assumes "lawful_crates c" "wf_heap h" "exec c rng (Bip39Generate n) h = Inr (RPtr p, h')"
    and "get_str p h' = Inr s"
  shows "ext_bip39_generate (mnemonics c) rng n = Inr s"
proof -
  note laws = lawful_cratesD [OF assms(1)]
  obtain t where t: "ext_bip39_generate (mnemonics c) rng n = Inr t"
      "bip39_generate (mnemonics c) (allocr c) rng n h = Inr (p, h')"
    using assms(3) by (auto simp: ret_ptr_def bip39_generate_def rbind_eq_Inr_iff)
  then have "ext_bip39_validate (mnemonics c) t" "c_text t"
    using ext_bip39_generate_cases [OF laws(10), of n rng]
    by (auto simp: ext_bip39_validate_iff [OF laws(10)] split: if_splits)
  then have "get_ptr (allocr c) t h = Inr (p, h')" using t by (simp add: bip39_generate_def)
  then have "get_str p h' = Inr t"
    using str_port.get_put [OF laws(8) assms(2) \<open>c_text t\<close>] by blast
  then show ?thesis using t(1) assms(4) by simp
qed

lemma returned_shape:
  assumes "has_shape c h (RPtr p) sh" "get_str p h = Inr s" "sh = PhraseText \<Longrightarrow> throwReturn s = Return (DString s)"
  shows "returns_shape c (throwReturn s) sh"
proof -
  have hex: "\<exists>b. P b \<and> throwReturn s = Return (DString (hex_text b))" if "hex_result c h p P" for P
    using that assms(2) throwReturn_hex
    by (auto simp: hex_result_def names_def spells_def split: sum.splits)
  show ?thesis
    using assms hex by (auto simp: has_shape_def returns_shape_def spells_def split: shape.splits)
qed

subsection \<open>What a wrapper computes\<close>

lemma hex_text_isHexString [simp]: "isHexString (hex_text v)"
proof -
  have "list_all is_hex_digit (hex_text v)"
    using hex_text_digits by (auto simp: list_all_iff)
  then have "\<forall>b\<in>set (hex_text v). is_hex_digit b" by (simp add: list_all_iff)
  then show ?thesis using set_drop_subset [of 2 "hex_text v"] by (auto simp: isHexString_def Let_def list_all_iff)
qed

lemma strip_hex_text [simp]: "strip0xHex (hex_text v) = hex_text v"
proof -
  have "120 \<notin> set (hex_text v)" using hex_text_digits [of 120 v] by (auto simp: is_hex_digit_def)
  moreover have "set (take 2 (hex_text v)) \<subseteq> set (hex_text v)" by (rule set_take_subset)
  ultimately have "take 2 (hex_text v) \<noteq> lit ''0x''" by auto
  then show ?thesis by (simp add: strip0xHex_def)
qed

lemma dart_block_names:
  assumes "hex_laws (hexa c)" "p \<noteq> 0" "h p = Some (dart_block (hex_text v))"
  shows "get_u8vec_from_ptr (hexa c) p h = Inr v"
proof -
  have "0 \<notin> set (hex_text v)" "utf8_valid (hex_text v)"
    using nul_not_in_to_hex [OF assms(1), of v] utf8_valid_to_hex [OF assms(1), of v]
    by (simp_all add: to_hex_eq [OF assms(1)])
  then show ?thesis
    using assms by (simp add: get_u8vec_from_ptr_def get_str_block)
qed

text \<open>
  A checked argument that the Rust side decodes: it passes the guard, and what is left after
  \<open>hexStripPrefix\<close> is hexadecimal for \<open>v\<close>. A string that passes the guard is ASCII without NUL,
  so that it reaches the decoder unchanged.
\<close>

definition hex_arg where
  "hex_arg c s v \<longleftrightarrow> isHexString s \<and> from_hex (hexa c) (strip0xHex s) = Some v"

lemma isHexString_ascii:
  assumes "isHexString s"
  shows "b \<in> set (strip0xHex s) \<Longrightarrow> is_hex_digit b \<or> b = 88"
    and "c_text (strip0xHex s)"
proof -
  have chars: "is_hex_digit b \<or> b = 88" if "b \<in> set (strip0xHex s)" for b
  proof (cases "take 2 s \<in> {lit ''0x'', lit ''0X''}")
    case True
    then have "\<forall>b\<in>set (drop 2 s). is_hex_digit b" using assms by (simp add: isHexString_def list_all_iff)
    moreover have "s = take 2 s @ drop 2 s" by simp
    ultimately have "b \<in> set (drop 2 s) \<or> take 2 s = lit ''0X'' \<and> b \<in> set (take 2 s)"
      using that True by (metis Un_iff insertE set_append singletonD strip0xHex_def)
    then show ?thesis
      using \<open>\<forall>b\<in>set (drop 2 s). is_hex_digit b\<close> by (auto simp: is_hex_digit_def)
  next
    case False
    then show ?thesis
      using assms that by (auto simp: isHexString_def strip0xHex_def list_all_iff split: if_splits)
  qed
  then show "b \<in> set (strip0xHex s) \<Longrightarrow> is_hex_digit b \<or> b = 88" .
  have "unat b < 128 \<and> b \<noteq> 0" if "b \<in> set (strip0xHex s)" for b
    using chars [OF that] hex_digit_ascii [of b] by (auto simp: is_hex_digit_def u8_nat)
  then show "c_text (strip0xHex s)" by (auto simp: c_text_def intro!: utf8_valid_ascii)
qed

lemma dart_block_text: "c_text s \<Longrightarrow> p \<noteq> 0 \<Longrightarrow> h p = Some (dart_block s) \<Longrightarrow> get_str p h = Inr s"
  by (simp add: get_str_block c_text_def)

lemma hex_arg_names:
  assumes "hex_arg c s v" "p \<noteq> 0" "h p = Some (dart_block (strip0xHex s))"
  shows "get_u8vec_from_ptr (hexa c) p h = Inr v"
  using assms dart_block_text [OF isHexString_ascii(2), of s p h]
  by (simp add: hex_arg_def get_u8vec_from_ptr_def)

lemma hex_arg_guard: "hex_arg c s v \<Longrightarrow> isHexString s"
  by (simp add: hex_arg_def)

lemma hex_arg_hex_text: "hex_laws (hexa c) \<Longrightarrow> hex_arg c (hex_text v) v"
  by (simp add: hex_arg_def)

lemma hex_arg_prefixed: "hex_laws (hexa c) \<Longrightarrow> hex_arg c (lit ''0x'' @ hex_text v) v"
  using hex_text_digits [of _ v] by (auto simp: hex_arg_def isHexString_def strip0xHex_def list_all_iff)

text \<open>
  \<open>dart_gives c mal rng h w r\<close>: the wrapper \<open>w\<close> returns the result \<open>r\<close> in hexadecimal or panics as
  \<open>r\<close>; \<open>dart_answers\<close> the same for an answer, and \<open>dart_converts\<close> for the conversions of a phrase,
  which throw the message of the Rust side if the phrase is not valid.
\<close>

definition dart_gives where
  "dart_gives c mal rng h w r \<longleftrightarrow> (case r of
       Inl e \<Rightarrow> dart_run c mal rng w h = Inl e
     | Inr v \<Rightarrow> \<exists>h'. dart_run c mal rng w h = Inr (Return (DString (hex_text v)), h'))"

definition dart_answers where
  "dart_answers c mal rng h w r \<longleftrightarrow> (case r of
       Inl e \<Rightarrow> dart_run c mal rng w h = Inl e
     | Inr b \<Rightarrow> \<exists>h'. dart_run c mal rng w h = Inr (Return (DBool b), h'))"

definition dart_converts where
  "dart_converts c mal rng h w phrase r \<longleftrightarrow>
     (if ext_bip39_validate (mnemonics c) phrase then dart_gives c mal rng h w r
      else \<exists>h'. dart_run c mal rng w h = Inr (Throw phrases_invalid, h'))"

lemma dart_gives_hex:
  assumes "lawful_crates c" "fresh_alloc mal" "wf_heap h" "refused (plan_of w) = None"
    and "\<And>ps h1. list_all2 (\<lambda>p s. p \<noteq> 0 \<and> h1 p = Some (dart_block s)) ps (passed (plan_of w)) \<Longrightarrow>
      exec c rng (target (plan_of w) ps) h1
        = ret_ptr (rbind r (\<lambda>v. get_ptr_from_u8vec (hexa c) (allocr c) v h1))"
  shows "dart_gives c mal rng h w r"
proof -
  note laws = lawful_cratesD [OF assms(1)]
  obtain ps h1 where copy: "copy_args mal (passed (plan_of w)) h = (ps, h1)"
    by (cases "copy_args mal (passed (plan_of w)) h")
  have ok: "wf_heap h1" "list_all2 (\<lambda>p s. p \<noteq> 0 \<and> h1 p = Some (dart_block s)) ps (passed (plan_of w))"
    using copy_args_ok [OF assms(2,3) copy] by (auto elim: list_all2_mono)
  note ex = assms(5) [OF ok(2)]
  show ?thesis
  proof (cases r)
    case (Inl e)
    then have "exec c rng (target (plan_of w) ps) h1 = Inl e" using ex by (simp add: ret_ptr_def)
    then show ?thesis using Inl by (simp add: dart_gives_def dart_run_def assms(4) copy)
  next
    case (Inr v)
    obtain q h2 where q: "get_ptr_from_u8vec (hexa c) (allocr c) v h1 = Inr (q, h2)"
        "get_str q h2 = Inr (hex_text v)"
      using put_chain [OF laws(9,8) ok(1), of v] by (auto simp: to_hex_eq [OF laws(9)])
    have run: "exec c rng (target (plan_of w) ps) h1 = Inr (RPtr q, h2)"
      using ex Inr q(1) by (simp add: ret_ptr_def)
    from assms(1-4) copy show ?thesis
    proof (cases rule: dart_run_cases [where rng = rng])
      case (text_returned p b s)
      then have "s = hex_text v" using run q(2) by simp
      then show ?thesis
        using text_returned Inr by (simp add: dart_gives_def throwReturn_hex lower_hex_text_hex_text)
    qed (simp_all add: run)
  qed
qed

lemma dart_answers_bool:
  assumes "fresh_alloc mal" "wf_heap h" "refused (plan_of w) = None"
    and "\<And>ps h1. list_all2 (\<lambda>p s. p \<noteq> 0 \<and> h1 p = Some (dart_block s)) ps (passed (plan_of w)) \<Longrightarrow>
      exec c rng (target (plan_of w) ps) h1 = ret_bool h1 r"
  shows "dart_answers c mal rng h w r"
proof -
  obtain ps h1 where copy: "copy_args mal (passed (plan_of w)) h = (ps, h1)"
    by (cases "copy_args mal (passed (plan_of w)) h")
  have "list_all2 (\<lambda>p s. p \<noteq> 0 \<and> h1 p = Some (dart_block s)) ps (passed (plan_of w))"
    using copy_args_ok [OF assms(1,2) copy] by (auto elim: list_all2_mono)
  from assms(4) [OF this] show ?thesis
    by (cases r) (simp_all add: dart_answers_def dart_run_def assms(3) copy ret_bool_def)
qed

text \<open>A wrapper whose export puts a text into memory throws it or returns it.\<close>

lemma dart_text_returned:
  assumes "lawful_crates c" "fresh_alloc mal" "wf_heap h" "refused (plan_of w) = None" "c_text t"
    and "\<And>ps h1. list_all2 (\<lambda>p s. p \<noteq> 0 \<and> h1 p = Some (dart_block s)) ps (passed (plan_of w)) \<Longrightarrow>
      exec c rng (target (plan_of w) ps) h1 = ret_ptr (get_ptr (allocr c) t h1)"
  shows "\<exists>h'. dart_run c mal rng w h = Inr (throwReturn t, h')"
proof -
  note laws = lawful_cratesD [OF assms(1)]
  obtain ps h1 where copy: "copy_args mal (passed (plan_of w)) h = (ps, h1)"
    by (cases "copy_args mal (passed (plan_of w)) h")
  have ok: "wf_heap h1" "list_all2 (\<lambda>p s. p \<noteq> 0 \<and> h1 p = Some (dart_block s)) ps (passed (plan_of w))"
    using copy_args_ok [OF assms(2,3) copy] by (auto elim: list_all2_mono)
  obtain q h2 where q: "get_ptr (allocr c) t h1 = Inr (q, h2)"
    using str_port.put_total [OF laws(8) ok(1) assms(5)] by blast
  then have read: "get_str q h2 = Inr t" using str_port.get_put [OF laws(8) ok(1) assms(5)] by blast
  have run: "exec c rng (target (plan_of w) ps) h1 = Inr (RPtr q, h2)"
    using assms(6) [OF ok(2)] q by (simp add: ret_ptr_def)
  from assms(1-4) copy show ?thesis
  proof (cases rule: dart_run_cases [where rng = rng])
    case (text_returned p b s)
    then show ?thesis using run read by simp
  qed (simp_all add: run)
qed

lemmas dart_export_defs = blake2b_def keccak256_def pbkdf2_def scrypt_def sha512_def twox_def xxhash64_def
  ed25519_keypair_from_seed_def ed25519_sign_def ed25519_verify_def sr25519_derive_keypair_hard_def
  sr25519_derive_keypair_soft_def sr25519_derive_public_soft_def sr25519_keypair_from_seed_def
  sr25519_keypair_from_pair_def sr25519_sign_def sr25519_verify_def ed25519_get_pub_from_prv_def
  secp256k1_get_pub_from_prv_def secp256k1_get_compress_pub_def secp256k1_recover_def
  sr25519_get_pub_from_seed_def bip32_get_private_key_def

lemmas dart_plan_defs = refused_def plain_def guarded_def list_all2_Cons2 hex_arg_guard hex_arg_names

lemma dart_hash_wrappers:
  assumes "lawful_crates c" "fresh_alloc mal" "wf_heap h"
  shows "hex_arg c s d \<Longrightarrow> dart_gives c mal rng h (DBlake2b s k n) (ext_blake2b (hashes c) d k n)"
    and "hex_arg c s d \<Longrightarrow> dart_gives c mal rng h (DKeccak256 s) (ext_keccak256 (hashes c) d)"
    and "dart_gives c mal rng h (DSha512 d) (ext_sha512 (hashes c) d)"
    and "dart_gives c mal rng h (DXxhash d n) (ext_xxhash (hashes c) d n)"
    and "dart_gives c mal rng h (DTwox d n) (ext_twox (hashes c) d n)"
    and "dart_gives c mal rng h (DPbkdf2 d k n) (ext_pbkdf2 (hashes c) d k n)"
    and "dart_gives c mal rng h (DScrypt d k l r n) (ext_scrypt (hashes c) d k l r n)"
  by (rule dart_gives_hex [OF assms]; clarsimp simp: dart_plan_defs
      dart_block_names [OF lawful_cratesD(9) [OF assms(1)]] dart_export_defs simp del: hex_text.simps)+

lemma dart_key_wrappers:
  assumes "lawful_crates c" "fresh_alloc mal" "wf_heap h"
    and "hex_arg c s d" "hex_arg c s' d'" "hex_arg c s'' d''"
  shows "dart_gives c mal rng h (DEd25519KeypairFromSeed s) (ext_ed_from_seed (edc c) d)"
    and "dart_gives c mal rng h (DEd25519Sign s s' s'') (ext_ed_sign (edc c) d d' d'')"
    and "dart_gives c mal rng h (DSr25519KeypairFromSeed s) (ext_sr_from_seed (src c) d)"
    and "dart_gives c mal rng h (DSr25519KeypairFromPair s) (ext_sr_from_pair (src c) d)"
    and "dart_gives c mal rng h (DSr25519DeriveKeypairHard s s') (ext_sr_derive_keypair_hard (src c) d d')"
    and "dart_gives c mal rng h (DSr25519DeriveKeypairSoft s s')
      (ext_sr_derive_keypair_soft (src c) rng d d')"
    and "dart_gives c mal rng h (DSr25519DerivePublicSoft s s') (ext_sr_derive_public_soft (src c) d d')"
    and "dart_gives c mal rng h (DSr25519Sign s s' s'') (ext_sr_sign (src c) rng d d' d'')"
  by (rule dart_gives_hex [OF assms(1-3)]; use assms(4-6) in
      \<open>clarsimp simp: dart_plan_defs dart_export_defs simp del: hex_text.simps\<close>)+

text \<open>The wrappers of the exports whose code is in \<open>common.rs\<close> itself.\<close>

lemma dart_public_wrappers:
  assumes "lawful_crates c" "fresh_alloc mal" "wf_heap h" "hex_arg c s d" "hex_arg c s' d'"
  shows "dart_gives c mal rng h (DEd25519GetPubFromPrivate s)
      (rbind (unwrap (ed_sk_from_bytes (edc c) d)) (\<lambda>sk.
        Inr (ed_pk_to_bytes (edc c) (ed_pk_of_sk (edc c) sk))))"
    and "dart_gives c mal rng h (DSecp256k1GetPubFromPrivate s)
      (rbind (slice_to 32 d) (\<lambda>b. rbind (unwrap (secp_sk_from_slice (secp c) b)) (\<lambda>sk.
        Inr (secp_pk_serialize (secp c) (secp_pk_from_secret_key (secp c) sk)))))"
    and "dart_gives c mal rng h (DSecp256k1GetCompressPub s)
      (rbind (unwrap (secp_pk_from_slice (secp c) d)) (\<lambda>pk. Inr (secp_pk_serialize (secp c) pk)))"
    and "dart_gives c mal rng h (DSecp256k1RecoverPublic s s' i)
      (rbind (unwrap (secp_message_from_slice (secp c) d)) (\<lambda>m.
       rbind (unwrap (recovery_id_from_i32 (secp c) (ucast i))) (\<lambda>rid.
       rbind (slice_to 64 d') (\<lambda>b.
       rbind (unwrap (recoverable_from_compact (secp c) b rid)) (\<lambda>sg.
       rbind (unwrap (secp_recover (secp c) m sg)) (\<lambda>pk. Inr (secp_pk_serialize (secp c) pk)))))))"
    and "dart_gives c mal rng h (DSr25519GetPubFromSeed s)
      (rbind (slice_to 32 d) (\<lambda>b. rbind (ext_sr_from_seed (src c) b) (\<lambda>kp.
        slice_range (SECRET_KEY_LENGTH (src c)) (KEYPAIR_LENGTH (src c)) kp)))"
  by (rule dart_gives_hex [OF assms(1-3)]; use assms(4,5) in
      \<open>clarsimp simp: dart_plan_defs dart_export_defs rbind_assoc Let_def simp del: hex_text.simps\<close>)+

lemma dart_bip32_wrapper:
  assumes "lawful_crates c" "fresh_alloc mal" "wf_heap h" "isHexString s" "c_text (strip0xHex path)"
  shows "dart_gives c mal rng h (DBip32GetPrivateKey s path)
      (rbind (unwrap (dp_parse (paths c) (strip0xHex path))) (\<lambda>ixs.
       rbind (root (hexa c) (edc c) (hmacs c) (strip0xHex s)) (\<lambda>m.
       rbind (unwrap_result (derive (build c) (edc c) (hmacs c) (paths c) m ixs)) (\<lambda>node.
         Inr (ed_sk_to_bytes (edc c) (secret_key node))))))"
  by (rule dart_gives_hex [OF assms(1-3)]; use assms(4) in
      \<open>clarsimp simp: dart_plan_defs dart_export_defs dart_block_text [OF isHexString_ascii(2)]
        dart_block_text [OF assms(5)] rbind_assoc Let_def simp del: hex_text.simps\<close>)

lemma dart_verify_wrappers:
  assumes "fresh_alloc mal" "wf_heap h"
    and "hex_arg c s sg" "hex_arg c s' m" "hex_arg c s'' pk"
  shows "dart_answers c mal rng h (DSr25519Verify s s' s'') (Inr (ext_sr_verify (src c) sg m pk))"
    and "dart_answers c mal rng h (DEd25519Verify s s' s'') (ext_ed_verify (edc c) sg m pk)"
  by (rule dart_answers_bool [OF assms(1,2)]; use assms(3-5) in
      \<open>clarsimp simp: dart_plan_defs dart_export_defs simp del: hex_text.simps\<close>)+

subsubsection \<open>Phrases\<close>

lemma dart_validate_wrapper:
  assumes "fresh_alloc mal" "wf_heap h" "c_text phrase"
  shows "dart_answers c mal rng h (DBip39Validate phrase) (Inr (ext_bip39_validate (mnemonics c) phrase))"
  by (rule dart_answers_bool [OF assms(1,2)])
    (clarsimp simp: dart_plan_defs bip39_validate_def dart_block_text [OF assms(3)])+

lemma dart_phrase_wrappers:
  assumes "lawful_crates c" "fresh_alloc mal" "wf_heap h" "c_text phrase" "c_text password"
  shows "dart_converts c mal rng h (DBip39ToEntropy phrase) phrase
      (ext_bip39_to_entropy (mnemonics c) phrase)"
    and "dart_converts c mal rng h (DBip39ToMiniSecret phrase password) phrase
      (ext_bip39_to_mini_secret (mnemonics c) (hashes c) phrase password)"
    and "dart_converts c mal rng h (DBip39ToSeed phrase password) phrase
      (ext_bip39_to_seed (mnemonics c) phrase password)"
proof -
  note defs = dart_plan_defs bip39_validate_def bip39_to_entropy_def bip39_to_mini_secret_def
    bip39_to_seed_def dart_block_text [OF assms(4)] dart_block_text [OF assms(5)]
  note invalid = dart_text_returned [OF assms(1-3) _ c_text_phrases_invalid]
  have converts: "dart_converts c mal rng h w phrase r"
    if "ext_bip39_validate (mnemonics c) phrase \<Longrightarrow> dart_gives c mal rng h w r"
      "\<not> ext_bip39_validate (mnemonics c) phrase \<Longrightarrow> \<exists>h'. dart_run c mal rng w h = Inr (throwReturn phrases_invalid, h')"
    for w r using that by (simp add: dart_converts_def)
  show "dart_converts c mal rng h (DBip39ToEntropy phrase) phrase
      (ext_bip39_to_entropy (mnemonics c) phrase)"
    and "dart_converts c mal rng h (DBip39ToMiniSecret phrase password) phrase
      (ext_bip39_to_mini_secret (mnemonics c) (hashes c) phrase password)"
    and "dart_converts c mal rng h (DBip39ToSeed phrase password) phrase
      (ext_bip39_to_seed (mnemonics c) phrase password)"
    by (rule converts; rule dart_gives_hex [OF assms(1-3)] invalid; clarsimp simp: defs)+
qed

lemma dart_generate_wrapper:
  assumes "lawful_crates c" "fresh_alloc mal" "wf_heap h"
  shows "case ext_bip39_generate (mnemonics c) rng n of
      Inl e \<Rightarrow> dart_run c mal rng (DBip39Generate n) h = Inl e
    | Inr t \<Rightarrow> ext_bip39_validate (mnemonics c) t
        \<and> (\<exists>h'. dart_run c mal rng (DBip39Generate n) h = Inr (throwReturn t, h'))"
proof (cases "ext_bip39_generate (mnemonics c) rng n")
  case (Inl e)
  then show ?thesis
    by (simp add: dart_run_def dart_plan_defs bip39_generate_def ret_ptr_def)
next
  case (Inr t)
  note laws = lawful_cratesD [OF assms(1)]
  have t: "ext_bip39_validate (mnemonics c) t" "c_text t"
    using ext_bip39_generate_cases [OF laws(10), of n rng] Inr
    by (auto simp: ext_bip39_validate_iff [OF laws(10)] split: if_splits)
  have "\<exists>h'. dart_run c mal rng (DBip39Generate n) h = Inr (throwReturn t, h')"
    by (rule dart_text_returned [OF assms _ t(2)])
      (simp_all add: dart_plan_defs bip39_generate_def Inr t(1))
  then show ?thesis using Inr t(1) by simp
qed

subsection \<open>Arguments that the guard lets through\<close>

lemma undecodable_names:
  assumes "isHexString t" "from_hex (hexa c) (strip0xHex t) = None" "p \<noteq> 0" "h p = Some (dart_block (strip0xHex t))"
  shows "\<not> names c h p P" "\<not> spells h p (\<lambda>s. from_hex (hexa c) s \<noteq> None \<and> Q s)"
  using dart_block_text [OF isHexString_ascii(2) [OF assms(1)], of p h] assms(2-4)
  by (simp_all add: names_def spells_def get_u8vec_from_ptr_def)

lemma names_False [simp]: "\<not> names c h p (\<lambda>v. False)" "\<not> spells h p (\<lambda>v. False)"
  by (simp_all add: names_def spells_def split: sum.split)

lemma undecodable_not_accepted:
  assumes "(name, t) \<in> set (guards (plan_of w))" "isHexString t" "from_hex (hexa c) (strip0xHex t) = None"
    and "list_all2 (\<lambda>p s. p \<noteq> 0 \<and> h p = Some (dart_block s)) ps (passed (plan_of w))"
  shows "\<not> accepts c h (target (plan_of w) ps)"
proof -
  note bad = undecodable_names [OF assms(2,3)]
  show ?thesis
    using assms(1,4)
    by (cases w) (auto simp: plain_def guarded_def list_all2_Cons2 bad simp del: not_None_eq lit_simps hex_text.simps)
qed

text \<open>A guard that lets through what the Rust side does not decode: the wrapper aborts.\<close>

lemma undecodable_panics:
  assumes "lawful_crates c" "fresh_alloc mal" "wf_heap h"
    and "(name, t) \<in> set (guards (plan_of w))" "refused (plan_of w) = None"
    and "from_hex (hexa c) (strip0xHex t) = None"
  shows "\<exists>e. dart_run c mal rng w h = Inl (Panic e)"
proof -
  obtain ps h1 where copy: "copy_args mal (passed (plan_of w)) h = (ps, h1)"
    by (cases "copy_args mal (passed (plan_of w)) h")
  have ok: "wf_heap h1" "list_all2 (\<lambda>p s. p \<noteq> 0 \<and> h1 p = Some (dart_block s)) ps (passed (plan_of w))"
    using copy_args_ok [OF assms(2,3) copy] by (auto elim: list_all2_mono)
  have "isHexString t" using assms(4,5) by (auto simp: refused_def find_None_iff)
  then have "\<not> returns (exec c rng (target (plan_of w) ps) h1)"
    using undecodable_not_accepted [OF assms(4) _ assms(6) ok(2)]
      exec_returns_iff [OF assms(1) ok(1) target_readable [OF assms(2,3) copy]] by simp
  with assms(1-3,5) copy show ?thesis by (cases rule: dart_run_cases [where rng = rng]) simp_all
qed

text \<open>Digits after an optional prefix, in either case of its letter, pass the guard.\<close>

lemma isHexString_digits:
  assumes "list_all is_hex_digit d" "s \<in> {d, lit ''0x'' @ d, lit ''0X'' @ d}"
  shows "isHexString s"
proof -
  have "\<forall>b\<in>set (drop 2 d). is_hex_digit b" using assms(1) set_drop_subset [of 2 d] by (auto simp: list_all_iff)
  then show ?thesis using assms by (auto simp: isHexString_def list_all_iff)
qed

lemma upper_prefix_undecodable:
  assumes "hex_laws hx"
  shows "from_hex hx (strip0xHex (lit ''0X'' @ t)) = None"
  by (rule from_hex_reject [OF assms, of 88]) (simp_all add: strip0xHex_def is_hex_digit_def is_hex_space_def)

text \<open>The blocks of one side that are there after a run and were not before.\<close>

definition new_blocks :: "owner \<Rightarrow> heap \<Rightarrow> heap \<Rightarrow> nat" where
  "new_blocks s h h' = card {p. h p = None \<and> (\<exists>b. h' p = Some b \<and> blk_owner b = s)}"

lemma demo_sha512:
  "\<exists>v h'. dart_run ref_crates ref_alloc [] (DSha512 [1, 2]) (demo_heap [97]) = Inr (v, h')"
  using dart_hash_wrappers(3) [OF ref_crates_lawful ref_alloc_fresh wf_demo_heap [of "[97]"],
      where rng = "[]" and d = "[1, 2]"]
  by (auto simp: dart_gives_def ext_sha512_def)

subsection \<open>Properties\<close>

text \<open>
  C15: what each wrapper leaves behind. Whatever strings a Dart program passes, NUL characters
  included, a wrapper never meets undefined behaviour, and a refused argument changes nothing.
  When a wrapper returns or throws after its call, all earlier blocks are as they were, one block
  per string argument is left that \<open>toUtf8\<close> allocated and nobody frees, and no string of Rust,
  except one for each call of \<open>sr25519KeypairFromSeed\<close>, which forgets \<open>freeCString\<close>.
\<close>

theorem dart_wrapper_leaks:
  assumes "lawful_crates c" and "fresh_alloc mal" and "wf_heap h"
  shows "no_undefined (dart_run c mal rng w h)
    \<and> (\<forall>v h'. dart_run c mal rng w h = Inr (v, h') \<longrightarrow> wf_heap h' \<and> (\<forall>p. h p \<noteq> None \<longrightarrow> h' p = h p)
        \<and> (if refused (plan_of w) \<noteq> None then h' = h
           else new_blocks Foreign h h' = length (passed (plan_of w))
             \<and> new_blocks RustOwned h h'
               = (if \<exists>seed. w = DSr25519KeypairFromSeed seed then 1 else 0)))"
proof (cases "refused (plan_of w)")
  case (Some msg)
  then show ?thesis using assms(3) by (simp add: dart_run_def)
next
  case None
  obtain ps h1 where copy: "copy_args mal (passed (plan_of w)) h = (ps, h1)" by (cases "copy_args mal (passed (plan_of w)) h")
  note ok = copy_args_ok [OF assms(2,3) copy]
  have new: "p \<in> set ps \<longleftrightarrow> h p = None \<and> h1 p \<noteq> None" and own: "p \<in> set ps \<Longrightarrow> \<exists>s. h1 p = Some (dart_block s)" for p
    using ok by (fastforce simp: list_all2_conv_all_nth in_set_conv_nth)+
  have old: "h p \<noteq> None \<Longrightarrow> h1 p = h p" for p using ok new [of p] by auto
  have "length ps = length (passed (plan_of w))" using ok list_all2_lengthD by blast
  moreover have "distinct ps" using ok by blast
  ultimately have n: "card (set ps) = length (passed (plan_of w))" by (simp add: distinct_card)
  have foreign: "{p. h p = None \<and> (\<exists>b. h1 p = Some b \<and> blk_owner b = Foreign)} = set ps"
    and rust: "{p. h p = None \<and> (\<exists>b. h1 p = Some b \<and> blk_owner b = RustOwned)} = {}"
    using new own by fastforce+
  have counts: "new_blocks Foreign h h1 = length (passed (plan_of w))" "new_blocks RustOwned h h1 = 0"
    unfolding new_blocks_def foreign rust by (simp_all add: n)
  have freed: "(\<exists>seed. w = DSr25519KeypairFromSeed seed) \<longleftrightarrow> \<not> frees (plan_of w)"
    by (cases w) (simp_all add: plain_def guarded_def)
  from assms(1-3) None copy show ?thesis
  proof (cases rule: dart_run_cases [where rng = rng])
    case (answers b)
    have "frees (plan_of w)"
    proof (cases w)
      case (DSr25519KeypairFromSeed seed)
      then show ?thesis using exec_has_shape [OF assms(1) _ answers(1)] ok
        by (simp add: guarded_def has_shape_def)
    qed (simp_all add: plain_def guarded_def)
    then show ?thesis using answers ok None old by (simp add: freed counts)
  next
    case (text_returned q b s)
    have q: "h q = None" using text_returned(2) old [of q] by (cases "h q") auto
    have "{p. h p = None \<and> (\<exists>b'. (h1(q \<mapsto> b)) p = Some b' \<and> blk_owner b' = Foreign)}
        = {p. h p = None \<and> (\<exists>b. h1 p = Some b \<and> blk_owner b = Foreign)}"
      and "{p. h p = None \<and> (\<exists>b'. (h1(q \<mapsto> b)) p = Some b' \<and> blk_owner b' = RustOwned)}
        = insert q {p. h p = None \<and> (\<exists>b. h1 p = Some b \<and> blk_owner b = RustOwned)}"
      using q text_returned(2,3) by auto
    then have "new_blocks Foreign h (h1(q \<mapsto> b)) = length (passed (plan_of w))"
        "new_blocks RustOwned h (h1(q \<mapsto> b)) = 1"
      unfolding new_blocks_def foreign rust by (simp_all add: n)
    moreover have "\<forall>p. h p \<noteq> None \<longrightarrow> (h1(q \<mapsto> b)) p = h p" using old q by auto
    ultimately show ?thesis
      using text_returned ok None old
      by (cases "frees (plan_of w)") (simp_all add: freed counts del: fun_upd_apply)
  qed simp
qed

theorem dart_wrapper_leaks_witness:
  "dart_run ref_crates ref_alloc [] (DKeccak256 (lit ''zz'')) (demo_heap [97]) = Inr (Throw (not_hex ''data''), demo_heap [97])
   \<and> (\<exists>v h'. dart_run ref_crates ref_alloc [] (DSha512 [1, 2]) (demo_heap [97]) = Inr (v, h')
      \<and> new_blocks Foreign (demo_heap [97]) h' = 1
      \<and> new_blocks RustOwned (demo_heap [97]) h' = 0)"
proof -
  obtain v h' where run: "dart_run ref_crates ref_alloc [] (DSha512 [1, 2]) (demo_heap [97]) = Inr (v, h')"
    using demo_sha512 by blast
  have "dart_run ref_crates ref_alloc [] (DKeccak256 (lit ''zz'')) (demo_heap [97])
      = Inr (Throw (not_hex ''data''), demo_heap [97])"
    by (simp add: dart_run_def refused_def guarded_def isHexString_def is_hex_digit_def)
  moreover have "new_blocks Foreign (demo_heap [97]) h' = 1
      \<and> new_blocks RustOwned (demo_heap [97]) h' = 0"
    using dart_wrapper_leaks [OF ref_crates_lawful ref_alloc_fresh wf_demo_heap, where rng = "[]" and w = "DSha512 [1, 2]"] run
    by (simp add: refused_def plain_def)
  ultimately show ?thesis using run by blast
qed

text \<open>
  C19: what a wrapper returns. When its call returns, a wrapper gives a \<open>bool\<close>, the lower-case
  hexadecimal text of the documented number of bytes, or for \<open>bip39Generate\<close> a phrase that
  validates; after the call only the conversions of a phrase throw, and then the message of the
  Rust side for a phrase that is not valid. That generated phrases are in lower case is assumed
  of the crate: otherwise one could itself start like a message.
\<close>

theorem dart_wrapper_results:
  assumes "lawful_crates c" and "lower_case_phrases (mnemonics c)" and "fresh_alloc mal" and "wf_heap h"
    and "refused (plan_of w) = None" and "dart_run c mal rng w h = Inr (v, h')"
  shows "returns_shape c v (result_shape (target (plan_of w) qs))"
proof -
  obtain ps h1 where copy: "copy_args mal (passed (plan_of w)) h = (ps, h1)"
    by (cases "copy_args mal (passed (plan_of w)) h")
  have wf: "wf_heap h1" using copy_args_ok [OF assms(3,4) copy] by blast
  have same: "result_shape (target (plan_of w) qs) = result_shape (target (plan_of w) ps)"
    by (cases w) (simp_all add: plain_def guarded_def)
  from assms(1,3,4,5) copy show ?thesis
  proof (cases rule: dart_run_cases [where rng = rng])
    case (answers b)
    then show ?thesis
      using exec_has_shape [OF assms(1) wf answers(1)] assms(6)
      by (simp add: same has_shape_def returns_shape_def)
  next
    case (text_returned p b s)
    have phrase: "throwReturn s = Return (DString s)" if shape: "result_shape (target (plan_of w) ps) = PhraseText"
    proof -
      obtain n where "target (plan_of w) ps = Bip39Generate n"
        using shape by (cases "target (plan_of w) ps") simp_all
      then have "ext_bip39_generate (mnemonics c) rng n = Inr s"
        using returned_phrase [OF assms(1) wf _ text_returned(5)] text_returned(1) by simp
      then show ?thesis by (rule throwReturn_phrase [OF assms(2)])
    qed
    then show ?thesis
      using returned_shape [OF exec_has_shape [OF assms(1) wf text_returned(1)] text_returned(5) phrase]
        text_returned(6) assms(6)
      by (simp add: same)
  qed (use assms(6) in simp)
qed

theorem dart_wrapper_results_witness:
  "(\<exists>b h'. dart_run ref_crates ref_alloc [] (DSha512 [1, 2]) (demo_heap [97])
        = Inr (Return (DString (hex_text b)), h') \<and> length b = 64)
   \<and> (\<exists>t h'. dart_run ref_crates ref_alloc [] (DBip39Generate 12) (demo_heap [97])
        = Inr (Return (DString t), h') \<and> ext_bip39_validate ref_bip39 t)"
proof -
  have crates: "mnemonics ref_crates = ref_bip39" by (simp add: ref_crates_def)
  then have lower: "lower_case_phrases (mnemonics ref_crates)" by (simp add: ref_lower_case_phrases)
  note results = dart_wrapper_results [OF ref_crates_lawful lower ref_alloc_fresh wf_demo_heap]
  obtain v h' where run: "dart_run ref_crates ref_alloc [] (DSha512 [1, 2]) (demo_heap [97]) = Inr (v, h')"
    using demo_sha512 by blast
  obtain t where "ext_bip39_generate ref_bip39 [] 12 = Inr t"
    using ext_bip39_generate_cases [OF ref_bip39_laws, of 12 "[]"] by auto
  then obtain v2 h2 where run2: "dart_run ref_crates ref_alloc [] (DBip39Generate 12) (demo_heap [97]) = Inr (v2, h2)"
    using dart_generate_wrapper [OF ref_crates_lawful ref_alloc_fresh wf_demo_heap, of "[]" 12 "[97]"]
    by (auto simp: crates)
  have "refused (plan_of (DSha512 [1, 2])) = None" "refused (plan_of (DBip39Generate 12)) = None"
    by (simp_all add: refused_def plain_def)
  then show ?thesis
    using results [OF _ run, of "[]"] results [OF _ run2, of "[]"] run run2
    by (auto simp: returns_shape_def plain_def crates simp del: hex_text.simps)
qed

text \<open>
  C14: the wrappers compute the functions of the Rust modules. On checked arguments that the Rust
  side decodes, in either case of the digits and with or without \<open>0x\<close>, the hashing, key,
  derivation and signing wrappers return the hexadecimal text of what the function of the module
  returns on the decoded bytes and abort exactly when it panics, and the verifying ones give its
  answer or abort with it; the wrappers of the exports that have their code in \<open>common.rs\<close> do the
  same for that code. The plain-text wrappers hash the UTF-8 bytes of their argument, and the
  phrase wrappers, for text without NUL, convert a valid phrase and throw the message of the Rust
  side for another.
\<close>

theorem dart_wrappers_refine_modules:
  assumes "lawful_crates c" and "fresh_alloc mal" and "wf_heap h"
    and "hex_arg c s d" and "hex_arg c s' d'" and "hex_arg c s'' d''"
    and "c_text phrase" and "c_text password" and "c_text (strip0xHex path)"
  shows "dart_gives c mal rng h (DBlake2b s k n) (ext_blake2b (hashes c) d k n)
    \<and> dart_gives c mal rng h (DKeccak256 s) (ext_keccak256 (hashes c) d)
    \<and> dart_gives c mal rng h (DSha512 k) (ext_sha512 (hashes c) k)
    \<and> dart_gives c mal rng h (DXxhash k n) (ext_xxhash (hashes c) k n)
    \<and> dart_gives c mal rng h (DTwox k n) (ext_twox (hashes c) k n)
    \<and> dart_gives c mal rng h (DPbkdf2 k k' n) (ext_pbkdf2 (hashes c) k k' n)
    \<and> dart_gives c mal rng h (DScrypt k k' l r n) (ext_scrypt (hashes c) k k' l r n)
    \<and> dart_gives c mal rng h (DEd25519KeypairFromSeed s) (ext_ed_from_seed (edc c) d)
    \<and> dart_gives c mal rng h (DEd25519Sign s s' s'') (ext_ed_sign (edc c) d d' d'')
    \<and> dart_gives c mal rng h (DSr25519KeypairFromSeed s) (ext_sr_from_seed (src c) d)
    \<and> dart_gives c mal rng h (DSr25519KeypairFromPair s) (ext_sr_from_pair (src c) d)
    \<and> dart_gives c mal rng h (DSr25519DeriveKeypairHard s s') (ext_sr_derive_keypair_hard (src c) d d')
    \<and> dart_gives c mal rng h (DSr25519DeriveKeypairSoft s s')
        (ext_sr_derive_keypair_soft (src c) rng d d')
    \<and> dart_gives c mal rng h (DSr25519DerivePublicSoft s s') (ext_sr_derive_public_soft (src c) d d')
    \<and> dart_gives c mal rng h (DSr25519Sign s s' s'') (ext_sr_sign (src c) rng d d' d'')
    \<and> dart_answers c mal rng h (DSr25519Verify s s' s'') (Inr (ext_sr_verify (src c) d d' d''))
    \<and> dart_answers c mal rng h (DEd25519Verify s s' s'') (ext_ed_verify (edc c) d d' d'')
    \<and> dart_gives c mal rng h (DEd25519GetPubFromPrivate s)
        (rbind (unwrap (ed_sk_from_bytes (edc c) d)) (\<lambda>sk.
          Inr (ed_pk_to_bytes (edc c) (ed_pk_of_sk (edc c) sk))))
    \<and> dart_gives c mal rng h (DSecp256k1GetPubFromPrivate s)
        (rbind (slice_to 32 d) (\<lambda>b. rbind (unwrap (secp_sk_from_slice (secp c) b)) (\<lambda>sk.
          Inr (secp_pk_serialize (secp c) (secp_pk_from_secret_key (secp c) sk)))))
    \<and> dart_gives c mal rng h (DSecp256k1GetCompressPub s)
        (rbind (unwrap (secp_pk_from_slice (secp c) d)) (\<lambda>pk. Inr (secp_pk_serialize (secp c) pk)))
    \<and> dart_gives c mal rng h (DSecp256k1RecoverPublic s s' i)
        (rbind (unwrap (secp_message_from_slice (secp c) d)) (\<lambda>m.
         rbind (unwrap (recovery_id_from_i32 (secp c) (ucast i))) (\<lambda>rid.
         rbind (slice_to 64 d') (\<lambda>b.
         rbind (unwrap (recoverable_from_compact (secp c) b rid)) (\<lambda>sg.
         rbind (unwrap (secp_recover (secp c) m sg)) (\<lambda>pk. Inr (secp_pk_serialize (secp c) pk)))))))
    \<and> dart_gives c mal rng h (DSr25519GetPubFromSeed s)
        (rbind (slice_to 32 d) (\<lambda>b. rbind (ext_sr_from_seed (src c) b) (\<lambda>kp.
          slice_range (SECRET_KEY_LENGTH (src c)) (KEYPAIR_LENGTH (src c)) kp)))
    \<and> dart_gives c mal rng h (DBip32GetPrivateKey s path)
        (rbind (unwrap (dp_parse (paths c) (strip0xHex path))) (\<lambda>ixs.
         rbind (root (hexa c) (edc c) (hmacs c) (strip0xHex s)) (\<lambda>m.
         rbind (unwrap_result (derive (build c) (edc c) (hmacs c) (paths c) m ixs)) (\<lambda>node.
           Inr (ed_sk_to_bytes (edc c) (secret_key node))))))
    \<and> dart_answers c mal rng h (DBip39Validate phrase) (Inr (ext_bip39_validate (mnemonics c) phrase))
    \<and> dart_converts c mal rng h (DBip39ToEntropy phrase) phrase
        (ext_bip39_to_entropy (mnemonics c) phrase)
    \<and> dart_converts c mal rng h (DBip39ToMiniSecret phrase password) phrase
        (ext_bip39_to_mini_secret (mnemonics c) (hashes c) phrase password)
    \<and> dart_converts c mal rng h (DBip39ToSeed phrase password) phrase
        (ext_bip39_to_seed (mnemonics c) phrase password)
    \<and> (case ext_bip39_generate (mnemonics c) rng n of
        Inl e \<Rightarrow> dart_run c mal rng (DBip39Generate n) h = Inl e
      | Inr t \<Rightarrow> ext_bip39_validate (mnemonics c) t
          \<and> (\<exists>h'. dart_run c mal rng (DBip39Generate n) h = Inr (throwReturn t, h')))"
  by (intro conjI dart_hash_wrappers [OF assms(1-3)] assms(4) dart_key_wrappers [OF assms(1-6)]
      dart_verify_wrappers [OF assms(2-6)] dart_public_wrappers [OF assms(1-5)]
      dart_bip32_wrapper [OF assms(1-3) hex_arg_guard [OF assms(4)] assms(9)]
      dart_validate_wrapper [OF assms(2,3,7)] dart_phrase_wrappers [OF assms(1-3,7,8)]
      dart_generate_wrapper [OF assms(1-3)])

theorem dart_wrappers_refine_modules_witness:
  "(\<exists>h'. dart_run ref_crates ref_alloc [] (DKeccak256 (lit ''0x'' @ hex_text [1, 2])) (demo_heap [97])
     = Inr (Return (DString (hex_text (pad 32 [1, 2]))), h'))
   \<and> dart_run ref_crates ref_alloc [] (DEd25519KeypairFromSeed (lit ''0x'' @ hex_text [1, 2])) (demo_heap [97])
     = Inl (Panic UnwrapErr)"
proof -
  have arg: "hex_arg ref_crates (lit ''0x'' @ hex_text [1, 2]) [1, 2]"
    by (rule hex_arg_prefixed) (simp add: ref_crates_def)
  have empty: "c_text []" "c_text (strip0xHex [])" by (simp_all add: c_text_def strip0xHex_def)
  note all = dart_wrappers_refine_modules [OF ref_crates_lawful ref_alloc_fresh wf_demo_heap [of "[97]"]
      arg arg arg empty(1,1,2), where rng = "[]"]
  have "ext_keccak256 (hashes ref_crates) [1, 2] = Inr (pad 32 [1, 2])"
      "ext_ed_from_seed (edc ref_crates) [1, 2] = Inl (Panic UnwrapErr)"
    by (simp_all add: ext_keccak256_def ref_crates_def ref_hash_def ext_ed_from_seed_eq)
  moreover have "dart_gives ref_crates ref_alloc [] (demo_heap [97]) (DKeccak256 (lit ''0x'' @ hex_text [1, 2]))
      (ext_keccak256 (hashes ref_crates) [1, 2])"
    by (rule all [THEN conjunct2, THEN conjunct1])
  moreover have "dart_gives ref_crates ref_alloc [] (demo_heap [97])
      (DEd25519KeypairFromSeed (lit ''0x'' @ hex_text [1, 2])) (ext_ed_from_seed (edc ref_crates) [1, 2])"
    by (rule all [THEN conjunct2, THEN conjunct2, THEN conjunct2, THEN conjunct2, THEN conjunct2,
        THEN conjunct2, THEN conjunct2, THEN conjunct1])
  ultimately show ?thesis by (simp add: dart_gives_def del: lit_simps hex_text.simps)
qed

text \<open>
  C18: the guard of the wrappers is not the one of the Rust side. \<open>isHexString\<close> strips \<open>0X\<close> as
  well as \<open>0x\<close>, but \<open>hexStripPrefix\<close> strips \<open>0x\<close> only. Whenever all checked arguments of a wrapper
  are digits after an optional prefix, none is refused; and if one of them has the prefix \<open>0X\<close>,
  the wrapper panics in Rust instead of throwing its error or returning.
\<close>

theorem dart_upper_prefix_panics:
  assumes "lawful_crates c" and "fresh_alloc mal" and "wf_heap h"
    and "(name, lit ''0X'' @ t) \<in> set (guards (plan_of w))"
    and "\<forall>(n, s)\<in>set (guards (plan_of w)). \<exists>d. list_all is_hex_digit d
      \<and> s \<in> {d, lit ''0x'' @ d, lit ''0X'' @ d}"
  shows "isHexString (lit ''0X'' @ t) \<and> refused (plan_of w) = None
    \<and> (\<exists>e. dart_run c mal rng w h = Inl (Panic e))"
proof -
  have pass: "isHexString s" if "(n, s) \<in> set (guards (plan_of w))" for n s
    using assms(5) that isHexString_digits by fast
  then have "refused (plan_of w) = None" by (auto simp: refused_def find_None_iff)
  then show ?thesis
    using pass [OF assms(4)] undecodable_panics [OF assms(1-4)]
      upper_prefix_undecodable [OF lawful_cratesD(9) [OF assms(1)]] by blast
qed

theorem dart_upper_prefix_panics_witness:
  "isHexString (lit ''0Xab'')
   \<and> (\<exists>e. dart_run ref_crates ref_alloc [] (DKeccak256 (lit ''0Xab'')) (demo_heap [97]) = Inl (Panic e))"
proof -
  have "(''data'', lit ''0X'' @ lit ''ab'') \<in> set (guards (plan_of (DKeccak256 (lit ''0Xab''))))"
    by (simp add: guarded_def)
  moreover have "\<forall>(n, s)\<in>set (guards (plan_of (DKeccak256 (lit ''0Xab'')))). \<exists>d. list_all is_hex_digit d
      \<and> s \<in> {d, lit ''0x'' @ d, lit ''0X'' @ d}"
    by (simp add: guarded_def, rule exI [of _ "lit ''ab''"], simp add: is_hex_digit_def)
  ultimately show ?thesis
    using dart_upper_prefix_panics [OF ref_crates_lawful ref_alloc_fresh wf_demo_heap] by fastforce
qed

end
