(* ===== verification/Dart_Session.thy ===== *)
theory Dart_Session
  imports Dart_Client
begin

section \<open>Dart programs as sessions\<close>

text \<open>
  A Dart program is a sequence of wrapper calls. Each wrapper is a client of \<open>Session\<close> that keeps
  the rules: it allocates its strings, calls with pointers it may use, and frees what it was given
  at most once. So a program is a run of the session machine, and what holds of all sessions
  holds of it.
\<close>

fun dart_program where
  "dart_program c mal [] h = Inr ([], h)"
| "dart_program c mal ((rng, w) # ws) h =
     rbind (dart_run c mal rng w h) (\<lambda>(v, h1).
     rbind (dart_program c mal ws h1) (\<lambda>(vs, h2). Inr (v # vs, h2)))"

text \<open>The calls that keep a string of Rust.\<close>

definition keeps_string :: "bytes \<times> wrapper \<Rightarrow> bool" where
  "keeps_string x \<longleftrightarrow> (case snd x of
     DSr25519KeypairFromSeed seed \<Rightarrow> isHexString seed | _ \<Rightarrow> False)"

lemma keeps_string_iff:
  "keeps_string (rng, w) \<longleftrightarrow> refused (plan_of w) = None \<and> \<not> frees (plan_of w)"
  by (cases w) (auto simp: keeps_string_def refused_def plain_def guarded_def)

text \<open>Copying the arguments is a sequence of allocations by the client.\<close>

lemma copy_args_runs:
  assumes "fresh_alloc mal" "wf_heap (mem s)" "copy_args mal ss (mem s) = (ps, h1)"
  shows "\<exists>as. client_runs c s as \<lparr>mem = h1, held = held s\<rparr>
    \<and> sum_list (map returned as) = 0 \<and> sum_list (map released as) = 0"
  using assms(2,3)
proof (induction ss arbitrary: s ps h1)
  case Nil
  then have "client_runs c s [] \<lparr>mem = h1, held = held s\<rparr>" by simp
  then show ?case by (intro exI [of _ "[]"]) simp
next
  case (Cons b ss)
  let ?s = "\<lparr>mem = (mem s)(mal (mem s) \<mapsto> dart_block b), held = held s\<rparr>"
  obtain qs where qs: "copy_args mal ss (mem ?s) = (qs, h1)"
    using Cons.prems(2) by (auto simp: toUtf8_def dart_block_def split: prod.splits)
  note new = fresh_allocD [OF assms(1) Cons.prems(1)]
  have "wf_heap (mem ?s)" by simp (rule wf_heap_update [OF Cons.prems(1)], simp_all add: new)
  from Cons.IH [OF this qs] obtain as where
    as: "client_runs c ?s as \<lparr>mem = h1, held = held s\<rparr>" "sum_list (map returned as) = 0"
      "sum_list (map released as) = 0" by auto
  have "step (\<lambda>(rng, f). call_args f) (\<lambda>(rng, f). exec c rng f) s (HostAlloc (mal (mem s)) (b @ [0])) ?s"
    unfolding dart_block_def by (rule step.host_alloc) (simp_all add: new)
  then have "client_runs c s (HostAlloc (mal (mem s)) (b @ [0]) # as) \<lparr>mem = h1, held = held s\<rparr>"
    using as(1) by (rule runs_Cons)
  then show ?case using as(2,3) by force
qed

text \<open>The steps of a call, with the memory and the held pointers spelled out.\<close>

lemma call_steps:
  assumes "\<forall>p\<in>set (call_args f). readable p h"
  shows "exec c rng f h = Inr (RBool b, h') \<Longrightarrow>
      step (\<lambda>(rng, f). call_args f) (\<lambda>(rng, f). exec c rng f) \<lparr>mem = h, held = hs\<rparr>
        (Call (rng, f) (RBool b)) \<lparr>mem = h', held = hs\<rparr>"
    and "exec c rng f h = Inr (RPtr p, h') \<Longrightarrow>
      step (\<lambda>(rng, f). call_args f) (\<lambda>(rng, f). exec c rng f) \<lparr>mem = h, held = hs\<rparr>
        (Call (rng, f) (RPtr p)) \<lparr>mem = h', held = insert p hs\<rparr>"
  using assms
    step.call_bool [where args = "\<lambda>(rng, f). call_args f" and ex = "\<lambda>(rng, f). exec c rng f"
      and f = "(rng, f)" and s = "\<lparr>mem = h, held = hs\<rparr>" and b = b and h' = h']
    step.call_ptr [where args = "\<lambda>(rng, f). call_args f" and ex = "\<lambda>(rng, f). exec c rng f"
      and f = "(rng, f)" and s = "\<lparr>mem = h, held = hs\<rparr>" and p = p and h' = h']
  by simp_all

text \<open>One wrapper: allocations, the call, and the free if the wrapper frees.\<close>

lemma dart_run_session:
  assumes "lawful_crates c" "fresh_alloc mal" "session_inv s" "dart_run c mal rng w (mem s) = Inr (v, h')"
  shows "\<exists>as s'. client_runs c s as s' \<and> mem s' = h'
    \<and> sum_list (map returned as) = sum_list (map released as) + (if keeps_string (rng, w) then 1 else 0)"
proof (cases "refused (plan_of w)")
  case (Some msg)
  then have "client_runs c s [] s \<and> mem s = h'" using assms(4) by (simp add: dart_run_def)
  moreover have "\<not> keeps_string (rng, w)" using Some by (simp add: keeps_string_iff)
  ultimately show ?thesis by (intro exI [of _ "[]"] exI [of _ s]) simp
next
  case None
  have wf: "wf_heap (mem s)" using assms(3) by (simp add: session_inv_def)
  obtain ps h1 where copy: "copy_args mal (passed (plan_of w)) (mem s) = (ps, h1)"
    by (cases "copy_args mal (passed (plan_of w)) (mem s)")
  let ?s1 = "\<lparr>mem = h1, held = held s\<rparr>" and ?f = "target (plan_of w) ps"
  obtain as where as: "client_runs c s as ?s1" "sum_list (map returned as) = 0" "sum_list (map released as) = 0"
    using copy_args_runs [OF assms(2) wf copy] by blast
  note steps = call_steps [OF target_readable [OF assms(2) wf copy], where hs = "held s"]
  from assms(1,2) wf None copy show ?thesis
  proof (cases rule: dart_run_cases [where rng = rng])
    case (answers b)
    have "step (\<lambda>(rng, f). call_args f) (\<lambda>(rng, f). exec c rng f) ?s1 (Call (rng, ?f) (RBool b)) ?s1"
      by (rule steps(1) [OF answers(1)])
    then have "client_runs c s (as @ [Call (rng, ?f) (RBool b)]) ?s1"
      by (rule runs_append [OF as(1) runs_one])
    moreover have "frees (plan_of w)"
      using exec_has_shape [OF assms(1) _ answers(1)] copy_args_ok [OF assms(2) wf copy]
      by (cases w) (auto simp: plain_def guarded_def has_shape_def)
    ultimately show ?thesis
      using assms(4) answers(2)
      by (intro exI [of _ "as @ [Call (rng, ?f) (RBool b)]"] exI [of _ ?s1]) (simp add: keeps_string_iff as(2,3))
  next
    case (text_returned p b t)
    let ?s2 = "\<lparr>mem = h1(p \<mapsto> b), held = insert p (held s)\<rparr>"
    have "step (\<lambda>(rng, f). call_args f) (\<lambda>(rng, f). exec c rng f) ?s1 (Call (rng, ?f) (RPtr p)) ?s2"
      by (rule steps(2) [OF text_returned(1)])
    then have two: "client_runs c s (as @ [Call (rng, ?f) (RPtr p)]) ?s2"
      by (rule runs_append [OF as(1) runs_one])
    show ?thesis
    proof (cases "frees (plan_of w)")
      case False
      then show ?thesis
        using assms(4) text_returned(6) two None
        by (intro exI [of _ "as @ [Call (rng, ?f) (RPtr p)]"] exI [of _ ?s2]) (simp add: keeps_string_iff as(2,3))
    next
      case True
      have "session_inv ?s2"
        by (rule rust_lib.runs_inv [OF lawful_cratesD(1) [OF assms(1)] assms(3) two])
      then have "step (\<lambda>(rng, f). call_args f) (\<lambda>(rng, f). exec c rng f) ?s2 (Free p)
          \<lparr>mem = (mem ?s2)(p := None), held = held ?s2 - {p}\<rparr>"
        by (simp add: step_Free_held)
      moreover have "(mem ?s2)(p := None) = h1" using text_returned(2) by auto
      ultimately have "client_runs c s ((as @ [Call (rng, ?f) (RPtr p)]) @ [Free p])
          \<lparr>mem = h1, held = held ?s2 - {p}\<rparr>"
        using runs_append [OF two runs_one] by simp
      then show ?thesis
        using assms(4) text_returned(6) True
        by (intro exI [of _ "(as @ [Call (rng, ?f) (RPtr p)]) @ [Free p]"]
            exI [of _ "\<lparr>mem = h1, held = held ?s2 - {p}\<rparr>"]) (simp add: keeps_string_iff as(2,3))
    qed
  qed (use assms(4) in simp)
qed

lemma dart_run_defined:
  assumes "lawful_crates c" "fresh_alloc mal" "wf_heap h"
  shows "no_undefined (dart_run c mal rng w h)"
proof (cases "refused (plan_of w)")
  case None
  obtain ps h1 where "copy_args mal (passed (plan_of w)) h = (ps, h1)"
    by (cases "copy_args mal (passed (plan_of w)) h")
  with assms None show ?thesis by (cases rule: dart_run_cases [where rng = rng]) simp_all
qed (simp add: dart_run_def)

lemma dart_program_runs:
  assumes "lawful_crates c" "fresh_alloc mal" "session_inv s"
  shows "no_undefined (dart_program c mal ws (mem s))
    \<and> (\<forall>vs h'. dart_program c mal ws (mem s) = Inr (vs, h') \<longrightarrow>
        (\<exists>as s'. client_runs c s as s' \<and> mem s' = h' \<and> length vs = length ws
          \<and> sum_list (map returned as) = sum_list (map released as) + length (filter keeps_string ws)))"
  using assms(3)
proof (induction ws arbitrary: s)
  case Nil
  have "client_runs c s [] s" by simp
  then show ?case by (auto intro!: exI [of _ "[]"])
next
  case (Cons x ws)
  obtain rng w where x: "x = (rng, w)" by (cases x)
  have wf: "wf_heap (mem s)" using Cons.prems by (simp add: session_inv_def)
  show ?case
  proof (cases "dart_run c mal rng w (mem s)")
    case (Inl e)
    then show ?thesis using dart_run_defined [OF assms(1,2) wf, of rng w] by (simp add: x no_undefined_Inl)
  next
    case (Inr vh)
    obtain v h1 where vh: "vh = (v, h1)" by (cases vh)
    obtain as s1 where one: "client_runs c s as s1" "mem s1 = h1"
        "sum_list (map returned as) = sum_list (map released as) + (if keeps_string (rng, w) then 1 else 0)"
      using dart_run_session [OF assms(1,2) Cons.prems, of rng w v h1] Inr vh by blast
    have inv: "session_inv s1"
      by (rule rust_lib.runs_inv [OF lawful_cratesD(1) [OF assms(1)] Cons.prems one(1)])
    note rest = Cons.IH [OF inv, unfolded one(2)]
    have prog: "dart_program c mal (x # ws) (mem s) = rbind (dart_program c mal ws h1) (\<lambda>(vs, h2). Inr (v # vs, h2))"
      by (simp add: x Inr vh)
    show ?thesis
    proof (cases "dart_program c mal ws h1")
      case (Inr vsh)
      obtain vs h2 where vsh: "vsh = (vs, h2)" by (cases vsh)
      with rest Inr obtain bs s2 where two: "client_runs c s1 bs s2" "mem s2 = h2" "length vs = length ws"
          "sum_list (map returned bs) = sum_list (map released bs) + length (filter keeps_string ws)"
        by blast
      have "client_runs c s (as @ bs) s2" by (rule runs_append [OF one(1) two(1)])
      then show ?thesis
        using one(3) two(2-4) prog Inr vsh by (auto simp: x intro!: exI [of _ "as @ bs"] exI [of _ s2])
    qed (use rest prog in simp)
  qed
qed

subsection \<open>Property\<close>

text \<open>
  C16: a Dart program keeps the rules. Whatever sequence of wrapper calls it makes, with whatever
  arguments, it never meets undefined behaviour, and when none of them panics its effect on the
  memory is that of a run of the session machine, at whose end the client still holds one string
  for every call of \<open>sr25519KeypairFromSeed\<close> that was not refused, and no other.
\<close>

theorem dart_program_is_session:
  assumes "lawful_crates c" and "fresh_alloc mal"
  shows "no_undefined (dart_program c mal ws (mem initial))
    \<and> (\<forall>vs h'. dart_program c mal ws (mem initial) = Inr (vs, h') \<longrightarrow>
        (\<exists>as s'. client_runs c initial as s' \<and> mem s' = h' \<and> length vs = length ws
          \<and> card (held s') = length (filter keeps_string ws)))"
proof -
  have "card (held s') = length (filter keeps_string ws)"
    if "client_runs c initial as s'"
      "sum_list (map returned as) = sum_list (map released as) + length (filter keeps_string ws)" for as s'
    using rust_lib.runs_count [OF lawful_cratesD(1) [OF assms(1)] session_inv_initial that(1)] that(2)
    by (simp add: initial_def)
  then show ?thesis using dart_program_runs [OF assms session_inv_initial, of ws] by blast
qed

theorem dart_program_is_session_witness:
  "\<exists>vs h' as s'. dart_program ref_crates ref_alloc
       [([], DKeccak256 (lit ''zz'')), ([], DSr25519KeypairFromSeed (hex_text (replicate 32 7)))] (mem initial) = Inr (vs, h')
     \<and> client_runs ref_crates initial as s' \<and> mem s' = h' \<and> card (held s') = 1"
proof -
  let ?w = "DSr25519KeypairFromSeed (hex_text (replicate 32 7))"
  have wf: "wf_heap (mem initial)" using session_inv_initial by (simp add: session_inv_def)
  have seed: "hex_arg ref_crates (hex_text (replicate 32 7)) (replicate 32 7)"
    by (rule hex_arg_hex_text) (simp add: ref_crates_def)
  obtain kp where "ext_sr_from_seed ref_sr (replicate 32 7) = Inr kp"
    using sr25519.keypair_ok [of "(ref_sr, [])" "replicate 32 7"] by auto
  then obtain h' where run: "dart_run ref_crates ref_alloc [] ?w (mem initial) = Inr (Return (DString (hex_text kp)), h')"
    using dart_key_wrappers(3) [OF ref_crates_lawful ref_alloc_fresh wf seed seed seed, where rng = "[]"]
    by (auto simp: dart_gives_def ref_crates_def simp del: hex_text.simps)
  have "dart_run ref_crates ref_alloc [] (DKeccak256 (lit ''zz'')) (mem initial)
      = Inr (Throw (not_hex ''data''), mem initial)"
    by (simp add: dart_run_def refused_def guarded_def isHexString_def is_hex_digit_def)
  then have prog: "dart_program ref_crates ref_alloc [([], DKeccak256 (lit ''zz'')), ([], ?w)] (mem initial)
      = Inr ([Throw (not_hex ''data''), Return (DString (hex_text kp))], h')"
    using run by (simp del: lit_simps hex_text.simps)
  have "length (filter keeps_string [([], DKeccak256 (lit ''zz'')), ([], ?w)]) = 1"
    by (simp add: keeps_string_def del: hex_text.simps)
  then show ?thesis
    using dart_program_is_session [OF ref_crates_lawful ref_alloc_fresh, THEN conjunct2, rule_format, OF prog] prog
    by metis
qed

end
