(* ===== verification/Twox_While.thy ===== *)
theory Twox_While
  imports Hashing "HOL-Library.While_Combinator"
begin

section \<open>The loop of \<open>ext_twox\<close> as a loop\<close>

text \<open>
  \<open>ext_twox\<close> once more, as the statement \<open>for round in 0..rounds\<close> on a mutable state: the counter
  and the vector, or the panic that left the loop. \<open>while_option\<close> has no termination proof
  behind it: that the loop ends is what is shown, on the \<open>u32\<close> counter that could wrap around.
\<close>

type_synonym twox_state = "u32 \<times> bytes res"

definition twox_continues :: "u32 \<Rightarrow> twox_state \<Rightarrow> bool" where
  "twox_continues rounds st \<longleftrightarrow> fst st < rounds \<and> (\<exists>vec. snd st = Inr vec)"

definition twox_body ::
    "('kec, 'sha, 'xx, 'xx64, 'sp) hash_api \<Rightarrow> bytes \<Rightarrow> twox_state \<Rightarrow> twox_state" where
  "twox_body ha data st =
     (fst st + 1, rbind (snd st) (\<lambda>vec. rbind (create_twox ha data (ucast (fst st))) (\<lambda>t. Inr (vec @ t))))"

definition twox_while ::
    "('kec, 'sha, 'xx, 'xx64, 'sp) hash_api \<Rightarrow> bytes \<Rightarrow> u32 \<Rightarrow> twox_state option" where
  "twox_while ha data rounds = while_option (twox_continues rounds) (twox_body ha data) (0, Inr [])"

lemma twox_body_Inr:
  "twox_body ha data (round, Inr vec)
     = (round + 1, rbind (create_twox ha data (ucast round)) (\<lambda>t. Inr (vec @ t)))"
  by (simp add: twox_body_def)

lemma while_option_step: "b s \<Longrightarrow> while_option b c s = while_option b c (c s)"
  by (subst while_option_unfold) simp

lemma while_option_stop: "\<not> b s \<Longrightarrow> while_option b c s = Some s"
  by (subst while_option_unfold) simp

lemma Suc_round_le: "round < rounds \<Longrightarrow> round + 1 \<le> (rounds :: u32)"
  using unat_Suc_round [of round rounds] by (simp add: word_le_nat_alt word_less_nat_alt)

text \<open>From any state of the loop the statement computes what the recursion of \<open>Hashing\<close> does.\<close>

lemma twox_while_from:
  assumes "round \<le> rounds"
  shows "\<exists>n. n \<le> rounds \<and> while_option (twox_continues rounds) (twox_body ha data) (round, Inr vec)
    = Some (n, twox_loop ha data round rounds vec)"
  using assms
proof (induction ha data round rounds vec rule: twox_loop.induct)
  case (1 ha data round rounds vec)
  let ?loop = "while_option (twox_continues rounds) (twox_body ha data)"
  show ?case
  proof (cases "round < rounds")
    case True
    then have next_state: "?loop (round, Inr vec) = ?loop (twox_body ha data (round, Inr vec))"
      by (intro while_option_step) (simp add: twox_continues_def)
    show ?thesis
    proof (cases "create_twox ha data (ucast round)")
      case (Inl f)
      then have "?loop (round, Inr vec) = Some (round + 1, Inl f)"
        by (simp add: next_state twox_body_Inr while_option_stop twox_continues_def)
      then show ?thesis
        using True Inl Suc_round_le [OF True] by (simp add: twox_loop.simps [of ha data round])
    next
      case (Inr t)
      then show ?thesis
        using "1.IH" [OF True Inr Suc_round_le [OF True]] True
        by (simp add: next_state twox_body_Inr twox_loop.simps [of ha data round])
    qed
  next
    case False
    then have "?loop (round, Inr vec) = Some (round, Inr vec)"
      by (intro while_option_stop) (simp add: twox_continues_def)
    then show ?thesis using False "1.prems" by (auto simp: twox_loop.simps [of ha data _ rounds])
  qed
qed

subsection \<open>Property\<close>

text \<open>
  C26: the loop of \<open>ext_twox\<close> ends for every round count, the largest \<open>u32\<close> included, whatever the
  crates do: the counter stays within the bound, so it never wraps around, and what the loop
  leaves is the result of \<open>ext_twox\<close>, a panic of a round included.
\<close>

theorem twox_while_returns:
  "\<exists>n. twox_while ha data rounds = Some (n, ext_twox ha data rounds) \<and> n \<le> rounds"
  using twox_while_from [of 0 rounds ha data "[]"] by (auto simp: twox_while_def ext_twox_def)

end
