(* ===== verification/Test_Harness.thy ===== *)
theory Test_Harness
  imports Reference_Crates
begin

section \<open>What the unit tests share\<close>

text \<open>
  A \<open>#[test]\<close> function is a computation of type \<open>unit res\<close>: a failed \<open>assert!\<close> or
  \<open>assert_eq!\<close> is a panic, and the test passes when it returns. The macro \<open>hex!\<close> of hex-literal
  turns a literal into bytes when the tests are compiled; \<open>rand::random\<close> is a parameter, the
  sequence of bytes drawn. A parser for derivation paths is added to the reference crates.
\<close>

definition assert :: "bool \<Rightarrow> unit res" where
  "assert b = (if b then Inr () else Inl (Panic (ExplicitPanic ''assertion failed'')))"

definition passes :: "unit res \<Rightarrow> bool" where
  "passes t \<longleftrightarrow> t = Inr ()"

lemma passes_simps [simp]:
  "passes (Inr u)" "\<not> passes (Inl e)" "passes (assert b) \<longleftrightarrow> b"
  by (simp_all add: passes_def assert_def)

lemma passes_rbind: "passes (rbind m f) \<longleftrightarrow> (\<exists>x. m = Inr x \<and> passes (f x))"
  by (simp add: passes_def rbind_eq_Inr_iff)

lemma passes_assert_then [simp]: "passes (rbind (assert b) f) \<longleftrightarrow> b \<and> passes (f ())"
  by (simp add: assert_def)

lemma passes_then: "passes (rbind m f) \<longleftrightarrow> passes m \<and> passes (f ())" for m :: "unit res"
  by (cases m) simp_all

lemma passes_unwrap: "passes (rbind (unwrap r) f) \<longleftrightarrow> (\<exists>x. r = Some x \<and> passes (f x))"
  by (cases r) simp_all

subsection \<open>Literals\<close>

lemma unat_of_char: "unat (of_char c :: u8) = of_char c"
proof -
  have "unat (of_nat (of_char c) :: u8) = of_char c" unfolding unat_of_nat by simp
  then show ?thesis by (simp only: of_nat_of_char)
qed

lemma c_text_lit: "\<forall>c\<in>set s. c \<noteq> CHR 0x00 \<and> of_char c < (128 :: nat) \<Longrightarrow> c_text (lit s)"
proof -
  assume s: "\<forall>c\<in>set s. c \<noteq> CHR 0x00 \<and> of_char c < (128 :: nat)"
  have "unat b < 128 \<and> b \<noteq> 0" if "b \<in> set (lit s)" for b
  proof -
    from that obtain c where c: "c \<in> set s" "b = of_char c" by (auto simp: lit_def)
    have "(of_char c :: nat) \<noteq> of_char (CHR 0x00)" using s c(1) by (metis of_char_eq_iff)
    then show ?thesis using s c by (auto simp: unat_of_char [symmetric] unat_eq_zero)
  qed
  then show ?thesis using utf8_valid_ascii by (auto simp: c_text_def)
qed

fun nibble :: "char \<Rightarrow> nat" where
  "nibble c = (let n = of_char c in if n < (58 :: nat) then n - 48 else n - 87)"

declare nibble.simps [simp del]

fun hex_lit :: "string \<Rightarrow> bytes" where
  "hex_lit (c # d # s) = byte (16 * nibble c + nibble d) # hex_lit s"
| "hex_lit s = []"

declare hex_lit.simps [simp del]

text \<open>The literals of the tests: lower-case digits, two for each byte.\<close>

fun lower_hex :: "string \<Rightarrow> bool" where
  "lower_hex [] = True"
| "lower_hex [c] = False"
| "lower_hex (c # d # s) \<longleftrightarrow> c \<in> set ''0123456789abcdef'' \<and> d \<in> set ''0123456789abcdef'' \<and> lower_hex s"

lemma hex_char_nibble: "c \<in> set ''0123456789abcdef'' \<Longrightarrow> nibble c < 16 \<and> hex_char (nibble c) = of_char c"
  by (auto simp: nibble.simps hex_char_def byte_def)

lemma hex_text_hex_lit: "lower_hex s \<Longrightarrow> hex_text (hex_lit s) = lit s"
proof (induction s rule: lower_hex.induct)
  case (3 c d s)
  then have "nibble c < 16" "nibble d < 16" "hex_char (nibble c) = of_char c"
      "hex_char (nibble d) = of_char d"
    using hex_char_nibble by auto
  moreover from this have "unat (byte (16 * nibble c + nibble d)) = 16 * nibble c + nibble d"
    unfolding byte_def unat_of_nat by simp
  ultimately show ?case using 3 by (simp add: hex_lit.simps)
qed (simp_all add: hex_lit.simps)

lemma from_hex_lit: "hex_laws hx \<Longrightarrow> lower_hex s \<Longrightarrow> from_hex hx (lit s) = Some (hex_lit s)"
  using from_hex_text [of hx "hex_lit s"] by (simp add: hex_text_hex_lit)

lemma length_hex_lit [simp]: "length (hex_lit s) = length s div 2"
  by (induction s rule: hex_lit.induct) (simp_all add: hex_lit.simps)

text \<open>\<open>(0..32).map(|_| rand::random::<u8>()).collect()\<close>\<close>

definition generate_random_seed :: "(nat \<Rightarrow> u8) \<Rightarrow> bytes" where
  "generate_random_seed random = map random [0..<32]"

lemma length_random_seed [simp]: "length (generate_random_seed random) = 32"
  by (simp add: generate_random_seed_def)

subsection \<open>Derivation paths as text\<close>

text \<open>
  \<open>m\<close>, then components that start with a slash: a decimal number below \<open>2^31\<close>, hardened when an
  apostrophe follows.
\<close>

fun split_path :: "bytes \<Rightarrow> bytes \<Rightarrow> bytes list" where
  "split_path acc [] = [rev acc]"
| "split_path acc (b # bs) = (if b = 47 then rev acc # split_path [] bs else split_path (b # acc) bs)"

definition decimal :: "bytes \<Rightarrow> nat option" where
  "decimal ds = (if ds \<noteq> [] \<and> (\<forall>d\<in>set ds. 48 \<le> d \<and> d \<le> 57)
     then Some (foldl (\<lambda>n d. 10 * n + (unat d - 48)) 0 ds) else None)"

definition parse_index :: "bytes \<Rightarrow> child_index option" where
  "parse_index s =
     (let hard = s \<noteq> [] \<and> last s = 39 in
      case decimal (if hard then butlast s else s) of
        None \<Rightarrow> None
      | Some n \<Rightarrow> if n < 2 ^ 31 then Some ((if hard then Hardened else Normal) (word_of_nat n)) else None)"

fun parse_indices :: "bytes list \<Rightarrow> child_index list option" where
  "parse_indices [] = Some []"
| "parse_indices (s # ss) = (case (parse_index s, parse_indices ss) of
     (Some j, Some js) \<Rightarrow> Some (j # js) | _ \<Rightarrow> None)"

definition parse_path :: "bytes \<Rightarrow> child_index list option" where
  "parse_path s = (case split_path [] s of
     m # ss \<Rightarrow> if m = lit ''m'' then parse_indices ss else None
   | [] \<Rightarrow> None)"

definition path_dp :: dp_api where
  "path_dp = ref_dp\<lparr>dp_parse := parse_path\<rparr>"

lemma path_dp_laws [simp]: "dp_laws path_dp"
  by (simp add: path_dp_def dp_laws_def ref_dp_def)

end
