(* ===== verification/Module_Tests.thy ===== *)
theory Module_Tests
  imports Bip39 Ed25519 Sr25519 Test_Harness
begin

section \<open>The unit tests of the other modules\<close>

text \<open>
  The tests of \<open>bip39.rs\<close>, \<open>hashing.rs\<close>, \<open>ed25519.rs\<close> and \<open>sr25519.rs\<close> as programs, under their
  names (those of the two signature modules carry the prefix of their functions). \<open>random\<close> is
  what \<open>rand::random\<close> returns, \<open>rng\<close> what a crate draws.
\<close>

subsection \<open>\<open>bip39.rs\<close>\<close>

definition can_bip39_entropy ::
    "('mt, 'mn, 'sd) bip39_api \<Rightarrow> unit res"
where
  "can_bip39_entropy bp =
     (let phrase = lit ''legal winner thank year wave sausage worth useful legal winner thank yellow'';
          entropy = hex_lit ''7f7f7f7f7f7f7f7f7f7f7f7f7f7f7f7f'' in
      rbind (ext_bip39_to_entropy bp phrase) (\<lambda>result. assert (result = entropy)))"

definition can_bip39_mini_secret ::
    "('mt, 'mn, 'sd) bip39_api \<Rightarrow> ('kec, 'sha, 'xx, 'xx64, 'sp) hash_api \<Rightarrow> unit res"
where
  "can_bip39_mini_secret bp ha =
     (let phrase = lit ''legal winner thank year wave sausage worth useful legal winner thank yellow'';
          password = lit ''Substrate'';
          mini = hex_lit ''4313249608fe8ac10fd5886c92c4579007272cb77c21551ee5b8d60b78041685'' in
      rbind (ext_bip39_to_mini_secret bp ha phrase password) (\<lambda>result. assert (result = mini)))"

definition can_bip39_seed ::
    "('mt, 'mn, 'sd) bip39_api \<Rightarrow> unit res"
where
  "can_bip39_seed bp =
     (let phrase = lit ''seed sock milk update focus rotate barely fade car face mechanic mercy'';
          seed = hex_lit ''3c121e20de068083b49c2315697fb59a2d9e8643c24e5ea7628132c58969a027'' in
      rbind (ext_bip39_to_seed bp phrase (lit [])) (\<lambda>result. assert (result = seed)))"

definition can_bip39_generate ::
    "('mt, 'mn, 'sd) bip39_api \<Rightarrow> bytes \<Rightarrow> unit res"
where
  "can_bip39_generate bp rng =
     rbind (ext_bip39_generate bp rng 12) (\<lambda>phrase.
       let is_valid = ext_bip39_validate bp phrase in assert is_valid)"

definition can_bip39_validate ::
    "('mt, 'mn, 'sd) bip39_api \<Rightarrow> unit res"
where
  "can_bip39_validate bp =
     (let is_valid = ext_bip39_validate bp
            (lit ''seed sock milk update focus rotate barely fade car face mechanic mercy'');
          is_invalid = ext_bip39_validate bp
            (lit ''wine photo extra cushion basket dwarf humor cloud truck job boat submit'') in
      rbind (assert (is_valid = True)) (\<lambda>u. assert (is_invalid = False)))"

subsection \<open>\<open>hashing.rs\<close>\<close>

definition can_blake2b ::
    "('kec, 'sha, 'xx, 'xx64, 'sp) hash_api \<Rightarrow> unit res"
where
  "can_blake2b ha =
     (let data = lit ''abc'';
          expected_32 = hex_lit ''bddd813c634239723171ef3fee98579b94964e3bb1cb3e427262c8c068d52319'';
          expected_64 = hex_lit ''ba80a53f981c4d0d6a2797b69f12f6e94c212f14685ac4b74b12bb6fdbffa2d17d87c5392aab792dc252d5de4533cc9518d38aa8dbf1925ab92386edd4009923'' in
      rbind (ext_blake2b ha data [] 32) (\<lambda>hash_32.
      rbind (ext_blake2b ha data [] 64) (\<lambda>hash_64.
      rbind (assert (hash_32 = expected_32)) (\<lambda>u. assert (hash_64 = expected_64)))))"

definition can_keccak256 ::
    "('kec, 'sha, 'xx, 'xx64, 'sp) hash_api \<Rightarrow> unit res"
where
  "can_keccak256 ha =
     (let data = lit ''test value'';
          expected = hex_lit ''2d07364b5c231c56ce63d49430e085ea3033c750688ba532b24029124c26ca5e'' in
      rbind (ext_keccak256 ha data) (\<lambda>hash. assert (hash = expected)))"

definition can_pbkdf2 ::
    "('kec, 'sha, 'xx, 'xx64, 'sp) hash_api \<Rightarrow> unit res"
where
  "can_pbkdf2 ha =
     (let salt = lit ''this is a salt'';
          data = lit ''hello world'';
          expected = hex_lit ''5fcbe04f05300a3ecc5c35d18ea0b78f3f6853d2ae5f3fca374f69a7d1f78b5def5c60dae1a568026c7492511e0c53521e8bb6e03a650e1263265fee92722270'' in
      rbind (ext_pbkdf2 ha data salt 2048) (\<lambda>hash. assert (hash = expected)))"

definition can_scrypt ::
    "('kec, 'sha, 'xx, 'xx64, 'sp) hash_api \<Rightarrow> unit res"
where
  "can_scrypt ha =
     (let password = lit ''password'';
          salt = lit ''salt'';
          expected = hex_lit ''745731af4484f323968969eda289aeee005b5903ac561e64a5aca121797bf7734ef9fd58422e2e22183bcacba9ec87ba0c83b7a2e788f03ce0da06463433cda6'' in
      rbind (ext_scrypt ha password salt 14 8 1) (\<lambda>hash. assert (hash = expected)))"

definition can_sha512 ::
    "('kec, 'sha, 'xx, 'xx64, 'sp) hash_api \<Rightarrow> unit res"
where
  "can_sha512 ha =
     (let data = lit ''hello world'';
          expected = hex_lit ''309ecc489c12d6eb4cc40f50c902f2b4d0ed77ee511a7c7a9bcd3ca86d4cd86f989dd35bc5ff499670da34255b45b0cfd830e81f605dcf7dc5542e93ae9cd76f'' in
      rbind (ext_sha512 ha data) (\<lambda>hash. assert (hash = expected)))"

definition can_twox ::
    "('kec, 'sha, 'xx, 'xx64, 'sp) hash_api \<Rightarrow> unit res"
where
  "can_twox ha =
     (let data = lit ''abc'';
          expected_64 = hex_lit ''990977adf52cbc44'';
          expected_256 = hex_lit ''990977adf52cbc440889329981caa9bef7da5770b2b8a05303b75d95360dd62b'' in
      rbind (ext_twox ha data 1) (\<lambda>hash_64.
      rbind (ext_twox ha data 4) (\<lambda>hash_256.
      rbind (assert (hash_64 = expected_64)) (\<lambda>u. assert (hash_256 = expected_256)))))"

definition can_xxhash ::
    "('kec, 'sha, 'xx, 'xx64, 'sp) hash_api \<Rightarrow> unit res"
where
  "can_xxhash ha =
     (let data = lit ''abcd'';
          expected_64 = hex_lit ''e29f70f8b8c96df7'' in
      rbind (ext_xxhash ha data 0xabcd) (\<lambda>hash_64. assert (hash_64 = expected_64)))"

subsection \<open>\<open>ed25519.rs\<close>\<close>

definition ed_can_create_keypair ::
    "('sk, 'pk, 'kp, 'sig) ed_api \<Rightarrow> (nat \<Rightarrow> u8) \<Rightarrow> unit res"
where
  "ed_can_create_keypair ed random =
     (let seed = generate_random_seed random in
      rbind (ext_ed_from_seed ed seed) (\<lambda>keypair. assert (length keypair = ED_KEYPAIR_LENGTH ed)))"

definition ed_creates_pair_from_known ::
    "('sk, 'pk, 'kp, 'sig) ed_api \<Rightarrow> unit res"
where
  "ed_creates_pair_from_known ed =
     (let seed = lit ''12345678901234567890123456789012'';
          expected = hex_lit ''2f8c6129d816cf51c374bc7f08c3e63ed156cf78aefb4a6550d97b87997977ee'' in
      rbind (ext_ed_from_seed ed seed) (\<lambda>keypair.
      rbind (slice_range (ED_SECRET_KEY_LENGTH ed) (ED_KEYPAIR_LENGTH ed) keypair) (\<lambda>public.
        assert (public = expected))))"

definition ed_can_sign_message ::
    "('sk, 'pk, 'kp, 'sig) ed_api \<Rightarrow> (nat \<Rightarrow> u8) \<Rightarrow> unit res"
where
  "ed_can_sign_message ed random =
     (let seed = generate_random_seed random in
      rbind (ext_ed_from_seed ed seed) (\<lambda>keypair.
      rbind (slice_range 0 (ED_SECRET_KEY_LENGTH ed) keypair) (\<lambda>private.
      rbind (slice_range (ED_SECRET_KEY_LENGTH ed) (ED_KEYPAIR_LENGTH ed) keypair) (\<lambda>public.
      let message = lit ''this is a message'' in
      rbind (ext_ed_sign ed public private message) (\<lambda>signature.
        assert (length signature = ED_SIGNATURE_LENGTH ed))))))"

definition ed_can_verify_message ::
    "('sk, 'pk, 'kp, 'sig) ed_api \<Rightarrow> (nat \<Rightarrow> u8) \<Rightarrow> unit res"
where
  "ed_can_verify_message ed random =
     (let seed = generate_random_seed random in
      rbind (ext_ed_from_seed ed seed) (\<lambda>keypair.
      rbind (slice_range 0 (ED_SECRET_KEY_LENGTH ed) keypair) (\<lambda>private.
      rbind (slice_range (ED_SECRET_KEY_LENGTH ed) (ED_KEYPAIR_LENGTH ed) keypair) (\<lambda>public.
      let message = lit ''this is a message'' in
      rbind (ext_ed_sign ed public private message) (\<lambda>signature.
      rbind (ext_ed_verify ed signature message public) (\<lambda>is_valid. assert is_valid))))))"

definition ed_can_verify_known ::
    "('sk, 'pk, 'kp, 'sig) ed_api \<Rightarrow> unit res"
where
  "ed_can_verify_known ed =
     (let public = hex_lit ''2f8c6129d816cf51c374bc7f08c3e63ed156cf78aefb4a6550d97b87997977ee'';
          message = lit ''this is a message'';
          signature = hex_lit ''90588f3f512496f2dd40571d162e8182860081c74e2085316e7c4396918f07da412ee029978e4dd714057fe973bd9e7d645148bf7b66680d67c93227cde95202'' in
      rbind (ext_ed_verify ed signature message public) (\<lambda>is_valid. assert is_valid))"

definition ed_can_verify_known_wrong ::
    "('sk, 'pk, 'kp, 'sig) ed_api \<Rightarrow> unit res"
where
  "ed_can_verify_known_wrong ed =
     (let public = hex_lit ''2f8c6129d816cf51c374bc7f08c3e63ed156cf78aefb4a6550d97b87997977ee'';
          message = lit ''this is a message'';
          signature = replicate 64 0 in
      rbind (ext_ed_verify ed signature message public) (\<lambda>is_valid. assert (is_valid = False)))"

subsection \<open>\<open>sr25519.rs\<close>\<close>

definition sr_can_create_keypair ::
    "('msk, 'sk, 'pk, 'kp, 'sig) sr_api \<Rightarrow> (nat \<Rightarrow> u8) \<Rightarrow> unit res"
where
  "sr_can_create_keypair sr random =
     (let seed = generate_random_seed random in
      rbind (ext_sr_from_seed sr seed) (\<lambda>keypair. assert (length keypair = KEYPAIR_LENGTH sr)))"

definition sr_creates_pair_from_known_seed ::
    "('msk, 'sk, 'pk, 'kp, 'sig) sr_api \<Rightarrow> unit res"
where
  "sr_creates_pair_from_known_seed sr =
     (let seed = hex_lit ''fac7959dbfe72f052e5a0c3c8d6530f202b02fd8f9f5ca3580ec8deb7797479e'';
          expected = hex_lit ''46ebddef8cd9bb167dc30878d7113b7e168e6f0646beffd77d69d39bad76b47a'' in
      rbind (ext_sr_from_seed sr seed) (\<lambda>keypair.
      rbind (slice_range (SECRET_KEY_LENGTH sr) (KEYPAIR_LENGTH sr) keypair) (\<lambda>public.
        assert (public = expected))))"

definition sr_create_pair_from_known_pair ::
    "('msk, 'sk, 'pk, 'kp, 'sig) sr_api \<Rightarrow> unit res"
where
  "sr_create_pair_from_known_pair sr =
     (let input = hex_lit ''28b0ae221c6bb06856b287f60d7ea0d98552ea5a16db16956849aa371db3eb51fd190cce74df356432b410bd64682309d6dedb27c76845daf388557cbac3ca3446ebddef8cd9bb167dc30878d7113b7e168e6f0646beffd77d69d39bad76b47a'' in
      rbind (ext_sr_from_pair sr input) (\<lambda>keypair.
      let expected = hex_lit ''46ebddef8cd9bb167dc30878d7113b7e168e6f0646beffd77d69d39bad76b47a'' in
      rbind (slice_range (SECRET_KEY_LENGTH sr) (KEYPAIR_LENGTH sr) keypair) (\<lambda>public.
        assert (public = expected))))"

definition sr_can_sign_message ::
    "('msk, 'sk, 'pk, 'kp, 'sig) sr_api \<Rightarrow> bytes \<Rightarrow> (nat \<Rightarrow> u8) \<Rightarrow> unit res"
where
  "sr_can_sign_message sr rng random =
     (let seed = generate_random_seed random in
      rbind (ext_sr_from_seed sr seed) (\<lambda>keypair.
      rbind (slice_range 0 (SECRET_KEY_LENGTH sr) keypair) (\<lambda>private.
      rbind (slice_range (SECRET_KEY_LENGTH sr) (KEYPAIR_LENGTH sr) keypair) (\<lambda>public.
      let message = lit ''this is a message'' in
      rbind (ext_sr_sign sr rng public private message) (\<lambda>signature.
        assert (length signature = SIGNATURE_LENGTH sr))))))"

definition sr_can_verify_message ::
    "('msk, 'sk, 'pk, 'kp, 'sig) sr_api \<Rightarrow> bytes \<Rightarrow> (nat \<Rightarrow> u8) \<Rightarrow> unit res"
where
  "sr_can_verify_message sr rng random =
     (let seed = generate_random_seed random in
      rbind (ext_sr_from_seed sr seed) (\<lambda>keypair.
      rbind (slice_range 0 (SECRET_KEY_LENGTH sr) keypair) (\<lambda>private.
      rbind (slice_range (SECRET_KEY_LENGTH sr) (KEYPAIR_LENGTH sr) keypair) (\<lambda>public.
      let message = lit ''this is a message'' in
      rbind (ext_sr_sign sr rng public private message) (\<lambda>signature.
      let is_valid = ext_sr_verify sr signature message public in assert is_valid)))))"

definition sr_can_verify_known_message ::
    "('msk, 'sk, 'pk, 'kp, 'sig) sr_api \<Rightarrow> unit res"
where
  "sr_can_verify_known_message sr =
     (let message = lit ''I hereby verify that I control 5GrwvaEF5zXb26Fz9rcQpDWS57CtERHpNehXCPcNoHGKutQY'';
          public = hex_lit ''d43593c715fdd31c61141abd04a99fd6822c8558854ccde39a5684e7a56da27d'';
          signature = hex_lit ''1037eb7e51613d0dcf5930ae518819c87d655056605764840d9280984e1b7063c4566b55bf292fcab07b369d01095879b50517beca4d26e6a65866e25fec0d83'';
          is_valid = ext_sr_verify sr signature message public in
      assert is_valid)"

definition sr_can_verify_known_message_2 ::
    "('msk, 'sk, 'pk, 'kp, 'sig) sr_api \<Rightarrow> unit res"
where
  "sr_can_verify_known_message_2 sr =
     (let message = hex_lit ''68656c6c6f20776f726c64'';
          public = hex_lit ''3d0c37d300d361c7042511d551afa617fbc790d21353ba01c4e70e9cab2e8d92'';
          signature = hex_lit ''ca01419b5a17219f7b78335658cab3b126db523a5df7be4bfc2bef76c2eb3b1dcf4ca86eb877d0a6cf6df12db5995c51d13b00e005d053b892bd09c594434288'';
          is_valid = ext_sr_verify sr signature message public in
      assert (is_valid = False))"

definition soft_derives_pair ::
    "('msk, 'sk, 'pk, 'kp, 'sig) sr_api \<Rightarrow> bytes \<Rightarrow> unit res"
where
  "soft_derives_pair sr rng =
     (let cc = hex_lit ''0c666f6f00000000000000000000000000000000000000000000000000000000'';
          seed = hex_lit ''fac7959dbfe72f052e5a0c3c8d6530f202b02fd8f9f5ca3580ec8deb7797479e'';
          expected = hex_lit ''40b9675df90efa6069ff623b0fdfcf706cd47ca7452a5056c7ad58194d23440a'' in
      rbind (ext_sr_from_seed sr seed) (\<lambda>keypair.
      rbind (ext_sr_derive_keypair_soft sr rng keypair cc) (\<lambda>derived.
      rbind (slice_range (SECRET_KEY_LENGTH sr) (KEYPAIR_LENGTH sr) derived) (\<lambda>public.
        assert (public = expected)))))"

definition soft_derives_public ::
    "('msk, 'sk, 'pk, 'kp, 'sig) sr_api \<Rightarrow> unit res"
where
  "soft_derives_public sr =
     (let cc = hex_lit ''0c666f6f00000000000000000000000000000000000000000000000000000000'';
          public = hex_lit ''46ebddef8cd9bb167dc30878d7113b7e168e6f0646beffd77d69d39bad76b47a'';
          expected = hex_lit ''40b9675df90efa6069ff623b0fdfcf706cd47ca7452a5056c7ad58194d23440a'' in
      rbind (ext_sr_derive_public_soft sr public cc) (\<lambda>derived. assert (derived = expected)))"

definition hard_derives_pair ::
    "('msk, 'sk, 'pk, 'kp, 'sig) sr_api \<Rightarrow> unit res"
where
  "hard_derives_pair sr =
     (let cc = hex_lit ''14416c6963650000000000000000000000000000000000000000000000000000'';
          seed = hex_lit ''fac7959dbfe72f052e5a0c3c8d6530f202b02fd8f9f5ca3580ec8deb7797479e'';
          expected = hex_lit ''d43593c715fdd31c61141abd04a99fd6822c8558854ccde39a5684e7a56da27d'' in
      rbind (ext_sr_from_seed sr seed) (\<lambda>keypair.
      rbind (ext_sr_derive_keypair_hard sr keypair cc) (\<lambda>derived.
      rbind (slice_range (SECRET_KEY_LENGTH sr) (KEYPAIR_LENGTH sr) derived) (\<lambda>public.
        assert (public = expected)))))"

subsection \<open>Properties\<close>

text \<open>
  C38: the tests on random keys never fail. For lawful crates, whatever random bytes the test and
  the crates draw, the Ed25519 and Sr25519 tests that create, sign and verify pass, and so does the
  generation of a phrase.
\<close>

theorem random_tests_pass:
  assumes "ed_laws ed" and "sr_laws sr" and "bip39_laws bp"
  shows "passes (ed_can_create_keypair ed random) \<and> passes (ed_can_sign_message ed random)
    \<and> passes (ed_can_verify_message ed random)
    \<and> passes (sr_can_create_keypair sr random) \<and> passes (sr_can_sign_message sr rng random)
    \<and> passes (sr_can_verify_message sr rng random)
    \<and> passes (can_bip39_generate bp rng)"
proof -
  let ?seed = "generate_random_seed random" and ?m = "lit ''this is a message''"
  have seed: "length ?seed = 32" by simp
  have "passes (ed_can_create_keypair ed random)" "passes (ed_can_sign_message ed random)"
      "passes (ed_can_verify_message ed random)"
    by (rule ed25519.seed_parts [OF assms(1) seed, of ?m];
        simp add: ed_can_create_keypair_def ed_can_sign_message_def ed_can_verify_message_def Let_def
          ed_lawsD(11,12,13) [OF assms(1)] del: lit_simps)+
  moreover have "passes (sr_can_create_keypair sr random)" "passes (sr_can_sign_message sr rng random)"
      "passes (sr_can_verify_message sr rng random)"
    by (rule sr25519.seed_parts [of "(sr, rng)", OF _ seed, of ?m];
        use assms(2) in \<open>simp add: sr_can_create_keypair_def sr_can_sign_message_def
          sr_can_verify_message_def Let_def sr_lawsD(15,16,18) [OF assms(2)] del: lit_simps\<close>)+
  moreover have "passes (can_bip39_generate bp rng)"
    using ext_bip39_generate_cases [OF assms(3), of 12 rng]
    by (auto simp: can_bip39_generate_def ext_bip39_validate_iff [OF assms(3)])
  ultimately show ?thesis by blast
qed

theorem random_tests_pass_witness:
  "passes (ed_can_verify_message ref_ed (\<lambda>n. word_of_nat (7 * n)))
   \<and> passes (sr_can_verify_message ref_sr [1, 2] (\<lambda>n. word_of_nat n))"
  using random_tests_pass [OF ref_ed_laws ref_sr_laws ref_bip39_laws] by blast

text \<open>
  The two soft derivation tests of Sr25519 test one thing. Where the known seed has its known
  public key, \<open>soft_derives_pair\<close> passes exactly when \<open>soft_derives_public\<close> does.
\<close>

theorem soft_tests_agree:
  assumes "sr_laws sr" and "passes (sr_creates_pair_from_known_seed sr)"
  shows "passes (soft_derives_pair sr rng) \<longleftrightarrow> passes (soft_derives_public sr)"
proof -
  define seed cc public where "seed = hex_lit ''fac7959dbfe72f052e5a0c3c8d6530f202b02fd8f9f5ca3580ec8deb7797479e''"
    and "cc = hex_lit ''0c666f6f00000000000000000000000000000000000000000000000000000000''"
    and "public = hex_lit ''46ebddef8cd9bb167dc30878d7113b7e168e6f0646beffd77d69d39bad76b47a''"
  note known = this [symmetric]
  have "length seed = 32" "length cc = 32" by (simp_all add: seed_def cc_def)
  then obtain kp where kp: "ext_sr_from_seed sr seed = Inr kp" "length kp = 96"
      "ext_sr_from_pair sr kp = Inr kp"
    using sr25519.keypair_ok [of "(sr, [])" seed] assms(1)
    by (auto simp: canonical_pair ext_sr_from_seed_eq)
  have public: "drop 64 kp = public"
    using assms(2) kp by (simp add: sr_creates_pair_from_known_seed_def known slice_range_def
        sr_lawsD(15,16) [OF assms(1)])
  obtain d where d: "ext_sr_derive_keypair_soft sr rng kp cc = Inr d" "ext_sr_from_pair sr d = Inr d"
      "ext_sr_derive_public_soft sr public cc = Inr (drop 64 d)"
    using soft_step [OF assms(1) kp(3) \<open>length cc = 32\<close>] public by metis
  have "length d = 96" using d(2) sr_lawsD(2) [OF assms(1)] by (auto simp: canonical_pair [OF assms(1)])
  then show ?thesis
    using d kp(1) by (simp add: soft_derives_pair_def soft_derives_public_def known slice_range_def
        sr_lawsD(15,16) [OF assms(1)])
qed

theorem soft_tests_agree_witness:
  "passes (soft_derives_pair (ref_sr_with (\<lambda>m. word_le
       (hex_lit ''46ebddef8cd9bb167dc30878d7113b7e168e6f0646beffd77d69d39bad76b47a''))) [])
   \<longleftrightarrow> passes (soft_derives_public (ref_sr_with (\<lambda>m. word_le
       (hex_lit ''46ebddef8cd9bb167dc30878d7113b7e168e6f0646beffd77d69d39bad76b47a''))))"
  (is "passes (soft_derives_pair ?sr []) \<longleftrightarrow> _")
proof (rule soft_tests_agree)
  show "sr_laws ?sr" by simp
  let ?pk = "hex_lit ''46ebddef8cd9bb167dc30878d7113b7e168e6f0646beffd77d69d39bad76b47a''"
  have len: "length ?pk = 32" by simp
  have "bytes_le 32 (word_le ?pk :: 256 word) = ?pk"
    by (rule bytes_le_word_le [where 'a = 256, of ?pk, unfolded len]) simp
  then show "passes (sr_creates_pair_from_known_seed ?sr)"
    by (simp add: sr_creates_pair_from_known_seed_def ext_sr_from_seed_def ref_sr_with_def of_len_def slice_range_def
        del: bytes_le.simps)
qed

end
