(* ===== verification/Bip32_Tests.thy ===== *)
theory Bip32_Tests
  imports Bip32 Ed25519 Test_Harness
begin

section \<open>The unit tests of \<open>bip32.rs\<close>\<close>

text \<open>
  The four tests as programs. \<open>check_node\<close> is the block of assertions that follows every
  derivation: depth, child index, chain code, secret key, public key. The two vector tests are
  then characterised exactly: they pass if and only if the SLIP-0010 specification of \<open>Bip32\<close>
  gives the six published nodes of the vector. What is asserted besides (depths, indices) never
  fails.
\<close>

definition check_node ::
    "hex_api \<Rightarrow> ('sk, 'pk, 'kp, 'sig) ed_api \<Rightarrow> 'sk ExtendedSecretKey
       \<Rightarrow> u8 \<Rightarrow> child_index \<Rightarrow> string \<Rightarrow> string \<Rightarrow> string \<Rightarrow> unit res"
where
  "check_node hx ed node d ci cc sk pk =
     rbind (assert (depth node = d)) (\<lambda>u.
     rbind (assert (child_index node = ci)) (\<lambda>u.
     rbind (hex_str hx (lit cc)) (\<lambda>code.
     rbind (assert (chain_code node = code)) (\<lambda>u.
     rbind (hex_str hx (lit sk)) (\<lambda>s.
     rbind (unwrap (ed_sk_from_bytes ed s)) (\<lambda>secret.
     rbind (assert (ed_sk_to_bytes ed (secret_key node) = ed_sk_to_bytes ed secret)) (\<lambda>u.
     rbind (hex_str hx (lit pk)) (\<lambda>p.
     rbind (unwrap (ed_pk_from_bytes ed p)) (\<lambda>public.
       assert (ed_pk_to_bytes ed (public_key ed node) = ed_pk_to_bytes ed public))))))))))"

definition vector1_seed :: string where
  "vector1_seed = ''000102030405060708090a0b0c0d0e0f''"

definition vector2_seed :: string where
  "vector2_seed = ''fffcf9f6f3f0edeae7e4e1dedbd8d5d2cfccc9c6c3c0bdbab7b4b1aeaba8a5a29f9c999693908d8a8784817e7b7875726f6c696663605d5a5754514e4b484542''"

definition vector1_path :: bytes where
  "vector1_path = lit (''m/0'/1'/2'/2'/1000000000'' @ [CHR 0x27])"

definition vector2_path :: bytes where
  "vector2_path = lit (''m/0'/2147483647'/1'/2147483646'/2'' @ [CHR 0x27])"

definition derivation_path ::
    "profile \<Rightarrow> hex_api \<Rightarrow> ('sk, 'pk, 'kp, 'sig) ed_api \<Rightarrow> 'mac hmac_api \<Rightarrow> dp_api
       \<Rightarrow> ('ssk, 'spk, 'msg, 'rid, 'rsig) secp_api \<Rightarrow> unit res"
where
  "derivation_path prof hx ed hm dp sp =
     rbind (unwrap (dp_parse dp vector1_path)) (\<lambda>path1.
     rbind (unwrap (dp_parse dp vector2_path)) (\<lambda>path2.
     rbind (root hx ed hm (lit vector1_seed)) (\<lambda>r.
     rbind (unwrap_result (derive prof ed hm dp r path1)) (\<lambda>node.
     rbind (check_node hx ed node 5 (Hardened 1000000000)
         ''68789923a0cac2cd5a29172a475fe9e0fb14cd6adb5ad98a3fa70333e7afa230''
         ''8f94d394a8e8fd6b1bc2f3f49f5c47e385281d5c17e65324b0f62483e37e8793''
         ''3c24da049451555d51a7014a37337aa4e12d41e485abccfa46b47dfb2af54b7a'') (\<lambda>u.
     rbind (public_key_secp256k1 ed sp node) (\<lambda>pk256.
     rbind (hex_str hx (lit ''0215197801d5ba7001d143183d04bf4e675be6c24b5101fc89de1659d50dbbaa24'')) (\<lambda>e.
     rbind (assert (pk256 = e)) (\<lambda>u.
     rbind (root hx ed hm (lit vector2_seed)) (\<lambda>r.
     rbind (unwrap_result (derive prof ed hm dp r path2)) (\<lambda>node.
       check_node hx ed node 5 (Hardened 2)
         ''5d70af781f3a37b829f0d060924d5e960bdc02e85423494afc0b1a41bbe196d4''
         ''551d333177df541ad876a60ea71f00447931c0a9da16f227c11ea080d7391b8d''
         ''47150c75db263559a70d5778bf36abbab30fb061ad69f69ece61a72b0cfa4fc0''))))))))))"

text \<open>\<open>matches!(res, Err(Error::ExpectedHardenedIndex(ChildIndex::Normal(n))))\<close>\<close>

definition expected_hardened :: "u32 \<Rightarrow> error + 'k \<Rightarrow> bool" where
  "expected_hardened n res =
     (case res of Inl (ExpectedHardenedIndex (Normal m)) \<Rightarrow> m = n | _ \<Rightarrow> False)"

definition soft_path_text :: bytes where
  "soft_path_text = lit (''m/0'/1'/2'/3/4'' @ [CHR 0x27])"

definition normal_errs ::
    "profile \<Rightarrow> hex_api \<Rightarrow> ('sk, 'pk, 'kp, 'sig) ed_api \<Rightarrow> 'mac hmac_api \<Rightarrow> dp_api \<Rightarrow> unit res"
where
  "normal_errs prof hx ed hm dp =
     rbind (root hx ed hm (lit vector1_seed)) (\<lambda>node.
     rbind (derive_child prof ed hm dp node (Normal 0)) (\<lambda>res.
     rbind (assert (expected_hardened 0 res)) (\<lambda>u.
     rbind (derive_child prof ed hm dp node (Normal 100000)) (\<lambda>res.
     rbind (assert (expected_hardened 100000 res)) (\<lambda>u.
     rbind (unwrap (dp_parse dp soft_path_text)) (\<lambda>soft_path.
     rbind (derive prof ed hm dp node soft_path) (\<lambda>res.
       assert (expected_hardened 3 res))))))))"

definition vector1 ::
    "profile \<Rightarrow> hex_api \<Rightarrow> ('sk, 'pk, 'kp, 'sig) ed_api \<Rightarrow> 'mac hmac_api \<Rightarrow> dp_api \<Rightarrow> unit res"
where
  "vector1 prof hx ed hm dp =
     rbind (root hx ed hm (lit vector1_seed)) (\<lambda>node.
     rbind (check_node hx ed node 0 (Normal 0)
         ''90046a93de5380a72b5e45010748567d5ea02bbf6522f979e05c0d8d8ca9fffb''
         ''2b4be7f19ee27bbf30c667b642d5f4aa69fd169872f8fc3059c08ebae2eb19e7''
         ''a4b2856bfec510abab89753fac1ac0e1112364e7d250545963f135f2a33188ed'') (\<lambda>u.
     rbind (unwrap_result (derive_child prof ed hm dp node (Hardened 0))) (\<lambda>node.
     rbind (check_node hx ed node 1 (Hardened 0)
         ''8b59aa11380b624e81507a27fedda59fea6d0b779a778918a2fd3590e16e9c69''
         ''68e0fe46dfb67e368c75379acec591dad19df3cde26e63b93a8e704f1dade7a3''
         ''8c8a13df77a28f3445213a0f432fde644acaa215fc72dcdf300d5efaa85d350c'') (\<lambda>u.
     rbind (unwrap_result (derive_child prof ed hm dp node (Hardened 1))) (\<lambda>node.
     rbind (check_node hx ed node 2 (Hardened 1)
         ''a320425f77d1b5c2505a6b1b27382b37368ee640e3557c315416801243552f14''
         ''b1d0bad404bf35da785a64ca1ac54b2617211d2777696fbffaf208f746ae84f2''
         ''1932a5270f335bed617d5b935c80aedb1a35bd9fc1e31acafd5372c30f5c1187'') (\<lambda>u.
     rbind (unwrap_result (derive_child prof ed hm dp node (Hardened 2))) (\<lambda>node.
     rbind (check_node hx ed node 3 (Hardened 2)
         ''2e69929e00b5ab250f49c3fb1c12f252de4fed2c1db88387094a0f8c4c9ccd6c''
         ''92a5b23c0b8a99e37d07df3fb9966917f5d06e02ddbd909c7e184371463e9fc9''
         ''ae98736566d30ed0e9d2f4486a64bc95740d89c7db33f52121f8ea8f76ff0fc1'') (\<lambda>u.
     rbind (unwrap_result (derive_child prof ed hm dp node (Hardened 2))) (\<lambda>node.
     rbind (check_node hx ed node 4 (Hardened 2)
         ''8f6d87f93d750e0efccda017d662a1b31a266e4a6f5993b15f5c1f07f74dd5cc''
         ''30d1dc7e5fc04c31219ab25a27ae00b50f6fd66622f6e9c913253d6511d1e662''
         ''8abae2d66361c879b900d204ad2cc4984fa2aa344dd7ddc46007329ac76c429c'') (\<lambda>u.
     rbind (unwrap_result (derive_child prof ed hm dp node (Hardened 1000000000))) (\<lambda>node.
       check_node hx ed node 5 (Hardened 1000000000)
         ''68789923a0cac2cd5a29172a475fe9e0fb14cd6adb5ad98a3fa70333e7afa230''
         ''8f94d394a8e8fd6b1bc2f3f49f5c47e385281d5c17e65324b0f62483e37e8793''
         ''3c24da049451555d51a7014a37337aa4e12d41e485abccfa46b47dfb2af54b7a'')))))))))))"

definition vector2 ::
    "profile \<Rightarrow> hex_api \<Rightarrow> ('sk, 'pk, 'kp, 'sig) ed_api \<Rightarrow> 'mac hmac_api \<Rightarrow> dp_api \<Rightarrow> unit res"
where
  "vector2 prof hx ed hm dp =
     rbind (root hx ed hm (lit vector2_seed)) (\<lambda>node.
     rbind (check_node hx ed node 0 (Normal 0)
         ''ef70a74db9c3a5af931b5fe73ed8e1a53464133654fd55e7a66f8570b8e33c3b''
         ''171cb88b1b3c1db25add599712e36245d75bc65a1a5c9e18d76f9f2b1eab4012''
         ''8fe9693f8fa62a4305a140b9764c5ee01e455963744fe18204b4fb948249308a'') (\<lambda>u.
     rbind (unwrap_result (derive_child prof ed hm dp node (Hardened 0))) (\<lambda>node.
     rbind (check_node hx ed node 1 (Hardened 0)
         ''0b78a3226f915c082bf118f83618a618ab6dec793752624cbeb622acb562862d''
         ''1559eb2bbec5790b0c65d8693e4d0875b1747f4970ae8b650486ed7470845635''
         ''86fab68dcb57aa196c77c5f264f215a112c22a912c10d123b0d03c3c28ef1037'') (\<lambda>u.
     rbind (unwrap_result (derive_child prof ed hm dp node (Hardened 2147483647))) (\<lambda>node.
     rbind (check_node hx ed node 2 (Hardened 2147483647)
         ''138f0b2551bcafeca6ff2aa88ba8ed0ed8de070841f0c4ef0165df8181eaad7f''
         ''ea4f5bfe8694d8bb74b7b59404632fd5968b774ed545e810de9c32a4fb4192f4''
         ''5ba3b9ac6e90e83effcd25ac4e58a1365a9e35a3d3ae5eb07b9e4d90bcf7506d'') (\<lambda>u.
     rbind (unwrap_result (derive_child prof ed hm dp node (Hardened 1))) (\<lambda>node.
     rbind (check_node hx ed node 3 (Hardened 1)
         ''73bd9fff1cfbde33a1b846c27085f711c0fe2d66fd32e139d3ebc28e5a4a6b90''
         ''3757c7577170179c7868353ada796c839135b3d30554bbb74a4b1e4a5a58505c''
         ''2e66aa57069c86cc18249aecf5cb5a9cebbfd6fadeab056254763874a9352b45'') (\<lambda>u.
     rbind (unwrap_result (derive_child prof ed hm dp node (Hardened 2147483646))) (\<lambda>node.
     rbind (check_node hx ed node 4 (Hardened 2147483646)
         ''0902fe8a29f9140480a00ef244bd183e8a13288e4412d8389d140aac1794825a''
         ''5837736c89570de861ebc173b1086da4f505d4adb387c6a1b1342d5e4ac9ec72''
         ''e33c0f7d81d843c572275f287498e8d408654fdf0d1e065b84e2e6f157aab09b'') (\<lambda>u.
     rbind (unwrap_result (derive_child prof ed hm dp node (Hardened 2))) (\<lambda>node.
       check_node hx ed node 5 (Hardened 2)
         ''5d70af781f3a37b829f0d060924d5e960bdc02e85423494afc0b1a41bbe196d4''
         ''551d333177df541ad876a60ea71f00447931c0a9da16f227c11ea080d7391b8d''
         ''47150c75db263559a70d5778bf36abbab30fb061ad69f69ece61a72b0cfa4fc0'')))))))))))"

subsection \<open>The specification of a vector\<close>

text \<open>
  A published vector: child numbers, and for every node from the master on the secret key, the
  chain code and the public key.
\<close>

definition published_node ::
    "('sk, 'pk, 'kp, 'sig) ed_api \<Rightarrow> bytes \<times> bytes \<Rightarrow> string \<times> string \<times> string \<Rightarrow> bool"
where
  "published_node ed nd v = (case v of (sk, cc, pk) \<Rightarrow>
     nd = (hex_lit sk, hex_lit cc) \<and> ed_public ed (hex_lit sk) = hex_lit pk)"

fun slip10_vector ::
    "('sk, 'pk, 'kp, 'sig) ed_api \<Rightarrow> 'mac hmac_api \<Rightarrow> bytes \<times> bytes \<Rightarrow> u32 list
       \<Rightarrow> (string \<times> string \<times> string) list \<Rightarrow> bool"
where
  "slip10_vector ed hm nd ns [] = False"
| "slip10_vector ed hm nd ns (v # rest) \<longleftrightarrow> published_node ed nd v
     \<and> (case ns of [] \<Rightarrow> rest = [] | n # ns' \<Rightarrow> slip10_vector ed hm (slip10_child hm nd n) ns' rest)"

lemma slip10_vector_last:
  "slip10_vector ed hm nd ns nodes \<Longrightarrow> published_node ed (foldl (slip10_child hm) nd ns) (last nodes)"
proof (induction ed hm nd ns nodes rule: slip10_vector.induct)
  case (2 ed hm nd ns v rest)
  then show ?case by (cases ns; cases rest) auto
qed simp

definition vector1_nodes :: "(string \<times> string \<times> string) list" where
  "vector1_nodes = [
     (''2b4be7f19ee27bbf30c667b642d5f4aa69fd169872f8fc3059c08ebae2eb19e7'',
      ''90046a93de5380a72b5e45010748567d5ea02bbf6522f979e05c0d8d8ca9fffb'',
      ''a4b2856bfec510abab89753fac1ac0e1112364e7d250545963f135f2a33188ed''),
     (''68e0fe46dfb67e368c75379acec591dad19df3cde26e63b93a8e704f1dade7a3'',
      ''8b59aa11380b624e81507a27fedda59fea6d0b779a778918a2fd3590e16e9c69'',
      ''8c8a13df77a28f3445213a0f432fde644acaa215fc72dcdf300d5efaa85d350c''),
     (''b1d0bad404bf35da785a64ca1ac54b2617211d2777696fbffaf208f746ae84f2'',
      ''a320425f77d1b5c2505a6b1b27382b37368ee640e3557c315416801243552f14'',
      ''1932a5270f335bed617d5b935c80aedb1a35bd9fc1e31acafd5372c30f5c1187''),
     (''92a5b23c0b8a99e37d07df3fb9966917f5d06e02ddbd909c7e184371463e9fc9'',
      ''2e69929e00b5ab250f49c3fb1c12f252de4fed2c1db88387094a0f8c4c9ccd6c'',
      ''ae98736566d30ed0e9d2f4486a64bc95740d89c7db33f52121f8ea8f76ff0fc1''),
     (''30d1dc7e5fc04c31219ab25a27ae00b50f6fd66622f6e9c913253d6511d1e662'',
      ''8f6d87f93d750e0efccda017d662a1b31a266e4a6f5993b15f5c1f07f74dd5cc'',
      ''8abae2d66361c879b900d204ad2cc4984fa2aa344dd7ddc46007329ac76c429c''),
     (''8f94d394a8e8fd6b1bc2f3f49f5c47e385281d5c17e65324b0f62483e37e8793'',
      ''68789923a0cac2cd5a29172a475fe9e0fb14cd6adb5ad98a3fa70333e7afa230'',
      ''3c24da049451555d51a7014a37337aa4e12d41e485abccfa46b47dfb2af54b7a'')]"

definition vector2_nodes :: "(string \<times> string \<times> string) list" where
  "vector2_nodes = [
     (''171cb88b1b3c1db25add599712e36245d75bc65a1a5c9e18d76f9f2b1eab4012'',
      ''ef70a74db9c3a5af931b5fe73ed8e1a53464133654fd55e7a66f8570b8e33c3b'',
      ''8fe9693f8fa62a4305a140b9764c5ee01e455963744fe18204b4fb948249308a''),
     (''1559eb2bbec5790b0c65d8693e4d0875b1747f4970ae8b650486ed7470845635'',
      ''0b78a3226f915c082bf118f83618a618ab6dec793752624cbeb622acb562862d'',
      ''86fab68dcb57aa196c77c5f264f215a112c22a912c10d123b0d03c3c28ef1037''),
     (''ea4f5bfe8694d8bb74b7b59404632fd5968b774ed545e810de9c32a4fb4192f4'',
      ''138f0b2551bcafeca6ff2aa88ba8ed0ed8de070841f0c4ef0165df8181eaad7f'',
      ''5ba3b9ac6e90e83effcd25ac4e58a1365a9e35a3d3ae5eb07b9e4d90bcf7506d''),
     (''3757c7577170179c7868353ada796c839135b3d30554bbb74a4b1e4a5a58505c'',
      ''73bd9fff1cfbde33a1b846c27085f711c0fe2d66fd32e139d3ebc28e5a4a6b90'',
      ''2e66aa57069c86cc18249aecf5cb5a9cebbfd6fadeab056254763874a9352b45''),
     (''5837736c89570de861ebc173b1086da4f505d4adb387c6a1b1342d5e4ac9ec72'',
      ''0902fe8a29f9140480a00ef244bd183e8a13288e4412d8389d140aac1794825a'',
      ''e33c0f7d81d843c572275f287498e8d408654fdf0d1e065b84e2e6f157aab09b''),
     (''551d333177df541ad876a60ea71f00447931c0a9da16f227c11ea080d7391b8d'',
      ''5d70af781f3a37b829f0d060924d5e960bdc02e85423494afc0b1a41bbe196d4'',
      ''47150c75db263559a70d5778bf36abbab30fb061ad69f69ece61a72b0cfa4fc0'')]"

subsection \<open>The assertions\<close>

definition hex_key :: "string \<Rightarrow> bool" where
  "hex_key s \<longleftrightarrow> lower_hex s \<and> length s = 64"

lemma hex_key_lit: "hex_laws hx \<Longrightarrow> hex_key s \<Longrightarrow> hex_str hx (lit s) = Inr (hex_lit s)"
  by (simp add: hex_str_def from_hex_lit hex_key_def)

lemma check_node_iff:
  assumes "hex_laws hx" "ed_laws ed" "wf_key ed node" "hex_key cc" "hex_key sk" "hex_key pk"
  shows "passes (check_node hx ed node d ci cc sk pk) \<longleftrightarrow>
    depth node = d \<and> child_index node = ci \<and> published_node ed (node_of ed node) (sk, cc, pk)"
proof -
  have "length (hex_lit sk) = 32" using assms(5) by (simp add: hex_key_def)
  then obtain s where s: "ed_sk_from_bytes ed (hex_lit sk) = Some s" "ed_sk_to_bytes ed s = hex_lit sk"
    using ed_sk_from_bytes_ok [OF assms(2)] ed_lawsD(2) [OF assms(2)] by blast
  have same: "s = secret_key node" if "ed_sk_to_bytes ed (secret_key node) = hex_lit sk"
    using assms(3) s(1) that by (simp add: wf_key_def)
  have "passes (check_node hx ed node d ci cc sk pk) \<longleftrightarrow> depth node = d \<and> child_index node = ci
      \<and> chain_code node = hex_lit cc \<and> ed_sk_to_bytes ed (secret_key node) = hex_lit sk
      \<and> (\<exists>p. ed_pk_from_bytes ed (hex_lit pk) = Some p
           \<and> ed_pk_to_bytes ed (ed_pk_of_sk ed (secret_key node)) = ed_pk_to_bytes ed p)"
    by (simp add: check_node_def hex_key_lit [OF assms(1)] assms(4-6) s public_key_def passes_unwrap)
  also have "(\<exists>p. ed_pk_from_bytes ed (hex_lit pk) = Some p
           \<and> ed_pk_to_bytes ed (ed_pk_of_sk ed (secret_key node)) = ed_pk_to_bytes ed p)
      \<longleftrightarrow> ed_pk_to_bytes ed (ed_pk_of_sk ed (secret_key node)) = hex_lit pk"
    using ed_lawsD(4) [OF assms(2), of "secret_key node"] ed_lawsD(14) [OF assms(2), of "hex_lit pk"]
    by (metis option.inject)
  also have "ed_sk_to_bytes ed (secret_key node) = hex_lit sk
        \<and> ed_pk_to_bytes ed (ed_pk_of_sk ed (secret_key node)) = hex_lit pk
      \<longleftrightarrow> ed_sk_to_bytes ed (secret_key node) = hex_lit sk \<and> ed_public ed (hex_lit sk) = hex_lit pk"
    using same s(1) by (auto simp: ed_public_def)
  finally show ?thesis by (auto simp: published_node_def node_of_def)
qed

subsection \<open>The vector tests as walks\<close>

fun check_chain ::
    "profile \<Rightarrow> hex_api \<Rightarrow> ('sk, 'pk, 'kp, 'sig) ed_api \<Rightarrow> 'mac hmac_api \<Rightarrow> dp_api
       \<Rightarrow> 'sk ExtendedSecretKey \<Rightarrow> u8 \<Rightarrow> child_index \<Rightarrow> u32 list
       \<Rightarrow> (string \<times> string \<times> string) list \<Rightarrow> unit res"
where
  "check_chain prof hx ed hm dp node d ci ns [] = Inr ()"
| "check_chain prof hx ed hm dp node d ci ns ((sk, cc, pk) # rest) =
     rbind (check_node hx ed node d ci cc sk pk) (\<lambda>u.
       case ns of
         [] \<Rightarrow> Inr ()
       | n # ns' \<Rightarrow> rbind (unwrap_result (derive_child prof ed hm dp node (Hardened n))) (\<lambda>node.
           check_chain prof hx ed hm dp node (d + 1) (Hardened n) ns' rest))"

lemma rbind_unit: "rbind m (\<lambda>u. Inr ()) = m"
  by (cases m) simp_all

lemma chain_of_six:
  "rbind r (\<lambda>node.
     rbind (check_node hx ed node 0 (Normal 0) c0 s0 p0) (\<lambda>u.
     rbind (unwrap_result (derive_child prof ed hm dp node (Hardened n1))) (\<lambda>node.
     rbind (check_node hx ed node 1 (Hardened n1) c1 s1 p1) (\<lambda>u.
     rbind (unwrap_result (derive_child prof ed hm dp node (Hardened n2))) (\<lambda>node.
     rbind (check_node hx ed node 2 (Hardened n2) c2 s2 p2) (\<lambda>u.
     rbind (unwrap_result (derive_child prof ed hm dp node (Hardened n3))) (\<lambda>node.
     rbind (check_node hx ed node 3 (Hardened n3) c3 s3 p3) (\<lambda>u.
     rbind (unwrap_result (derive_child prof ed hm dp node (Hardened n4))) (\<lambda>node.
     rbind (check_node hx ed node 4 (Hardened n4) c4 s4 p4) (\<lambda>u.
     rbind (unwrap_result (derive_child prof ed hm dp node (Hardened n5))) (\<lambda>node.
       check_node hx ed node 5 (Hardened n5) c5 s5 p5)))))))))))
   = rbind r (\<lambda>node. check_chain prof hx ed hm dp node 0 (Normal 0) [n1, n2, n3, n4, n5]
       [(s0, c0, p0), (s1, c1, p1), (s2, c2, p2), (s3, c3, p3), (s4, c4, p4), (s5, c5, p5)])"
  by (simp add: rbind_unit)

lemma vector_tests_walk:
  "vector1 prof hx ed hm dp =
     rbind (root hx ed hm (lit vector1_seed)) (\<lambda>node.
       check_chain prof hx ed hm dp node 0 (Normal 0) [0, 1, 2, 2, 1000000000] vector1_nodes)"
  "vector2 prof hx ed hm dp =
     rbind (root hx ed hm (lit vector2_seed)) (\<lambda>node.
       check_chain prof hx ed hm dp node 0 (Normal 0) [0, 2147483647, 1, 2147483646, 2] vector2_nodes)"
  unfolding vector1_def vector1_nodes_def vector2_def vector2_nodes_def by (rule chain_of_six)+

lemma check_chain_iff:
  assumes "hex_laws hx" "ed_laws ed" "hmac_laws hm" "dp_laws dp"
    and "wf_key ed node" "depth node = d" "child_index node = ci" "unat d + length ns \<le> 255"
    and "\<forall>n\<in>set ns. n < 2 ^ 31" "length nodes = Suc (length ns)"
    and "\<forall>(sk, cc, pk)\<in>set nodes. hex_key sk \<and> hex_key cc \<and> hex_key pk"
  shows "passes (check_chain prof hx ed hm dp node d ci ns nodes)
    \<longleftrightarrow> slip10_vector ed hm (node_of ed node) ns nodes"
  using assms(5-11)
proof (induction nodes arbitrary: node d ci ns)
  case (Cons x rest)
  obtain sk cc pk where x: "x = (sk, cc, pk)" by (cases x)
  have "hex_key sk" "hex_key cc" "hex_key pk" using Cons.prems(7) by (simp_all add: x)
  note check = check_node_iff [OF assms(1,2) Cons.prems(1) this(2,1,3), of d ci]
  show ?case
  proof (cases ns)
    case Nil
    then show ?thesis using Cons.prems check by (auto simp: x passes_then)
  next
    case (Cons n ns')
    have "unat (depth node) \<noteq> 255" using Cons.prems(2,4) \<open>ns = n # ns'\<close> by simp
    moreover have "is_hardened (Hardened n)" by simp
    ultimately obtain k where k: "derive_child prof ed hm dp node (Hardened n) = Inr (Inr k)"
        "wf_key ed k" "depth k = d + 1" "child_index k = Hardened n"
        "node_of ed k = slip10_child hm (node_of ed node) n"
      using derive_child_step [OF assms(2-4), of "Hardened n" prof node] Cons.prems(2,5)
        \<open>ns = n # ns'\<close> by auto
    have "unat d < 255" using Cons.prems(4) \<open>ns = n # ns'\<close> by simp
    then have "unat (d + 1) + length ns' \<le> 255"
      using Cons.prems(4) \<open>ns = n # ns'\<close> by (simp add: unat_depth_Suc)
    then have "passes (check_chain prof hx ed hm dp k (d + 1) (Hardened n) ns' rest)
        \<longleftrightarrow> slip10_vector ed hm (node_of ed k) ns' rest"
      using Cons.prems k \<open>ns = n # ns'\<close> by (intro Cons.IH) auto
    then show ?thesis
      using Cons.prems check k \<open>ns = n # ns'\<close> by (auto simp: x passes_then)
  qed
qed simp

subsection \<open>Nodes from the text of a seed\<close>

lemma derive_last_index:
  assumes "ed_laws ed" "hmac_laws hm" "dp_laws dp" "wf_key ed k"
    and "derive prof ed hm dp k p = Inr (Inr k')" "p \<noteq> []"
  shows "wf_key ed k' \<and> child_index k' = last p"
  using assms(4-6)
proof (induction p arbitrary: k)
  case (Cons i p)
  from Cons.prems(2) obtain m where m: "derive_child prof ed hm dp k i = Inr (Inr m)"
      "derive prof ed hm dp m p = Inr (Inr k')"
    by (auto simp: derive_Cons [OF assms(1-3)] try_bind_eq_Ok_iff)
  have hard: "is_hardened i"
    using derive_child_normal [OF assms(3), of i prof ed hm k] m(1) by (cases "is_hardened i") auto
  have "wf_key ed m" "child_index m = i"
    using derive_child_step [OF assms(1-3) hard, of prof k] m(1) by (auto split: if_splits)
  then show ?case using Cons.IH [of m] m(2) by (cases p) (auto simp: derive_def)
qed simp

lemma root_seed:
  assumes "hex_laws hx" "ed_laws ed" "hmac_laws hm" "lower_hex seed"
  obtains m where "root hx ed hm (lit seed) = Inr m" "wf_key ed m" "depth m = 0" "child_index m = Normal 0"
    "node_of ed m = slip10_master hm (hex_lit seed)"
  using from_seed_ok [OF assms(2,3), of "hex_lit seed"] that
  by (auto simp: root_def hex_str_def from_hex_lit [OF assms(1,4)])

lemma node_of_path:
  assumes "hex_laws hx" "ed_laws ed" "hmac_laws hm" "dp_laws dp" "lower_hex seed"
    and "ns \<noteq> []" "length ns \<le> 255" "\<forall>n\<in>set ns. n < 2 ^ 31"
  obtains m k where "root hx ed hm (lit seed) = Inr m"
    "derive prof ed hm dp m (map Hardened ns) = Inr (Inr k)" "wf_key ed k"
    "depth k = of_nat (length ns)" "child_index k = Hardened (last ns)"
    "node_of ed k = foldl (slip10_child hm) (slip10_master hm (hex_lit seed)) ns"
proof -
  obtain m where m: "root hx ed hm (lit seed) = Inr m" "wf_key ed m" "depth m = 0"
      "node_of ed m = slip10_master hm (hex_lit seed)"
    by (rule root_seed [OF assms(1-3,5)])
  have "\<forall>i\<in>set (map Hardened ns). is_hardened i" by simp
  from derive_hardened_path [OF assms(2-4) m(2) this, of prof] m(3) assms(7)
  obtain k where k: "derive prof ed hm dp m (map Hardened ns) = Inr (Inr k)"
      "depth k = of_nat (length ns)" by auto
  then show thesis
    using that [OF m(1) k(1) _ k(2)] derive_last_index [OF assms(2-4) m(2) k(1)]
      derive_hardened_node [OF assms(2-4) m(2) k(1) assms(8)] m(4) assms(6)
    by (simp add: last_map)
qed

lemma hex_key_nodes:
  "\<forall>(sk, cc, pk)\<in>set vector1_nodes. hex_key sk \<and> hex_key cc \<and> hex_key pk"
  "\<forall>(sk, cc, pk)\<in>set vector2_nodes. hex_key sk \<and> hex_key cc \<and> hex_key pk"
  by (simp_all add: vector1_nodes_def vector2_nodes_def hex_key_def)

lemma lower_hex_seeds: "lower_hex vector1_seed" "lower_hex vector2_seed"
  by (simp_all add: vector1_seed_def vector2_seed_def)

definition vector1_indices :: "u32 list" where
  "vector1_indices = [0, 1, 2, 2, 1000000000]"

definition vector2_indices :: "u32 list" where
  "vector2_indices = [0, 2147483647, 1, 2147483646, 2]"

definition vector1_secp :: string where
  "vector1_secp = ''0215197801d5ba7001d143183d04bf4e675be6c24b5101fc89de1659d50dbbaa24''"

text \<open>What the parser of derivation-path makes of the paths of the tests.\<close>

definition parses_test_paths :: "dp_api \<Rightarrow> bool" where
  "parses_test_paths dp \<longleftrightarrow>
     dp_parse dp vector1_path = Some (map Hardened vector1_indices)
     \<and> dp_parse dp vector2_path = Some (map Hardened vector2_indices)
     \<and> dp_parse dp soft_path_text
         = Some [Hardened 0, Hardened 1, Hardened 2, Normal 3, Hardened 4]"

lemma path_dp_parses [simp]: "parses_test_paths path_dp"
  by (simp add: parses_test_paths_def path_dp_def vector1_path_def vector2_path_def soft_path_text_def
      vector1_indices_def vector2_indices_def parse_path_def parse_index_def decimal_def Let_def u8_nat)

lemma vector_indices:
  "vector1_indices \<noteq> []" "length vector1_indices = 5" "\<forall>n\<in>set vector1_indices. n < 2 ^ 31"
  "last vector1_indices = 1000000000"
  "vector2_indices \<noteq> []" "length vector2_indices = 5" "\<forall>n\<in>set vector2_indices. n < 2 ^ 31"
  "last vector2_indices = 2"
  by (simp_all add: vector1_indices_def vector2_indices_def)

lemma public_key_secp256k1_iff:
  assumes "node_of ed k = (sk, cc)"
  shows "public_key_secp256k1 ed sp k = Inr v \<longleftrightarrow>
    (\<exists>s. secp_sk_from_slice sp sk = Some s \<and> secp_pk_serialize sp (secp_pk_from_secret_key sp s) = v)"
  using assms by (auto simp: public_key_secp256k1_def node_of_def rbind_eq_Inr_iff)

lemma derivation_path_iff:
  assumes "hex_laws hx" "ed_laws ed" "hmac_laws hm" "dp_laws dp" "parses_test_paths dp"
  shows "passes (derivation_path prof hx ed hm dp sp) \<longleftrightarrow>
    published_node ed (foldl (slip10_child hm) (slip10_master hm (hex_lit vector1_seed)) vector1_indices)
      (last vector1_nodes)
    \<and> (\<exists>s. secp_sk_from_slice sp (hex_lit (fst (last vector1_nodes))) = Some s
         \<and> secp_pk_serialize sp (secp_pk_from_secret_key sp s) = hex_lit vector1_secp)
    \<and> published_node ed (foldl (slip10_child hm) (slip10_master hm (hex_lit vector2_seed)) vector2_indices)
        (last vector2_nodes)"
proof -
  obtain m1 k1 where 1: "root hx ed hm (lit vector1_seed) = Inr m1"
      "derive prof ed hm dp m1 (map Hardened vector1_indices) = Inr (Inr k1)" "wf_key ed k1"
      "depth k1 = 5" "child_index k1 = Hardened 1000000000"
      "node_of ed k1 = foldl (slip10_child hm) (slip10_master hm (hex_lit vector1_seed)) vector1_indices"
    using node_of_path [OF assms(1-4) lower_hex_seeds(1) vector_indices(1) _ vector_indices(3), of prof]
    by (auto simp: vector_indices)
  obtain m2 k2 where 2: "root hx ed hm (lit vector2_seed) = Inr m2"
      "derive prof ed hm dp m2 (map Hardened vector2_indices) = Inr (Inr k2)" "wf_key ed k2"
      "depth k2 = 5" "child_index k2 = Hardened 2"
      "node_of ed k2 = foldl (slip10_child hm) (slip10_master hm (hex_lit vector2_seed)) vector2_indices"
    using node_of_path [OF assms(1-4) lower_hex_seeds(2) vector_indices(5) _ vector_indices(7), of prof]
    by (auto simp: vector_indices)
  obtain sk1 cc1 pk1 sk2 cc2 pk2 where nodes: "last vector1_nodes = (sk1, cc1, pk1)"
      "last vector2_nodes = (sk2, cc2, pk2)" by (cases "last vector1_nodes", cases "last vector2_nodes")
  have "last vector1_nodes \<in> set vector1_nodes" "last vector2_nodes \<in> set vector2_nodes"
    by (simp_all add: vector1_nodes_def vector2_nodes_def)
  with hex_key_nodes have keys: "hex_key sk1" "hex_key cc1" "hex_key pk1" "hex_key sk2" "hex_key cc2" "hex_key pk2"
    by (force simp: nodes)+
  have secp: "hex_str hx (lit vector1_secp) = Inr (hex_lit vector1_secp)"
    by (simp add: hex_str_def vector1_secp_def from_hex_lit [OF assms(1)] del: lit_simps)
  have test: "derivation_path prof hx ed hm dp sp =
    rbind (check_node hx ed k1 5 (Hardened 1000000000) cc1 sk1 pk1) (\<lambda>u.
    rbind (public_key_secp256k1 ed sp k1) (\<lambda>pk256.
    rbind (assert (pk256 = hex_lit vector1_secp)) (\<lambda>u.
      check_node hx ed k2 5 (Hardened 2) cc2 sk2 pk2)))"
    using nodes 1 2 assms(5) secp
    by (simp add: derivation_path_def parses_test_paths_def vector1_nodes_def vector2_nodes_def
        vector1_secp_def del: lit_simps)
  have key: "public_key_secp256k1 ed sp k1 = Inr v \<longleftrightarrow>
      (\<exists>s. secp_sk_from_slice sp (hex_lit sk1) = Some s \<and> secp_pk_serialize sp (secp_pk_from_secret_key sp s) = v)"
    if "published_node ed (node_of ed k1) (sk1, cc1, pk1)" for v
    using that by (intro public_key_secp256k1_iff) (simp add: published_node_def)
  have "passes (derivation_path prof hx ed hm dp sp) \<longleftrightarrow> published_node ed (node_of ed k1) (sk1, cc1, pk1)
      \<and> public_key_secp256k1 ed sp k1 = Inr (hex_lit vector1_secp)
      \<and> published_node ed (node_of ed k2) (sk2, cc2, pk2)"
    unfolding test
    using check_node_iff [OF assms(1,2) 1(3) keys(2,1,3)] check_node_iff [OF assms(1,2) 2(3) keys(5,4,6)]
    by (auto simp: passes_then passes_rbind 1(4,5) 2(4,5))
  then show ?thesis using key by (auto simp: nodes 1(6) 2(6))
qed

subsection \<open>Crates that answer as published\<close>

text \<open>
  Lawful crates given by tables: an HMAC that answers listed pairs of key and message, and an
  Ed25519 whose public keys are listed. With the tables of a vector the vector tests pass.
\<close>

definition table_hmac :: "((bytes \<times> bytes) \<times> bytes) list \<Rightarrow> (bytes \<times> bytes) hmac_api" where
  "table_hmac t = \<lparr>hmac_new_varkey = (\<lambda>k. Some (k, [])), hmac_input = (\<lambda>(k, m) x. (k, m @ x)),
     hmac_code = (\<lambda>s. pad 64 (case map_of t s of Some v \<Rightarrow> v | None \<Rightarrow> []))\<rparr>"

lemma table_hmac_laws [simp]: "hmac_laws (table_hmac t)"
  by (auto simp: hmac_laws_def table_hmac_def)

lemma hmac_sha512_table:
  "hmac_sha512 (table_hmac t) k m = pad 64 (case map_of t (k, m) of Some v \<Rightarrow> v | None \<Rightarrow> [])"
  by (simp add: hmac_sha512_def table_hmac_def)

lemma halves_pad: "length a = 32 \<Longrightarrow> length b = 32 \<Longrightarrow> halves (pad 64 (a @ b)) = (a, b)"
  by (simp add: halves_def pad_def)

fun vector_table ::
    "bytes \<times> bytes \<Rightarrow> u32 list \<Rightarrow> (string \<times> string \<times> string) list \<Rightarrow> ((bytes \<times> bytes) \<times> bytes) list"
where
  "vector_table q ns [] = []"
| "vector_table q ns ((sk, cc, pk) # rest) = (q, hex_lit sk @ hex_lit cc)
     # (case ns of [] \<Rightarrow> []
        | n # ns' \<Rightarrow> vector_table (hex_lit cc, 0 # hex_lit sk @ to_be_bytes (n + 2 ^ 31)) ns' rest)"

definition table_ed :: "(string \<times> string \<times> string) list \<Rightarrow> ref_ed_api" where
  "table_ed nodes = ref_ed_with (\<lambda>s.
     case map_of (map (\<lambda>(sk, cc, pk). (word_le (hex_lit sk), word_le (hex_lit pk))) nodes) s of
       Some p \<Rightarrow> p | None \<Rightarrow> 0)"

lemma hex_lit_inject: "lower_hex s \<Longrightarrow> lower_hex t \<Longrightarrow> hex_lit s = hex_lit t \<longleftrightarrow> lit s = lit t"
  by (metis hex_text_hex_lit from_hex_text ref_hex_laws option.inject)

lemma word_le_inject:
  "8 * length a = LENGTH('a::len) \<Longrightarrow> length b = length a \<Longrightarrow> word_le a = (word_le b :: 'a word) \<longleftrightarrow> a = b"
  by (metis bytes_le_word_le)

lemma ed_public_table:
  assumes "hex_key sk" "hex_key pk"
    and "map_of (map (\<lambda>(sk, cc, pk). (word_le (hex_lit sk) :: 256 word, word_le (hex_lit pk))) nodes) (word_le (hex_lit sk))
      = Some (word_le (hex_lit pk) :: 256 word)"
  shows "ed_public (table_ed nodes) (hex_lit sk) = hex_lit pk"
proof -
  have "length (hex_lit sk) = 32" "length (hex_lit pk) = 32" using assms(1,2) by (simp_all add: hex_key_def)
  then show ?thesis
    using assms(3) bytes_le_word_le [where 'a = 256, of "hex_lit pk"]
    by (simp add: ed_public_def table_ed_def ref_ed_with_def of_len_def)
qed

text \<open>Keys and node texts in a table are compared as texts.\<close>

lemma lit_inject: "lit s = lit t \<longleftrightarrow> s = t"
proof -
  have "inj (of_char :: char \<Rightarrow> u8)" by (rule injI) (metis unat_of_char of_char_eq_iff)
  then show ?thesis by (simp add: lit_def inj_map_eq_map)
qed

lemma hex_key_neq:
  assumes "hex_key s" "hex_key t"
  shows "hex_lit s = hex_lit t \<longleftrightarrow> s = t" "(word_le (hex_lit s) :: 256 word) = word_le (hex_lit t) \<longleftrightarrow> s = t"
proof -
  show "hex_lit s = hex_lit t \<longleftrightarrow> s = t"
    using assms by (simp add: hex_key_def hex_lit_inject lit_inject)
  then show "(word_le (hex_lit s) :: 256 word) = word_le (hex_lit t) \<longleftrightarrow> s = t"
    using assms word_le_inject [where 'a = 256, of "hex_lit s" "hex_lit t"] by (simp add: hex_key_def)
qed

lemma halves_table:
  "map_of t (k, m) = Some (hex_lit sk @ hex_lit cc) \<Longrightarrow> hex_key sk \<Longrightarrow> hex_key cc \<Longrightarrow>
     halves (hmac_sha512 (table_hmac t) k m) = (hex_lit sk, hex_lit cc)"
  by (simp add: hmac_sha512_table halves_pad hex_key_def)

lemma table_slip10:
  assumes "\<forall>(k, v)\<in>set (vector_table (key, msg) ns nodes). map_of t k = Some v"
    and "\<forall>(sk, cc, pk)\<in>set nodes. hex_key sk \<and> hex_key cc \<and> ed_public ed (hex_lit sk) = hex_lit pk"
    and "length nodes = Suc (length ns)"
  shows "slip10_vector ed (table_hmac t) (halves (hmac_sha512 (table_hmac t) key msg)) ns nodes"
  using assms
proof (induction nodes arbitrary: key msg ns)
  case (Cons x rest)
  obtain sk cc pk where x: "x = (sk, cc, pk)" by (cases x)
  have nd: "halves (hmac_sha512 (table_hmac t) key msg) = (hex_lit sk, hex_lit cc)"
    using Cons.prems by (intro halves_table) (auto simp: x)
  show ?case
  proof (cases ns)
    case Nil
    then show ?thesis using Cons.prems nd by (simp add: x published_node_def)
  next
    case (Cons n ns')
    have "slip10_vector ed (table_hmac t) (halves (hmac_sha512 (table_hmac t) (hex_lit cc)
        (0 # hex_lit sk @ to_be_bytes (n + 2 ^ 31)))) ns' rest"
      using Cons.prems \<open>ns = n # ns'\<close> by (intro Cons.IH) (simp_all add: x)
    then show ?thesis
      using Cons.prems nd \<open>ns = n # ns'\<close> by (simp add: x published_node_def slip10_child_def)
  qed
qed simp

text \<open>The tables of both vectors.\<close>

definition vectors_table :: "((bytes \<times> bytes) \<times> bytes) list" where
  "vectors_table = vector_table (lit ''ed25519 seed'', hex_lit vector1_seed) vector1_indices vector1_nodes
     @ vector_table (lit ''ed25519 seed'', hex_lit vector2_seed) vector2_indices vector2_nodes"

abbreviation vectors_ed :: ref_ed_api where
  "vectors_ed \<equiv> table_ed (vector1_nodes @ vector2_nodes)"

lemma distinct_table: "distinct (map fst vectors_table)"
proof -
  have name: "hex_lit c \<noteq> lit ''ed25519 seed''" "lit ''ed25519 seed'' \<noteq> hex_lit c" if "hex_key c" for c
  proof -
    have "length (hex_lit c) \<noteq> length (lit ''ed25519 seed'')" using that by (simp add: hex_key_def)
    then show "hex_lit c \<noteq> lit ''ed25519 seed''" "lit ''ed25519 seed'' \<noteq> hex_lit c" by metis+
  qed
  have "length (hex_lit vector1_seed) \<noteq> length (hex_lit vector2_seed)"
    by (simp add: vector1_seed_def vector2_seed_def)
  then have seeds: "hex_lit vector1_seed \<noteq> hex_lit vector2_seed" by metis
  have keys: "\<forall>(sk, cc, pk)\<in>set (vector1_nodes @ vector2_nodes). hex_key cc"
    using hex_key_nodes by auto
  have cd: "distinct (map (\<lambda>(sk, cc, pk). cc) (vector1_nodes @ vector2_nodes))"
    by (simp add: vector1_nodes_def vector2_nodes_def)
  obtain x0 x1 x2 x3 x4 x5 where v1: "vector1_nodes = [x0, x1, x2, x3, x4, x5]"
    by (simp add: vector1_nodes_def)
  obtain y0 y1 y2 y3 y4 y5 where v2: "vector2_nodes = [y0, y1, y2, y3, y4, y5]"
    by (simp add: vector2_nodes_def)
  show ?thesis
    using keys cd seeds name
    by (simp add: vectors_table_def v1 v2 vector1_indices_def vector2_indices_def hex_key_neq
        split: prod.splits del: lit_simps)
qed

lemma map_of_public:
  assumes "\<forall>(sk, cc, pk)\<in>set nodes. hex_key sk" "distinct (map fst nodes)" "(sk, cc, pk) \<in> set nodes"
  shows "map_of (map (\<lambda>(sk, cc, pk). (word_le (hex_lit sk) :: 256 word, word_le (hex_lit pk) :: 256 word)) nodes)
    (word_le (hex_lit sk)) = Some (word_le (hex_lit pk))"
  using assms
proof (induction nodes)
  case (Cons x nodes)
  obtain sk' cc' pk' where x: "x = (sk', cc', pk')" by (cases x)
  have keys: "hex_key sk'" "hex_key sk" using Cons.prems by (auto simp: x)
  show ?case
  proof (cases "sk = sk'")
    case True
    then have "(sk, cc, pk) = x" using Cons.prems by (force simp: x)
    then show ?thesis by (simp add: x)
  next
    case False
    then show ?thesis using Cons keys by (auto simp: x hex_key_neq)
  qed
qed simp

lemma public_table:
  assumes "(sk, cc, pk) \<in> set (vector1_nodes @ vector2_nodes)"
  shows "ed_public vectors_ed (hex_lit sk) = hex_lit pk"
proof (rule ed_public_table [OF _ _ map_of_public [OF _ _ assms]])
  show "hex_key sk" "hex_key pk" using hex_key_nodes assms by auto
  show "\<forall>(sk, cc, pk)\<in>set (vector1_nodes @ vector2_nodes). hex_key sk" using hex_key_nodes by auto
  show "distinct (map fst (vector1_nodes @ vector2_nodes))"
    by (simp add: vector1_nodes_def vector2_nodes_def)
qed

lemma vectors_slip10:
  "slip10_vector vectors_ed (table_hmac vectors_table)
     (slip10_master (table_hmac vectors_table) (hex_lit vector1_seed)) vector1_indices vector1_nodes"
  "slip10_vector vectors_ed (table_hmac vectors_table)
     (slip10_master (table_hmac vectors_table) (hex_lit vector2_seed)) vector2_indices vector2_nodes"
proof -
  have lookup: "\<forall>(k, v)\<in>set t. map_of vectors_table k = Some v" if "set t \<subseteq> set vectors_table" for t
    using that map_of_is_SomeI [OF distinct_table] by fastforce
  have len: "length vector1_nodes = Suc (length vector1_indices)"
    "length vector2_nodes = Suc (length vector2_indices)"
    by (simp_all add: vector_indices vector1_nodes_def vector2_nodes_def)
  show "slip10_vector vectors_ed (table_hmac vectors_table)
     (slip10_master (table_hmac vectors_table) (hex_lit vector1_seed)) vector1_indices vector1_nodes"
    unfolding slip10_master_def using hex_key_nodes(1) public_table len
    by (intro table_slip10 lookup) (auto simp: vectors_table_def)
  show "slip10_vector vectors_ed (table_hmac vectors_table)
     (slip10_master (table_hmac vectors_table) (hex_lit vector2_seed)) vector2_indices vector2_nodes"
    unfolding slip10_master_def using hex_key_nodes(2) public_table len
    by (intro table_slip10 lookup) (auto simp: vectors_table_def)
qed

lemma vector_tests_iff:
  assumes "hex_laws hx" and "ed_laws ed" and "hmac_laws hm" and "dp_laws dp"
  shows "(passes (vector1 prof hx ed hm dp) \<longleftrightarrow>
      slip10_vector ed hm (slip10_master hm (hex_lit vector1_seed)) vector1_indices vector1_nodes)
    \<and> (passes (vector2 prof hx ed hm dp) \<longleftrightarrow>
      slip10_vector ed hm (slip10_master hm (hex_lit vector2_seed)) vector2_indices vector2_nodes)"
proof -
  obtain m1 where m1: "root hx ed hm (lit vector1_seed) = Inr m1" "wf_key ed m1" "depth m1 = 0"
      "child_index m1 = Normal 0" "node_of ed m1 = slip10_master hm (hex_lit vector1_seed)"
    by (rule root_seed [OF assms(1-3) lower_hex_seeds(1)])
  obtain m2 where m2: "root hx ed hm (lit vector2_seed) = Inr m2" "wf_key ed m2" "depth m2 = 0"
      "child_index m2 = Normal 0" "node_of ed m2 = slip10_master hm (hex_lit vector2_seed)"
    by (rule root_seed [OF assms(1-3) lower_hex_seeds(2)])
  have "length vector1_nodes = Suc (length vector1_indices)"
      "length vector2_nodes = Suc (length vector2_indices)"
    by (simp_all add: vector_indices vector1_nodes_def vector2_nodes_def)
  then show ?thesis
    using check_chain_iff [OF assms m1(2-4) _ vector_indices(3) _ hex_key_nodes(1), where prof = prof]
      check_chain_iff [OF assms m2(2-4) _ vector_indices(7) _ hex_key_nodes(2), where prof = prof]
    by (simp add: vector_tests_walk vector1_indices_def [symmetric] vector2_indices_def [symmetric]
        m1(1,5) m2(1,5) vector_indices)
qed

subsection \<open>Properties\<close>

text \<open>
  C20: the vector tests are exact. With lawful crates, in both build profiles, \<open>vector1\<close> and
  \<open>vector2\<close> pass if and only if SLIP-0010 gives the six published nodes of the vector (secret
  keys, chain codes) and the published public keys belong to the secrets: a failure of these
  tests can only come from the HMAC or from the Ed25519 scalar multiplication, never from the
  derivation code.
\<close>

theorem vector_tests_check_slip10:
  assumes "hex_laws hx" and "ed_laws ed" and "hmac_laws hm" and "dp_laws dp"
  shows "(passes (vector1 prof hx ed hm dp) \<longleftrightarrow>
      slip10_vector ed hm (slip10_master hm (hex_lit vector1_seed)) vector1_indices vector1_nodes)
    \<and> (passes (vector2 prof hx ed hm dp) \<longleftrightarrow>
      slip10_vector ed hm (slip10_master hm (hex_lit vector2_seed)) vector2_indices vector2_nodes)"
  by (rule vector_tests_iff [OF assms])

theorem vector_tests_check_slip10_witness:
  "passes (vector1 Debug ref_hex vectors_ed (table_hmac vectors_table) ref_dp)
   \<and> passes (vector2 Release ref_hex vectors_ed (table_hmac vectors_table) ref_dp)"
proof -
  have "ed_laws vectors_ed" by (simp add: table_ed_def)
  then show ?thesis
    using vector_tests_check_slip10 [OF ref_hex_laws _ table_hmac_laws ref_dp_laws] vectors_slip10
    by blast
qed

text \<open>
  C40: \<open>normal_errs\<close> passes whatever the HMAC and the curve compute: normal indices are rejected by
  \<open>derive_child\<close> and in the middle of a path, with the index in the error.
\<close>

theorem normal_errs_passes:
  assumes "hex_laws hx" and "ed_laws ed" and "hmac_laws hm" and "dp_laws dp"
    and "dp_parse dp soft_path_text = Some [Hardened 0, Hardened 1, Hardened 2, Normal 3, Hardened 4]"
  shows "passes (normal_errs prof hx ed hm dp)"
proof -
  obtain m where m: "root hx ed hm (lit vector1_seed) = Inr m" "wf_key ed m" "depth m = 0"
    by (rule root_seed [OF assms(1-3) lower_hex_seeds(1)])
  have "derive prof ed hm dp m [Hardened 0, Hardened 1, Hardened 2, Normal 3, Hardened 4]
      = Inr (Inl (ExpectedHardenedIndex (Normal 3)))"
    using hd_key.walk_result [of "(prof, ed, hm, dp)" m
        "[Hardened 0, Hardened 1, Hardened 2, Normal 3, Hardened 4]"] assms(2-4) m by simp
  then show ?thesis
    by (simp add: normal_errs_def m(1) derive_child_normal [OF assms(4)] assms(5) expected_hardened_def)
qed

theorem normal_errs_passes_witness: "passes (normal_errs Debug ref_hex ref_ed ref_hmac path_dp)"
  using normal_errs_passes [OF ref_hex_laws ref_ed_laws ref_hmac_laws path_dp_laws] path_dp_parses
  by (simp add: parses_test_paths_def)

end
