(* ===== verification/Ffi_Tests.thy ===== *)
theory Ffi_Tests
  imports Key_Contracts Module_Tests Bip32_Tests
begin

section \<open>The unit tests of \<open>common.rs\<close>\<close>

text \<open>
  The tests of the exported functions as programs over the memory: they put their arguments into
  C strings, call the exports, and read the results back. They run in any well-formed memory
  \<open>h\<close>. The theorems relate them to the tests of the modules: the FFI layer adds no way to fail.
\<close>

subsection \<open>BIP-39\<close>

definition ffi_can_bip39_to_entropy ::
    "hex_api \<Rightarrow> ('mt, 'mn, 'sd) bip39_api \<Rightarrow> allocator \<Rightarrow> heap \<Rightarrow> unit res"
where
  "ffi_can_bip39_to_entropy hx bp al h =
     (let phrase = lit ''legal winner thank year wave sausage worth useful legal winner thank yellow'';
          entropy = hex_lit ''7f7f7f7f7f7f7f7f7f7f7f7f7f7f7f7f'' in
      rbind (get_ptr al phrase h) (\<lambda>(p, h1).
      rbind (bip39_to_entropy hx bp al p h1) (\<lambda>(result, h2).
      rbind (get_u8vec_from_ptr hx result h2) (\<lambda>message.
      assert (message = entropy)))))"

definition ffi_can_bip39_to_mini_secret ::
    "hex_api \<Rightarrow> ('mt, 'mn, 'sd) bip39_api \<Rightarrow> ('kec, 'sha, 'xx, 'xx64, 'sp) hash_api \<Rightarrow> allocator \<Rightarrow> heap \<Rightarrow> unit res"
where
  "ffi_can_bip39_to_mini_secret hx bp ha al h =
     (let phrase = lit ''legal winner thank year wave sausage worth useful legal winner thank yellow'';
          password = lit ''Substrate'';
          mini = hex_lit ''4313249608fe8ac10fd5886c92c4579007272cb77c21551ee5b8d60b78041685'' in
      rbind (get_ptr al phrase h) (\<lambda>(p, h1).
      rbind (get_ptr al password h1) (\<lambda>(q, h2).
      rbind (bip39_to_mini_secret hx bp ha al p q h2) (\<lambda>(result, h3).
      rbind (get_u8vec_from_ptr hx result h3) (\<lambda>message.
      assert (message = mini))))))"

definition ffi_can_bip39_to_seed ::
    "hex_api \<Rightarrow> ('mt, 'mn, 'sd) bip39_api \<Rightarrow> allocator \<Rightarrow> heap \<Rightarrow> unit res"
where
  "ffi_can_bip39_to_seed hx bp al h =
     (let phrase = lit ''seed sock milk update focus rotate barely fade car face mechanic mercy'';
          seed = hex_lit ''3c121e20de068083b49c2315697fb59a2d9e8643c24e5ea7628132c58969a027'' in
      rbind (get_ptr al phrase h) (\<lambda>(p, h1).
      rbind (get_ptr al (lit []) h1) (\<lambda>(q, h2).
      rbind (bip39_to_seed hx bp al p q h2) (\<lambda>(result, h3).
      rbind (get_u8vec_from_ptr hx result h3) (\<lambda>message.
      assert (message = seed))))))"

definition ffi_can_bip39_generate ::
    "('mt, 'mn, 'sd) bip39_api \<Rightarrow> allocator \<Rightarrow> bytes \<Rightarrow> heap \<Rightarrow> unit res"
where
  "ffi_can_bip39_generate bp al rng h =
     rbind (bip39_generate bp al rng 12 h) (\<lambda>(phrase, h1).
     rbind (bip39_validate bp phrase h1) (\<lambda>is_valid.
     assert is_valid))"

definition ffi_can_bip39_validate ::
    "('mt, 'mn, 'sd) bip39_api \<Rightarrow> allocator \<Rightarrow> heap \<Rightarrow> unit res"
where
  "ffi_can_bip39_validate bp al h =
     rbind (get_ptr al (lit ''seed sock milk update focus rotate barely fade car face mechanic mercy'') h) (\<lambda>(p, h1).
     rbind (bip39_validate bp p h1) (\<lambda>is_valid.
     rbind (get_ptr al (lit ''wine photo extra cushion basket dwarf humor cloud truck job boat submit'') h1) (\<lambda>(q, h2).
     rbind (bip39_validate bp q h2) (\<lambda>is_invalid.
     rbind (assert (is_valid = True)) (\<lambda>u.
     assert (is_invalid = False))))))"

subsection \<open>Hashing\<close>

definition ffi_can_blake2b ::
    "hex_api \<Rightarrow> ('kec, 'sha, 'xx, 'xx64, 'sp) hash_api \<Rightarrow> allocator \<Rightarrow> heap \<Rightarrow> unit res"
where
  "ffi_can_blake2b hx ha al h =
     (let data = lit ''abc'';
          key = [];
          expected_32 = hex_lit ''bddd813c634239723171ef3fee98579b94964e3bb1cb3e427262c8c068d52319'';
          expected_64 = hex_lit ''ba80a53f981c4d0d6a2797b69f12f6e94c212f14685ac4b74b12bb6fdbffa2d17d87c5392aab792dc252d5de4533cc9518d38aa8dbf1925ab92386edd4009923'' in
      rbind (get_ptr_from_u8vec hx al data h) (\<lambda>(d, h1).
      rbind (get_ptr_from_u8vec hx al key h1) (\<lambda>(k, h2).
      rbind (blake2b hx ha al d k 32 h2) (\<lambda>(hash_32, h3).
      rbind (get_ptr_from_u8vec hx al data h3) (\<lambda>(d', h4).
      rbind (get_ptr_from_u8vec hx al key h4) (\<lambda>(k', h5).
      rbind (blake2b hx ha al d' k' 64 h5) (\<lambda>(hash_64, h6).
      rbind (get_u8vec_from_ptr hx hash_32 h6) (\<lambda>message_32.
      rbind (get_u8vec_from_ptr hx hash_64 h6) (\<lambda>message_64.
      rbind (assert (message_32 = expected_32)) (\<lambda>u.
      assert (message_64 = expected_64)))))))))))"

definition ffi_can_keccak256 ::
    "hex_api \<Rightarrow> ('kec, 'sha, 'xx, 'xx64, 'sp) hash_api \<Rightarrow> allocator \<Rightarrow> heap \<Rightarrow> unit res"
where
  "ffi_can_keccak256 hx ha al h =
     (let data = lit ''test value'';
          expected = hex_lit ''2d07364b5c231c56ce63d49430e085ea3033c750688ba532b24029124c26ca5e'' in
      rbind (get_ptr_from_u8vec hx al data h) (\<lambda>(d, h1).
      rbind (keccak256 hx ha al d h1) (\<lambda>(hash, h2).
      rbind (get_u8vec_from_ptr hx hash h2) (\<lambda>message.
      assert (message = expected)))))"

definition ffi_can_pbkdf2 ::
    "hex_api \<Rightarrow> ('kec, 'sha, 'xx, 'xx64, 'sp) hash_api \<Rightarrow> allocator \<Rightarrow> heap \<Rightarrow> unit res"
where
  "ffi_can_pbkdf2 hx ha al h =
     (let salt = lit ''this is a salt'';
          data = lit ''hello world'';
          expected = hex_lit ''5fcbe04f05300a3ecc5c35d18ea0b78f3f6853d2ae5f3fca374f69a7d1f78b5def5c60dae1a568026c7492511e0c53521e8bb6e03a650e1263265fee92722270'' in
      rbind (get_ptr_from_u8vec hx al data h) (\<lambda>(d, h1).
      rbind (get_ptr_from_u8vec hx al salt h1) (\<lambda>(s, h2).
      rbind (pbkdf2 hx ha al d s 2048 h2) (\<lambda>(hash, h3).
      rbind (get_u8vec_from_ptr hx hash h3) (\<lambda>message.
      assert (message = expected))))))"

definition ffi_can_scrypt ::
    "hex_api \<Rightarrow> ('kec, 'sha, 'xx, 'xx64, 'sp) hash_api \<Rightarrow> allocator \<Rightarrow> heap \<Rightarrow> unit res"
where
  "ffi_can_scrypt hx ha al h =
     (let password = lit ''password'';
          salt = lit ''salt'';
          expected = hex_lit ''745731af4484f323968969eda289aeee005b5903ac561e64a5aca121797bf7734ef9fd58422e2e22183bcacba9ec87ba0c83b7a2e788f03ce0da06463433cda6'' in
      rbind (get_ptr_from_u8vec hx al password h) (\<lambda>(p, h1).
      rbind (get_ptr_from_u8vec hx al salt h1) (\<lambda>(s, h2).
      rbind (scrypt hx ha al p s 14 8 1 h2) (\<lambda>(hash, h3).
      rbind (get_u8vec_from_ptr hx hash h3) (\<lambda>message.
      assert (message = expected))))))"

definition ffi_can_sha512 ::
    "hex_api \<Rightarrow> ('kec, 'sha, 'xx, 'xx64, 'sp) hash_api \<Rightarrow> allocator \<Rightarrow> heap \<Rightarrow> unit res"
where
  "ffi_can_sha512 hx ha al h =
     (let data = lit ''hello world'';
          expected = hex_lit ''309ecc489c12d6eb4cc40f50c902f2b4d0ed77ee511a7c7a9bcd3ca86d4cd86f989dd35bc5ff499670da34255b45b0cfd830e81f605dcf7dc5542e93ae9cd76f'' in
      rbind (get_ptr_from_u8vec hx al data h) (\<lambda>(d, h1).
      rbind (sha512 hx ha al d h1) (\<lambda>(hash, h2).
      rbind (get_u8vec_from_ptr hx hash h2) (\<lambda>message.
      assert (message = expected)))))"

definition ffi_can_twox ::
    "hex_api \<Rightarrow> ('kec, 'sha, 'xx, 'xx64, 'sp) hash_api \<Rightarrow> allocator \<Rightarrow> heap \<Rightarrow> unit res"
where
  "ffi_can_twox hx ha al h =
     (let data = lit ''abc'';
          expected_64 = hex_lit ''990977adf52cbc44'';
          expected_256 = hex_lit ''990977adf52cbc440889329981caa9bef7da5770b2b8a05303b75d95360dd62b'' in
      rbind (get_ptr_from_u8vec hx al data h) (\<lambda>(d, h1).
      rbind (twox hx ha al d 1 h1) (\<lambda>(hash_64, h2).
      rbind (get_ptr_from_u8vec hx al data h2) (\<lambda>(d', h3).
      rbind (twox hx ha al d' 4 h3) (\<lambda>(hash_256, h4).
      rbind (get_u8vec_from_ptr hx hash_64 h4) (\<lambda>message_64.
      rbind (get_u8vec_from_ptr hx hash_256 h4) (\<lambda>message_256.
      rbind (assert (message_64 = expected_64)) (\<lambda>u.
      assert (message_256 = expected_256)))))))))"

definition ffi_can_xxhash64 ::
    "hex_api \<Rightarrow> ('kec, 'sha, 'xx, 'xx64, 'sp) hash_api \<Rightarrow> allocator \<Rightarrow> heap \<Rightarrow> unit res"
where
  "ffi_can_xxhash64 hx ha al h =
     (let data = lit ''abcd'';
          expected_64 = hex_lit ''e29f70f8b8c96df7'' in
      rbind (get_ptr_from_u8vec hx al data h) (\<lambda>(d, h1).
      rbind (xxhash64 hx ha al d 0xabcd h1) (\<lambda>(hash_64, h2).
      rbind (get_u8vec_from_ptr hx hash_64 h2) (\<lambda>message_64.
      assert (message_64 = expected_64)))))"

subsection \<open>Keys\<close>

definition ffi_can_bip32_get_private_key ::
    "profile \<Rightarrow> hex_api \<Rightarrow> ('sk, 'pk, 'kp, 'sig) ed_api \<Rightarrow> 'mac hmac_api \<Rightarrow> dp_api \<Rightarrow> allocator \<Rightarrow> heap \<Rightarrow> unit res"
where
  "ffi_can_bip32_get_private_key prof hx ed hm dp al h =
     (let path = vector1_path;
          seed = lit vector1_seed;
          expected = hex_lit ''8f94d394a8e8fd6b1bc2f3f49f5c47e385281d5c17e65324b0f62483e37e8793'' in
      rbind (get_ptr al seed h) (\<lambda>(s, h1).
      rbind (get_ptr al path h1) (\<lambda>(t, h2).
      rbind (bip32_get_private_key prof hx ed hm dp al s t h2) (\<lambda>(prv, h3).
      rbind (get_u8vec_from_ptr hx prv h3) (\<lambda>message.
      assert (message = expected))))))"

definition ffi_can_ed25519_get_pub_from_prv ::
    "hex_api \<Rightarrow> ('sk, 'pk, 'kp, 'sig) ed_api \<Rightarrow> allocator \<Rightarrow> heap \<Rightarrow> unit res"
where
  "ffi_can_ed25519_get_pub_from_prv hx ed al h =
     (let prv_str = lit ''8f94d394a8e8fd6b1bc2f3f49f5c47e385281d5c17e65324b0f62483e37e8793'';
          expected = hex_lit ''3c24da049451555d51a7014a37337aa4e12d41e485abccfa46b47dfb2af54b7a'' in
      rbind (get_ptr al prv_str h) (\<lambda>(p, h1).
      rbind (ed25519_get_pub_from_prv hx ed al p h1) (\<lambda>(pub_ptr, h2).
      rbind (get_u8vec_from_ptr hx pub_ptr h2) (\<lambda>message.
      assert (message = expected)))))"

definition ffi_can_secp256k1_get_pub_from_prv ::
    "hex_api \<Rightarrow> ('ssk, 'spk, 'msg, 'rid, 'rsig) secp_api \<Rightarrow> allocator \<Rightarrow> heap \<Rightarrow> unit res"
where
  "ffi_can_secp256k1_get_pub_from_prv hx sp al h =
     (let prv_str = lit ''8f94d394a8e8fd6b1bc2f3f49f5c47e385281d5c17e65324b0f62483e37e8793'';
          expected = hex_lit ''0215197801d5ba7001d143183d04bf4e675be6c24b5101fc89de1659d50dbbaa24'' in
      rbind (get_ptr al prv_str h) (\<lambda>(p, h1).
      rbind (secp256k1_get_pub_from_prv hx sp al p h1) (\<lambda>(pub_ptr, h2).
      rbind (get_u8vec_from_ptr hx pub_ptr h2) (\<lambda>message.
      assert (message = expected)))))"

definition ffi_can_secp256k1_get_compress_pub ::
    "hex_api \<Rightarrow> ('ssk, 'spk, 'msg, 'rid, 'rsig) secp_api \<Rightarrow> allocator \<Rightarrow> heap \<Rightarrow> unit res"
where
  "ffi_can_secp256k1_get_compress_pub hx sp al h =
     (let origin = lit ''04b9dc646dd71118e5f7fda681ad9eca36eb3ee96f344f582fbe7b5bcdebb1307763fe926c273235fd979a134076d00fd1683cbd35868cb485d4a3a640e52184af'';
          expected = hex_lit ''03b9dc646dd71118e5f7fda681ad9eca36eb3ee96f344f582fbe7b5bcdebb13077'' in
      rbind (get_ptr al origin h) (\<lambda>(p, h1).
      rbind (secp256k1_get_compress_pub hx sp al p h1) (\<lambda>(pub_ptr, h2).
      rbind (get_u8vec_from_ptr hx pub_ptr h2) (\<lambda>message.
      assert (message = expected)))))"

definition ffi_can_sr25519_get_pub_from_seed ::
    "hex_api \<Rightarrow> ('msk, 'sk, 'pk, 'kp, 'sig) sr_api \<Rightarrow> allocator \<Rightarrow> heap \<Rightarrow> unit res"
where
  "ffi_can_sr25519_get_pub_from_seed hx sr al h =
     (let seed = lit ''9d61b19deffd5a60ba844af492ec2cc44449c5697b326919703bac031cae7f60'';
          expected = hex_lit ''44a996beb1eef7bdcab976ab6d2ca26104834164ecf28fb375600576fcc6eb0f'' in
      rbind (get_ptr al seed h) (\<lambda>(p, h1).
      rbind (sr25519_get_pub_from_seed hx sr al p h1) (\<lambda>(pub_ptr, h2).
      rbind (get_u8vec_from_ptr hx pub_ptr h2) (\<lambda>message.
      assert (message = expected)))))"

subsection \<open>Ed25519\<close>

definition ffi_can_ed25519_keypair_from_seed ::
    "hex_api \<Rightarrow> ('sk, 'pk, 'kp, 'sig) ed_api \<Rightarrow> allocator \<Rightarrow> heap \<Rightarrow> unit res"
where
  "ffi_can_ed25519_keypair_from_seed hx ed al h =
     (let seed = lit ''12345678901234567890123456789012'';
          seed_string = to_hex hx seed;
          expected = hex_lit ''2f8c6129d816cf51c374bc7f08c3e63ed156cf78aefb4a6550d97b87997977ee'' in
      rbind (get_ptr al seed_string h) (\<lambda>(p, h1).
      rbind (ed25519_keypair_from_seed hx ed al p h1) (\<lambda>(keypair_ptr, h2).
      rbind (get_u8vec_from_ptr hx keypair_ptr h2) (\<lambda>keypair.
      rbind (slice_range (ED_SECRET_KEY_LENGTH ed) (ED_KEYPAIR_LENGTH ed) keypair) (\<lambda>public.
      assert (public = expected))))))"

definition ffi_can_ed25519_sign ::
    "hex_api \<Rightarrow> ('sk, 'pk, 'kp, 'sig) ed_api \<Rightarrow> allocator \<Rightarrow> (nat \<Rightarrow> u8) \<Rightarrow> heap \<Rightarrow> unit res"
where
  "ffi_can_ed25519_sign hx ed al random h =
     (let seed = generate_random_seed random;
          seed_string = to_hex hx seed in
      rbind (get_ptr al seed_string h) (\<lambda>(p, h1).
      rbind (ed25519_keypair_from_seed hx ed al p h1) (\<lambda>(keypair_ptr, h2).
      rbind (get_u8vec_from_ptr hx keypair_ptr h2) (\<lambda>keypair.
      rbind (slice_range 0 (ED_SECRET_KEY_LENGTH ed) keypair) (\<lambda>private.
      rbind (slice_range (ED_SECRET_KEY_LENGTH ed) (ED_KEYPAIR_LENGTH ed) keypair) (\<lambda>public.
      let message = lit ''this is a message'' in
      let message_string = to_hex hx message in
      rbind (get_ptr_from_u8vec hx al public h2) (\<lambda>(public_ptr, h3).
      rbind (get_ptr_from_u8vec hx al private h3) (\<lambda>(private_ptr, h4).
      rbind (get_ptr al message_string h4) (\<lambda>(message_ptr, h5).
      rbind (ed25519_sign hx ed al public_ptr private_ptr message_ptr h5) (\<lambda>(signature_ptr, h6).
      rbind (get_u8vec_from_ptr hx signature_ptr h6) (\<lambda>signature.
      assert (length signature = ED_SIGNATURE_LENGTH ed))))))))))))"

definition ffi_can_ed25519_verify_message ::
    "hex_api \<Rightarrow> ('sk, 'pk, 'kp, 'sig) ed_api \<Rightarrow> allocator \<Rightarrow> (nat \<Rightarrow> u8) \<Rightarrow> heap \<Rightarrow> unit res"
where
  "ffi_can_ed25519_verify_message hx ed al random h =
     (let seed = generate_random_seed random;
          seed_string = to_hex hx seed in
      rbind (get_ptr al seed_string h) (\<lambda>(p, h1).
      rbind (ed25519_keypair_from_seed hx ed al p h1) (\<lambda>(keypair_ptr, h2).
      rbind (get_u8vec_from_ptr hx keypair_ptr h2) (\<lambda>keypair.
      rbind (slice_range 0 (ED_SECRET_KEY_LENGTH ed) keypair) (\<lambda>private.
      rbind (slice_range (ED_SECRET_KEY_LENGTH ed) (ED_KEYPAIR_LENGTH ed) keypair) (\<lambda>public.
      let message = lit ''this is a message'' in
      let message_string = to_hex hx message in
      rbind (get_ptr_from_u8vec hx al public h2) (\<lambda>(public_ptr, h3).
      rbind (get_ptr_from_u8vec hx al private h3) (\<lambda>(private_ptr, h4).
      rbind (get_ptr al message_string h4) (\<lambda>(message_ptr, h5).
      rbind (ed25519_sign hx ed al public_ptr private_ptr message_ptr h5) (\<lambda>(signature_ptr, h6).
      rbind (ed25519_verify hx ed signature_ptr message_ptr public_ptr h6) (\<lambda>is_valid.
      assert is_valid)))))))))))"

definition ffi_can_ed25519_verify_known ::
    "hex_api \<Rightarrow> ('sk, 'pk, 'kp, 'sig) ed_api \<Rightarrow> allocator \<Rightarrow> heap \<Rightarrow> unit res"
where
  "ffi_can_ed25519_verify_known hx ed al h =
     (let public = hex_lit ''2f8c6129d816cf51c374bc7f08c3e63ed156cf78aefb4a6550d97b87997977ee'';
          message = lit ''this is a message'';
          signature = hex_lit ''90588f3f512496f2dd40571d162e8182860081c74e2085316e7c4396918f07da412ee029978e4dd714057fe973bd9e7d645148bf7b66680d67c93227cde95202'' in
      rbind (get_ptr_from_u8vec hx al public h) (\<lambda>(public_ptr, h1).
      let message_string = to_hex hx message in
      rbind (get_ptr al message_string h1) (\<lambda>(message_ptr, h2).
      rbind (get_ptr_from_u8vec hx al signature h2) (\<lambda>(signature_ptr, h3).
      rbind (ed25519_verify hx ed signature_ptr message_ptr public_ptr h3) (\<lambda>is_valid.
      assert is_valid)))))"

definition ffi_can_ed25519_verify_known_wrong ::
    "hex_api \<Rightarrow> ('sk, 'pk, 'kp, 'sig) ed_api \<Rightarrow> allocator \<Rightarrow> heap \<Rightarrow> unit res"
where
  "ffi_can_ed25519_verify_known_wrong hx ed al h =
     (let public = hex_lit ''2f8c6129d816cf51c374bc7f08c3e63ed156cf78aefb4a6550d97b87997977ee'';
          message = lit ''this is a message'';
          signature = replicate 64 0 in
      rbind (get_ptr_from_u8vec hx al public h) (\<lambda>(public_ptr, h1).
      let message_string = to_hex hx message in
      rbind (get_ptr al message_string h1) (\<lambda>(message_ptr, h2).
      rbind (get_ptr_from_u8vec hx al signature h2) (\<lambda>(signature_ptr, h3).
      rbind (ed25519_verify hx ed signature_ptr message_ptr public_ptr h3) (\<lambda>is_valid.
      assert (is_valid = False))))))"

subsection \<open>Sr25519\<close>

definition ffi_can_sr25519_keypair_from_seed ::
    "hex_api \<Rightarrow> ('msk, 'sk, 'pk, 'kp, 'sig) sr_api \<Rightarrow> allocator \<Rightarrow> heap \<Rightarrow> unit res"
where
  "ffi_can_sr25519_keypair_from_seed hx sr al h =
     (let seed = hex_lit ''fac7959dbfe72f052e5a0c3c8d6530f202b02fd8f9f5ca3580ec8deb7797479e'';
          expected = hex_lit ''46ebddef8cd9bb167dc30878d7113b7e168e6f0646beffd77d69d39bad76b47a'' in
      rbind (get_ptr_from_u8vec hx al seed h) (\<lambda>(p, h1).
      rbind (sr25519_keypair_from_seed hx sr al p h1) (\<lambda>(keypair_ptr, h2).
      rbind (get_u8vec_from_ptr hx keypair_ptr h2) (\<lambda>keypair.
      rbind (slice_range (SECRET_KEY_LENGTH sr) (KEYPAIR_LENGTH sr) keypair) (\<lambda>public.
      assert (public = expected))))))"

definition ffi_can_sr25519_sign ::
    "hex_api \<Rightarrow> ('msk, 'sk, 'pk, 'kp, 'sig) sr_api \<Rightarrow> allocator \<Rightarrow> bytes \<Rightarrow> (nat \<Rightarrow> u8) \<Rightarrow> heap \<Rightarrow> unit res"
where
  "ffi_can_sr25519_sign hx sr al rng random h =
     (let seed = generate_random_seed random;
          seed_string = to_hex hx seed in
      rbind (get_ptr al seed_string h) (\<lambda>(p, h1).
      rbind (sr25519_keypair_from_seed hx sr al p h1) (\<lambda>(keypair_ptr, h2).
      rbind (get_u8vec_from_ptr hx keypair_ptr h2) (\<lambda>keypair.
      rbind (slice_range 0 (SECRET_KEY_LENGTH sr) keypair) (\<lambda>private.
      rbind (slice_range (SECRET_KEY_LENGTH sr) (KEYPAIR_LENGTH sr) keypair) (\<lambda>public.
      let message = lit ''this is a message'' in
      let message_string = to_hex hx message in
      rbind (get_ptr_from_u8vec hx al public h2) (\<lambda>(public_ptr, h3).
      rbind (get_ptr_from_u8vec hx al private h3) (\<lambda>(private_ptr, h4).
      rbind (get_ptr al message_string h4) (\<lambda>(message_ptr, h5).
      rbind (sr25519_sign hx sr al rng public_ptr private_ptr message_ptr h5) (\<lambda>(signature_ptr, h6).
      rbind (get_u8vec_from_ptr hx signature_ptr h6) (\<lambda>signature.
      assert (length signature = SIGNATURE_LENGTH sr))))))))))))"

definition ffi_can_sr25519_verify_message ::
    "hex_api \<Rightarrow> ('msk, 'sk, 'pk, 'kp, 'sig) sr_api \<Rightarrow> allocator \<Rightarrow> bytes \<Rightarrow> (nat \<Rightarrow> u8) \<Rightarrow> heap \<Rightarrow> unit res"
where
  "ffi_can_sr25519_verify_message hx sr al rng random h =
     (let seed = generate_random_seed random;
          seed_string = to_hex hx seed in
      rbind (get_ptr al seed_string h) (\<lambda>(p, h1).
      rbind (sr25519_keypair_from_seed hx sr al p h1) (\<lambda>(keypair_ptr, h2).
      rbind (get_u8vec_from_ptr hx keypair_ptr h2) (\<lambda>keypair.
      rbind (slice_range 0 (SECRET_KEY_LENGTH sr) keypair) (\<lambda>private.
      rbind (slice_range (SECRET_KEY_LENGTH sr) (KEYPAIR_LENGTH sr) keypair) (\<lambda>public.
      let message = lit ''this is a message'' in
      let message_string = to_hex hx message in
      rbind (get_ptr_from_u8vec hx al public h2) (\<lambda>(public_ptr, h3).
      rbind (get_ptr_from_u8vec hx al private h3) (\<lambda>(private_ptr, h4).
      rbind (get_ptr al message_string h4) (\<lambda>(message_ptr, h5).
      rbind (sr25519_sign hx sr al rng public_ptr private_ptr message_ptr h5) (\<lambda>(signature_ptr, h6).
      rbind (sr25519_verify hx sr signature_ptr message_ptr public_ptr h6) (\<lambda>is_valid.
      assert is_valid)))))))))))"

definition ffi_can_sr25519_verify_known ::
    "hex_api \<Rightarrow> ('msk, 'sk, 'pk, 'kp, 'sig) sr_api \<Rightarrow> allocator \<Rightarrow> heap \<Rightarrow> unit res"
where
  "ffi_can_sr25519_verify_known hx sr al h =
     (let public = hex_lit ''d43593c715fdd31c61141abd04a99fd6822c8558854ccde39a5684e7a56da27d'';
          message = lit ''I hereby verify that I control 5GrwvaEF5zXb26Fz9rcQpDWS57CtERHpNehXCPcNoHGKutQY'';
          signature = hex_lit ''1037eb7e51613d0dcf5930ae518819c87d655056605764840d9280984e1b7063c4566b55bf292fcab07b369d01095879b50517beca4d26e6a65866e25fec0d83'' in
      rbind (get_ptr_from_u8vec hx al public h) (\<lambda>(public_ptr, h1).
      let message_string = to_hex hx message in
      rbind (get_ptr al message_string h1) (\<lambda>(message_ptr, h2).
      rbind (get_ptr_from_u8vec hx al signature h2) (\<lambda>(signature_ptr, h3).
      rbind (sr25519_verify hx sr signature_ptr message_ptr public_ptr h3) (\<lambda>is_valid.
      assert is_valid)))))"

definition ffi_can_sr25519_soft_derives_pair ::
    "hex_api \<Rightarrow> ('msk, 'sk, 'pk, 'kp, 'sig) sr_api \<Rightarrow> allocator \<Rightarrow> bytes \<Rightarrow> heap \<Rightarrow> unit res"
where
  "ffi_can_sr25519_soft_derives_pair hx sr al rng h =
     (let cc = hex_lit ''0c666f6f00000000000000000000000000000000000000000000000000000000'';
          seed = hex_lit ''fac7959dbfe72f052e5a0c3c8d6530f202b02fd8f9f5ca3580ec8deb7797479e'';
          expected = hex_lit ''40b9675df90efa6069ff623b0fdfcf706cd47ca7452a5056c7ad58194d23440a'' in
      let seed_string = to_hex hx seed in
      let cc_string = to_hex hx cc in
      rbind (get_ptr al seed_string h) (\<lambda>(p, h1).
      rbind (sr25519_keypair_from_seed hx sr al p h1) (\<lambda>(keypair, h2).
      rbind (get_ptr al cc_string h2) (\<lambda>(q, h3).
      rbind (sr25519_derive_keypair_soft hx sr al rng keypair q h3) (\<lambda>(derived, h4).
      rbind (get_u8vec_from_ptr hx derived h4) (\<lambda>derived_vec.
      rbind (slice_range (SECRET_KEY_LENGTH sr) (KEYPAIR_LENGTH sr) derived_vec) (\<lambda>public.
      assert (public = expected))))))))"

definition ffi_can_sr25519_hard_derives_pair ::
    "hex_api \<Rightarrow> ('msk, 'sk, 'pk, 'kp, 'sig) sr_api \<Rightarrow> allocator \<Rightarrow> heap \<Rightarrow> unit res"
where
  "ffi_can_sr25519_hard_derives_pair hx sr al h =
     (let cc = hex_lit ''14416c6963650000000000000000000000000000000000000000000000000000'';
          seed = hex_lit ''fac7959dbfe72f052e5a0c3c8d6530f202b02fd8f9f5ca3580ec8deb7797479e'';
          expected = hex_lit ''d43593c715fdd31c61141abd04a99fd6822c8558854ccde39a5684e7a56da27d'' in
      let cc_string = to_hex hx cc in
      let seed_string = to_hex hx seed in
      rbind (get_ptr al seed_string h) (\<lambda>(p, h1).
      rbind (sr25519_keypair_from_seed hx sr al p h1) (\<lambda>(keypair, h2).
      rbind (get_ptr al cc_string h2) (\<lambda>(q, h3).
      rbind (sr25519_derive_keypair_hard hx sr al keypair q h3) (\<lambda>(derived, h4).
      rbind (get_u8vec_from_ptr hx derived h4) (\<lambda>derived_vec.
      rbind (slice_range (SECRET_KEY_LENGTH sr) (KEYPAIR_LENGTH sr) derived_vec) (\<lambda>public.
      assert (public = expected))))))))"

definition ffi_can_sr25519_soft_derives_public ::
    "hex_api \<Rightarrow> ('msk, 'sk, 'pk, 'kp, 'sig) sr_api \<Rightarrow> allocator \<Rightarrow> heap \<Rightarrow> unit res"
where
  "ffi_can_sr25519_soft_derives_public hx sr al h =
     (let cc = hex_lit ''0c666f6f00000000000000000000000000000000000000000000000000000000'';
          public = hex_lit ''46ebddef8cd9bb167dc30878d7113b7e168e6f0646beffd77d69d39bad76b47a'';
          expected = hex_lit ''40b9675df90efa6069ff623b0fdfcf706cd47ca7452a5056c7ad58194d23440a'' in
      let cc_string = to_hex hx cc in
      let public_string = to_hex hx public in
      rbind (get_ptr al public_string h) (\<lambda>(p, h1).
      rbind (get_ptr al cc_string h1) (\<lambda>(q, h2).
      rbind (sr25519_derive_public_soft hx sr al p q h2) (\<lambda>(derived, h3).
      rbind (get_u8vec_from_ptr hx derived h3) (\<lambda>derived_vec.
      assert (derived_vec = expected))))))"

subsection \<open>Running a test\<close>

text \<open>
  \<open>holds h env\<close>: the pointers of \<open>env\<close> name their texts in the memory \<open>h\<close>. A test is run by
  rules: a value put into memory extends \<open>env\<close>, a pointer of \<open>env\<close> is read.
\<close>

definition holds :: "heap \<Rightarrow> (ptr \<times> bytes) list \<Rightarrow> bool" where
  "holds h env \<longleftrightarrow> wf_heap h \<and> (\<forall>(p, s)\<in>set env. get_str p h = Inr s)"

lemma holds_Nil: "wf_heap h \<Longrightarrow> holds h []"
  by (simp add: holds_def)

lemma holds_wf: "holds h env \<Longrightarrow> wf_heap h"
  by (simp add: holds_def)

lemma run_put:
  assumes "fresh_alloc al" "holds h env" "c_text s"
    and "\<And>p h1. holds h1 ((p, s) # env) \<Longrightarrow> f p h1 = r"
  shows "rbind (get_ptr al s h) (\<lambda>(p, h1). f p h1) = r"
proof -
  note wf = holds_wf [OF assms(2)]
  obtain p h1 where put: "get_ptr al s h = Inr (p, h1)"
    using str_port.put_total [OF assms(1) wf assms(3)] by blast
  note facts = str_port.put_block [OF assms(1) wf assms(3) put] str_port.get_put [OF assms(1) wf assms(3) put]
  have "get_str q h1 = Inr t" if "(q, t) \<in> set env" for q t
  proof -
    have "get_str q h = Inr t" using assms(2) that by (auto simp: holds_def)
    moreover from this have "h1 q = h q"
      by (rule str_port.put_frame [OF assms(1) wf assms(3) put get_str_live])
    ultimately show ?thesis using get_str_local [of h1 q h] by simp
  qed
  with facts have "holds h1 ((p, s) # env)" by (auto simp: holds_def)
  with assms(4) put show ?thesis by simp
qed

lemma run_put_bytes:
  assumes "fresh_alloc al" "hex_laws hx" "holds h env"
    and "\<And>p h1. holds h1 ((p, to_hex hx v) # env) \<Longrightarrow> f p h1 = r"
  shows "rbind (get_ptr_from_u8vec hx al v h) (\<lambda>(p, h1). f p h1) = r"
  unfolding get_ptr_from_u8vec_def using run_put [OF assms(1,3) _ assms(4)] assms(2) by simp

lemma run_read:
  assumes "holds h env" "(p, s) \<in> set env" "f s = r"
  shows "rbind (get_str p h) f = r"
  using assms by (auto simp: holds_def)

lemma run_read_bytes:
  assumes "hex_laws hx" "holds h env" "(p, to_hex hx v) \<in> set env" "f v = r"
  shows "rbind (get_u8vec_from_ptr hx p h) f = r"
  using assms by (force simp: holds_def get_u8vec_from_ptr_def)

lemma run_same: "(\<And>x. m = Inr x \<Longrightarrow> f x = g x) \<Longrightarrow> rbind m f = rbind m g"
  by (cases m) simp_all

lemmas run_rules = run_put_bytes run_read_bytes run_put run_read

lemma ffi_hash_tests:
  assumes "hex_laws hx" "fresh_alloc al" "wf_heap h"
  shows "ffi_can_blake2b hx ha al h = can_blake2b ha"
    and "ffi_can_keccak256 hx ha al h = can_keccak256 ha"
    and "ffi_can_pbkdf2 hx ha al h = can_pbkdf2 ha"
    and "ffi_can_scrypt hx ha al h = can_scrypt ha"
    and "ffi_can_sha512 hx ha al h = can_sha512 ha"
    and "ffi_can_twox hx ha al h = can_twox ha"
    and "ffi_can_xxhash64 hx ha al h = can_xxhash ha"
  unfolding ffi_can_blake2b_def can_blake2b_def ffi_can_keccak256_def can_keccak256_def
    ffi_can_pbkdf2_def can_pbkdf2_def ffi_can_scrypt_def can_scrypt_def ffi_can_sha512_def
    can_sha512_def ffi_can_twox_def can_twox_def ffi_can_xxhash64_def can_xxhash_def Let_def
    export_defs rbind_assoc
  by (assumption | rule refl assms holds_Nil list.set_intros run_rules run_same)+

lemma ffi_ed25519_tests:
  assumes "hex_laws hx" "fresh_alloc al" "wf_heap h"
  shows "ffi_can_ed25519_keypair_from_seed hx ed al h = ed_creates_pair_from_known ed"
    and "ffi_can_ed25519_sign hx ed al random h = ed_can_sign_message ed random"
    and "ffi_can_ed25519_verify_message hx ed al random h = ed_can_verify_message ed random"
    and "ffi_can_ed25519_verify_known hx ed al h = ed_can_verify_known ed"
    and "ffi_can_ed25519_verify_known_wrong hx ed al h = ed_can_verify_known_wrong ed"
proof -
  note hex = c_text_to_hex [OF assms(1)]
  show "ffi_can_ed25519_keypair_from_seed hx ed al h = ed_creates_pair_from_known ed"
    and "ffi_can_ed25519_sign hx ed al random h = ed_can_sign_message ed random"
    and "ffi_can_ed25519_verify_message hx ed al random h = ed_can_verify_message ed random"
    and "ffi_can_ed25519_verify_known hx ed al h = ed_can_verify_known ed"
    and "ffi_can_ed25519_verify_known_wrong hx ed al h = ed_can_verify_known_wrong ed"
    unfolding ffi_can_ed25519_keypair_from_seed_def ed_creates_pair_from_known_def
      ffi_can_ed25519_sign_def ed_can_sign_message_def ffi_can_ed25519_verify_message_def
      ed_can_verify_message_def ffi_can_ed25519_verify_known_def ed_can_verify_known_def
      ffi_can_ed25519_verify_known_wrong_def ed_can_verify_known_wrong_def Let_def
      export_defs rbind_assoc
    by (assumption | rule refl assms hex holds_Nil list.set_intros run_rules run_same)+
qed

lemma ffi_sr25519_tests:
  assumes "hex_laws hx" "fresh_alloc al" "wf_heap h"
  shows "ffi_can_sr25519_keypair_from_seed hx sr al h = sr_creates_pair_from_known_seed sr"
    and "ffi_can_sr25519_sign hx sr al rng random h = sr_can_sign_message sr rng random"
    and "ffi_can_sr25519_verify_message hx sr al rng random h = sr_can_verify_message sr rng random"
    and "ffi_can_sr25519_verify_known hx sr al h = sr_can_verify_known_message sr"
    and "ffi_can_sr25519_soft_derives_pair hx sr al rng h = soft_derives_pair sr rng"
    and "ffi_can_sr25519_soft_derives_public hx sr al h = soft_derives_public sr"
    and "ffi_can_sr25519_hard_derives_pair hx sr al h = hard_derives_pair sr"
proof -
  note hex = c_text_to_hex [OF assms(1)]
  show "ffi_can_sr25519_keypair_from_seed hx sr al h = sr_creates_pair_from_known_seed sr"
    and "ffi_can_sr25519_sign hx sr al rng random h = sr_can_sign_message sr rng random"
    and "ffi_can_sr25519_verify_message hx sr al rng random h = sr_can_verify_message sr rng random"
    and "ffi_can_sr25519_verify_known hx sr al h = sr_can_verify_known_message sr"
    and "ffi_can_sr25519_soft_derives_pair hx sr al rng h = soft_derives_pair sr rng"
    and "ffi_can_sr25519_soft_derives_public hx sr al h = soft_derives_public sr"
    and "ffi_can_sr25519_hard_derives_pair hx sr al h = hard_derives_pair sr"
    unfolding ffi_can_sr25519_keypair_from_seed_def sr_creates_pair_from_known_seed_def
      ffi_can_sr25519_sign_def sr_can_sign_message_def ffi_can_sr25519_verify_message_def
      sr_can_verify_message_def ffi_can_sr25519_verify_known_def sr_can_verify_known_message_def
      ffi_can_sr25519_soft_derives_pair_def soft_derives_pair_def
      ffi_can_sr25519_soft_derives_public_def soft_derives_public_def
      ffi_can_sr25519_hard_derives_pair_def hard_derives_pair_def Let_def
      export_defs rbind_assoc rbind_simps
    by (assumption | rule refl assms hex holds_Nil list.set_intros run_rules run_same
        | simp only: rbind_simps)+
qed

subsection \<open>Phrases\<close>

lemma run_read_fails:
  assumes "holds h env" "(p, s) \<in> set env" "from_hex hx s = None"
  shows "\<not> passes (rbind (get_u8vec_from_ptr hx p h) f)"
  using assms by (force simp: holds_def get_u8vec_from_ptr_def)

lemma invalid_phrase_fails:
  assumes "hex_laws hx" "fresh_alloc al" "holds h env"
  shows "\<not> passes (rbind (get_ptr al phrases_invalid h) (\<lambda>(p, h1). rbind (get_u8vec_from_ptr hx p h1) f))"
proof -
  obtain p h1 where "get_ptr al phrases_invalid h = Inr (p, h1)" "get_str p h1 = Inr phrases_invalid"
    using delivers_text_put [OF assms(2) holds_wf [OF assms(3)] c_text_phrases_invalid]
    by (auto simp: delivers_text_def)
  then show ?thesis by (simp add: get_u8vec_from_ptr_def phrases_invalid_not_hex [OF assms(1)])
qed

text \<open>The three conversions, for any phrase and password of the test.\<close>

lemma bip39_conversion_tests:
  assumes "hex_laws hx" "fresh_alloc al" "holds h env" "bip39_laws bp"
    and "(p, phrase) \<in> set env" "(q, pw) \<in> set env"
  shows "passes (rbind (bip39_to_entropy hx bp al p h) (\<lambda>(r, h1).
      rbind (get_u8vec_from_ptr hx r h1) (\<lambda>m. assert (m = e))))
    \<longleftrightarrow> passes (rbind (ext_bip39_to_entropy bp phrase) (\<lambda>m. assert (m = e)))" (is "passes ?e \<longleftrightarrow> passes ?e'")
    and "passes (rbind (bip39_to_mini_secret hx bp ha al p q h) (\<lambda>(r, h1).
      rbind (get_u8vec_from_ptr hx r h1) (\<lambda>m. assert (m = e))))
    \<longleftrightarrow> passes (rbind (ext_bip39_to_mini_secret bp ha phrase pw) (\<lambda>m. assert (m = e)))" (is "passes ?m \<longleftrightarrow> passes ?m'")
    and "passes (rbind (bip39_to_seed hx bp al p q h) (\<lambda>(r, h1).
      rbind (get_u8vec_from_ptr hx r h1) (\<lambda>m. assert (m = e))))
    \<longleftrightarrow> passes (rbind (ext_bip39_to_seed bp phrase pw) (\<lambda>m. assert (m = e)))" (is "passes ?s \<longleftrightarrow> passes ?s'")
proof -
  have str: "get_str p h = Inr phrase" "get_str q h = Inr pw"
    using assms(3,5,6) by (auto simp: holds_def)
  have "?e = ?e' \<and> ?m = ?m' \<and> ?s = ?s'" if valid: "ext_bip39_validate bp phrase"
    unfolding bip39_to_entropy_def bip39_to_mini_secret_def bip39_to_seed_def bip39_validate_def
      str rbind_simps if_P [OF valid] rbind_assoc
    by (intro conjI; (assumption | rule refl assms list.set_intros run_put_bytes run_read_bytes run_same)+)
  moreover have "\<not> passes ?e' \<and> \<not> passes ?m' \<and> \<not> passes ?s' \<and> \<not> passes ?e \<and> \<not> passes ?m \<and> \<not> passes ?s"
    if invalid: "\<not> ext_bip39_validate bp phrase"
  proof -
    have "from_phrase bp phrase = None"
      using ext_bip39_validate_iff [OF assms(4), of phrase] invalid by (cases "from_phrase bp phrase") auto
    then show ?thesis
      using invalid invalid_phrase_fails [OF assms(1-3)]
      by (simp add: ext_bip39_invalid bip39_to_entropy_def bip39_to_mini_secret_def bip39_to_seed_def
          bip39_validate_def str)
  qed
  ultimately show "passes ?e \<longleftrightarrow> passes ?e'" "passes ?m \<longleftrightarrow> passes ?m'" "passes ?s \<longleftrightarrow> passes ?s'"
    by (cases "ext_bip39_validate bp phrase"; auto)+
qed

lemma test_phrases:
  "c_text (lit ''legal winner thank year wave sausage worth useful legal winner thank yellow'')"
  "c_text (lit ''seed sock milk update focus rotate barely fade car face mechanic mercy'')"
  "c_text (lit ''wine photo extra cushion basket dwarf humor cloud truck job boat submit'')"
  "c_text (lit ''Substrate'')" "c_text (lit [])"
  by (rule c_text_lit; simp)+

lemma run_put_passes:
  assumes "fresh_alloc al" "holds h env" "c_text s"
    and "\<And>p h1. holds h1 ((p, s) # env) \<Longrightarrow> passes (f p h1) \<longleftrightarrow> b"
  shows "passes (rbind (get_ptr al s h) (\<lambda>(p, h1). f p h1)) \<longleftrightarrow> b"
proof -
  obtain p h1 where "get_ptr al s h = Inr (p, h1)"
    using str_port.put_total [OF assms(1) holds_wf [OF assms(2)] assms(3)] by blast
  moreover have "rbind (get_ptr al s h) (\<lambda>(p, h1). if holds h1 ((p, s) # env) then Inr () else Inl (Panic UnwrapErr)) = Inr ()"
    by (rule run_put [OF assms(1-3)]) simp
  ultimately show ?thesis using assms(4) by (simp split: if_splits)
qed

lemma ffi_bip39_tests:
  assumes "hex_laws hx" "fresh_alloc al" "wf_heap h" "bip39_laws bp"
  shows "passes (ffi_can_bip39_to_entropy hx bp al h) \<longleftrightarrow> passes (can_bip39_entropy bp)"
    and "passes (ffi_can_bip39_to_mini_secret hx bp ha al h) \<longleftrightarrow> passes (can_bip39_mini_secret bp ha)"
    and "passes (ffi_can_bip39_to_seed hx bp al h) \<longleftrightarrow> passes (can_bip39_seed bp)"
    and "ffi_can_bip39_validate bp al h = can_bip39_validate bp"
    and "passes (ffi_can_bip39_generate bp al rng h)"
proof -
  note h = holds_Nil [OF assms(3)]
  show "passes (ffi_can_bip39_to_entropy hx bp al h) \<longleftrightarrow> passes (can_bip39_entropy bp)"
    and "passes (ffi_can_bip39_to_mini_secret hx bp ha al h) \<longleftrightarrow> passes (can_bip39_mini_secret bp ha)"
    and "passes (ffi_can_bip39_to_seed hx bp al h) \<longleftrightarrow> passes (can_bip39_seed bp)"
    unfolding ffi_can_bip39_to_entropy_def can_bip39_entropy_def ffi_can_bip39_to_mini_secret_def
      can_bip39_mini_secret_def ffi_can_bip39_to_seed_def can_bip39_seed_def Let_def
    by (assumption | rule assms h list.set_intros test_phrases run_put_passes
        bip39_conversion_tests [OF assms(1,2) _ assms(4)])+
  show "ffi_can_bip39_validate bp al h = can_bip39_validate bp"
    unfolding ffi_can_bip39_validate_def can_bip39_validate_def bip39_validate_def Let_def rbind_assoc
      rbind_simps
    by (assumption | rule refl assms h test_phrases list.set_intros run_put run_read run_same
        | simp only: rbind_simps)+
  obtain phrase m where gen: "ext_bip39_generate bp rng 12 = Inr phrase" "from_phrase bp phrase = Some m"
      "c_text phrase"
    using ext_bip39_generate_cases [OF assms(4), of 12 rng] by auto
  then have "ext_bip39_validate bp phrase" by (simp add: ext_bip39_validate_iff [OF assms(4)])
  moreover obtain p h1 where "get_ptr al phrase h = Inr (p, h1)" "get_str p h1 = Inr phrase"
    using delivers_text_put [OF assms(2,3) gen(3)] by (auto simp: delivers_text_def)
  ultimately show "passes (ffi_can_bip39_generate bp al rng h)"
    by (simp add: ffi_can_bip39_generate_def bip39_generate_def bip39_validate_def gen(1))
qed

subsection \<open>Keys\<close>

definition vector1_key :: string where
  "vector1_key = ''8f94d394a8e8fd6b1bc2f3f49f5c47e385281d5c17e65324b0f62483e37e8793''"

definition vector1_public :: string where
  "vector1_public = ''3c24da049451555d51a7014a37337aa4e12d41e485abccfa46b47dfb2af54b7a''"

lemma last_vector1:
  "\<exists>cc. last vector1_nodes = (vector1_key, cc, vector1_public)"
  by (simp add: vector1_nodes_def vector1_key_def vector1_public_def)

lemma vector1_texts:
  "lower_hex vector1_key" "length vector1_key = 64" "c_text (lit vector1_key)"
  "c_text (lit vector1_seed)" "c_text vector1_path"
proof -
  show "lower_hex vector1_key" "length vector1_key = 64" by (simp_all add: vector1_key_def)
  show "c_text (lit vector1_key)" "c_text (lit vector1_seed)" "c_text vector1_path"
    unfolding vector1_key_def vector1_seed_def vector1_path_def by (rule c_text_lit; simp)+
qed

lemma run_key_text:
  assumes "hex_laws hx" "holds h env" "(p, lit s) \<in> set env" "lower_hex s" "f (hex_lit s) = r"
  shows "rbind (get_u8vec_from_ptr hx p h) f = r"
  using assms run_read_bytes [of hx h env p "hex_lit s" f r] to_hex_eq [OF assms(1), of "hex_lit s"]
  by (simp add: hex_text_hex_lit)

definition origin_key :: string where
  "origin_key = ''04b9dc646dd71118e5f7fda681ad9eca36eb3ee96f344f582fbe7b5bcdebb1307763fe926c273235fd979a134076d00fd1683cbd35868cb485d4a3a640e52184af''"

definition compressed_key :: string where
  "compressed_key = ''03b9dc646dd71118e5f7fda681ad9eca36eb3ee96f344f582fbe7b5bcdebb13077''"

definition sr_seed :: string where
  "sr_seed = ''9d61b19deffd5a60ba844af492ec2cc44449c5697b326919703bac031cae7f60''"

definition sr_public :: string where
  "sr_public = ''44a996beb1eef7bdcab976ab6d2ca26104834164ecf28fb375600576fcc6eb0f''"

lemma key_texts:
  "lower_hex origin_key" "c_text (lit origin_key)" "lower_hex sr_seed" "c_text (lit sr_seed)"
proof -
  show "lower_hex origin_key" "lower_hex sr_seed" by (simp_all add: origin_key_def sr_seed_def)
  show "c_text (lit origin_key)" "c_text (lit sr_seed)"
    unfolding origin_key_def sr_seed_def by (rule c_text_lit; simp)+
qed

text \<open>The tests of the exports that have their code in \<open>common.rs\<close>, without the memory.\<close>

lemma ffi_export_tests:
  assumes "hex_laws hx" "fresh_alloc al" "wf_heap h"
  shows "ffi_can_bip32_get_private_key prof hx ed hm dp al h =
      rbind (unwrap (dp_parse dp vector1_path)) (\<lambda>path.
      rbind (root hx ed hm (lit vector1_seed)) (\<lambda>r.
      rbind (unwrap_result (derive prof ed hm dp r path)) (\<lambda>node.
        assert (ed_sk_to_bytes ed (secret_key node) = hex_lit vector1_key))))"
    and "ffi_can_ed25519_get_pub_from_prv hx ed al h =
      rbind (unwrap (ed_sk_from_bytes ed (hex_lit vector1_key))) (\<lambda>s.
        assert (ed_pk_to_bytes ed (ed_pk_of_sk ed s) = hex_lit vector1_public))"
    and "ffi_can_secp256k1_get_pub_from_prv hx sp al h =
      rbind (slice_to 32 (hex_lit vector1_key)) (\<lambda>b.
      rbind (unwrap (secp_sk_from_slice sp b)) (\<lambda>s.
        assert (secp_pk_serialize sp (secp_pk_from_secret_key sp s) = hex_lit vector1_secp)))"
    and "ffi_can_secp256k1_get_compress_pub hx sp al h =
      rbind (unwrap (secp_pk_from_slice sp (hex_lit origin_key))) (\<lambda>pk.
        assert (secp_pk_serialize sp pk = hex_lit compressed_key))"
    and "ffi_can_sr25519_get_pub_from_seed hx sr al h =
      rbind (slice_to 32 (hex_lit sr_seed)) (\<lambda>mini.
      rbind (ext_sr_from_seed sr mini) (\<lambda>keypair.
      rbind (slice_range (SECRET_KEY_LENGTH sr) (KEYPAIR_LENGTH sr) keypair) (\<lambda>public.
        assert (public = hex_lit sr_public))))"
proof -
  note h = holds_Nil [OF assms(3)]
  show "ffi_can_bip32_get_private_key prof hx ed hm dp al h =
      rbind (unwrap (dp_parse dp vector1_path)) (\<lambda>path.
      rbind (root hx ed hm (lit vector1_seed)) (\<lambda>r.
      rbind (unwrap_result (derive prof ed hm dp r path)) (\<lambda>node.
        assert (ed_sk_to_bytes ed (secret_key node) = hex_lit vector1_key))))"
    unfolding ffi_can_bip32_get_private_key_def vector1_key_def [symmetric] Let_def export_defs rbind_assoc
    by (assumption | rule refl assms h vector1_texts(4,5) list.set_intros run_rules run_same)+
  show "ffi_can_ed25519_get_pub_from_prv hx ed al h =
      rbind (unwrap (ed_sk_from_bytes ed (hex_lit vector1_key))) (\<lambda>s.
        assert (ed_pk_to_bytes ed (ed_pk_of_sk ed s) = hex_lit vector1_public))"
    unfolding ffi_can_ed25519_get_pub_from_prv_def vector1_key_def [symmetric]
      vector1_public_def [symmetric] Let_def export_defs rbind_assoc
    by (assumption | rule refl assms h vector1_texts(1,3) list.set_intros run_put run_put_bytes run_key_text
        run_read_bytes run_same)+
  show "ffi_can_secp256k1_get_pub_from_prv hx sp al h =
      rbind (slice_to 32 (hex_lit vector1_key)) (\<lambda>b.
      rbind (unwrap (secp_sk_from_slice sp b)) (\<lambda>s.
        assert (secp_pk_serialize sp (secp_pk_from_secret_key sp s) = hex_lit vector1_secp)))"
    unfolding ffi_can_secp256k1_get_pub_from_prv_def vector1_key_def [symmetric]
      vector1_secp_def [symmetric] Let_def export_defs rbind_assoc
    by (assumption | rule refl assms h vector1_texts(1,3) list.set_intros run_put run_put_bytes run_key_text
        run_read_bytes run_same)+
  show "ffi_can_secp256k1_get_compress_pub hx sp al h =
      rbind (unwrap (secp_pk_from_slice sp (hex_lit origin_key))) (\<lambda>pk.
        assert (secp_pk_serialize sp pk = hex_lit compressed_key))"
    unfolding ffi_can_secp256k1_get_compress_pub_def origin_key_def [symmetric]
      compressed_key_def [symmetric] Let_def export_defs rbind_assoc
    by (assumption | rule refl assms h key_texts(1,2) list.set_intros run_put run_put_bytes run_key_text
        run_read_bytes run_same)+
  show "ffi_can_sr25519_get_pub_from_seed hx sr al h =
      rbind (slice_to 32 (hex_lit sr_seed)) (\<lambda>mini.
      rbind (ext_sr_from_seed sr mini) (\<lambda>keypair.
      rbind (slice_range (SECRET_KEY_LENGTH sr) (KEYPAIR_LENGTH sr) keypair) (\<lambda>public.
        assert (public = hex_lit sr_public))))"
    unfolding ffi_can_sr25519_get_pub_from_seed_def sr_seed_def [symmetric]
      sr_public_def [symmetric] Let_def export_defs rbind_assoc
    by (assumption | rule refl assms h key_texts(3,4) list.set_intros run_put run_put_bytes run_key_text
        run_read_bytes run_same)+
qed

lemma ffi_key_tests:
  assumes "hex_laws hx" "fresh_alloc al" "wf_heap h"
  shows "ed_laws ed \<Longrightarrow> passes (ffi_can_ed25519_get_pub_from_prv hx ed al h)
      \<longleftrightarrow> ed_public ed (hex_lit vector1_key) = hex_lit vector1_public"
    and "passes (ffi_can_secp256k1_get_pub_from_prv hx sp al h)
      \<longleftrightarrow> (\<exists>s. secp_sk_from_slice sp (hex_lit vector1_key) = Some s
           \<and> secp_pk_serialize sp (secp_pk_from_secret_key sp s) = hex_lit vector1_secp)"
proof -
  show "passes (ffi_can_ed25519_get_pub_from_prv hx ed al h)
      \<longleftrightarrow> ed_public ed (hex_lit vector1_key) = hex_lit vector1_public" if "ed_laws ed"
    using ed_sk_from_bytes_ok [OF that, of "hex_lit vector1_key"]
    by (auto simp: ffi_export_tests [OF assms] passes_unwrap ed_public_def vector1_texts(2))
  show "passes (ffi_can_secp256k1_get_pub_from_prv hx sp al h)
      \<longleftrightarrow> (\<exists>s. secp_sk_from_slice sp (hex_lit vector1_key) = Some s
           \<and> secp_pk_serialize sp (secp_pk_from_secret_key sp s) = hex_lit vector1_secp)"
    by (simp add: ffi_export_tests [OF assms] slice_to_def vector1_texts(2) passes_unwrap)
qed

lemma ffi_bip32_test:
  assumes "hex_laws hx" "fresh_alloc al" "wf_heap h" "ed_laws ed" "hmac_laws hm" "dp_laws dp"
    and "parses_test_paths dp"
  shows "passes (ffi_can_bip32_get_private_key prof hx ed hm dp al h)
    \<longleftrightarrow> fst (foldl (slip10_child hm) (slip10_master hm (hex_lit vector1_seed)) vector1_indices)
        = hex_lit vector1_key"
proof -
  have len: "length vector1_indices \<le> 255" by (simp add: vector_indices)
  obtain m k where k: "root hx ed hm (lit vector1_seed) = Inr m"
      "derive prof ed hm dp m (map Hardened vector1_indices) = Inr (Inr k)"
      "node_of ed k = foldl (slip10_child hm) (slip10_master hm (hex_lit vector1_seed)) vector1_indices"
    using node_of_path [OF assms(1,4-6) lower_hex_seeds(1) vector_indices(1) len vector_indices(3), of prof]
    by blast
  show ?thesis
    using k(1,2) assms(7)
    by (simp add: ffi_export_tests [OF assms(1-3)] parses_test_paths_def k(3) [symmetric] node_of_def)
qed

subsection \<open>Properties\<close>

text \<open>
  C17: the FFI layer adds no way to fail. In every well-formed memory and for every lawful set of
  crates, 20 of the 29 FFI tests give the outcome of a test of their module, the panics included;
  the three tests of phrase conversions, where the exports answer an invalid phrase with a
  message, pass exactly when the module's test does; generation always passes; and the five
  tests of exports that no module test covers give the outcome of the export's own code and
  assertion without any memory, the panics included.
\<close>

theorem ffi_tests_agree_with_module_tests:
  assumes "hex_laws hx" and "fresh_alloc al" and "wf_heap h" and "bip39_laws bp"
  shows "ffi_can_blake2b hx ha al h = can_blake2b ha
    \<and> ffi_can_keccak256 hx ha al h = can_keccak256 ha
    \<and> ffi_can_pbkdf2 hx ha al h = can_pbkdf2 ha
    \<and> ffi_can_scrypt hx ha al h = can_scrypt ha
    \<and> ffi_can_sha512 hx ha al h = can_sha512 ha
    \<and> ffi_can_twox hx ha al h = can_twox ha
    \<and> ffi_can_xxhash64 hx ha al h = can_xxhash ha
    \<and> ffi_can_ed25519_keypair_from_seed hx ed al h = ed_creates_pair_from_known ed
    \<and> ffi_can_ed25519_sign hx ed al random h = ed_can_sign_message ed random
    \<and> ffi_can_ed25519_verify_message hx ed al random h = ed_can_verify_message ed random
    \<and> ffi_can_ed25519_verify_known hx ed al h = ed_can_verify_known ed
    \<and> ffi_can_ed25519_verify_known_wrong hx ed al h = ed_can_verify_known_wrong ed
    \<and> ffi_can_sr25519_keypair_from_seed hx sr al h = sr_creates_pair_from_known_seed sr
    \<and> ffi_can_sr25519_sign hx sr al rng random h = sr_can_sign_message sr rng random
    \<and> ffi_can_sr25519_verify_message hx sr al rng random h = sr_can_verify_message sr rng random
    \<and> ffi_can_sr25519_verify_known hx sr al h = sr_can_verify_known_message sr
    \<and> ffi_can_sr25519_soft_derives_pair hx sr al rng h = soft_derives_pair sr rng
    \<and> ffi_can_sr25519_soft_derives_public hx sr al h = soft_derives_public sr
    \<and> ffi_can_sr25519_hard_derives_pair hx sr al h = hard_derives_pair sr
    \<and> ffi_can_bip39_validate bp al h = can_bip39_validate bp
    \<and> (passes (ffi_can_bip39_to_entropy hx bp al h) \<longleftrightarrow> passes (can_bip39_entropy bp))
    \<and> (passes (ffi_can_bip39_to_mini_secret hx bp ha al h) \<longleftrightarrow> passes (can_bip39_mini_secret bp ha))
    \<and> (passes (ffi_can_bip39_to_seed hx bp al h) \<longleftrightarrow> passes (can_bip39_seed bp))
    \<and> passes (ffi_can_bip39_generate bp al rng h)
    \<and> ffi_can_bip32_get_private_key prof hx ed hm dp al h =
      rbind (unwrap (dp_parse dp vector1_path)) (\<lambda>path.
      rbind (root hx ed hm (lit vector1_seed)) (\<lambda>r.
      rbind (unwrap_result (derive prof ed hm dp r path)) (\<lambda>node.
        assert (ed_sk_to_bytes ed (secret_key node) = hex_lit vector1_key))))
    \<and> ffi_can_ed25519_get_pub_from_prv hx ed al h =
      rbind (unwrap (ed_sk_from_bytes ed (hex_lit vector1_key))) (\<lambda>s.
        assert (ed_pk_to_bytes ed (ed_pk_of_sk ed s) = hex_lit vector1_public))
    \<and> ffi_can_secp256k1_get_pub_from_prv hx sp al h =
      rbind (slice_to 32 (hex_lit vector1_key)) (\<lambda>b.
      rbind (unwrap (secp_sk_from_slice sp b)) (\<lambda>s.
        assert (secp_pk_serialize sp (secp_pk_from_secret_key sp s) = hex_lit vector1_secp)))
    \<and> ffi_can_secp256k1_get_compress_pub hx sp al h =
      rbind (unwrap (secp_pk_from_slice sp (hex_lit origin_key))) (\<lambda>pk.
        assert (secp_pk_serialize sp pk = hex_lit compressed_key))
    \<and> ffi_can_sr25519_get_pub_from_seed hx sr al h =
      rbind (slice_to 32 (hex_lit sr_seed)) (\<lambda>mini.
      rbind (ext_sr_from_seed sr mini) (\<lambda>keypair.
      rbind (slice_range (SECRET_KEY_LENGTH sr) (KEYPAIR_LENGTH sr) keypair) (\<lambda>public.
        assert (public = hex_lit sr_public))))"
  by (intro conjI ffi_hash_tests [OF assms(1-3)] ffi_ed25519_tests [OF assms(1-3)]
      ffi_sr25519_tests [OF assms(1-3)] ffi_bip39_tests [OF assms] ffi_export_tests [OF assms(1-3)])

theorem ffi_tests_agree_with_module_tests_witness:
  "ffi_can_twox ref_hex ref_hash ref_alloc (demo_heap [97]) = can_twox ref_hash
   \<and> ffi_can_ed25519_verify_message ref_hex ref_ed ref_alloc (\<lambda>n. 7) (demo_heap [97])
       = ed_can_verify_message ref_ed (\<lambda>n. 7)
   \<and> passes (ffi_can_bip39_generate ref_bip39 ref_alloc [1] (demo_heap [97]))"
  using ffi_tests_agree_with_module_tests [OF ref_hex_laws ref_alloc_fresh wf_demo_heap ref_bip39_laws]
  by blast

text \<open>
  C39: how the key tests depend on each other. Where the parser reads the paths of the tests and
  \<open>vector1\<close> passes, the FFI tests of \<open>bip32_get_private_key\<close> and \<open>ed25519_get_pub_from_prv\<close> pass;
  where \<open>vector2\<close> passes as well, \<open>derivation_path\<close> passes exactly when the FFI test of
  \<open>secp256k1_get_pub_from_prv\<close> does.
\<close>

theorem vector_tests_subsume_ffi_tests:
  assumes "hex_laws hx" and "fresh_alloc al" and "wf_heap h" and "ed_laws ed" and "hmac_laws hm"
    and "dp_laws dp" and "parses_test_paths dp"
    and "passes (vector1 prof hx ed hm dp)" and "passes (vector2 prof hx ed hm dp)"
  shows "passes (ffi_can_bip32_get_private_key prof' hx ed hm dp al h)
    \<and> passes (ffi_can_ed25519_get_pub_from_prv hx ed al h)
    \<and> (passes (derivation_path prof' hx ed hm dp sp)
         \<longleftrightarrow> passes (ffi_can_secp256k1_get_pub_from_prv hx sp al h))"
proof -
  obtain cc where last: "last vector1_nodes = (vector1_key, cc, vector1_public)" using last_vector1 by blast
  have 1: "published_node ed (foldl (slip10_child hm) (slip10_master hm (hex_lit vector1_seed)) vector1_indices)
      (last vector1_nodes)"
    and 2: "published_node ed (foldl (slip10_child hm) (slip10_master hm (hex_lit vector2_seed)) vector2_indices)
      (last vector2_nodes)"
    using vector_tests_iff [OF assms(1,4-6), of prof] assms(8,9) slip10_vector_last by blast+
  have "fst (foldl (slip10_child hm) (slip10_master hm (hex_lit vector1_seed)) vector1_indices) = hex_lit vector1_key"
      "ed_public ed (hex_lit vector1_key) = hex_lit vector1_public"
    using 1 by (simp_all add: last published_node_def)
  then show ?thesis
    using ffi_bip32_test [OF assms(1-7), of prof'] ffi_key_tests(1) [OF assms(1-4)]
      ffi_key_tests(2) [OF assms(1-3), of sp]
      derivation_path_iff [OF assms(1,4-7), of prof' sp] 1 2 by (simp add: last)
qed

theorem vector_tests_subsume_ffi_tests_witness:
  "passes (ffi_can_bip32_get_private_key Debug ref_hex vectors_ed (table_hmac vectors_table) path_dp ref_alloc (demo_heap []))
   \<and> passes (ffi_can_ed25519_get_pub_from_prv ref_hex vectors_ed ref_alloc (demo_heap []))"
proof -
  have ed: "ed_laws vectors_ed" by (simp add: table_ed_def)
  have "passes (vector1 Debug ref_hex vectors_ed (table_hmac vectors_table) path_dp)"
      "passes (vector2 Debug ref_hex vectors_ed (table_hmac vectors_table) path_dp)"
    using vector_tests_iff [OF ref_hex_laws ed table_hmac_laws path_dp_laws] vectors_slip10 by blast+
  then show ?thesis
    using vector_tests_subsume_ffi_tests [OF ref_hex_laws ref_alloc_fresh wf_demo_heap ed
        table_hmac_laws path_dp_laws path_dp_parses] by blast
qed

end
