(* ===== verification/Xxh64.thy ===== *)
theory Xxh64
  imports Ffi_Tests
begin

section \<open>The tests of \<open>ext_twox\<close> and \<open>ext_xxhash\<close> with the published XXH64\<close>

text \<open>
  The published XXH64 algorithm on natural numbers modulo \<open>2^64\<close>, as an instance of the hashing
  crates. With it the model of \<open>hashing.rs\<close> computes the vectors of its unit tests \<open>can_twox\<close> and
  \<open>can_xxhash\<close>: rounds, seeds and byte orders are those of the published digests. The other
  digests of the instance are those of \<open>ref_hash\<close>; the state of the streaming hash is the seed
  and the input so far.
\<close>

unbundle bit_operations_syntax

definition w64 :: "nat \<Rightarrow> nat" where
  "w64 n = n mod 18446744073709551616"

definition rot_left :: "nat \<Rightarrow> nat \<Rightarrow> nat" where
  "rot_left k x = x mod 2 ^ (64 - k) * 2 ^ k + x div 2 ^ (64 - k)"

abbreviation prime1 :: nat where "prime1 \<equiv> 11400714785074694791"
abbreviation prime2 :: nat where "prime2 \<equiv> 14029467366897019727"
abbreviation prime3 :: nat where "prime3 \<equiv> 1609587929392839161"
abbreviation prime4 :: nat where "prime4 \<equiv> 9650029242287828579"
abbreviation prime5 :: nat where "prime5 \<equiv> 2870177450012600261"

definition lane_round :: "nat \<Rightarrow> nat \<Rightarrow> nat" where
  "lane_round acc lane = w64 (rot_left 31 (w64 (acc + lane * prime2)) * prime1)"

definition lane64 :: "bytes \<Rightarrow> nat" where
  "lane64 b = le_value (take 8 b)"

text \<open>Stripes of 32 bytes feed four accumulators; what they leave over is returned.\<close>

function stripes :: "nat \<times> nat \<times> nat \<times> nat \<Rightarrow> bytes \<Rightarrow> (nat \<times> nat \<times> nat \<times> nat) \<times> bytes" where
  "stripes (a, b, c, d) v =
     (if length v < 32 then ((a, b, c, d), v)
      else stripes (lane_round a (lane64 v), lane_round b (lane64 (drop 8 v)),
                    lane_round c (lane64 (drop 16 v)), lane_round d (lane64 (drop 24 v))) (drop 32 v))"
  by pat_completeness auto
termination
  by (relation "measure (\<lambda>(s, v). length v)") auto

declare stripes.simps [simp del]

definition merge_round :: "nat \<Rightarrow> nat \<Rightarrow> nat" where
  "merge_round h a = w64 ((h XOR lane_round 0 a) * prime1 + prime4)"

fun bytes_tail :: "nat \<Rightarrow> bytes \<Rightarrow> nat" where
  "bytes_tail h [] = h"
| "bytes_tail h (b # v) = bytes_tail (w64 (rot_left 11 (h XOR w64 (unat b * prime5)) * prime1)) v"

definition word_tail :: "nat \<Rightarrow> bytes \<Rightarrow> nat" where
  "word_tail h v =
     (if 4 \<le> length v
      then bytes_tail (w64 (rot_left 23 (h XOR w64 (le_value (take 4 v) * prime1)) * prime2 + prime3)) (drop 4 v)
      else bytes_tail h v)"

function lanes_tail :: "nat \<Rightarrow> bytes \<Rightarrow> nat" where
  "lanes_tail h v =
     (if 8 \<le> length v
      then lanes_tail (w64 (rot_left 27 (h XOR lane_round 0 (lane64 v)) * prime1 + prime4)) (drop 8 v)
      else word_tail h v)"
  by pat_completeness auto
termination
  by (relation "measure (\<lambda>(h, v). length v)") auto

declare lanes_tail.simps [simp del]

definition mix :: "nat \<Rightarrow> nat \<Rightarrow> nat \<Rightarrow> nat" where
  "mix k p h = w64 ((h XOR h div 2 ^ k) * p)"

definition avalanche :: "nat \<Rightarrow> nat" where
  "avalanche h = mix 32 1 (mix 29 prime3 (mix 33 prime2 h))"

definition xxh64 :: "nat \<Rightarrow> bytes \<Rightarrow> nat" where
  "xxh64 seed v =
     (if length v < 32 then avalanche (lanes_tail (w64 (seed + prime5 + length v)) v)
      else
        let ((a, b, c, d), rest) = stripes (w64 (seed + prime1 + prime2), w64 (seed + prime2), seed,
               w64 (seed + 2 ^ 64 - prime1)) v;
            h = w64 (rot_left 1 a + rot_left 7 b + rot_left 12 c + rot_left 18 d);
            h = merge_round (merge_round (merge_round (merge_round h a) b) c) d
        in avalanche (lanes_tail (w64 (h + length v)) rest))"

definition xxh_hash :: "(bytes, bytes, u64 \<times> bytes, u64 \<times> bytes, u8 \<times> u32 \<times> u32) hash_api" where
  "xxh_hash = ref_hash
     \<lparr>xx_finish := (\<lambda>(s, d). word_of_nat (xxh64 (unat s) d)),
      xx64_finish := (\<lambda>(s, d). word_of_nat (xxh64 (unat s) d))\<rparr>"

lemma xxh_hash_laws [simp]: "hash_laws xxh_hash"
  by (simp add: hash_laws_def xxh_hash_def ref_hash_def split_def)

lemma xx64_xxh: "xx64 xxh_hash v seed = word_of_nat (xxh64 (unat seed) v)"
  by (simp add: xx64_def xxh_hash_def ref_hash_def)

lemmas xxh64_eval = xxh64_def lanes_tail.simps word_tail_def w64_def rot_left_def mix_def avalanche_def

lemma xxh64_abc:
  "xxh64 0 (lit ''abc'') = 4952883123889572249"
  "xxh64 1 (lit ''abc'') = 13738734796240226568"
  "xxh64 2 (lit ''abc'') = 6026019377950218999"
  "xxh64 3 (lit ''abc'') = 3158726716732323587"
  by (simp_all add: xxh64_eval)

lemma xxh64_abcd: "xxh64 43981 (lit ''abcd'') = 16329894987423116791"
  by (simp add: xxh64_eval)

lemma bytes_le_of_nat:
  assumes "length v = 8" and "le_value v = n"
  shows "bytes_le 8 (word_of_nat n :: u64) = v"
  using assms bytes_le_word_le [of v, where ?'a = 64] by (simp add: word_le_def)

lemma twox_vectors:
  "bytes_le 8 (word_of_nat 4952883123889572249 :: u64) = hex_lit ''990977adf52cbc44''"
  "bytes_le 8 (word_of_nat 13738734796240226568 :: u64) = hex_lit ''0889329981caa9be''"
  "bytes_le 8 (word_of_nat 6026019377950218999 :: u64) = hex_lit ''f7da5770b2b8a053''"
  "bytes_le 8 (word_of_nat 3158726716732323587 :: u64) = hex_lit ''03b75d95360dd62b''"
  "bytes_le 8 (word_of_nat 16329894987423116791 :: u64) = rev (hex_lit ''e29f70f8b8c96df7'')"
  by (rule bytes_le_of_nat; simp add: hex_lit.simps nibble.simps byte_def)+

lemmas digest_vectors = twox_vectors [unfolded of_nat_numeral]

definition computes_xxh64 :: "('kec, 'sha, 'xx, 'xx64, 'sp) hash_api \<Rightarrow> bool" where
  "computes_xxh64 ha \<longleftrightarrow> (\<forall>v seed. xx64 ha v seed = word_of_nat (xxh64 (unat seed) v))"

lemma computes_xxh64_xxh [simp]: "computes_xxh64 xxh_hash"
  by (simp add: computes_xxh64_def xx64_xxh)

lemma twox_chunks_abc:
  assumes "computes_xxh64 ha"
  shows "twox_chunks ha (lit ''abc'') 0 1 = hex_lit ''990977adf52cbc44''"
    and "twox_chunks ha (lit ''abc'') 0 4
      = hex_lit ''990977adf52cbc440889329981caa9bef7da5770b2b8a05303b75d95360dd62b''"
proof -
  have xx: "xx64 ha v seed = word_of_nat (xxh64 (unat seed) v)" for v seed
    using assms by (simp add: computes_xxh64_def)
  have upt: "[0..<4] = [0, 1, 2, 3 :: nat]" by (simp add: upt_rec)
  show "twox_chunks ha (lit ''abc'') 0 1 = hex_lit ''990977adf52cbc44''"
    by (simp add: twox_chunks_def xx xxh64_abc digest_vectors del: lit_simps bytes_le.simps)
  show "twox_chunks ha (lit ''abc'') 0 4
      = hex_lit ''990977adf52cbc440889329981caa9bef7da5770b2b8a05303b75d95360dd62b''"
    by (simp add: twox_chunks_def upt xx xxh64_abc [unfolded One_nat_def] digest_vectors del: lit_simps bytes_le.simps)
      (simp add: hex_lit.simps)
qed

subsection \<open>Property\<close>

text \<open>
  C23: with crates whose digests are the published XXH64, the tests of \<open>ext_twox\<close> and
  \<open>ext_xxhash\<close> compute their vectors and pass, and so do the tests of the exports \<open>twox\<close> and
  \<open>xxhash64\<close> in every well-formed memory: the seeds of the rounds, their order and the two byte
  orders are those of the published digests.
\<close>

theorem xxh64_tests_pass:
  assumes "hash_laws ha" and "computes_xxh64 ha" and "hex_laws hx" and "fresh_alloc al" and "wf_heap h"
  shows "passes (can_twox ha) \<and> passes (can_xxhash ha)
    \<and> passes (ffi_can_twox hx ha al h) \<and> passes (ffi_can_xxhash64 hx ha al h)"
proof -
  have twox: "passes (can_twox ha)"
    using twox_chunks_abc [OF assms(2)] by (simp add: can_twox_def ext_twox_eq [OF assms(1)] del: lit_simps)
  have "xx64 ha (lit ''abcd'') 43981 = word_of_nat 16329894987423116791"
    using assms(2) xxh64_abcd by (simp add: computes_xxh64_def del: lit_simps)
  then have xxhash: "passes (can_xxhash ha)"
    by (simp add: can_xxhash_def ext_xxhash_eq [OF assms(1)] digest_vectors del: lit_simps bytes_le.simps)
  show ?thesis
    using twox xxhash ffi_hash_tests [OF assms(3-5), of ha] by simp
qed

theorem xxh64_tests_pass_witness:
  "passes (can_twox xxh_hash) \<and> passes (can_xxhash xxh_hash)
   \<and> passes (ffi_can_twox ref_hex xxh_hash ref_alloc (demo_heap [97]))
   \<and> passes (ffi_can_xxhash64 ref_hex xxh_hash ref_alloc (demo_heap [97]))"
  using xxh64_tests_pass [OF xxh_hash_laws computes_xxh64_xxh ref_hex_laws ref_alloc_fresh wf_demo_heap] .

end
