(* ===== verification/Spec2Isabelle.thy ===== *)
theory Spec2Isabelle
  imports Dart_Session Twox_While Xxh64
begin

text \<open>
  A model of the Rust library of Polkadot-Dart (\<open>src/rust/src/\<close>), the native core that the Dart
  package calls through \<open>dart:ffi\<close>: BIP-39 phrases, hashing, hierarchical keys, Ed25519 and
  Sr25519 keys and signatures, secp256k1 recovery, and the C strings that carry all of it across
  the language boundary.

  The program. \<open>common.rs\<close> exports \<open>extern "C"\<close> functions. Each reads its pointer arguments with
  \<open>util.rs\<close> (\<open>get_str\<close> for text, \<open>get_u8vec_from_ptr\<close> for bytes written in hexadecimal), calls one
  function of \<open>bip39.rs\<close>, \<open>hashing.rs\<close>, \<open>bip32.rs\<close>, \<open>ed25519.rs\<close> or \<open>sr25519.rs\<close>, and returns a
  \<open>bool\<close> or a pointer to a new NUL-terminated string (\<open>get_ptr\<close>, \<open>get_ptr_from_u8vec\<close>), which
  the client gives back with \<open>rust_cstr_free\<close>. The modules wrap third-party crates. There is no
  state besides the memory that the two sides share.

  The theories, in the order of their imports, with the code they model:

  \<^item> \<open>Rust_Std\<close>: outcomes (\<open>'a res\<close>: a value, a panic with its cause, or undefined behaviour),
    slices, \<open>copy_from_slice\<close>, \<open>unwrap\<close>, checked \<open>u8\<close> addition by build profile, byte orders.
  \<^item> \<open>Utf8\<close>: the validation of \<open>CStr::to_str\<close>, proved equivalent to being the concatenated
    encodings of Unicode scalar values.
  \<^item> \<open>Crates\<close>: the third-party crates, as records of the functions the code calls, and their
    documented laws. \<open>Reference_Crates\<close>: small executable instances that satisfy the laws; the
    witnesses of the properties evaluate the model on them.
  \<^item> \<open>C_Strings\<close>: \<open>util.rs\<close> and \<open>rust_cstr_free\<close> over an explicit memory of blocks with owners,
    the memory invariant, and the interface \<open>value_port\<close>. \<open>Boundary\<close>: their properties.
  \<^item> \<open>Hashing\<close>, \<open>Bip39\<close>, \<open>Bip32\<close>, \<open>Ed25519\<close>, \<open>Sr25519\<close>: one theory per Rust module, each function
    under its Rust name, then its properties. \<open>Signatures\<close> states the contract that both
    signature modules satisfy.
  \<^item> \<open>Exports\<close>: every exported function of \<open>common.rs\<close>. \<open>Export_Contracts\<close> and \<open>Key_Contracts\<close>
    relate them to the functions of the modules and prove what clients rely on.
  \<^item> \<open>Session\<close>: the exported interface as one machine; calls, frees and the client's own memory
    operations in any order. \<open>Call_Contract\<close>: for every call the exact condition under which it
    returns and the shape of what it returns.
  \<^item> \<open>Dart_Client\<close>: the wrappers of \<open>src/lib/crypto/common.dart\<close> as clients of the exports: their
    guards, the strings they copy, what they free, and what they return or throw. \<open>Dart_Session\<close>:
    sequences of wrapper calls are runs of the machine of \<open>Session\<close>.
  \<^item> \<open>Twox_While\<close>: the loop of \<open>ext_twox\<close> as a loop on a mutable state, and its termination.
  \<^item> \<open>Test_Harness\<close>, \<open>Module_Tests\<close>, \<open>Bip32_Tests\<close>, \<open>Ffi_Tests\<close>: the \<open>#[test]\<close> functions of all
    modules as programs of type \<open>unit res\<close> over the crates, what they test and how they depend on
    each other. \<open>Xxh64\<close>: the published XXH64, on which the tests of the two xxHash wrappers run.
  \<^item> This theory: properties that span several components.

  Interfaces. \<open>value_port\<close> (a value put into memory is read back until its block is freed) is
  interpreted for text and for byte vectors; \<open>signature_scheme\<close> for Ed25519 and Sr25519, and its
  extension \<open>signature_exports\<close> for their exports; \<open>child_derivation\<close> (stepwise derivation that
  stops at the first error) for extended keys; \<open>ffi_library\<close> (what a call may do to memory) for
  the dispatcher \<open>exec\<close> over all exported functions.

  What is shown. Memory: reading is defined exactly on readable pointers, values survive the
  boundary, a free undoes an allocation, a client that keeps the rules never meets undefined
  behaviour and can always give everything back, leaks are counted exactly, returned strings are
  stable. Calls: for every export the exact arguments on which it returns, and the shape of what
  it returns; using a freed pointer is undefined for every export that reads it. Keys: hardened
  paths refine SLIP-0010, derivation composes along paths and reports the first normal index, the
  exact effect of the \<open>u8\<close> depth, and the outcome of \<open>bip32_get_private_key\<close> on paths of every
  length; soft derivation of Sr25519 commutes with taking the public key, whatever randomness
  each step draws; what is signed verifies, through the FFI and for all randomness. Phrases: the exports never panic on
  them, and what a valid phrase gives. Hashing: the bytes of every round of \<open>ext_twox\<close>, and which
  arguments are accepted. Errors: each \<open>unwrap\<close>, \<open>panic!\<close>, slice bound and length check is a
  branch of the model, and the properties say which inputs take it. Dart: all wrappers compute the
  functions of the modules on the arguments that the Rust side decodes, what they return and
  throw (given that generated phrases are in lower case, the hypothesis \<open>lower_case_phrases\<close>),
  what they leak, the arguments that their guards wrongly let through, and that every program
  over them is a session. Tests: which of the crate's unit tests hold
  for every lawful set of crates, which are equivalent to a published vector, and that the tests
  through the FFI have the outcome of the tests of the modules, or of the export's own code where
  no module has a test.

  Bounds. The only loop with a counter, \<open>twox_loop\<close>, runs on \<open>u32\<close> rounds and its termination is
  proved; no definition uses fuel. The depth of an extended key is kept as \<open>u8\<close>: the theorems on
  keys hold up to depth 255 in both profiles, \<open>derive_depth_overflow\<close> says what happens beyond,
  and \<open>derive_outcome\<close>, on which the theorem on \<open>bip32_get_private_key\<close> rests, covers both. Lengths of byte vectors are unbounded naturals.

  Not modelled. The algorithms inside the crates (parameters, with the laws of \<open>Crates\<close>), but for
  the XXH64 of \<open>Xxh64\<close>; the vectors of the SLIP-0010 tests are evaluated on a table of HMAC values
  and public keys. \<open>ChildIndex\<close> of derivation-path is the datatype its constructors in the code
  name, its methods are parameters. Unwinding: a panic ends the run, what the foreign caller sees
  of it depends on the compiler version. Running out of memory, threads, and the \<open>println!\<close> of
  debugging. The code and the two tests that are commented out. \<open>lib.rs\<close> only declares modules.
  Of the Dart packages only the wrappers are modelled: not the messages between isolates, nor the
  check that the library was loaded (the final \<open>dylib\<close> is never null), nor the code above the
  wrappers; a Dart string is its UTF-8 encoding, and the \<open>Int32\<close> that the bindings read for a Rust
  \<open>bool\<close> is its byte, zero extended. The Kotlin and Swift glue and the build scripts are not part of this development.

  Plan. Instances of the crate records that run SHA-512 with HMAC, BLAKE2b and Keccak, to evaluate
  the remaining vectors; the Dart code that calls the wrappers (mnemonics, key pairs, addresses).
\<close>

section \<open>From a phrase to keys, through the FFI\<close>

text \<open>
  C4: the client can pass each returned pointer straight on. Generating a phrase, turning it
  into the mini secret under any readable password, and deriving the Sr25519 key pair and the
  public key from that pointer succeeds for the five word counts, and what the client reads at
  the end is the key pair of the pure functions and its public half.
\<close>

theorem phrase_to_sr25519_keypair:
  assumes "hex_laws hx" and "fresh_alloc al" and "bip39_laws bp" and "hash_laws ha" and "sr_laws sr"
    and "wf_heap h" and "get_str q h = Inr password" and "unat words \<in> {12, 15, 18, 21, 24}"
  shows "\<exists>phrase secret kp. ext_bip39_generate bp rng words = Inr phrase
    \<and> ext_bip39_to_mini_secret bp ha phrase password = Inr secret
    \<and> ext_sr_from_seed sr secret = Inr kp
    \<and> rbind (bip39_generate bp al rng words h) (\<lambda>(r1, h1).
       rbind (bip39_to_mini_secret hx bp ha al r1 q h1) (\<lambda>(r2, h2).
       rbind (sr25519_keypair_from_seed hx sr al r2 h2) (\<lambda>(r3, h3).
       rbind (sr25519_get_pub_from_seed hx sr al r2 h3) (\<lambda>(r4, h4).
       rbind (get_u8vec_from_ptr hx r3 h4) (\<lambda>pair.
       rbind (get_u8vec_from_ptr hx r4 h4) (\<lambda>pub. Inr (pair, pub)))))))
      = Inr (kp, drop 64 kp)"
proof -
  obtain phrase m where gen: "ext_bip39_generate bp rng words = Inr phrase"
      "from_phrase bp phrase = Some m" "c_text phrase"
    using ext_bip39_generate_cases [OF assms(3), of words rng] assms(8) by auto
  have valid: "ext_bip39_validate bp phrase" using gen(2) by (simp add: ext_bip39_validate_iff [OF assms(3)])
  obtain secret where secret: "ext_bip39_to_mini_secret bp ha phrase password = Inr secret" "length secret = 32"
    using ext_bip39_to_mini_secret_valid [OF assms(4) gen(2)] by (simp add: hash_lawsD(7) [OF assms(4)])
  obtain kp where kp: "ext_sr_from_seed sr secret = Inr kp" "length kp = 96"
    using sr25519.keypair_ok [of "(sr, [])" secret] assms(5) secret(2) by auto
  obtain r1 h1 where put1: "get_ptr al phrase h = Inr (r1, h1)"
    using str_port.put_total [OF assms(2,6) gen(3)] by blast
  have 1: "wf_heap h1" "get_str r1 h1 = Inr phrase" "get_str q h1 = Inr password"
    using str_port.put_block [OF assms(2,6) gen(3) put1] str_port.get_put [OF assms(2,6) gen(3) put1]
      str_port.put_frame [OF assms(2,6) gen(3) put1 get_str_live [OF assms(7)]]
      get_str_local [of h1 q h] assms(7) by simp_all
  obtain r2 h2 where put2: "get_ptr_from_u8vec hx al secret h1 = Inr (r2, h2)"
      "wf_heap h2" "get_u8vec_from_ptr hx r2 h2 = Inr secret"
    using put_chain [OF assms(1,2) 1(1), of secret] by blast
  obtain r3 h3 where put3: "get_ptr_from_u8vec hx al kp h2 = Inr (r3, h3)"
      "wf_heap h3" "get_u8vec_from_ptr hx r3 h3 = Inr kp" "\<forall>p. h2 p \<noteq> None \<longrightarrow> h3 p = h2 p"
    using put_chain [OF assms(1,2) put2(2), of kp] by blast
  obtain r4 h4 where
    put4: "get_ptr_from_u8vec hx al (drop 64 kp) h3 = Inr (r4, h4)"
      "get_u8vec_from_ptr hx r4 h4 = Inr (drop 64 kp)" "\<forall>p. h3 p \<noteq> None \<longrightarrow> h4 p = h3 p"
    using put_chain [OF assms(1,2) put3(2), of "drop 64 kp"] by blast
  have keep: "get_u8vec_from_ptr hx r2 h3 = Inr secret" "get_u8vec_from_ptr hx r3 h4 = Inr kp"
    using put3(4) [rule_format, OF get_u8vec_live [OF put2(3)]] put4(3) [rule_format, OF get_u8vec_live [OF put3(3)]]
      get_u8vec_local [of h3 r2 h2] get_u8vec_local [of h4 r3 h3] put2(3) put3(3) by simp_all
  show ?thesis
    using gen secret kp
    by (simp add: bip39_generate_def valid put1 bip39_to_mini_secret_def bip39_validate_def 1(2,3)
        put2(1,3) sr25519_keypair_from_seed_def put3(1) sr25519_get_pub_from_seed_def keep
        slice_to_def slice_range_def sr_lawsD(15,16) [OF assms(5)] put4(1,2))
qed

theorem phrase_to_sr25519_keypair_witness:
  "\<exists>kp. rbind (bip39_generate ref_bip39 ref_alloc [] 12 (demo_heap [97])) (\<lambda>(r1, h1).
       rbind (bip39_to_mini_secret ref_hex ref_bip39 ref_hash ref_alloc r1 16 h1) (\<lambda>(r2, h2).
       rbind (sr25519_keypair_from_seed ref_hex ref_sr ref_alloc r2 h2) (\<lambda>(r3, h3).
       rbind (sr25519_get_pub_from_seed ref_hex ref_sr ref_alloc r2 h3) (\<lambda>(r4, h4).
       rbind (get_u8vec_from_ptr ref_hex r3 h4) (\<lambda>pair.
       rbind (get_u8vec_from_ptr ref_hex r4 h4) (\<lambda>pub. Inr (pair, pub)))))))
      = Inr (kp, drop 64 kp)"
proof -
  have pw: "get_str 16 (demo_heap [97]) = Inr [97]" by (rule demo_str) (simp add: c_text_def u8_nat)
  have words: "unat (12 :: u32) \<in> {12, 15, 18, 21, 24}" by simp
  show ?thesis
    using phrase_to_sr25519_keypair [OF ref_hex_laws ref_alloc_fresh ref_bip39_laws ref_hash_laws
        ref_sr_laws wf_demo_heap pw words, of "[]"] by blast
qed

text \<open>
  C22: phrases and hierarchical keys. The seed that \<open>bip39_to_seed\<close> delivers can be passed to
  \<open>bip32_get_private_key\<close> as it is, and gives the SLIP-0010 key of the first 32 of the 64 bytes
  of the BIP-39 seed: the two exports together compute SLIP-0010 on a shortened seed.
\<close>

theorem phrase_to_slip10_key:
  assumes "hex_laws hx" and "fresh_alloc al" and "bip39_laws bp" and "ed_laws ed" and "hmac_laws hm"
    and "dp_laws dp" and "wf_heap h"
    and "get_str p h = Inr phrase" and "from_phrase bp phrase = Some m" and "get_str q h = Inr password"
    and "get_str t h = Inr path" and "dp_parse dp path = Some (map Hardened ns)"
    and "length ns \<le> 255" and "\<forall>n\<in>set ns. n < 2 ^ 31"
  shows "rbind (bip39_to_seed hx bp al p q h) (\<lambda>(r1, h1).
      rbind (bip32_get_private_key prof hx ed hm dp al r1 t h1) (\<lambda>(r2, h2).
      get_u8vec_from_ptr hx r2 h2))
    = Inr (fst (foldl (slip10_child hm)
        (slip10_master hm (take 32 (seed_as_bytes bp (seed_new bp m password)))) ns))"
proof -
  let ?seed = "take 32 (seed_as_bytes bp (seed_new bp m password))"
  have valid: "ext_bip39_validate bp phrase" using assms(9) by (simp add: ext_bip39_validate_iff [OF assms(3)])
  obtain r1 h1 where put: "get_ptr_from_u8vec hx al ?seed h = Inr (r1, h1)"
      "wf_heap h1" "get_str r1 h1 = Inr (to_hex hx ?seed)" "\<forall>x. h x \<noteq> None \<longrightarrow> h1 x = h x"
    using put_chain [OF assms(1,2,7), of ?seed] by blast
  have t: "get_str t h1 = Inr path"
    using put(4) [rule_format, OF get_str_live [OF assms(11)]] get_str_local [of h1 t h] assms(11) by simp
  obtain k0 where k0: "from_seed ed hm ?seed = Inr (Inr k0)" "wf_key ed k0" "depth k0 = 0"
      "node_of ed k0 = slip10_master hm ?seed"
    using from_seed_ok [OF assms(4,5)] by blast
  note run = bip32_run [OF put(3) t assms(12) from_to_hex [OF assms(1)] k0(1), of prof al]
  have "length (takeWhile is_hardened (map Hardened ns)) \<le> length (map Hardened ns)"
    by (rule length_takeWhile_le)
  then have len: "\<not> 255 < length (takeWhile is_hardened (map Hardened ns))" using assms(13) by simp
  have hard: "\<forall>i\<in>set (map Hardened ns). is_hardened i" by simp
  from assms(4-6) k0(2,3) obtain k where k: "derive prof ed hm dp k0 (map Hardened ns) = Inr (Inr k)"
    by (cases rule: derive_key_cases [where prof = prof and ixs = "map Hardened ns"])
      (use len hard in blast)+
  have node: "node_of ed k = foldl (slip10_child hm) (slip10_master hm ?seed) ns"
    using derive_hardened_node [OF assms(4-6) k0(2) k assms(14)] k0(4) by simp
  have "bip39_to_seed hx bp al p q h = Inr (r1, h1)"
    by (simp add: bip39_to_seed_def bip39_validate_def assms(8,10) valid
        ext_bip39_to_seed_valid [OF assms(3,9)] put(1))
  then show ?thesis
    using bip32_delivers [OF assms(1,2) put(2) run k node] by (auto simp: delivers_def)
qed

theorem phrase_to_slip10_key_witness:
  "\<exists>v. rbind (bip39_to_seed ref_hex ref_bip39 ref_alloc 16 32
        (demo_heap2 (ref_to_hex (replicate 16 0)) (lit ''12''))) (\<lambda>(r1, h1).
      rbind (bip32_get_private_key Debug ref_hex ref_ed ref_hmac ref_dp ref_alloc r1 32 h1) (\<lambda>(r2, h2).
      get_u8vec_from_ptr ref_hex r2 h2)) = Inr v"
proof -
  let ?p = "ref_to_hex (replicate 16 0)" and ?h = "demo_heap2 (ref_to_hex (replicate 16 0)) (lit ''12'')"
  have "c_text ?p" using c_text_to_hex [OF ref_hex_laws] by (simp add: ref_hex_def)
  then have 1: "get_str 16 ?h = Inr ?p" by (rule demo_str2)
  have 2: "get_str 32 ?h = Inr (lit ''12'')" by (rule demo_str2) (simp add: c_text_def u8_nat)
  have 3: "from_phrase ref_bip39 ?p = Some (replicate 16 0)"
    by (simp add: ref_bip39_def ref_from_to_hex entropy_lengths_def)
  have 4: "dp_parse ref_dp (lit ''12'') = Some (map Hardened [49, 50])" by (simp add: ref_dp_def)
  have 5: "length [49, 50 :: u32] \<le> 255" and 6: "\<forall>n\<in>set [49, 50 :: u32]. n < 2 ^ 31" by simp_all
  show ?thesis
    using phrase_to_slip10_key [OF ref_hex_laws ref_alloc_fresh ref_bip39_laws ref_ed_laws
        ref_hmac_laws ref_dp_laws wf_demo_heap2 1 3 2 2 4 5 6, of Debug] by blast
qed

end
